(* ===== verification/Prelude.thy ===== *)
theory Prelude
  imports Complex_Main "HOL-Library.Char_ord" "HOL-Library.List_Lexorder" "HOL-Library.AList"
begin

text \<open>
  Shared vocabulary of the development: the Python string, list and dictionary operations
  the engine's modules use, with the generic lemmas the component theories share.

  Strings are HOL strings: lists of \<open>char\<close>, one \<open>char\<close> per code point, so the model covers
  Python strings whose code points are below 256 and is exact for them (case mapping and
  white space included). Dictionaries are association lists in insertion order
  (\<open>AList.update\<close> keeps the position of an existing key, as Python does).
\<close>

section \<open>Rule collections\<close>

named_theorems split_results \<open>case splits for results, options and lists\<close>
named_theorems str_simps \<open>equations on the string operations\<close>

lemmas result_splits [split_results] = option.splits sum.splits if_splits prod.splits

section \<open>Characters\<close>

abbreviation code_point :: "char \<Rightarrow> nat" where
  "code_point c \<equiv> of_char c"

definition is_space :: "char \<Rightarrow> bool" where
  "is_space c \<longleftrightarrow> (let n = code_point c in
     9 \<le> n \<and> n \<le> 13 \<or> 28 \<le> n \<and> n \<le> 32 \<or> n = 133 \<or> n = 160)"

definition lower_char :: "char \<Rightarrow> char" where
  "lower_char c = (let n = code_point c in
     if 65 \<le> n \<and> n \<le> 90 \<or> 192 \<le> n \<and> n \<le> 222 \<and> n \<noteq> 215 then char_of (n + 32) else c)"

definition upper_char :: "char \<Rightarrow> char" where
  "upper_char c = (let n = code_point c in
     if 97 \<le> n \<and> n \<le> 122 then char_of (n - 32) else c)"

definition is_decimal :: "char \<Rightarrow> bool" where
  "is_decimal c \<longleftrightarrow> 48 \<le> code_point c \<and> code_point c \<le> 57"

text \<open>\<open>str.isdigit\<close> also accepts the superscript digits.\<close>

definition is_digit_char :: "char \<Rightarrow> bool" where
  "is_digit_char c \<longleftrightarrow> is_decimal c \<or> code_point c \<in> {178, 179, 185}"

definition newline :: string where
  "newline = [CHR 0x0A]"

section \<open>Strings\<close>

definition lower :: "string \<Rightarrow> string" where
  "lower s = map lower_char s"

definition upper :: "string \<Rightarrow> string" where
  "upper s = map upper_char s"

definition isdigit :: "string \<Rightarrow> bool" where
  "isdigit s \<longleftrightarrow> s \<noteq> [] \<and> list_all is_digit_char s"

definition lstrip_by :: "(char \<Rightarrow> bool) \<Rightarrow> string \<Rightarrow> string" where
  "lstrip_by p s = dropWhile p s"

definition rstrip_by :: "(char \<Rightarrow> bool) \<Rightarrow> string \<Rightarrow> string" where
  "rstrip_by p s = rev (dropWhile p (rev s))"

definition strip_by :: "(char \<Rightarrow> bool) \<Rightarrow> string \<Rightarrow> string" where
  "strip_by p s = rstrip_by p (lstrip_by p s)"

definition strip :: "string \<Rightarrow> string" where
  "strip s = strip_by is_space s"

definition rstrip :: "string \<Rightarrow> string" where
  "rstrip s = rstrip_by is_space s"

definition startswith :: "string \<Rightarrow> string \<Rightarrow> bool" where
  "startswith s p \<longleftrightarrow> take (length p) s = p"

fun contains :: "string \<Rightarrow> string \<Rightarrow> bool" where
  "contains [] p = (p = [])"
| "contains (c # cs) p = (startswith (c # cs) p \<or> contains cs p)"

fun replace_all :: "string \<Rightarrow> string \<Rightarrow> string \<Rightarrow> string" where
  "replace_all p r [] = []"
| "replace_all p r (c # cs) =
     (if p \<noteq> [] \<and> startswith (c # cs) p
      then r @ replace_all p r (drop (length p - 1) cs)
      else c # replace_all p r cs)"

fun join :: "string \<Rightarrow> string list \<Rightarrow> string" where
  "join sep [] = []"
| "join sep [x] = x"
| "join sep (x # y # ys) = x @ sep @ join sep (y # ys)"

text \<open>\<open>s.split(c)\<close> for a one-character separator: never empty.\<close>

fun split_char :: "char \<Rightarrow> string \<Rightarrow> string list" where
  "split_char d [] = [[]]"
| "split_char d (c # cs) =
     (if c = d then [] # split_char d cs
      else (case split_char d cs of [] \<Rightarrow> [[c]] | w # ws \<Rightarrow> (c # w) # ws))"

text \<open>\<open>s.split()\<close>: the maximal runs of characters that are no white space.\<close>

fun split_by :: "(char \<Rightarrow> bool) \<Rightarrow> string \<Rightarrow> string \<Rightarrow> string list" where
  "split_by p acc [] = (if acc = [] then [] else [rev acc])"
| "split_by p acc (c # cs) =
     (if p c then (if acc = [] then split_by p [] cs else rev acc # split_by p [] cs)
      else split_by p (c # acc) cs)"

definition split_ws :: "string \<Rightarrow> string list" where
  "split_ws s = split_by is_space [] s"

text \<open>\<open>before, _, after = s.partition(c)\<close>.\<close>

definition partition_char :: "char \<Rightarrow> string \<Rightarrow> string \<times> string" where
  "partition_char d s = (takeWhile (\<lambda>c. c \<noteq> d) s, drop 1 (dropWhile (\<lambda>c. c \<noteq> d) s))"

fun show_nat :: "nat \<Rightarrow> string" where
  "show_nat n = (if n < 10 then [char_of (48 + n)]
                 else show_nat (n div 10) @ [char_of (48 + n mod 10)])"

declare show_nat.simps [simp del]

definition show_int :: "int \<Rightarrow> string" where
  "show_int i = (if i < 0 then ''-'' @ show_nat (nat (- i)) else show_nat (nat i))"

definition py_or :: "string \<Rightarrow> string \<Rightarrow> string" where
  "py_or a b = (if a = [] then b else a)"

section \<open>Results\<close>

text \<open>Continue with the value of a call, or pass its exception on.\<close>

definition and_then :: "'x + 'a \<Rightarrow> ('a \<Rightarrow> 'x + 'b) \<Rightarrow> 'x + 'b" where
  "and_then r f = (case r of Inl x \<Rightarrow> Inl x | Inr a \<Rightarrow> f a)"

lemma and_then_simps [simp]: "and_then (Inl x) f = Inl x" "and_then (Inr a) f = f a"
  by (simp_all add: and_then_def)

lemma and_then_Inr [simp]: "and_then r f = Inr b \<longleftrightarrow> (\<exists>a. r = Inr a \<and> f a = Inr b)"
  by (cases r) simp_all

lemma and_then_Inl: "and_then r f = Inl x \<longleftrightarrow> r = Inl x \<or> (\<exists>a. r = Inr a \<and> f a = Inl x)"
  by (cases r) auto

section \<open>Lists and dictionaries\<close>

text \<open>\<open>sorted(set(xs))\<close> and \<open>list(dict.fromkeys(xs))\<close>.\<close>

definition sorted_set :: "('a::linorder) list \<Rightarrow> 'a list" where
  "sorted_set xs = sort (remdups xs)"

fun dedupe :: "'a list \<Rightarrow> 'a list \<Rightarrow> 'a list" where
  "dedupe seen [] = []"
| "dedupe seen (x # xs) = (if x \<in> set seen then dedupe seen xs else x # dedupe (x # seen) xs)"

definition from_keys :: "'a list \<Rightarrow> 'a list" where
  "from_keys xs = dedupe [] xs"

definition dict_setdefault :: "'k \<Rightarrow> 'v \<Rightarrow> ('k \<times> 'v) list \<Rightarrow> ('k \<times> 'v) list" where
  "dict_setdefault k v d = (case map_of d k of None \<Rightarrow> AList.update k v d | Some _ \<Rightarrow> d)"

definition dict_get :: "'v \<Rightarrow> ('k \<times> 'v) list \<Rightarrow> 'k \<Rightarrow> 'v" where
  "dict_get z d k = (case map_of d k of None \<Rightarrow> z | Some v \<Rightarrow> v)"

text \<open>\<open>d.setdefault(k, set()).add(v)\<close>.\<close>

definition dict_set_add :: "'k \<Rightarrow> 'v \<Rightarrow> ('k \<times> 'v list) list \<Rightarrow> ('k \<times> 'v list) list" where
  "dict_set_add k v d = AList.update k (List.insert v (dict_get [] d k)) d"

text \<open>\<open>xs[:k]\<close>.\<close>

definition slice_to :: "int \<Rightarrow> 'a list \<Rightarrow> 'a list" where
  "slice_to k xs = (if k \<ge> 0 then take (nat k) xs else take (length xs - nat (- k)) xs)"

lemma dict_get_set_add:
  "dict_get [] (dict_set_add k v d) k' =
     (if k' = k then List.insert v (dict_get [] d k) else dict_get [] d k')"
  by (auto simp: dict_set_add_def dict_get_def update_conv')

lemma set_sorted_set [simp]: "set (sorted_set xs) = set xs"
  by (simp add: sorted_set_def)

lemma sorted_sorted_set [simp]: "sorted (sorted_set xs)"
  by (simp add: sorted_set_def)

lemma distinct_sorted_set [simp]: "distinct (sorted_set xs)"
  by (simp add: sorted_set_def)

lemma set_dedupe: "set (dedupe seen xs) = set xs - set seen"
  by (induction seen xs rule: dedupe.induct) auto

lemma distinct_dedupe: "distinct (dedupe seen xs)"
  by (induction seen xs rule: dedupe.induct) (auto simp: set_dedupe)

lemma set_from_keys [simp]: "set (from_keys xs) = set xs"
  by (simp add: from_keys_def set_dedupe)

lemma distinct_from_keys [simp]: "distinct (from_keys xs)"
  by (simp add: from_keys_def distinct_dedupe)

lemma map_of_update [simp]: "map_of (AList.update k v d) = (map_of d)(k \<mapsto> v)"
  by (rule update_conv')

lemma map_of_setdefault:
  "map_of (dict_setdefault k v d) k' =
     (case map_of d k' of Some w \<Rightarrow> Some w | None \<Rightarrow> if k' = k then Some v else None)"
  by (auto simp: dict_setdefault_def split: option.splits)

lemma fold_invariant: "P s \<Longrightarrow> (\<And>x s. x \<in> set xs \<Longrightarrow> P s \<Longrightarrow> P (f x s)) \<Longrightarrow> P (fold f xs s)"
  by (induction xs arbitrary: s) auto

lemma fold_bool_conj:
  assumes "\<And>x s. x \<in> set xs \<Longrightarrow> v (f x s) \<longleftrightarrow> v s \<and> Q x"
  shows "v (fold f xs s) \<longleftrightarrow> v s \<and> (\<forall>x\<in>set xs. Q x)"
  using assms by (induction xs arbitrary: s) auto

lemma filter_eq_Nil_iff: "filter P xs = [] \<longleftrightarrow> (\<forall>x\<in>set xs. \<not> P x)"
  by (induction xs) auto

lemma map_filter_iff: "y \<in> set (List.map_filter f xs) \<longleftrightarrow> (\<exists>x\<in>set xs. f x = Some y)"
  by (induction xs) (auto simp: List.map_filter_def split: option.splits)

section \<open>Facts on the string operations\<close>

lemma char_of_code [simp]: "char_of (code_point c) = c"
  by simp

lemma code_point_bound: "code_point c < 256"
  using of_char_mod_256 [of c, where 'a = nat] by (metis mod_less_divisor zero_less_numeral)

lemma lower_char_idem [simp]: "lower_char (lower_char c) = lower_char c"
  by (auto simp: lower_char_def Let_def of_char_of)

lemma lower_idem [simp, str_simps]: "lower (lower s) = lower s"
  by (simp add: lower_def)

lemma lower_append [str_simps]: "lower (s @ t) = lower s @ lower t"
  by (simp add: lower_def)

lemma lower_Nil [simp, str_simps]: "lower [] = []"
  by (simp add: lower_def)

lemma lower_eq_Nil [simp]: "lower s = [] \<longleftrightarrow> s = []"
  by (simp add: lower_def)

lemma length_lower [simp]: "length (lower s) = length s"
  by (simp add: lower_def)

lemma startswith_Nil [simp]: "startswith s []"
  by (simp add: startswith_def)

lemma startswith_append [simp]: "startswith (p @ s) p"
  by (simp add: startswith_def)

lemma contains_iff: "contains s p \<longleftrightarrow> (\<exists>a b. s = a @ p @ b)"
proof (induction s)
  case Nil
  then show ?case by auto
next
  case (Cons c cs)
  have "(\<exists>a b. c # cs = a @ p @ b) \<longleftrightarrow> (\<exists>b. c # cs = p @ b) \<or> (\<exists>a b. cs = a @ p @ b)"
    by (auto simp: Cons_eq_append_conv)
  moreover have "startswith (c # cs) p \<longleftrightarrow> (\<exists>b. c # cs = p @ b)"
    unfolding startswith_def by (metis append_eq_conv_conj append_take_drop_id)
  ultimately show ?case using Cons.IH by simp
qed

lemma split_char_not_Nil [simp]: "split_char d s \<noteq> []"
  by (induction s) (auto split: list.splits)

lemma split_char_no_sep: "w \<in> set (split_char d s) \<Longrightarrow> d \<notin> set w"
  by (induction s arbitrary: w) (auto split: list.splits if_splits)

lemma split_char_plain: "d \<notin> set s \<Longrightarrow> split_char d s = [s]"
  by (induction s) auto

lemma join_split_char: "join [d] (split_char d s) = s"
proof (induction s)
  case Nil
  then show ?case by simp
next
  case (Cons c cs)
  obtain w ws where w: "split_char d cs = w # ws"
    using split_char_not_Nil [of d cs] by (cases "split_char d cs") auto
  with Cons show ?case by (cases ws) auto
qed

lemma show_nat_not_Nil [simp]: "show_nat n \<noteq> []"
  by (subst show_nat.simps) simp

section \<open>Substring replacement\<close>

lemma contains_Nil [simp]: "contains s [] \<longleftrightarrow> True"
  by (cases s) simp_all

lemma startswith_iff: "startswith s p \<longleftrightarrow> (\<exists>t. s = p @ t)"
  unfolding startswith_def by (metis append_eq_conv_conj append_take_drop_id)

lemma contains_append_sep:
  assumes "d \<notin> set q" and "q \<noteq> []"
  shows "contains (a @ d # b) q \<longleftrightarrow> contains a q \<or> contains b q"
proof
  assume "contains (a @ d # b) q"
  then obtain u v where "a @ d # b = u @ q @ v" by (auto simp: contains_iff)
  then consider us where "a = u @ us" "us @ d # b = q @ v" | us where "a @ us = u" "d # b = us @ q @ v"
    by (auto simp: append_eq_append_conv2)
  then show "contains a q \<or> contains b q"
  proof cases
    case 1
    then consider w where "us = q @ w" | w where "q = us @ w" "d # b = w @ v"
      by (auto simp: append_eq_append_conv2)
    then show ?thesis
    proof cases
      case 1
      with \<open>a = u @ us\<close> show ?thesis by (auto simp: contains_iff)
    next
      case 2
      with assms(1) have "w = []" by (cases w) auto
      with 2 \<open>a = u @ us\<close> have "a = u @ q @ []" by simp
      then show ?thesis by (metis contains_iff)
    qed
  next
    case 2
    with assms have "us \<noteq> []" by (cases q) auto
    with 2 obtain us' where "b = us' @ q @ v" by (cases us) auto
    then show ?thesis by (metis contains_iff)
  qed
next
  assume "contains a q \<or> contains b q"
  then show "contains (a @ d # b) q"
    unfolding contains_iff by (metis append.assoc append_Cons)
qed

lemma contains_drop: "contains (drop n s) q \<Longrightarrow> contains s q"
  unfolding contains_iff by (metis append.assoc append_take_drop_id)

text \<open>A replacement text that cannot take part in an occurrence of \<open>q\<close>.\<close>

definition inert :: "string \<Rightarrow> string \<Rightarrow> bool" where
  "inert mark q \<longleftrightarrow> q \<noteq> [] \<and> mark \<noteq> [] \<and> hd mark \<notin> set q
     \<and> (\<forall>s. contains (mark @ s) q \<longleftrightarrow> contains s q)"

lemma startswith_replace:
  "mark \<noteq> [] \<Longrightarrow> hd mark \<notin> set u \<Longrightarrow> startswith (replace_all p mark s) u \<Longrightarrow> startswith s u"
proof (induction p mark s arbitrary: u rule: replace_all.induct)
  case (1 p r)
  then show ?case by simp
next
  case (2 p r c cs)
  show ?case
  proof (cases "p \<noteq> [] \<and> startswith (c # cs) p")
    case True
    with 2 show ?thesis by (cases u; cases r) (auto simp: startswith_def)
  next
    case False
    with 2 show ?thesis by (cases u) (auto simp: startswith_def)
  qed
qed

lemma replace_adds_nothing: "inert mark q \<Longrightarrow> contains (replace_all p mark s) q \<Longrightarrow> contains s q"
proof (induction p mark s rule: replace_all.induct)
  case (1 p r)
  then show ?case by simp
next
  case (2 p r c cs)
  show ?case
  proof (cases "p \<noteq> [] \<and> startswith (c # cs) p")
    case True
    with 2 have "contains (drop (length p - 1) cs) q" by (simp add: inert_def)
    then show ?thesis using contains_drop by auto
  next
    case False
    with 2 have "startswith (replace_all p r (c # cs)) q \<or> contains cs q" by auto
    then show ?thesis using startswith_replace [of r q p "c # cs"] 2(3) by (auto simp: inert_def)
  qed
qed

lemma replace_removes: "inert mark p \<Longrightarrow> \<not> contains (replace_all p mark s) p"
proof (induction p mark s rule: replace_all.induct)
  case (1 p r)
  then show ?case by (simp add: inert_def)
next
  case (2 p r c cs)
  show ?case
  proof (cases "p \<noteq> [] \<and> startswith (c # cs) p")
    case True
    with 2 show ?thesis by (simp add: inert_def)
  next
    case False
    then have "\<not> startswith (replace_all p r (c # cs)) p"
      using startswith_replace [of r p p "c # cs"] 2(3) by (auto simp: inert_def)
    with False 2 show ?thesis by auto
  qed
qed

end
