(* ===== verification/Enums.thy ===== *)
theory Enums
  imports Prelude
begin

text \<open>
  The enumerations of \<open>domain/enums.py\<close> with their string values and predicates, and the
  order on risk levels the cost analyzer's ratings are compared in.
\<close>

section \<open>SQL dialects\<close>

datatype sql_dialect = SQLITE | POSTGRES

fun dialect_value :: "sql_dialect \<Rightarrow> string" where
  "dialect_value SQLITE = ''sqlite''"
| "dialect_value POSTGRES = ''postgres''"

definition sqlglot_name :: "sql_dialect \<Rightarrow> string" where
  "sqlglot_name d = dialect_value d"

text \<open>\<open>SQLDialect(value)\<close>: the member with that value, \<open>None\<close> for a \<open>ValueError\<close>.\<close>

definition dialect_of_value :: "string \<Rightarrow> sql_dialect option" where
  "dialect_of_value v = (if v = ''sqlite'' then Some SQLITE
     else if v = ''postgres'' then Some POSTGRES else None)"

lemma dialect_of_value_inverse: "dialect_of_value (dialect_value d) = Some d"
  by (cases d) (simp_all add: dialect_of_value_def)

section \<open>Data classification\<close>

datatype data_classification =
    DC_PUBLIC | DC_INTERNAL | DC_CONFIDENTIAL | DC_PII | DC_FINANCIAL
  | DC_AUTH_SECRET | DC_HIGHLY_RESTRICTED

fun classification_value :: "data_classification \<Rightarrow> string" where
  "classification_value DC_PUBLIC = ''public''"
| "classification_value DC_INTERNAL = ''internal''"
| "classification_value DC_CONFIDENTIAL = ''confidential''"
| "classification_value DC_PII = ''pii''"
| "classification_value DC_FINANCIAL = ''financial''"
| "classification_value DC_AUTH_SECRET = ''auth_secret''"
| "classification_value DC_HIGHLY_RESTRICTED = ''highly_restricted''"

definition is_sensitive :: "data_classification \<Rightarrow> bool" where
  "is_sensitive c \<longleftrightarrow> c \<in> {DC_PII, DC_FINANCIAL, DC_AUTH_SECRET, DC_HIGHLY_RESTRICTED}"

definition always_secret :: "data_classification \<Rightarrow> bool" where
  "always_secret c \<longleftrightarrow> c \<in> {DC_AUTH_SECRET, DC_HIGHLY_RESTRICTED}"

section \<open>Risk levels\<close>

datatype risk_level = RISK_LOW | RISK_MEDIUM | RISK_HIGH

fun risk_value :: "risk_level \<Rightarrow> string" where
  "risk_value RISK_LOW = ''low''"
| "risk_value RISK_MEDIUM = ''medium''"
| "risk_value RISK_HIGH = ''high''"

fun risk_rank :: "risk_level \<Rightarrow> nat" where
  "risk_rank RISK_LOW = 0"
| "risk_rank RISK_MEDIUM = 1"
| "risk_rank RISK_HIGH = 2"

lemma risk_rank_inject: "risk_rank a = risk_rank b \<longleftrightarrow> a = b"
  by (cases a; cases b) simp_all

instantiation risk_level :: linorder
begin

definition less_eq_risk_level :: "risk_level \<Rightarrow> risk_level \<Rightarrow> bool" where
  "less_eq_risk_level a b \<longleftrightarrow> risk_rank a \<le> risk_rank b"

definition less_risk_level :: "risk_level \<Rightarrow> risk_level \<Rightarrow> bool" where
  "less_risk_level a b \<longleftrightarrow> risk_rank a < risk_rank b"

instance
  by standard (auto simp: less_eq_risk_level_def less_risk_level_def risk_rank_inject)

end

section \<open>Ambiguity categories, response statuses\<close>

datatype ambiguity_category =
    AMB_METRIC_DEFINITION | AMB_TIME_RANGE | AMB_ENTITY_REFERENCE
  | AMB_MEASURE_UNSPECIFIED | AMB_UNKNOWN_TERM

fun ambiguity_value :: "ambiguity_category \<Rightarrow> string" where
  "ambiguity_value AMB_METRIC_DEFINITION = ''metric_definition''"
| "ambiguity_value AMB_TIME_RANGE = ''time_range''"
| "ambiguity_value AMB_ENTITY_REFERENCE = ''entity_reference''"
| "ambiguity_value AMB_MEASURE_UNSPECIFIED = ''measure_unspecified''"
| "ambiguity_value AMB_UNKNOWN_TERM = ''unknown_term''"

datatype response_status =
    RS_SUCCESS | RS_CLARIFICATION_REQUIRED | RS_PREVIEW | RS_REJECTED | RS_ERROR

section \<open>Statement types\<close>

datatype statement_type =
    ST_SELECT | ST_WITH | ST_UNION | ST_INSERT | ST_UPDATE | ST_DELETE | ST_MERGE
  | ST_DROP | ST_ALTER | ST_TRUNCATE | ST_CREATE | ST_GRANT | ST_REVOKE
  | ST_TRANSACTION | ST_PRAGMA | ST_SET | ST_CALL | ST_OTHER

fun statement_value :: "statement_type \<Rightarrow> string" where
  "statement_value ST_SELECT = ''select''"
| "statement_value ST_WITH = ''with''"
| "statement_value ST_UNION = ''union''"
| "statement_value ST_INSERT = ''insert''"
| "statement_value ST_UPDATE = ''update''"
| "statement_value ST_DELETE = ''delete''"
| "statement_value ST_MERGE = ''merge''"
| "statement_value ST_DROP = ''drop''"
| "statement_value ST_ALTER = ''alter''"
| "statement_value ST_TRUNCATE = ''truncate''"
| "statement_value ST_CREATE = ''create''"
| "statement_value ST_GRANT = ''grant''"
| "statement_value ST_REVOKE = ''revoke''"
| "statement_value ST_TRANSACTION = ''transaction''"
| "statement_value ST_PRAGMA = ''pragma''"
| "statement_value ST_SET = ''set''"
| "statement_value ST_CALL = ''call''"
| "statement_value ST_OTHER = ''other''"

definition is_read_only :: "statement_type \<Rightarrow> bool" where
  "is_read_only t \<longleftrightarrow> t \<in> {ST_SELECT, ST_WITH, ST_UNION}"

end
