(* ===== verification/Errors.thy ===== *)
theory Errors
  imports Enums
begin

text \<open>
  The error hierarchy of \<open>common/errors.py\<close>: the classes with their class attributes, the
  constructor's per-instance override of \<open>retryable\<close>, and the public serialization. JSON
  values, in which safe details are carried, are the datatype \<open>json\<close>.
\<close>

section \<open>JSON-like values\<close>

datatype json =
    JNull
  | JBool bool
  | JNum rat
  | JStr string
  | JList "json list"
  | JObj "(string \<times> json) list"

section \<open>Categories and classes\<close>

datatype error_category =
    EC_CLIENT | EC_AMBIGUITY | EC_AUTHORIZATION | EC_VALIDATION | EC_PROVIDER
  | EC_DATABASE | EC_COST | EC_CONFIGURATION | EC_DEPENDENCY | EC_INTERNAL

fun category_value :: "error_category \<Rightarrow> string" where
  "category_value EC_CLIENT = ''client''"
| "category_value EC_AMBIGUITY = ''ambiguity''"
| "category_value EC_AUTHORIZATION = ''authorization''"
| "category_value EC_VALIDATION = ''validation''"
| "category_value EC_PROVIDER = ''provider''"
| "category_value EC_DATABASE = ''database''"
| "category_value EC_COST = ''cost''"
| "category_value EC_CONFIGURATION = ''configuration''"
| "category_value EC_DEPENDENCY = ''dependency''"
| "category_value EC_INTERNAL = ''internal''"

datatype error_class =
    EngineError | InvalidRequestError | AmbiguousQuestionError | AuthorizationError
  | SQLParseError | SQLValidationError | CostRejectedError | ProviderError
  | ProviderTimeoutError | ProviderOutputError | RepairExhaustedError
  | SchemaRetrievalError | ExecutionError | ConfigurationError | DependencyUnavailableError

fun error_code :: "error_class \<Rightarrow> string" where
  "error_code EngineError = ''engine_error''"
| "error_code InvalidRequestError = ''invalid_request''"
| "error_code AmbiguousQuestionError = ''clarification_required''"
| "error_code AuthorizationError = ''authorization_denied''"
| "error_code SQLParseError = ''sql_parse_failed''"
| "error_code SQLValidationError = ''sql_validation_failed''"
| "error_code CostRejectedError = ''query_cost_rejected''"
| "error_code ProviderError = ''provider_error''"
| "error_code ProviderTimeoutError = ''provider_timeout''"
| "error_code ProviderOutputError = ''provider_output_invalid''"
| "error_code RepairExhaustedError = ''repair_exhausted''"
| "error_code SchemaRetrievalError = ''schema_retrieval_failed''"
| "error_code ExecutionError = ''execution_failed''"
| "error_code ConfigurationError = ''configuration_error''"
| "error_code DependencyUnavailableError = ''dependency_unavailable''"

fun http_status :: "error_class \<Rightarrow> nat" where
  "http_status EngineError = 500"
| "http_status InvalidRequestError = 422"
| "http_status AmbiguousQuestionError = 409"
| "http_status AuthorizationError = 403"
| "http_status SQLParseError = 422"
| "http_status SQLValidationError = 422"
| "http_status CostRejectedError = 422"
| "http_status ProviderError = 502"
| "http_status ProviderTimeoutError = 504"
| "http_status ProviderOutputError = 502"
| "http_status RepairExhaustedError = 422"
| "http_status SchemaRetrievalError = 500"
| "http_status ExecutionError = 500"
| "http_status ConfigurationError = 500"
| "http_status DependencyUnavailableError = 503"

fun class_retryable :: "error_class \<Rightarrow> bool" where
  "class_retryable EngineError = False"
| "class_retryable InvalidRequestError = False"
| "class_retryable AmbiguousQuestionError = False"
| "class_retryable AuthorizationError = False"
| "class_retryable SQLParseError = False"
| "class_retryable SQLValidationError = False"
| "class_retryable CostRejectedError = False"
| "class_retryable ProviderError = True"
| "class_retryable ProviderTimeoutError = True"
| "class_retryable ProviderOutputError = True"
| "class_retryable RepairExhaustedError = False"
| "class_retryable SchemaRetrievalError = True"
| "class_retryable ExecutionError = True"
| "class_retryable ConfigurationError = False"
| "class_retryable DependencyUnavailableError = True"

fun category_of :: "error_class \<Rightarrow> error_category" where
  "category_of EngineError = EC_INTERNAL"
| "category_of InvalidRequestError = EC_CLIENT"
| "category_of AmbiguousQuestionError = EC_AMBIGUITY"
| "category_of AuthorizationError = EC_AUTHORIZATION"
| "category_of SQLParseError = EC_VALIDATION"
| "category_of SQLValidationError = EC_VALIDATION"
| "category_of CostRejectedError = EC_COST"
| "category_of ProviderError = EC_PROVIDER"
| "category_of ProviderTimeoutError = EC_PROVIDER"
| "category_of ProviderOutputError = EC_PROVIDER"
| "category_of RepairExhaustedError = EC_VALIDATION"
| "category_of SchemaRetrievalError = EC_DATABASE"
| "category_of ExecutionError = EC_DATABASE"
| "category_of ConfigurationError = EC_CONFIGURATION"
| "category_of DependencyUnavailableError = EC_DEPENDENCY"

text \<open>\<open>except ProviderError\<close> also catches its subclasses.\<close>

definition is_provider_error :: "error_class \<Rightarrow> bool" where
  "is_provider_error c \<longleftrightarrow> c \<in> {ProviderError, ProviderTimeoutError, ProviderOutputError}"

section \<open>Error objects\<close>

record engine_error =
  ee_class :: error_class
  ee_message :: string
  ee_details :: "(string \<times> json) list"
  ee_remediation :: "string option"
  ee_retryable :: bool

definition mk_error ::
    "error_class \<Rightarrow> string \<Rightarrow> (string \<times> json) list \<Rightarrow> string option \<Rightarrow> bool option \<Rightarrow> engine_error" where
  "mk_error c msg details remediation retry =
     \<lparr> ee_class = c, ee_message = msg, ee_details = details, ee_remediation = remediation,
       ee_retryable = (case retry of None \<Rightarrow> class_retryable c | Some b \<Rightarrow> b) \<rparr>"

abbreviation raise_error :: "error_class \<Rightarrow> string \<Rightarrow> (string \<times> json) list \<Rightarrow> engine_error" where
  "raise_error c msg details \<equiv> mk_error c msg details None None"

definition to_public_dict :: "engine_error \<Rightarrow> (string \<times> json) list" where
  "to_public_dict e =
     [(''code'', JStr (error_code (ee_class e))),
      (''message'', JStr (ee_message e)),
      (''category'', JStr (category_value (category_of (ee_class e)))),
      (''retryable'', JBool (ee_retryable e))]
     @ (if ee_details e \<noteq> [] then [(''details'', JObj (ee_details e))] else [])
     @ (case ee_remediation e of
          None \<Rightarrow> [] | Some r \<Rightarrow> if r \<noteq> [] then [(''remediation'', JStr r)] else [])"

text \<open>
  What a call can end with besides a value: an error of the hierarchy, or a Python
  exception that nothing in the module handles.
\<close>

datatype py_exception =
    PyValueError | PyIndexError | PyAttributeError | PyKeyError | PyTypeError
  | PyOverflowError | PyOther string

datatype failure = Raised engine_error | Unhandled py_exception

lemma mk_error_sel [simp]:
  "ee_class (mk_error c m d r b) = c" "ee_message (mk_error c m d r b) = m"
  "ee_details (mk_error c m d r b) = d" "ee_remediation (mk_error c m d r b) = r"
  by (simp_all add: mk_error_def)

lemma error_code_inject: "error_code a = error_code b \<longleftrightarrow> a = b"
  by (cases a; cases b) simp_all

text \<open>No error the caller is blamed for (status below 500) is retryable by default.\<close>

lemma client_errors_not_retryable: "http_status c < 500 \<Longrightarrow> \<not> class_retryable c"
  by (cases c) simp_all

end
