(* ===== verification/SchemaModels.thy ===== *)
theory SchemaModels
  imports Errors
begin

text \<open>
  The normalized schema of \<open>domain/schema_models.py\<close>: identifier normalization, columns,
  tables and the catalog with its lookups, the foreign-key join graph with bounded
  neighbourhoods, sub-catalogs and the rendering of a catalog for the prompt.
\<close>

section \<open>Identifiers, columns, tables\<close>

definition norm_ident :: "string \<Rightarrow> string" where
  "norm_ident identifier = lower (strip_by (\<lambda>c. c = CHR 0x22) (strip identifier))"

record foreign_key_ref =
  fk_columns :: "string list"
  fk_referred_table :: string
  fk_referred_columns :: "string list"
  fk_referred_schema :: "string option"

record column_info =
  col_name :: string
  col_data_type :: string
  col_nullable :: bool
  col_is_primary_key :: bool
  col_comment :: "string option"
  col_classification :: data_classification
  col_sample_values :: "string list"

record table_info =
  tbl_name :: string
  tbl_schema_name :: "string option"
  tbl_kind :: string
  tbl_comment :: "string option"
  tbl_columns :: "column_info list"
  tbl_primary_key :: "string list"
  tbl_foreign_keys :: "foreign_key_ref list"
  tbl_unique_constraints :: "string list list"
  tbl_indexes :: "string list"
  tbl_row_estimate :: "int option"
  tbl_tenant_column :: "string option"

record database_schema =
  db_dialect :: sql_dialect
  db_tables :: "table_info list"
  db_version :: string

definition col_key :: "column_info \<Rightarrow> string" where
  "col_key c = norm_ident (col_name c)"

definition qualified_name :: "table_info \<Rightarrow> string" where
  "qualified_name t = (case tbl_schema_name t of
     None \<Rightarrow> tbl_name t
   | Some s \<Rightarrow> if s = [] then tbl_name t else s @ ''.'' @ tbl_name t)"

definition tbl_key :: "table_info \<Rightarrow> string" where
  "tbl_key t = norm_ident (qualified_name t)"

definition column :: "table_info \<Rightarrow> string \<Rightarrow> column_info option" where
  "column t name = find (\<lambda>c. col_key c = norm_ident name) (tbl_columns t)"

definition has_column :: "table_info \<Rightarrow> string \<Rightarrow> bool" where
  "has_column t name \<longleftrightarrow> column t name \<noteq> None"

definition column_names :: "table_info \<Rightarrow> string list" where
  "column_names t = map col_name (tbl_columns t)"

section \<open>Lookups in the catalog\<close>

type_synonym table_index = "(string \<times> table_info) list"

definition index_add :: "table_info \<Rightarrow> table_index \<Rightarrow> table_index" where
  "index_add t idx = dict_setdefault (norm_ident (tbl_name t)) t (AList.update (tbl_key t) t idx)"

definition table_index :: "database_schema \<Rightarrow> table_index" where
  "table_index s = fold index_add (db_tables s) []"

definition table :: "database_schema \<Rightarrow> string \<Rightarrow> table_info option" where
  "table s name = map_of (table_index s) (norm_ident name)"

definition has_table :: "database_schema \<Rightarrow> string \<Rightarrow> bool" where
  "has_table s name \<longleftrightarrow> table s name \<noteq> None"

definition iter_columns :: "database_schema \<Rightarrow> (table_info \<times> column_info) list" where
  "iter_columns s = concat (map (\<lambda>t. map (Pair t) (tbl_columns t)) (db_tables s))"

definition table_names :: "database_schema \<Rightarrow> string list" where
  "table_names s = map qualified_name (db_tables s)"

section \<open>Join graph\<close>

text \<open>Adjacency map; a missing node has no neighbours (\<open>graph.get(node, set())\<close>).\<close>

type_synonym graph = "(string \<times> string list) list"

definition nbrs :: "graph \<Rightarrow> string \<Rightarrow> string list" where
  "nbrs g u = dict_get [] g u"

definition graph_add :: "string \<Rightarrow> string \<Rightarrow> graph \<Rightarrow> graph" where
  "graph_add u v g = dict_set_add u v g"

definition add_fk :: "table_index \<Rightarrow> table_info \<Rightarrow> foreign_key_ref \<Rightarrow> graph \<Rightarrow> graph" where
  "add_fk idx t fk g = (case map_of idx (norm_ident (fk_referred_table fk)) of
     None \<Rightarrow> g
   | Some r \<Rightarrow> graph_add (tbl_key r) (tbl_key t) (graph_add (tbl_key t) (tbl_key r) g))"

definition join_graph :: "database_schema \<Rightarrow> graph" where
  "join_graph s = (let idx = table_index s in
     fold (\<lambda>t g. fold (add_fk idx t) (tbl_foreign_keys t) g) (db_tables s) [])"

fun neighbors_loop :: "graph \<Rightarrow> nat \<Rightarrow> string set \<Rightarrow> string set \<Rightarrow> string set" where
  "neighbors_loop g 0 frontier seen = seen"
| "neighbors_loop g (Suc h) frontier seen =
     (let nxt = (\<Union>u\<in>frontier. set (nbrs g u)) - seen;
          seen' = seen \<union> nxt
      in if nxt = {} then seen' else neighbors_loop g h nxt seen')"

definition neighbors :: "database_schema \<Rightarrow> string \<Rightarrow> int \<Rightarrow> string set" where
  "neighbors s key hops =
     neighbors_loop (join_graph s) (nat (max 0 hops)) {norm_ident key} {norm_ident key} - {norm_ident key}"

section \<open>Sub-catalogs and prompt rendering\<close>

definition subset :: "database_schema \<Rightarrow> string list \<Rightarrow> database_schema" where
  "subset s names = (let wanted = map norm_ident names in
     \<lparr> db_dialect = db_dialect s,
       db_tables = filter (\<lambda>t. tbl_key t \<in> set wanted \<or> norm_ident (tbl_name t) \<in> set wanted) (db_tables s),
       db_version = db_version s \<rparr>)"

definition max_comment_len :: nat where
  "max_comment_len = 200"

text \<open>The ellipsis U+2026 lies outside \<open>char\<close>; it is written as its UTF-8 bytes.\<close>

definition ellipsis :: string where
  "ellipsis = [CHR 0xE2, CHR 0x80, CHR 0xA6]"

definition flatten_comment :: "string \<Rightarrow> string" where
  "flatten_comment comment = (let flat = join '' '' (split_ws comment) in
     if length flat > max_comment_len then take max_comment_len flat @ ellipsis else flat)"

definition comment_suffix :: "string option \<Rightarrow> string" where
  "comment_suffix c = (case c of None \<Rightarrow> []
     | Some s \<Rightarrow> if s = [] then [] else ''  -- '' @ flatten_comment s)"

definition table_header :: "table_info \<Rightarrow> string" where
  "table_header t =
     (if tbl_kind t = ''view'' then ''VIEW '' else ''TABLE '') @ qualified_name t
     @ comment_suffix (tbl_comment t)"

definition column_flags :: "column_info \<Rightarrow> string list" where
  "column_flags c = [col_data_type c]
     @ (if col_is_primary_key c then [''PK''] else [])
     @ (if \<not> col_nullable c then [''NOT NULL''] else [])
     @ (if is_sensitive (col_classification c)
        then [''['' @ upper (classification_value (col_classification c)) @ '']''] else [])"

definition column_line :: "column_info \<Rightarrow> string" where
  "column_line c = ''  - '' @ col_name c @ '' ('' @ join '', '' (column_flags c) @ '')''
     @ comment_suffix (col_comment c)"

definition fk_line :: "foreign_key_ref \<Rightarrow> string" where
  "fk_line fk = ''  FK ('' @ join '', '' (fk_columns fk) @ '') -> ''
     @ fk_referred_table fk @ '' ('' @ join '', '' (fk_referred_columns fk) @ '')''"

definition table_lines :: "table_info \<Rightarrow> string list" where
  "table_lines t = table_header t # map column_line (tbl_columns t)
     @ map fk_line (tbl_foreign_keys t) @ [[]]"

definition truncation_marker :: string where
  "truncation_marker = newline @ ''-- [schema truncated to fit token budget]''"

definition serialize_for_prompt :: "database_schema \<Rightarrow> nat \<Rightarrow> string" where
  "serialize_for_prompt s max_chars =
     (let text = rstrip (join newline (concat (map table_lines (db_tables s)))) in
      if length text > max_chars then rstrip (take max_chars text) @ truncation_marker else text)"

section \<open>What a lookup finds\<close>

lemma index_add_lookup:
  "map_of (index_add t idx) k =
     (if tbl_key t = k then Some t
      else case map_of idx k of
        Some u \<Rightarrow> Some u
      | None \<Rightarrow> if norm_ident (tbl_name t) = k then Some t else None)"
  by (auto simp: index_add_def map_of_setdefault split: option.splits)

lemma find_snoc:
  "find P (xs @ [x]) = (case find P xs of Some y \<Rightarrow> Some y | None \<Rightarrow> if P x then Some x else None)"
  by (induction xs) auto

lemma index_lookup_fold:
  "map_of (fold index_add ts idx) k =
     (case find (\<lambda>t. tbl_key t = k) (rev ts) of
        Some t \<Rightarrow> Some t
      | None \<Rightarrow> (case map_of idx k of
            Some t \<Rightarrow> Some t
          | None \<Rightarrow> find (\<lambda>t. norm_ident (tbl_name t) = k) ts))"
proof (induction ts arbitrary: idx)
  case Nil
  then show ?case by (simp split: option.splits)
next
  case (Cons t ts)
  show ?case
    unfolding fold_simps Cons.IH index_add_lookup rev.simps find_snoc
    by (auto split: option.splits)
qed

lemma table_lookup:
  "table s name =
     (case find (\<lambda>t. tbl_key t = norm_ident name) (rev (db_tables s)) of
        Some t \<Rightarrow> Some t
      | None \<Rightarrow> find (\<lambda>t. norm_ident (tbl_name t) = norm_ident name) (db_tables s))"
  by (simp add: table_def table_index_def index_lookup_fold split: option.splits)

lemma find_SomeD: "find P xs = Some x \<Longrightarrow> x \<in> set xs \<and> P x"
  by (induction xs) (auto split: if_splits)

lemma index_of_member: "map_of (table_index s) k = Some t \<Longrightarrow> t \<in> set (db_tables s)"
  by (auto simp: table_index_def index_lookup_fold split: option.splits dest: find_SomeD)

lemma table_member: "table s name = Some t \<Longrightarrow> t \<in> set (db_tables s)"
  by (auto simp: table_def dest: index_of_member)

lemma table_None_iff:
  "table s name = None \<longleftrightarrow>
     (\<forall>t\<in>set (db_tables s). tbl_key t \<noteq> norm_ident name \<and> norm_ident (tbl_name t) \<noteq> norm_ident name)"
proof (cases "find (\<lambda>t. tbl_key t = norm_ident name) (rev (db_tables s))")
  case None
  then have "table s name = find (\<lambda>t. norm_ident (tbl_name t) = norm_ident name) (db_tables s)"
    by (simp add: table_lookup)
  with None show ?thesis by (auto simp: find_None_iff)
next
  case (Some t)
  with find_SomeD [OF this] show ?thesis by (auto simp: table_lookup)
qed

lemma table_case_insensitive: "norm_ident a = norm_ident b \<Longrightarrow> table s a = table s b"
  by (simp add: table_def)

lemma column_member: "column t name = Some c \<Longrightarrow> c \<in> set (tbl_columns t) \<and> col_key c = norm_ident name"
  by (auto simp: column_def dest: find_SomeD)

section \<open>The join graph\<close>

definition edges :: "graph \<Rightarrow> (string \<times> string) set" where
  "edges g = {(u, v). v \<in> set (nbrs g u)}"

lemma nbrs_edges: "v \<in> set (nbrs g u) \<longleftrightarrow> (u, v) \<in> edges g"
  by (simp add: edges_def)

lemma edges_Nil [simp]: "edges [] = {}"
  by (simp add: edges_def nbrs_def dict_get_def)

lemma edges_graph_add [simp]: "edges (graph_add u v g) = insert (u, v) (edges g)"
  by (auto simp: edges_def graph_add_def nbrs_def dict_get_set_add split: if_splits)

definition fk_edges :: "table_index \<Rightarrow> table_info \<Rightarrow> foreign_key_ref \<Rightarrow> (string \<times> string) set" where
  "fk_edges idx t fk = (case map_of idx (norm_ident (fk_referred_table fk)) of
     None \<Rightarrow> {} | Some r \<Rightarrow> {(tbl_key t, tbl_key r), (tbl_key r, tbl_key t)})"

lemma edges_add_fk: "edges (add_fk idx t fk g) = edges g \<union> fk_edges idx t fk"
  by (auto simp: add_fk_def fk_edges_def split: option.splits)

lemma edges_fold_fk: "edges (fold (add_fk idx t) fks g) = edges g \<union> (\<Union>fk\<in>set fks. fk_edges idx t fk)"
  by (induction fks arbitrary: g) (auto simp: edges_add_fk)

lemma edges_fold_tables:
  "edges (fold (\<lambda>t g. fold (add_fk idx t) (tbl_foreign_keys t) g) ts g) =
     edges g \<union> (\<Union>t\<in>set ts. \<Union>fk\<in>set (tbl_foreign_keys t). fk_edges idx t fk)"
  by (induction ts arbitrary: g) (auto simp: edges_fold_fk)

lemma edges_join_graph:
  "edges (join_graph s) =
     (\<Union>t\<in>set (db_tables s). \<Union>fk\<in>set (tbl_foreign_keys t). fk_edges (table_index s) t fk)"
  by (simp add: join_graph_def edges_fold_tables)

lemma sym_join_graph: "sym (edges (join_graph s))"
  by (auto simp: sym_def edges_join_graph fk_edges_def split: option.splits)

section \<open>Bounded neighbourhoods\<close>

lemma neighbors_loop_funpow:
  assumes "E = edges g" and "E `` (seen - frontier) \<subseteq> seen" and "frontier \<subseteq> seen"
  shows "neighbors_loop g h frontier seen = ((\<lambda>S. S \<union> E `` S) ^^ h) seen"
  using assms(2,3)
proof (induction h arbitrary: frontier seen)
  case 0
  then show ?case by simp
next
  case (Suc h)
  let ?nxt = "E `` frontier - seen"
  have un: "(\<Union>u\<in>frontier. set (nbrs g u)) = E `` frontier"
    by (auto simp: assms(1) edges_def)
  have step: "seen \<union> ?nxt = seen \<union> E `` seen"
    using Suc.prems by blast
  show ?case
  proof (cases "?nxt = {}")
    case True
    then have fixed: "seen \<union> E `` seen = seen" using step by blast
    have "((\<lambda>S. S \<union> E `` S) ^^ k) seen = seen" for k
      by (induction k) (simp_all add: fixed)
    moreover have "seen \<union> E `` frontier = seen" using True by blast
    ultimately show ?thesis using True by (simp add: un Let_def del: funpow.simps)
  next
    case False
    have "neighbors_loop g h ?nxt (seen \<union> ?nxt) = ((\<lambda>S. S \<union> E `` S) ^^ h) (seen \<union> ?nxt)"
      by (rule Suc.IH) (use Suc.prems in blast)+
    moreover have "((\<lambda>S. S \<union> E `` S) ^^ Suc h) seen = ((\<lambda>S. S \<union> E `` S) ^^ h) (seen \<union> E `` seen)"
      by (simp add: funpow_Suc_right del: funpow.simps)
    ultimately show ?thesis
      using False unfolding step neighbors_loop.simps Let_def un by simp
  qed
qed

lemma funpow_closure_relpow:
  "((\<lambda>S. S \<union> E `` S) ^^ h) {x} = {y. \<exists>k\<le>h. (x, y) \<in> E ^^ k}"
proof (induction h)
  case 0
  then show ?case by auto
next
  case (Suc h)
  have "(\<exists>k\<le>Suc h. (x, y) \<in> E ^^ k) \<longleftrightarrow>
      (\<exists>k\<le>h. (x, y) \<in> E ^^ k) \<or> (\<exists>z. (\<exists>k\<le>h. (x, z) \<in> E ^^ k) \<and> (z, y) \<in> E)" for y
  proof
    assume "\<exists>k\<le>Suc h. (x, y) \<in> E ^^ k"
    then obtain k where k: "k \<le> Suc h" "(x, y) \<in> E ^^ k" by blast
    show "(\<exists>k\<le>h. (x, y) \<in> E ^^ k) \<or> (\<exists>z. (\<exists>k\<le>h. (x, z) \<in> E ^^ k) \<and> (z, y) \<in> E)"
    proof (cases "k \<le> h")
      case False
      with k have "(x, y) \<in> E ^^ Suc h" by (simp add: le_Suc_eq)
      then obtain z where "(x, z) \<in> E ^^ h" "(z, y) \<in> E" by (rule relpow_Suc_E)
      then show ?thesis by blast
    qed (use k in blast)
  next
    assume "(\<exists>k\<le>h. (x, y) \<in> E ^^ k) \<or> (\<exists>z. (\<exists>k\<le>h. (x, z) \<in> E ^^ k) \<and> (z, y) \<in> E)"
    then show "\<exists>k\<le>Suc h. (x, y) \<in> E ^^ k"
      by (meson Suc_le_mono le_SucI relpow_Suc_I)
  qed
  then show ?case using Suc by (auto simp: Image_def)
qed

lemma neighbors_relpow:
  "neighbors s key hops =
     {v. v \<noteq> norm_ident key \<and> (\<exists>k. int k \<le> max 0 hops \<and> (norm_ident key, v) \<in> edges (join_graph s) ^^ k)}"
proof -
  have "neighbors_loop (join_graph s) h {norm_ident key} {norm_ident key} =
      {y. \<exists>k\<le>h. (norm_ident key, y) \<in> edges (join_graph s) ^^ k}" for h
    by (subst neighbors_loop_funpow [OF refl]) (auto simp: funpow_closure_relpow)
  moreover have "k \<le> nat (max 0 hops) \<longleftrightarrow> int k \<le> max 0 hops" for k
    by linarith
  ultimately show ?thesis by (auto simp: neighbors_def)
qed

section \<open>Comments cannot break out of their line\<close>

lemma split_by_no_sep: "w \<in> set (split_by p acc s) \<Longrightarrow> c \<in> set w \<Longrightarrow> p c \<Longrightarrow> c \<in> set acc"
proof (induction s arbitrary: acc w)
  case Nil
  then show ?case by (simp split: if_splits)
next
  case (Cons a s)
  show ?case
  proof (cases "p a")
    case True
    with Cons.prems Cons.IH [of w "[]"] show ?thesis by (cases "acc = []") auto
  next
    case False
    with Cons.prems Cons.IH [of w "a # acc"] show ?thesis by auto
  qed
qed

lemma split_ws_no_space: "w \<in> set (split_ws s) \<Longrightarrow> c \<in> set w \<Longrightarrow> \<not> is_space c"
  using split_by_no_sep [of w is_space "[]" s c] by (auto simp: split_ws_def)

lemma set_join: "set (join sep ws) \<subseteq> set sep \<union> (\<Union>w\<in>set ws. set w)"
  by (induction sep ws rule: join.induct) auto

lemma join_split_ws_spaces: "c \<in> set (join '' '' (split_ws s)) \<Longrightarrow> is_space c \<Longrightarrow> c = CHR '' ''"
  using set_join [of "'' ''" "split_ws s"] by (auto dest: split_ws_no_space)

lemma ellipsis_no_space: "c \<in> set ellipsis \<Longrightarrow> \<not> is_space c"
proof -
  have "list_all (\<lambda>c. \<not> is_space c) ellipsis" by code_simp
  then show "c \<in> set ellipsis \<Longrightarrow> \<not> is_space c" by (simp add: list_all_iff)
qed

lemma flatten_comment_one_line: "c \<in> set (flatten_comment s) \<Longrightarrow> is_space c \<Longrightarrow> c = CHR '' ''"
  unfolding flatten_comment_def Let_def
  by (metis Un_iff ellipsis_no_space in_set_takeD join_split_ws_spaces set_append)

lemma flatten_comment_bounded: "length (flatten_comment s) \<le> max_comment_len + length ellipsis"
  by (auto simp: flatten_comment_def Let_def)

section \<open>The prompt rendering is bounded\<close>

lemma length_rstrip: "length (rstrip s) \<le> length s"
  using length_dropWhile_le [of is_space "rev s"] by (simp add: rstrip_def rstrip_by_def)

lemma serialize_bounded:
  "length (serialize_for_prompt s m) \<le> m + length truncation_marker"
proof -
  have "length (rstrip (take m x)) \<le> m" for x
    using length_rstrip [of "take m x"] by simp
  then show ?thesis by (auto simp: serialize_for_prompt_def Let_def trans_le_add1)
qed

section \<open>Sub-catalogs\<close>

lemma subset_tables: "set (db_tables (subset s names)) \<subseteq> set (db_tables s)"
  by (auto simp: subset_def Let_def)

lemma subset_keeps: "t \<in> set (db_tables s) \<Longrightarrow> qualified_name t \<in> set names \<Longrightarrow>
    t \<in> set (db_tables (subset s names))"
  by (auto simp: subset_def Let_def tbl_key_def)

end
