(* ===== verification/Models.thy ===== *)
theory Models
  imports SchemaModels
begin

text \<open>
  The request and response objects of \<open>domain/models.py\<close> and the caller's context of
  \<open>domain/context.py\<close>. Field constraints that Pydantic checks at construction are the
  predicates \<open>valid_...\<close>. Floats are exact rationals.
\<close>

section \<open>Caller and conversation\<close>

record auth_context =
  ac_user_id :: string
  ac_tenant_id :: string
  ac_roles :: "string list"

definition has_role :: "auth_context \<Rightarrow> string \<Rightarrow> bool" where
  "has_role a role \<longleftrightarrow> lower role \<in> set (map lower (ac_roles a))"

definition is_admin :: "auth_context \<Rightarrow> bool" where
  "is_admin a \<longleftrightarrow> ''admin'' \<in> set (map lower (ac_roles a))"

record conversation_turn =
  ct_question :: string
  ct_sql :: "string option"
  ct_referenced_tables :: "string list"
  ct_metrics :: "string list"
  ct_dimensions :: "string list"
  ct_filters :: "string list"
  ct_date_range :: "string option"
  ct_assumptions :: "string list"

record conversation_state =
  cs_turns :: "conversation_turn list"

definition last_turn :: "conversation_state \<Rightarrow> conversation_turn option" where
  "last_turn s = (if cs_turns s = [] then None else Some (last (cs_turns s)))"

definition with_turn :: "conversation_state \<Rightarrow> conversation_turn \<Rightarrow> conversation_state" where
  "with_turn s t = \<lparr> cs_turns = cs_turns s @ [t] \<rparr>"

lemma last_turn_with_turn [simp]: "last_turn (with_turn s t) = Some t"
  by (simp add: last_turn_def with_turn_def)

section \<open>Requests\<close>

record glossary_override =
  go_term :: string
  go_definition :: string
  go_sql_expression :: "string option"

record query_request =
  qr_question :: string
  qr_data_source :: "string option"
  qr_dialect :: "sql_dialect option"
  qr_tenant_id :: "string option"
  qr_conversation :: "conversation_state option"
  qr_glossary_overrides :: "glossary_override list"
  qr_max_rows :: "int option"
  qr_dry_run :: bool
  qr_sql_only :: bool
  qr_explain :: bool
  qr_correlation_id :: "string option"

definition valid_query_request :: "query_request \<Rightarrow> bool" where
  "valid_query_request r \<longleftrightarrow>
     1 \<le> length (qr_question r) \<and> length (qr_question r) \<le> 2000
     \<and> (case qr_max_rows r of None \<Rightarrow> True | Some m \<Rightarrow> 1 \<le> m \<and> m \<le> 100000)"

record validate_sql_request =
  vr_sql :: string
  vr_dialect :: "sql_dialect option"
  vr_tenant_id :: "string option"

definition valid_validate_request :: "validate_sql_request \<Rightarrow> bool" where
  "valid_validate_request r \<longleftrightarrow> 1 \<le> length (vr_sql r) \<and> length (vr_sql r) \<le> 20000"

section \<open>Findings, reports, metadata\<close>

record retrieved_object =
  ro_table :: string
  ro_score :: rat
  ro_reason :: string

record validation_issue =
  vi_code :: string
  vi_message :: string
  vi_location :: "string option"

abbreviation issue :: "string \<Rightarrow> string \<Rightarrow> string option \<Rightarrow> validation_issue" where
  "issue c m l \<equiv> \<lparr> vi_code = c, vi_message = m, vi_location = l \<rparr>"

definition issue_codes :: "validation_issue list \<Rightarrow> string list" where
  "issue_codes is = map vi_code is"

record validation_report =
  rp_is_valid :: bool
  rp_statement_type :: "string option"
  rp_referenced_tables :: "string list"
  rp_referenced_columns :: "string list"
  rp_issues :: "validation_issue list"
  rp_risk_level :: "risk_level option"
  rp_estimated_cost :: "rat option"
  rp_applied_rewrites :: "string list"

record clarification =
  cl_category :: ambiguity_category
  cl_explanation :: string
  cl_interpretations :: "(string \<times> string) list"
  cl_suggested_question :: string
  cl_confidence :: rat

record stage_timings =
  st_retrieval_ms :: rat
  st_generation_ms :: rat
  st_validation_ms :: rat
  st_execution_ms :: rat
  st_total_ms :: rat

definition no_timings :: stage_timings where
  "no_timings = \<lparr> st_retrieval_ms = 0, st_generation_ms = 0, st_validation_ms = 0,
     st_execution_ms = 0, st_total_ms = 0 \<rparr>"

record execution_metadata =
  em_row_count :: nat
  em_truncated :: bool
  em_duration_ms :: rat

record model_metadata =
  mm_provider :: string
  mm_model :: string
  mm_prompt_version :: string
  mm_prompt_tokens :: "int option"
  mm_completion_tokens :: "int option"
  mm_repair_attempts :: nat

section \<open>Responses\<close>

record query_response =
  rs_status :: response_status
  rs_correlation_id :: string
  rs_sql :: "string option"
  rs_dialect :: "sql_dialect option"
  rs_columns :: "string list"
  rs_rows :: "json list list"
  rs_row_count :: "nat option"
  rs_truncated :: bool
  rs_explanation :: "string option"
  rs_assumptions :: "string list"
  rs_warnings :: "string list"
  rs_confidence :: "rat option"
  rs_validation :: "validation_report option"
  rs_clarification :: "clarification option"
  rs_retrieval :: "retrieved_object list"
  rs_timings :: stage_timings
  rs_execution :: "execution_metadata option"
  rs_model :: "model_metadata option"

text \<open>The defaults of \<open>QueryResponse\<close>: a status and a correlation id are given.\<close>

definition new_response :: "response_status \<Rightarrow> string \<Rightarrow> query_response" where
  "new_response st cid = \<lparr> rs_status = st, rs_correlation_id = cid, rs_sql = None,
     rs_dialect = None, rs_columns = [], rs_rows = [], rs_row_count = None, rs_truncated = False,
     rs_explanation = None, rs_assumptions = [], rs_warnings = [], rs_confidence = None,
     rs_validation = None, rs_clarification = None, rs_retrieval = [], rs_timings = no_timings,
     rs_execution = None, rs_model = None \<rparr>"

record schema_column_summary =
  sc_name :: string
  sc_data_type :: string
  sc_nullable :: bool
  sc_is_primary_key :: bool
  sc_classification :: string
  sc_sensitive :: bool

record schema_table_summary =
  sts_name :: string
  sts_kind :: string
  sts_comment :: "string option"
  sts_columns :: "schema_column_summary list"

record schema_summary =
  ss_dialect :: sql_dialect
  ss_version :: string
  ss_tables :: "schema_table_summary list"

end
