(* ===== verification/Sqlglot.thy ===== *)
theory Sqlglot
  imports Models
begin

text \<open>
  The SQL parser library (SQLGlot) is not part of the repository. Everything the engine asks
  of it is a field of the record \<open>sqlglot\<close>, which the definitions that use the library take
  as an argument: a parsed expression is a value of the type \<open>'e\<close>, its nodes are values of
  the type \<open>'n\<close>. An expression value stands for a whole tree as the engine sees it at one
  moment, so \<open>copy()\<close> needs no operation: HOL values are not mutated. What the
  properties need of the library's documented behaviour is stated by the predicates
  \<open>..._documented\<close>, which appear as hypotheses where they are used.
\<close>

section \<open>Node classes the engine names\<close>

datatype sg_class =
    CSelect | CUnion | CIntersect | CExcept | CSubquery
  | CInsert | CUpdate | CDelete | CMerge | CDrop | CAlter | CCreate
  | CTruncateTable | CGrant | CRevoke
  | CSet | CTransaction | CCommit | CRollback | CPragma | CCommand
  | CStar | CFunc | CAnonymous | CTable | CColumn | CCTE | CAlias | CJoin | CLimit | CLiteral

text \<open>Exceptions of the library's parser and tokenizer, with their texts.\<close>

datatype sg_exn = ParseError string | TokenError string

text \<open>The equality the rewriter builds: \<open>qualifier.column = literal\<close>.\<close>

datatype sg_literal = NumberLiteral string | StringLiteral string

record tenant_predicate =
  tp_qualifier :: string
  tp_column :: string
  tp_literal :: sg_literal

section \<open>The operations used\<close>

record ('e, 'n) sqlglot =
  sg_has_class :: "sg_class \<Rightarrow> bool"
  sg_parse :: "string \<Rightarrow> string \<Rightarrow> sg_exn + 'e option list"
  sg_transpile :: "string \<Rightarrow> string \<Rightarrow> string \<Rightarrow> sg_exn + string list"
  sg_sql :: "'e \<Rightarrow> string \<Rightarrow> bool \<Rightarrow> string"
  sg_root :: "'e \<Rightarrow> 'n"
  sg_walk :: "'e \<Rightarrow> 'n list"
  sg_find_all :: "'e \<Rightarrow> sg_class \<Rightarrow> 'n list"
  sg_isinstance :: "'e \<Rightarrow> 'n \<Rightarrow> sg_class \<Rightarrow> bool"
  sg_type_name :: "'e \<Rightarrow> 'n \<Rightarrow> string"
  sg_parents :: "'e \<Rightarrow> 'n \<Rightarrow> 'n list"
  sg_find_ancestor :: "'e \<Rightarrow> 'n \<Rightarrow> sg_class \<Rightarrow> 'n option"
  sg_comments :: "'e \<Rightarrow> 'n \<Rightarrow> string list"
  sg_name :: "'e \<Rightarrow> 'n \<Rightarrow> string"
  sg_alias :: "'e \<Rightarrow> 'n \<Rightarrow> string"
  sg_catalog :: "'e \<Rightarrow> 'n \<Rightarrow> string"
  sg_db :: "'e \<Rightarrow> 'n \<Rightarrow> string"
  sg_table :: "'e \<Rightarrow> 'n \<Rightarrow> string"
  sg_this :: "'e \<Rightarrow> 'n \<Rightarrow> string"
  sg_sql_name :: "'e \<Rightarrow> 'n \<Rightarrow> string option"
  sg_expressions :: "'e \<Rightarrow> 'n \<Rightarrow> 'n list"
  sg_kind :: "'e \<Rightarrow> 'n \<Rightarrow> string"
  sg_side :: "'e \<Rightarrow> 'n \<Rightarrow> string"
  sg_has_arg :: "'e \<Rightarrow> 'n \<Rightarrow> string \<Rightarrow> bool"
  sg_limit_arg :: "'e \<Rightarrow> 'n option"
  sg_expression :: "'e \<Rightarrow> 'n \<Rightarrow> 'n option"
  sg_is_int :: "'e \<Rightarrow> 'n \<Rightarrow> bool"
  sg_int_name :: "'e \<Rightarrow> 'n \<Rightarrow> int"
  sg_where :: "'e \<Rightarrow> 'n \<Rightarrow> tenant_predicate \<Rightarrow> 'e"
  sg_limit :: "'e \<Rightarrow> int \<Rightarrow> 'e"

text \<open>
  How the fields read: \<open>sg_parents e n\<close> is the chain of \<open>parent\<close> links of \<open>n\<close>, nearest
  first, up to the root; \<open>sg_sql_name\<close> is \<open>None\<close> when the call raises; absent strings are
  empty; \<open>sg_where e s p\<close> is \<open>s.where(p, append=True, copy=False)\<close> on the node \<open>s\<close> of
  \<open>e\<close>; \<open>sg_limit e k\<close> is \<open>e.limit(k)\<close>; \<open>sg_int_name\<close> is \<open>int(literal.name)\<close>.
\<close>

section \<open>Documented behaviour\<close>

text \<open>\<open>find_all\<close> visits all nodes and yields those of the given class.\<close>

definition find_all_documented :: "('e, 'n) sqlglot \<Rightarrow> 'e \<Rightarrow> bool" where
  "find_all_documented sg e \<longleftrightarrow>
     (\<forall>c. set (sg_find_all sg e c) = {n \<in> set (sg_walk sg e). sg_isinstance sg e n c})"

text \<open>\<open>find_ancestor\<close> returns the nearest parent of the given class.\<close>

definition find_ancestor_documented :: "('e, 'n) sqlglot \<Rightarrow> 'e \<Rightarrow> bool" where
  "find_ancestor_documented sg e \<longleftrightarrow>
     (\<forall>n c. sg_find_ancestor sg e n c = find (\<lambda>a. sg_isinstance sg e a c) (sg_parents sg e n))"

text \<open>
  \<open>where(append=True)\<close> ANDs the condition to the existing ones of that SELECT and touches no
  other; \<open>limit\<close> leaves every WHERE as it is. \<open>conds e s\<close> observes the conjuncts of the
  WHERE of \<open>s\<close>.
\<close>

definition where_documented ::
    "('e, 'n) sqlglot \<Rightarrow> ('e \<Rightarrow> 'n \<Rightarrow> tenant_predicate set) \<Rightarrow> bool" where
  "where_documented sg conds \<longleftrightarrow>
     (\<forall>e s p s'. conds (sg_where sg e s p) s' =
        (if s' = s then insert p (conds e s) else conds e s'))"

definition limit_keeps_where ::
    "('e, 'n) sqlglot \<Rightarrow> ('e \<Rightarrow> 'n \<Rightarrow> tenant_predicate set) \<Rightarrow> bool" where
  "limit_keeps_where sg conds \<longleftrightarrow> (\<forall>e k s. conds (sg_limit sg e k) s = conds e s)"

text \<open>\<open>limit(k)\<close> sets the LIMIT argument to the integer literal \<open>k\<close>, replacing any other.\<close>

definition limit_documented :: "('e, 'n) sqlglot \<Rightarrow> bool" where
  "limit_documented sg \<longleftrightarrow> (\<forall>e k. \<exists>l i.
     sg_limit_arg sg (sg_limit sg e k) = Some l
     \<and> sg_isinstance sg (sg_limit sg e k) l CLimit
     \<and> sg_expression sg (sg_limit sg e k) l = Some i
     \<and> sg_isinstance sg (sg_limit sg e k) i CLiteral
     \<and> sg_is_int sg (sg_limit sg e k) i
     \<and> sg_int_name sg (sg_limit sg e k) i = k)"

lemma find_all_iff:
  "find_all_documented sg e \<Longrightarrow>
     n \<in> set (sg_find_all sg e c) \<longleftrightarrow> n \<in> set (sg_walk sg e) \<and> sg_isinstance sg e n c"
  by (simp add: find_all_documented_def)

end
