(* ===== verification/SqlParser.thy ===== *)
theory SqlParser
  imports Sqlglot
begin

text \<open>
  Statement splitting and classification (\<open>sql/parser.py\<close>), LIMIT enforcement, rendering and
  transpilation (\<open>sql/normalizer.py\<close>).
\<close>

section \<open>Parsing\<close>

definition is_line_break :: "char \<Rightarrow> bool" where
  "is_line_break c \<longleftrightarrow> code_point c \<in> {10, 11, 12, 13, 28, 29, 30, 133}"

definition first_line :: "string \<Rightarrow> string" where
  "first_line text = (if strip text \<noteq> []
     then take 200 (takeWhile (\<lambda>c. \<not> is_line_break c) (strip text)) else ''parse error'')"

fun sg_exn_text :: "sg_exn \<Rightarrow> string" where
  "sg_exn_text (ParseError t) = t"
| "sg_exn_text (TokenError t) = t"

definition parse_statements ::
    "('e, 'n) sqlglot \<Rightarrow> string \<Rightarrow> sql_dialect \<Rightarrow> engine_error + 'e list" where
  "parse_statements sg sql dialect = (case sg_parse sg sql (sqlglot_name dialect) of
     Inl exn \<Rightarrow> Inl (raise_error SQLParseError ''The generated SQL could not be parsed.''
       [(''reason'', JStr (first_line (sg_exn_text exn)))])
   | Inr parsed \<Rightarrow>
       (let statements = concat (map (\<lambda>s. case s of None \<Rightarrow> [] | Some e \<Rightarrow> [e]) parsed) in
        if statements = []
        then Inl (raise_error SQLParseError ''No SQL statement was found in the input.'' [])
        else Inr statements))"

definition command_map :: "(string \<times> statement_type) list" where
  "command_map =
     [(''TRUNCATE'', ST_TRUNCATE), (''GRANT'', ST_GRANT), (''REVOKE'', ST_REVOKE),
      (''VACUUM'', ST_OTHER), (''ANALYZE'', ST_OTHER), (''CALL'', ST_CALL),
      (''EXECUTE'', ST_CALL), (''COPY'', ST_OTHER)]"

definition classify_node :: "('e, 'n) sqlglot \<Rightarrow> 'e \<Rightarrow> 'n \<Rightarrow> statement_type" where
  "classify_node sg e n = (let is = sg_isinstance sg e n in
     if is CSelect then ST_SELECT
     else if is CUnion \<or> is CIntersect \<or> is CExcept then ST_UNION
     else if is CSubquery then ST_SELECT
     else if is CInsert then ST_INSERT
     else if is CUpdate then ST_UPDATE
     else if is CDelete then ST_DELETE
     else if is CMerge then ST_MERGE
     else if is CDrop then ST_DROP
     else if is CAlter then ST_ALTER
     else if is CCreate then ST_CREATE
     else if sg_has_class sg CTruncateTable \<and> is CTruncateTable then ST_TRUNCATE
     else if sg_has_class sg CGrant \<and> is CGrant then ST_GRANT
     else if is CSet then ST_SET
     else if is CTransaction \<or> is CCommit \<or> is CRollback then ST_TRANSACTION
     else if is CPragma then ST_PRAGMA
     else if is CCommand
       then dict_get ST_OTHER command_map (upper (sg_name sg e n))
     else ST_OTHER)"

definition classify_statement :: "('e, 'n) sqlglot \<Rightarrow> 'e \<Rightarrow> statement_type" where
  "classify_statement sg e = classify_node sg e (sg_root sg e)"

lemma parse_statements_not_Nil: "parse_statements sg sql d = Inr es \<Longrightarrow> es \<noteq> []"
  by (auto simp: parse_statements_def Let_def split: sum.splits if_splits)

text \<open>Only query expressions are classified as read-only.\<close>

definition is_query_root :: "('e, 'n) sqlglot \<Rightarrow> 'e \<Rightarrow> bool" where
  "is_query_root sg e \<longleftrightarrow>
     (\<exists>c\<in>{CSelect, CUnion, CSubquery, CIntersect, CExcept}. sg_isinstance sg e (sg_root sg e) c)"

lemma command_map_not_read_only: "\<not> is_read_only (dict_get ST_OTHER command_map k)"
  by (auto simp: dict_get_def command_map_def is_read_only_def)

lemma classify_read_only_iff: "is_read_only (classify_statement sg e) \<longleftrightarrow> is_query_root sg e"
  using command_map_not_read_only
  by (auto simp: classify_statement_def classify_node_def is_query_root_def is_read_only_def Let_def)

section \<open>Rendering and LIMIT enforcement\<close>

definition normalize_sql :: "('e, 'n) sqlglot \<Rightarrow> 'e \<Rightarrow> sql_dialect \<Rightarrow> bool \<Rightarrow> string" where
  "normalize_sql sg e dialect pretty = sg_sql sg e (sqlglot_name dialect) pretty"

record 'e limit_outcome =
  lo_expression :: 'e
  lo_applied :: bool
  lo_capped :: bool
  lo_effective_limit :: int

definition limit_value :: "('e, 'n) sqlglot \<Rightarrow> 'e \<Rightarrow> 'n option \<Rightarrow> int option" where
  "limit_value sg e node = (case node of
     None \<Rightarrow> None
   | Some l \<Rightarrow>
       (case (if sg_isinstance sg e l CLimit then sg_expression sg e l else Some l) of
          None \<Rightarrow> None
        | Some inner \<Rightarrow>
            if sg_isinstance sg e inner CLiteral \<and> sg_is_int sg e inner
            then Some (sg_int_name sg e inner) else Some (10 ^ 12)))"

definition enforce_limit :: "('e, 'n) sqlglot \<Rightarrow> 'e \<Rightarrow> int \<Rightarrow> 'e limit_outcome" where
  "enforce_limit sg e max_rows =
     (if \<not> is_query_root sg e
      then \<lparr> lo_expression = e, lo_applied = False, lo_capped = False,
             lo_effective_limit = max_rows \<rparr>
      else case limit_value sg e (sg_limit_arg sg e) of
        None \<Rightarrow> \<lparr> lo_expression = sg_limit sg e max_rows, lo_applied = True, lo_capped = False,
                   lo_effective_limit = max_rows \<rparr>
      | Some current \<Rightarrow>
          if current > max_rows
          then \<lparr> lo_expression = sg_limit sg e max_rows, lo_applied = False, lo_capped = True,
                 lo_effective_limit = max_rows \<rparr>
          else \<lparr> lo_expression = e, lo_applied = False, lo_capped = False,
                 lo_effective_limit = current \<rparr>)"

text \<open>
  \<open>transpile_sql\<close> handles \<open>ParseError\<close> only; a \<open>TokenError\<close> of the library and the
  \<open>IndexError\<close> of an empty exception text leave it unmapped.
\<close>

definition transpile_sql ::
    "('e, 'n) sqlglot \<Rightarrow> string \<Rightarrow> sql_dialect \<Rightarrow> sql_dialect \<Rightarrow> failure + string" where
  "transpile_sql sg sql read write =
     (case sg_transpile sg sql (sqlglot_name read) (sqlglot_name write) of
        Inr out \<Rightarrow> Inr (case out of [] \<Rightarrow> sql | s # _ \<Rightarrow> s)
      | Inl (TokenError t) \<Rightarrow> Inl (Unhandled (PyOther t))
      | Inl (ParseError t) \<Rightarrow>
          if t = [] then Inl (Unhandled PyIndexError)
          else Inl (Raised (raise_error SQLParseError
                 ''SQL could not be transpiled between dialects.''
                 [(''reason'', JStr (take 200 (takeWhile (\<lambda>c. \<not> is_line_break c) t)))])))"

lemma limit_value_of_limit:
  assumes "limit_documented sg"
  shows "limit_value sg (sg_limit sg e k) (sg_limit_arg sg (sg_limit sg e k)) = Some k"
  using assms [unfolded limit_documented_def, rule_format, of e k]
  by (auto simp: limit_value_def)

text \<open>
  The bounded-result guarantee: after \<open>enforce_limit\<close> the query has an integer LIMIT, and it
  does not exceed \<open>max_rows\<close>. The placeholder \<open>10 ^ 12\<close> for a LIMIT that is no integer
  literal only forces the cap when \<open>max_rows\<close> stays below it.
\<close>

lemma enforce_limit_bound:
  assumes "limit_documented sg" and "is_query_root sg e" and "max_rows < 10 ^ 12"
  shows "\<exists>k. limit_value sg (lo_expression (enforce_limit sg e max_rows))
               (sg_limit_arg sg (lo_expression (enforce_limit sg e max_rows))) = Some k
             \<and> k \<le> max_rows \<and> k = lo_effective_limit (enforce_limit sg e max_rows)"
  using assms
  by (auto simp: enforce_limit_def limit_value_of_limit split: option.splits)

lemma enforce_limit_keeps_where:
  "limit_keeps_where sg conds \<Longrightarrow> conds (lo_expression (enforce_limit sg e m)) s = conds e s"
  by (auto simp: enforce_limit_def limit_keeps_where_def split: option.splits)

lemma enforce_limit_flags:
  "\<not> (lo_applied (enforce_limit sg e m) \<and> lo_capped (enforce_limit sg e m))"
  by (auto simp: enforce_limit_def split: option.splits)

end
