(* ===== verification/PyRegex.thy ===== *)
theory PyRegex
  imports Prelude
begin

text \<open>
  The part of Python's \<open>re\<close> module the engine uses, as a backtracking matcher. A matcher
  state holds the character before the position, the rest of the subject and the groups
  captured so far. \<open>rmatch\<close> lists the states after a match in the order in which Python's
  engine tries them, so the head of the list is the match Python reports: alternatives from
  left to right, repetitions greedy. The repetition bound is the number of characters left,
  which is enough because an iteration that consumes nothing is cut off.
\<close>

section \<open>Regular expressions\<close>

datatype re =
    Eps
  | Chars "char \<Rightarrow> bool"
  | Seq re re
  | Alt re re
  | Star re
  | Group nat re
  | WordB
  | LineStart

type_synonym captures = "(nat \<times> string) list"
type_synonym match_state = "char option \<times> string \<times> captures"

definition is_word :: "char \<Rightarrow> bool" where
  "is_word c \<longleftrightarrow> (let n = code_point c in
     48 \<le> n \<and> n \<le> 57 \<or> 65 \<le> n \<and> n \<le> 90 \<or> 97 \<le> n \<and> n \<le> 122 \<or> n = 95
     \<or> n \<in> {170, 178, 179, 181, 185, 186, 188, 189, 190}
     \<or> 192 \<le> n \<and> n \<noteq> 215 \<and> n \<noteq> 247)"

definition at_word :: "char option \<Rightarrow> bool" where
  "at_word p = (case p of None \<Rightarrow> False | Some c \<Rightarrow> is_word c)"

definition next_char :: "string \<Rightarrow> char option" where
  "next_char xs = (case xs of [] \<Rightarrow> None | x # _ \<Rightarrow> Some x)"

section \<open>The matcher\<close>

definition state_rest :: "match_state \<Rightarrow> string" where
  "state_rest st = fst (snd st)"

primrec star_match ::
    "(match_state \<Rightarrow> match_state list) \<Rightarrow> nat \<Rightarrow> match_state \<Rightarrow> match_state list" where
  "star_match f 0 st = [st]"
| "star_match f (Suc n) st =
     concat (map (\<lambda>st'. if length (state_rest st') < length (state_rest st)
                         then star_match f n st' else []) (f st)) @ [st]"

primrec rmatch :: "re \<Rightarrow> match_state \<Rightarrow> match_state list" where
  "rmatch Eps st = [st]"
| "rmatch (Chars P) st = (case st of (p, xs, c) \<Rightarrow>
     (case xs of [] \<Rightarrow> [] | y # ys \<Rightarrow> if P y then [(Some y, ys, c)] else []))"
| "rmatch (Seq a b) st = concat (map (rmatch b) (rmatch a st))"
| "rmatch (Alt a b) st = rmatch a st @ rmatch b st"
| "rmatch (Star a) st = star_match (rmatch a) (length (state_rest st)) st"
| "rmatch (Group i a) st = map (\<lambda>(p, xs, c).
     (p, xs, (i, take (length (state_rest st) - length xs) (state_rest st)) # c)) (rmatch a st)"
| "rmatch WordB st = (case st of (p, xs, c) \<Rightarrow>
     if at_word p \<noteq> at_word (next_char xs) then [st] else [])"
| "rmatch LineStart st = (case st of (p, xs, c) \<Rightarrow>
     if p = None \<or> p = Some (CHR 0x0A) then [st] else [])"

record re_match =
  m_before :: string
  m_text :: string
  m_groups :: captures
  m_after :: string

definition match_at :: "re \<Rightarrow> char option \<Rightarrow> string \<Rightarrow> (string \<times> captures \<times> string) option" where
  "match_at r p xs = (case rmatch r (p, xs, []) of
     [] \<Rightarrow> None
   | (_, ys, c) # _ \<Rightarrow> Some (take (length xs - length ys) xs, c, ys))"

fun search_from :: "re \<Rightarrow> string \<Rightarrow> char option \<Rightarrow> string \<Rightarrow> re_match option" where
  "search_from r seen p xs = (case match_at r p xs of
     Some (t, c, ys) \<Rightarrow> Some \<lparr> m_before = rev seen, m_text = t, m_groups = c, m_after = ys \<rparr>
   | None \<Rightarrow> (case xs of [] \<Rightarrow> None | y # ys \<Rightarrow> search_from r (y # seen) (Some y) ys))"

declare search_from.simps [simp del]

definition search :: "re \<Rightarrow> string \<Rightarrow> re_match option" where
  "search r s = search_from r [] None s"

definition group :: "re_match \<Rightarrow> nat \<Rightarrow> string" where
  "group m i = (case map_of (m_groups m) i of None \<Rightarrow> [] | Some t \<Rightarrow> t)"

text \<open>
  \<open>pattern.sub(f, s)\<close> for patterns that match no empty text (all of the engine's).
\<close>

function sub_from :: "re \<Rightarrow> (string \<Rightarrow> captures \<Rightarrow> string) \<Rightarrow> char option \<Rightarrow> string \<Rightarrow> string" where
  "sub_from r f p xs = (case match_at r p xs of
     Some (t, c, ys) \<Rightarrow> if length ys < length xs
                         then f t c @ sub_from r f (Some (last t)) ys
                         else (case xs of [] \<Rightarrow> [] | z # zs \<Rightarrow> z # sub_from r f (Some z) zs)
   | None \<Rightarrow> (case xs of [] \<Rightarrow> [] | z # zs \<Rightarrow> z # sub_from r f (Some z) zs))"
  by pat_completeness auto
termination
  by (relation "measure (\<lambda>(r, f, p, xs). length xs)") auto

declare sub_from.simps [simp del]

definition re_sub :: "re \<Rightarrow> (string \<Rightarrow> captures \<Rightarrow> string) \<Rightarrow> string \<Rightarrow> string" where
  "re_sub r f s = sub_from r f None s"

section \<open>Derived forms\<close>

definition chr :: "char \<Rightarrow> re" where
  "chr c = Chars (\<lambda>x. x = c)"

definition chr_ci :: "char \<Rightarrow> re" where
  "chr_ci c = Chars (\<lambda>x. lower_char x = lower_char c)"

definition one_of :: "string \<Rightarrow> re" where
  "one_of cs = Chars (\<lambda>x. x \<in> set cs)"

definition none_of :: "string \<Rightarrow> re" where
  "none_of cs = Chars (\<lambda>x. x \<notin> set cs)"

fun lit :: "string \<Rightarrow> re" where
  "lit [] = Eps"
| "lit (c # cs) = Seq (chr c) (lit cs)"

fun lit_ci :: "string \<Rightarrow> re" where
  "lit_ci [] = Eps"
| "lit_ci (c # cs) = Seq (chr_ci c) (lit_ci cs)"

fun seqs :: "re list \<Rightarrow> re" where
  "seqs [] = Eps"
| "seqs [r] = r"
| "seqs (r # rs) = Seq r (seqs rs)"

fun alts :: "re list \<Rightarrow> re" where
  "alts [] = Chars (\<lambda>_. False)"
| "alts [r] = r"
| "alts (r # rs) = Alt r (alts rs)"

definition opt :: "re \<Rightarrow> re" where
  "opt r = Alt r Eps"

definition plus :: "re \<Rightarrow> re" where
  "plus r = Seq r (Star r)"

primrec rep :: "nat \<Rightarrow> re \<Rightarrow> re" where
  "rep 0 r = Eps"
| "rep (Suc n) r = Seq r (rep n r)"

primrec upto_opt :: "nat \<Rightarrow> re \<Rightarrow> re" where
  "upto_opt 0 r = Eps"
| "upto_opt (Suc n) r = Alt (Seq r (upto_opt n r)) Eps"

definition rep_range :: "nat \<Rightarrow> nat \<Rightarrow> re \<Rightarrow> re" where
  "rep_range lo hi r = Seq (rep lo r) (upto_opt (hi - lo) r)"

definition rep_atleast :: "nat \<Rightarrow> re \<Rightarrow> re" where
  "rep_atleast lo r = Seq (rep lo r) (Star r)"

definition space :: re where
  "space = Chars is_space"

definition digit :: re where
  "digit = Chars is_decimal"

definition has_word :: "string \<Rightarrow> string \<Rightarrow> bool" where
  "has_word text word \<longleftrightarrow> search (seqs [WordB, lit word, WordB]) text \<noteq> None"

section \<open>A match consumes a prefix of the subject\<close>

definition advances :: "match_state \<Rightarrow> match_state \<Rightarrow> bool" where
  "advances st st' \<longleftrightarrow> (\<exists>ys. state_rest st = ys @ state_rest st' \<and>
     fst st' = (if ys = [] then fst st else Some (last ys)))"

lemma advances_refl [simp]: "advances st st"
  by (simp add: advances_def)

lemma advances_trans: "advances a b \<Longrightarrow> advances b c \<Longrightarrow> advances a c"
proof -
  assume "advances a b" and "advances b c"
  then obtain ys zs where
    "state_rest a = ys @ state_rest b" "fst b = (if ys = [] then fst a else Some (last ys))"
    "state_rest b = zs @ state_rest c" "fst c = (if zs = [] then fst b else Some (last zs))"
    by (auto simp only: advances_def)
  then show "advances a c" unfolding advances_def by (intro exI [of _ "ys @ zs"]) simp
qed

lemma star_match_advances:
  assumes "\<And>st st'. st' \<in> set (f st) \<Longrightarrow> advances st st'"
  shows "st' \<in> set (star_match f n st) \<Longrightarrow> advances st st'"
proof (induction n arbitrary: st)
  case 0
  then show ?case by simp
next
  case (Suc n)
  from Suc.prems consider "st' = st"
    | u where "u \<in> set (f st)" and "st' \<in> set (star_match f n u)"
    by (auto split: if_splits)
  then show ?case
  proof cases
    case 2
    from advances_trans [OF assms [OF 2(1)] Suc.IH [OF 2(2)]] show ?thesis .
  qed simp
qed

lemma rmatch_advances: "st' \<in> set (rmatch r st) \<Longrightarrow> advances st st'"
proof (induction r arbitrary: st st')
  case (Chars P)
  then obtain y ys where "snd st = (y # ys, snd (snd st))" "st' = (Some y, ys, snd (snd st))"
    by (auto split: prod.splits list.splits if_splits)
  then show ?case
    unfolding advances_def by (intro exI [of _ "[y]"]) (auto simp: state_rest_def prod_eq_iff)
next
  case (Seq a b)
  then obtain u where "u \<in> set (rmatch a st)" and "st' \<in> set (rmatch b u)" by auto
  with Seq.IH show ?case using advances_trans by blast
next
  case (Star a)
  then show ?case using star_match_advances [of "rmatch a"] by simp
next
  case (Group i a)
  then obtain u where u: "u \<in> set (rmatch a st)"
    and "fst st' = fst u" "state_rest st' = state_rest u"
    by (auto simp: state_rest_def)
  with Group.IH [OF u] show ?case by (simp add: advances_def)
qed (auto split: prod.splits if_splits)

lemma match_at_append:
  assumes "match_at r p xs = Some (t, c, ys)"
  shows "xs = t @ ys"
proof -
  from assms obtain q zs where r: "rmatch r (p, xs, []) = (q, ys, c) # zs"
    and t: "t = take (length xs - length ys) xs"
    by (auto simp: match_at_def split: list.splits)
  then have "advances (p, xs, []) (q, ys, c)"
    by (intro rmatch_advances [of _ r]) simp
  then obtain us where "xs = us @ ys" by (auto simp: advances_def state_rest_def)
  with t show ?thesis by simp
qed

lemma search_from_append:
  "search_from r seen p xs = Some m \<Longrightarrow> rev seen @ xs = m_before m @ m_text m @ m_after m"
proof (induction r seen p xs rule: search_from.induct)
  case (1 r seen p xs)
  show ?case
  proof (cases "match_at r p xs")
    case None
    with 1 show ?thesis
      by (cases xs) (auto simp: search_from.simps [of r seen p])
  next
    case (Some z)
    with 1 show ?thesis
      by (cases z) (auto simp: search_from.simps [of r seen p] dest: match_at_append)
  qed
qed

lemma search_append: "search r s = Some m \<Longrightarrow> s = m_before m @ m_text m @ m_after m"
  using search_from_append [of r "[]" None s m] by (simp add: search_def)

lemma search_from_found:
  "search_from r seen p [] \<noteq> None \<longleftrightarrow> match_at r p [] \<noteq> None"
  "search_from r seen p (x # xs) \<noteq> None \<longleftrightarrow>
     match_at r p (x # xs) \<noteq> None \<or> search_from r (x # seen) (Some x) xs \<noteq> None"
  by (subst search_from.simps, simp split: option.splits)+

section \<open>Whole words\<close>

definition boundary :: "char option \<Rightarrow> char option \<Rightarrow> bool" where
  "boundary p q \<longleftrightarrow> at_word p \<noteq> at_word q"

lemma rmatch_lit:
  "rmatch (lit w) (p, xs, c) =
     (if startswith xs w then [(if w = [] then p else Some (last w), drop (length w) xs, c)] else [])"
proof (induction w arbitrary: p xs)
  case Nil
  then show ?case by simp
next
  case (Cons a w)
  then show ?case by (cases xs) (auto simp: chr_def startswith_def)
qed

lemma match_at_word:
  assumes "w \<noteq> []"
  shows "match_at (seqs [WordB, lit w, WordB]) p xs \<noteq> None \<longleftrightarrow>
    (\<exists>ys. xs = w @ ys \<and> boundary p (next_char w) \<and> boundary (Some (last w)) (next_char ys))"
proof -
  have hd: "next_char (w @ ys) = next_char w" for ys
    using assms by (cases w) (auto simp: next_char_def)
  have "startswith xs w \<longleftrightarrow> (\<exists>ys. xs = w @ ys)"
    unfolding startswith_def by (metis append_eq_conv_conj append_take_drop_id)
  then show ?thesis
    using assms
    by (auto simp: match_at_def rmatch_lit boundary_def hd split: list.splits)
qed

lemma search_from_word:
  assumes "w \<noteq> []"
  shows "search_from (seqs [WordB, lit w, WordB]) seen p xs \<noteq> None \<longleftrightarrow>
    (\<exists>a ys. xs = a @ w @ ys \<and> boundary (if a = [] then p else Some (last a)) (next_char w)
      \<and> boundary (Some (last w)) (next_char ys))"
proof (induction xs arbitrary: seen p)
  case Nil
  show ?case
    unfolding search_from_found match_at_word [OF assms] using assms by simp
next
  case (Cons x xs)
  let ?W = "\<lambda>p xs. \<exists>a ys. xs = a @ w @ ys \<and> boundary (if a = [] then p else Some (last a)) (next_char w)
      \<and> boundary (Some (last w)) (next_char ys)"
  have "?W p (x # xs) \<longleftrightarrow>
      (\<exists>ys. x # xs = w @ ys \<and> boundary p (next_char w) \<and> boundary (Some (last w)) (next_char ys))
      \<or> ?W (Some x) xs"
    (is "?L \<longleftrightarrow> ?A \<or> ?B")
  proof
    assume ?L
    then obtain a ys where "x # xs = a @ w @ ys"
      "boundary (if a = [] then p else Some (last a)) (next_char w)"
      "boundary (Some (last w)) (next_char ys)" by blast
    then show "?A \<or> ?B" by (cases a) (auto split: if_splits)
  next
    assume "?A \<or> ?B"
    then show ?L
    proof
      assume ?A
      then obtain ys where "x # xs = w @ ys" "boundary p (next_char w)"
        "boundary (Some (last w)) (next_char ys)" by blast
      then show ?L by (intro exI [of _ "[]"] exI [of _ ys]) simp
    next
      assume ?B
      then obtain a ys where "xs = a @ w @ ys"
        "boundary (if a = [] then Some x else Some (last a)) (next_char w)"
        "boundary (Some (last w)) (next_char ys)" by blast
      then show ?L by (intro exI [of _ "x # a"] exI [of _ ys]) (auto split: if_splits)
    qed
  qed
  then show ?case
    unfolding search_from_found match_at_word [OF assms] Cons by simp
qed

text \<open>\<open>\\bword\\b\<close> is found exactly where the word stands between word boundaries.\<close>

lemma has_word_iff:
  assumes "w \<noteq> []"
  shows "has_word text w \<longleftrightarrow>
    (\<exists>a ys. text = a @ w @ ys \<and> boundary (if a = [] then None else Some (last a)) (next_char w)
      \<and> boundary (Some (last w)) (next_char ys))"
  using search_from_word [OF assms] by (simp add: has_word_def search_def)

end
