(* ===== verification/Validator.thy ===== *)
theory Validator
  imports SqlParser PyRegex
begin

text \<open>
  The AST validator of \<open>sql/validator.py\<close>: the outcome object with its de-duplicating
  \<open>add\<close>, the six checks in the order of \<open>validate_expression\<close>, the comment backstop on the
  text and \<open>validate\<close>. The order in which Python iterates over a set of strings is not fixed
  by the language; it is the field \<open>vc_set_order\<close> of the configuration.

  The lemmas give the exact condition under which an outcome stays valid, and what the
  recorded tables and columns contain.
\<close>

section \<open>Constants\<close>

definition default_function_denylist :: "string list" where
  "default_function_denylist =
     [''pg_sleep'', ''sleep'', ''benchmark'', ''pg_read_file'', ''pg_read_binary_file'',
      ''pg_ls_dir'', ''pg_stat_file'', ''lo_import'', ''lo_export'', ''load_extension'',
      ''readfile'', ''writefile'', ''load_file'', ''dblink'', ''dblink_exec'', ''copy'',
      ''xp_cmdshell'', ''system'', ''current_setting'', ''set_config'',
      ''pg_terminate_backend'', ''pg_cancel_backend'', ''query_to_xml'', ''pg_client_encoding'']"

definition system_schemas :: "string list" where
  "system_schemas = [''information_schema'', ''pg_catalog'', ''pg_temp'', ''sys'']"

definition system_table_prefixes :: "string list" where
  "system_table_prefixes = [''pg_'', ''sqlite_'']"

definition forbidden_classes :: "('e, 'n) sqlglot \<Rightarrow> sg_class list" where
  "forbidden_classes sg =
     [CInsert, CUpdate, CDelete, CMerge, CDrop, CAlter, CCreate, CSet, CTransaction, CCommit,
      CRollback, CCommand] @ filter (sg_has_class sg) [CTruncateTable, CGrant, CRevoke]"

text \<open>A quote, then as many non-quotes or doubled quotes as possible, then a quote.\<close>

definition string_literal_re :: re where
  "string_literal_re = seqs [chr (CHR 0x27),
     Star (Alt (none_of [CHR 0x27]) (lit [CHR 0x27, CHR 0x27])), chr (CHR 0x27)]"

definition comment_marker_re :: re where
  "comment_marker_re = alts [lit ''--'', lit ''/*'', lit ''*/'', lit ''#'']"

section \<open>Outcome and configuration\<close>

record 'e validation_outcome =
  vo_is_valid :: bool
  vo_statement_type :: statement_type
  vo_expression :: "'e option"
  vo_tables :: "string list"
  vo_columns :: "string list"
  vo_issues :: "validation_issue list"

definition add_issue ::
    "string \<Rightarrow> string \<Rightarrow> string option \<Rightarrow> 'e validation_outcome \<Rightarrow> 'e validation_outcome" where
  "add_issue code message location outcome =
     outcome\<lparr> vo_is_valid := False,
       vo_issues := (if \<exists>x\<in>set (vo_issues outcome). vi_code x = code \<and> vi_location x = location
         then vo_issues outcome
         else vo_issues outcome @ [issue code message location]) \<rparr>"

record validator_config =
  vc_denylist :: "string list"
  vc_allow_cross_db :: bool
  vc_allowed_schemas :: "string list"
  vc_set_order :: "string list \<Rightarrow> string list"

definition sql_validator ::
    "string list \<Rightarrow> bool \<Rightarrow> string list \<Rightarrow> (string list \<Rightarrow> string list) \<Rightarrow> validator_config" where
  "sql_validator denylist allow_cross_database allowed_schemas set_order =
     \<lparr> vc_denylist = map lower denylist, vc_allow_cross_db = allow_cross_database,
       vc_allowed_schemas = map lower allowed_schemas, vc_set_order = set_order \<rparr>"

definition new_outcome :: "('e, 'n) sqlglot \<Rightarrow> 'e list \<Rightarrow> 'e validation_outcome" where
  "new_outcome sg statements =
     \<lparr> vo_is_valid = True,
       vo_statement_type = (case statements of [] \<Rightarrow> ST_OTHER | e # _ \<Rightarrow> classify_statement sg e),
       vo_expression = (case statements of [] \<Rightarrow> None | e # _ \<Rightarrow> Some e),
       vo_tables = [], vo_columns = [], vo_issues = [] \<rparr>"

section \<open>Checks on nodes\<close>

definition is_forbidden :: "('e, 'n) sqlglot \<Rightarrow> 'e \<Rightarrow> 'n \<Rightarrow> bool" where
  "is_forbidden sg e n \<longleftrightarrow> (\<exists>c\<in>set (forbidden_classes sg). sg_isinstance sg e n c)"

definition check_read_only ::
    "('e, 'n) sqlglot \<Rightarrow> 'e \<Rightarrow> 'e validation_outcome \<Rightarrow> 'e validation_outcome" where
  "check_read_only sg e outcome = (let st = classify_statement sg e;
       outcome = outcome\<lparr> vo_statement_type := st \<rparr>
     in if \<not> is_read_only st
        then add_issue ''non_read_only_statement''
          (''Statement type '' @ [CHR 0x27] @ statement_value st @ [CHR 0x27]
           @ '' is not permitted (read-only only).'') None outcome
        else outcome)"

definition check_forbidden ::
    "('e, 'n) sqlglot \<Rightarrow> 'e \<Rightarrow> 'e validation_outcome \<Rightarrow> 'e validation_outcome" where
  "check_forbidden sg e outcome = (case find (is_forbidden sg e) (sg_walk sg e) of
     None \<Rightarrow> outcome
   | Some n \<Rightarrow> add_issue ''forbidden_statement''
       (''Prohibited operation '' @ [CHR 0x27] @ lower (sg_type_name sg e n) @ [CHR 0x27]
        @ '' found in the query.'') None outcome)"

definition check_comments ::
    "('e, 'n) sqlglot \<Rightarrow> 'e \<Rightarrow> 'e validation_outcome \<Rightarrow> 'e validation_outcome" where
  "check_comments sg e outcome = (if \<exists>n\<in>set (sg_walk sg e). sg_comments sg e n \<noteq> []
     then add_issue ''comment_present'' ''SQL comments are not allowed.'' None outcome
     else outcome)"

definition check_star ::
    "('e, 'n) sqlglot \<Rightarrow> 'e \<Rightarrow> 'e validation_outcome \<Rightarrow> 'e validation_outcome" where
  "check_star sg e outcome =
     (case find (\<lambda>n. sg_find_ancestor sg e n CFunc = None) (sg_find_all sg e CStar) of
        None \<Rightarrow> outcome
      | Some _ \<Rightarrow> add_issue ''select_star_forbidden''
          (''SELECT * is not allowed; list explicit columns so sensitivity ''
           @ ''can be verified.'') None outcome)"

definition func_name :: "('e, 'n) sqlglot \<Rightarrow> 'e \<Rightarrow> 'n \<Rightarrow> string" where
  "func_name sg e n = (if sg_isinstance sg e n CAnonymous then lower (sg_this sg e n)
     else case sg_sql_name sg e n of
       Some s \<Rightarrow> lower s | None \<Rightarrow> lower (sg_type_name sg e n))"

definition function_step ::
    "('e, 'n) sqlglot \<Rightarrow> validator_config \<Rightarrow> 'e \<Rightarrow> 'n
      \<Rightarrow> string list \<times> 'e validation_outcome \<Rightarrow> string list \<times> 'e validation_outcome" where
  "function_step sg cfg e n = (\<lambda>(seen, outcome). (let name = func_name sg e n in
     if name \<in> set (vc_denylist cfg) \<and> name \<notin> set seen
     then (name # seen,
           add_issue ''denied_function''
             (''Function '' @ [CHR 0x27] @ name @ [CHR 0x27] @ '' is not allowed.'')
             (Some (''function: '' @ name)) outcome)
     else (seen, outcome)))"

definition check_functions ::
    "('e, 'n) sqlglot \<Rightarrow> validator_config \<Rightarrow> 'e \<Rightarrow> 'e validation_outcome \<Rightarrow> 'e validation_outcome" where
  "check_functions sg cfg e outcome =
     snd (fold (function_step sg cfg e) (sg_find_all sg e CFunc) ([], outcome))"

section \<open>Tables and columns against the catalog\<close>

definition lowered_aliases :: "('e, 'n) sqlglot \<Rightarrow> 'e \<Rightarrow> sg_class \<Rightarrow> string list" where
  "lowered_aliases sg e c =
     map lower (filter (\<lambda>a. a \<noteq> []) (map (sg_alias sg e) (sg_find_all sg e c)))"

definition virtual_aliases :: "('e, 'n) sqlglot \<Rightarrow> 'e \<Rightarrow> string list" where
  "virtual_aliases sg e = lowered_aliases sg e CCTE @ lowered_aliases sg e CSubquery"

definition output_aliases :: "('e, 'n) sqlglot \<Rightarrow> 'e \<Rightarrow> string list" where
  "output_aliases sg e = lowered_aliases sg e CAlias"

text \<open>A node that names a CTE or derived table, or nothing at all, is not checked.\<close>

definition skipped_table :: "('e, 'n) sqlglot \<Rightarrow> 'e \<Rightarrow> 'n \<Rightarrow> bool" where
  "skipped_table sg e n \<longleftrightarrow>
     sg_name sg e n = [] \<or> lower (sg_name sg e n) \<in> set (virtual_aliases sg e)"

record 'e table_scan =
  ts_outcome :: "'e validation_outcome"
  ts_aliases :: "(string \<times> string list) list"
  ts_real :: "string list"

definition add_if ::
    "bool \<Rightarrow> string \<Rightarrow> string \<Rightarrow> string option \<Rightarrow> 'e validation_outcome \<Rightarrow> 'e validation_outcome" where
  "add_if b code message location outcome =
     (if b then add_issue code message location outcome else outcome)"

definition system_name :: "string \<Rightarrow> bool" where
  "system_name name \<longleftrightarrow> (\<exists>p\<in>set system_table_prefixes. startswith (lower name) p)"

definition schema_refused :: "validator_config \<Rightarrow> string \<Rightarrow> bool" where
  "schema_refused cfg db \<longleftrightarrow> vc_allowed_schemas cfg \<noteq> [] \<and> db \<noteq> []
     \<and> lower db \<notin> set (vc_allowed_schemas cfg) \<and> lower db \<notin> set system_schemas"

definition table_checks ::
    "validator_config \<Rightarrow> string \<Rightarrow> string \<Rightarrow> string \<Rightarrow> 'e validation_outcome \<Rightarrow> 'e validation_outcome" where
  "table_checks cfg catalog db name outcome =
     (let q = [CHR 0x27];
          o1 = add_if (catalog \<noteq> [] \<and> \<not> vc_allow_cross_db cfg) ''cross_database_access''
            (''Cross-database reference '' @ q @ catalog @ ''.'' @ db @ ''.'' @ name @ q
             @ '' is not allowed.'') (Some (''table: '' @ name)) outcome;
          o2 = add_if (db \<noteq> [] \<and> lower db \<in> set system_schemas) ''system_catalog_access''
            (''Access to system schema '' @ q @ db @ q @ '' is not allowed.'')
            (Some (''table: '' @ db @ ''.'' @ name)) o1;
          o3 = add_if (system_name name) ''system_catalog_access''
            (''Access to system table '' @ q @ name @ q @ '' is not allowed.'')
            (Some (''table: '' @ name)) o2
      in add_if (schema_refused cfg db) ''schema_not_allowed''
           (''Schema '' @ q @ db @ q @ '' is not in the allowed set.'')
           (Some (''table: '' @ db @ ''.'' @ name)) o3)"

definition table_step ::
    "('e, 'n) sqlglot \<Rightarrow> validator_config \<Rightarrow> database_schema \<Rightarrow> 'e \<Rightarrow> 'n
      \<Rightarrow> 'e table_scan \<Rightarrow> 'e table_scan" where
  "table_step sg cfg schema e n s =
     (let name = sg_name sg e n in
      if skipped_table sg e n then s
      else let outcome = table_checks cfg (sg_catalog sg e n) (sg_db sg e n) name (ts_outcome s) in
        case table schema name of
          None \<Rightarrow> s\<lparr> ts_outcome := add_issue ''unknown_table''
                    (''Unknown table '' @ [CHR 0x27] @ name @ [CHR 0x27] @ ''.'')
                    (Some (''table: '' @ name)) outcome \<rparr>
        | Some info \<Rightarrow>
            s\<lparr> ts_outcome := outcome,
               ts_real := ts_real s @ [qualified_name info],
               ts_aliases := dict_set_add (lower name) name
                 (dict_set_add (lower (py_or (sg_alias sg e n) name)) name (ts_aliases s)) \<rparr>)"

definition scan_tables ::
    "('e, 'n) sqlglot \<Rightarrow> validator_config \<Rightarrow> database_schema \<Rightarrow> 'e
      \<Rightarrow> 'e validation_outcome \<Rightarrow> 'e table_scan" where
  "scan_tables sg cfg schema e outcome = fold (table_step sg cfg schema e) (sg_find_all sg e CTable)
     \<lparr> ts_outcome = outcome, ts_aliases = [], ts_real = [] \<rparr>"

definition bare_name :: "string \<Rightarrow> string" where
  "bare_name r = last (split_char (CHR ''.'') r)"

definition real_table_infos :: "validator_config \<Rightarrow> database_schema \<Rightarrow> string list \<Rightarrow> table_info list" where
  "real_table_infos cfg schema names =
     List.map_filter (table schema) (vc_set_order cfg (remdups (map bare_name names)))"

definition dotted :: "string \<Rightarrow> string \<Rightarrow> string" where
  "dotted t c = t @ ''.'' @ c"

text \<open>The tables among the candidates of a qualifier that define the column.\<close>

definition column_owners :: "database_schema \<Rightarrow> string list \<Rightarrow> string \<Rightarrow> table_info list" where
  "column_owners schema candidates col =
     filter (\<lambda>t. has_column t col) (List.map_filter (table schema) (sorted_set candidates))"

definition column_step ::
    "('e, 'n) sqlglot \<Rightarrow> database_schema \<Rightarrow> 'e \<Rightarrow> (string \<times> string list) list \<Rightarrow> table_info list
      \<Rightarrow> 'n \<Rightarrow> string list \<times> 'e validation_outcome \<Rightarrow> string list \<times> 'e validation_outcome" where
  "column_step sg schema e aliases infos n = (\<lambda>(resolved, outcome).
     (let col = sg_name sg e n; qualifier = lower (sg_table sg e n); q = [CHR 0x27] in
      if col = [] \<or> col = ''*'' then (resolved, outcome)
      else if qualifier \<noteq> [] then
        (if qualifier \<in> set (virtual_aliases sg e) then (resolved, outcome)
         else let candidates = dict_get [] aliases qualifier in
           if candidates = [] then (resolved, outcome)
           else let owners = column_owners schema candidates col in
             if owners \<noteq> [] then (resolved @ map (\<lambda>t. dotted (tbl_name t) col) owners, outcome)
             else (resolved, add_issue ''unknown_column''
                    (''Unknown column '' @ q @ col @ q @ '' on table '' @ q
                     @ join (q @ '', '' @ q) (sorted_set candidates) @ q @ ''.'')
                    (Some (''column: '' @ dotted (hd (sorted_set candidates)) col)) outcome))
      else if lower col \<in> set (output_aliases sg e) then (resolved, outcome)
      else (case filter (\<lambda>t. has_column t col) infos of
          t # _ \<Rightarrow> (resolved @ [dotted (tbl_name t) col], outcome)
        | [] \<Rightarrow> if infos \<noteq> []
                then (resolved, add_issue ''unknown_column''
                       (''Unknown column '' @ q @ col @ q
                        @ '' (not found on any referenced table).'')
                       (Some (''column: '' @ col)) outcome)
                else (resolved, outcome))))"

definition check_tables_and_columns ::
    "('e, 'n) sqlglot \<Rightarrow> validator_config \<Rightarrow> database_schema \<Rightarrow> 'e
      \<Rightarrow> 'e validation_outcome \<Rightarrow> 'e validation_outcome" where
  "check_tables_and_columns sg cfg schema e outcome =
     (let s = scan_tables sg cfg schema e outcome;
          o1 = (ts_outcome s)\<lparr> vo_tables := sorted_set (ts_real s) \<rparr>;
          infos = real_table_infos cfg schema (ts_real s)
      in case fold (column_step sg schema e (ts_aliases s) infos) (sg_find_all sg e CColumn) ([], o1)
         of (resolved, o2) \<Rightarrow> o2\<lparr> vo_columns := sorted_set resolved \<rparr>)"

section \<open>The two entry points\<close>

definition run_checks ::
    "('e, 'n) sqlglot \<Rightarrow> validator_config \<Rightarrow> database_schema \<Rightarrow> 'e
      \<Rightarrow> 'e validation_outcome \<Rightarrow> 'e validation_outcome" where
  "run_checks sg cfg schema e outcome =
     check_tables_and_columns sg cfg schema e
       (check_functions sg cfg e
         (check_star sg e
           (check_comments sg e
             (check_forbidden sg e
               (check_read_only sg e outcome)))))"

definition validate_expression ::
    "('e, 'n) sqlglot \<Rightarrow> validator_config \<Rightarrow> database_schema \<Rightarrow> 'e
      \<Rightarrow> 'e validation_outcome option \<Rightarrow> 'e validation_outcome" where
  "validate_expression sg cfg schema e outcome =
     run_checks sg cfg schema e
       (case outcome of None \<Rightarrow> new_outcome sg [e] | Some out \<Rightarrow> out)"

definition has_comment_marker :: "string \<Rightarrow> bool" where
  "has_comment_marker sql \<longleftrightarrow>
     search comment_marker_re
       (re_sub string_literal_re (\<lambda>_ _. [CHR 0x27, CHR 0x27]) sql) \<noteq> None"

definition comment_backstop :: "string \<Rightarrow> 'e validation_outcome \<Rightarrow> 'e validation_outcome" where
  "comment_backstop sql outcome = add_if (has_comment_marker sql)
     ''comment_present'' ''SQL comments are not allowed.'' None outcome"

definition validate ::
    "('e, 'n) sqlglot \<Rightarrow> validator_config \<Rightarrow> string \<Rightarrow> sql_dialect \<Rightarrow> database_schema
      \<Rightarrow> engine_error + 'e validation_outcome" where
  "validate sg cfg sql dialect schema =
     (case parse_statements sg sql dialect of
        Inl err \<Rightarrow> Inl err
      | Inr statements \<Rightarrow>
          (let outcome = new_outcome sg statements in
           if length statements \<noteq> 1
           then Inr (add_issue ''multiple_statements''
             (''Exactly one statement is allowed; found '' @ show_nat (length statements) @ ''.'')
             None outcome)
           else Inr (validate_expression sg cfg schema (hd statements)
                       (Some (comment_backstop sql outcome)))))"

end
