(* ===== verification/ValidatorProps.thy ===== *)
theory ValidatorProps
  imports Validator
begin

text \<open>
  What the validator establishes: the exact condition for an expression to be valid, as a
  conjunction of one clause per rule, and the exact contents of the recorded tables and
  columns.
\<close>

section \<open>The outcome object\<close>

named_theorems outcome_simps \<open>how the checks act on the fields of an outcome\<close>

lemma add_issue_fields [simp, outcome_simps]:
  "vo_is_valid (add_issue c m l out) = False"
  "vo_statement_type (add_issue c m l out) = vo_statement_type out"
  "vo_expression (add_issue c m l out) = vo_expression out"
  "vo_tables (add_issue c m l out) = vo_tables out"
  "vo_columns (add_issue c m l out) = vo_columns out"
  by (simp_all add: add_issue_def)

lemma add_if_valid [simp, outcome_simps]: "vo_is_valid (add_if b c m l out) \<longleftrightarrow> vo_is_valid out \<and> \<not> b"
  by (simp add: add_if_def)

lemma add_if_fields [simp, outcome_simps]:
  "vo_expression (add_if b c m l out) = vo_expression out"
  "vo_statement_type (add_if b c m l out) = vo_statement_type out"
  by (simp_all add: add_if_def)

text \<open>Issues are only ever added, and an invalid outcome always carries one.\<close>

definition outcome_ok :: "'e validation_outcome \<Rightarrow> bool" where
  "outcome_ok out \<longleftrightarrow> (vo_is_valid out \<longleftrightarrow> vo_issues out = [])"

definition issues_distinct :: "'e validation_outcome \<Rightarrow> bool" where
  "issues_distinct out \<longleftrightarrow> distinct (map (\<lambda>i. (vi_code i, vi_location i)) (vo_issues out))"

lemma add_issue_ok [simp]: "outcome_ok (add_issue c m l out)"
  by (auto simp: outcome_ok_def add_issue_def)

lemma add_if_ok [simp]: "outcome_ok out \<Longrightarrow> outcome_ok (add_if b c m l out)"
  by (simp add: add_if_def)

lemma add_issue_distinct [simp]: "issues_distinct out \<Longrightarrow> issues_distinct (add_issue c m l out)"
  by (auto simp: issues_distinct_def add_issue_def)

lemma add_if_distinct [simp]: "issues_distinct out \<Longrightarrow> issues_distinct (add_if b c m l out)"
  by (simp add: add_if_def)

text \<open>Every check keeps a property that the basic operations keep.\<close>

definition closed_property :: "('e validation_outcome \<Rightarrow> bool) \<Rightarrow> bool" where
  "closed_property P \<longleftrightarrow>
     (\<forall>out c m l. P out \<longrightarrow> P (add_issue c m l out))
     \<and> (\<forall>out t. P out \<longrightarrow> P (out\<lparr> vo_statement_type := t \<rparr>))
     \<and> (\<forall>out ts. P out \<longrightarrow> P (out\<lparr> vo_tables := ts \<rparr>))
     \<and> (\<forall>out cs. P out \<longrightarrow> P (out\<lparr> vo_columns := cs \<rparr>))"

lemma closed_add_if: "closed_property P \<Longrightarrow> P out \<Longrightarrow> P (add_if b c m l out)"
  by (simp add: add_if_def closed_property_def)

lemma closed_table_step:
  "closed_property P \<Longrightarrow> P (ts_outcome s) \<Longrightarrow> P (ts_outcome (table_step sg cfg schema e n s))"
  by (auto simp: table_step_def table_checks_def Let_def closed_add_if split: option.splits)
    (simp add: closed_property_def closed_add_if)

lemma closed_column_step:
  "closed_property P \<Longrightarrow> P (snd x) \<Longrightarrow> P (snd (column_step sg schema e al infos n x))"
  by (cases x) (auto simp: column_step_def Let_def closed_property_def split: list.splits)

lemma closed_run_checks:
  assumes P: "closed_property P" and "P out"
  shows "P (run_checks sg cfg schema e out)"
proof -
  note add = P [unfolded closed_property_def]
  let ?o4 = "check_star sg e (check_comments sg e (check_forbidden sg e (check_read_only sg e out)))"
  have "P ?o4"
    using add \<open>P out\<close>
    by (simp add: check_star_def check_comments_def check_forbidden_def check_read_only_def Let_def
        split: option.splits)
  moreover have "P (snd (function_step sg cfg e n x))" if "P (snd x)" for n x
    using add that by (cases x) (simp add: function_step_def Let_def)
  ultimately have o5: "P (check_functions sg cfg e ?o4)"
    unfolding check_functions_def by (intro fold_invariant [of "P \<circ> snd", unfolded comp_def]) auto
  let ?s = "scan_tables sg cfg schema e (check_functions sg cfg e ?o4)"
  have s: "P (ts_outcome ?s)"
    unfolding scan_tables_def
    by (rule fold_invariant [of "\<lambda>s. P (ts_outcome s)"]) (auto simp: o5 closed_table_step [OF P])
  let ?o6 = "(ts_outcome ?s)\<lparr> vo_tables := sorted_set (ts_real ?s) \<rparr>"
  let ?r = "fold (column_step sg schema e (ts_aliases ?s) (real_table_infos cfg schema (ts_real ?s)))
      (sg_find_all sg e CColumn) ([], ?o6)"
  have "P (snd ?r)"
    by (rule fold_invariant [of "\<lambda>x. P (snd x)"])
      (use s add in \<open>auto intro: closed_column_step [OF P]\<close>)
  then show ?thesis
    using add by (simp add: run_checks_def check_tables_and_columns_def Let_def case_prod_beta)
qed

lemma closed_outcome_ok: "closed_property outcome_ok"
  by (simp add: closed_property_def) (simp add: outcome_ok_def)

lemma closed_issues_distinct: "closed_property issues_distinct"
  by (simp add: closed_property_def) (simp add: issues_distinct_def)

lemma new_outcome_ok: "outcome_ok (new_outcome sg es)" "issues_distinct (new_outcome sg es)"
  by (simp_all add: new_outcome_def outcome_ok_def issues_distinct_def)

lemma validate_expression_ok:
  "outcome_ok (validate_expression sg cfg schema e None)"
  "issues_distinct (validate_expression sg cfg schema e None)"
  by (simp_all add: validate_expression_def new_outcome_ok
      closed_run_checks [OF closed_outcome_ok] closed_run_checks [OF closed_issues_distinct])

lemma validate_ok:
  assumes "validate sg cfg sql d schema = Inr out"
  shows "outcome_ok out" "issues_distinct out"
  using assms
  by (auto simp: validate_def Let_def validate_expression_def comment_backstop_def new_outcome_ok
      intro!: closed_run_checks [OF closed_outcome_ok] closed_run_checks [OF closed_issues_distinct]
      split: sum.splits if_splits)

section \<open>Validity, rule by rule\<close>

lemma valid_read_only:
  "vo_is_valid (check_read_only sg e out) \<longleftrightarrow> vo_is_valid out \<and> is_read_only (classify_statement sg e)"
  by (simp add: check_read_only_def Let_def)

lemma find_None_ball: "find P xs = None \<longleftrightarrow> (\<forall>x\<in>set xs. \<not> P x)"
  by (auto simp: find_None_iff)

lemma valid_forbidden:
  "vo_is_valid (check_forbidden sg e out) \<longleftrightarrow>
     vo_is_valid out \<and> (\<forall>n\<in>set (sg_walk sg e). \<not> is_forbidden sg e n)"
  using find_None_ball [of "is_forbidden sg e" "sg_walk sg e"]
  by (auto simp: check_forbidden_def split: option.splits)

lemma valid_comments:
  "vo_is_valid (check_comments sg e out) \<longleftrightarrow>
     vo_is_valid out \<and> (\<forall>n\<in>set (sg_walk sg e). sg_comments sg e n = [])"
  by (auto simp: check_comments_def)

lemma valid_star:
  "vo_is_valid (check_star sg e out) \<longleftrightarrow>
     vo_is_valid out \<and> (\<forall>n\<in>set (sg_find_all sg e CStar). sg_find_ancestor sg e n CFunc \<noteq> None)"
  using find_None_ball [of "\<lambda>n. sg_find_ancestor sg e n CFunc = None" "sg_find_all sg e CStar"]
  by (auto simp: check_star_def split: option.splits)

definition function_ok :: "('e, 'n) sqlglot \<Rightarrow> validator_config \<Rightarrow> 'e \<Rightarrow> 'n \<Rightarrow> bool" where
  "function_ok sg cfg e n \<longleftrightarrow> func_name sg e n \<notin> set (vc_denylist cfg)"

lemma valid_functions_fold:
  "(seen \<noteq> [] \<longrightarrow> \<not> vo_is_valid out) \<Longrightarrow>
   vo_is_valid (snd (fold (function_step sg cfg e) ns (seen, out))) \<longleftrightarrow>
     vo_is_valid out \<and> (\<forall>n\<in>set ns. function_ok sg cfg e n)"
  by (induction ns arbitrary: seen out) (auto simp: function_step_def function_ok_def Let_def)

lemma valid_functions:
  "vo_is_valid (check_functions sg cfg e out) \<longleftrightarrow>
     vo_is_valid out \<and> (\<forall>n\<in>set (sg_find_all sg e CFunc). function_ok sg cfg e n)"
  by (simp add: check_functions_def valid_functions_fold)

section \<open>The scan of the tables\<close>

definition table_ok ::
    "('e, 'n) sqlglot \<Rightarrow> validator_config \<Rightarrow> database_schema \<Rightarrow> 'e \<Rightarrow> 'n \<Rightarrow> bool" where
  "table_ok sg cfg schema e n \<longleftrightarrow> skipped_table sg e n \<or>
     (sg_catalog sg e n = [] \<or> vc_allow_cross_db cfg)
     \<and> (sg_db sg e n = [] \<or> lower (sg_db sg e n) \<notin> set system_schemas)
     \<and> \<not> system_name (sg_name sg e n)
     \<and> \<not> schema_refused cfg (sg_db sg e n)
     \<and> has_table schema (sg_name sg e n)"

lemma valid_table_step:
  "vo_is_valid (ts_outcome (table_step sg cfg schema e n s)) \<longleftrightarrow>
     vo_is_valid (ts_outcome s) \<and> table_ok sg cfg schema e n"
  by (auto simp: table_step_def table_checks_def table_ok_def has_table_def Let_def
      split: option.splits)

lemma valid_scan_tables:
  "vo_is_valid (ts_outcome (scan_tables sg cfg schema e out)) \<longleftrightarrow>
     vo_is_valid out \<and> (\<forall>n\<in>set (sg_find_all sg e CTable). table_ok sg cfg schema e n)"
  unfolding scan_tables_def
  by (subst fold_bool_conj [of _ "\<lambda>s. vo_is_valid (ts_outcome s)"]) (auto simp: valid_table_step)

text \<open>The nodes that denote catalog tables, and what a qualifier may denote.\<close>

definition catalog_nodes :: "('e, 'n) sqlglot \<Rightarrow> database_schema \<Rightarrow> 'e \<Rightarrow> 'n list" where
  "catalog_nodes sg schema e = filter
     (\<lambda>n. \<not> skipped_table sg e n \<and> has_table schema (sg_name sg e n)) (sg_find_all sg e CTable)"

definition denotes ::
    "('e, 'n) sqlglot \<Rightarrow> database_schema \<Rightarrow> 'e \<Rightarrow> string \<Rightarrow> string \<Rightarrow> bool" where
  "denotes sg schema e q name \<longleftrightarrow> (\<exists>n\<in>set (catalog_nodes sg schema e).
     name = sg_name sg e n \<and> (q = lower name \<or> q = lower (py_or (sg_alias sg e n) name)))"

definition referenced_infos :: "('e, 'n) sqlglot \<Rightarrow> database_schema \<Rightarrow> 'e \<Rightarrow> table_info list" where
  "referenced_infos sg schema e =
     map (\<lambda>n. the (table schema (sg_name sg e n))) (catalog_nodes sg schema e)"

lemma scan_fold_real:
  "ts_real (fold (table_step sg cfg schema e) ns s) = ts_real s @
     map (\<lambda>n. qualified_name (the (table schema (sg_name sg e n))))
       (filter (\<lambda>n. \<not> skipped_table sg e n \<and> has_table schema (sg_name sg e n)) ns)"
  by (induction ns arbitrary: s)
    (auto simp: table_step_def has_table_def Let_def split: option.splits)

lemma scan_real:
  "ts_real (scan_tables sg cfg schema e out) = map qualified_name (referenced_infos sg schema e)"
  by (simp add: scan_tables_def scan_fold_real referenced_infos_def catalog_nodes_def)

lemma scan_fold_aliases:
  "set (dict_get [] (ts_aliases (fold (table_step sg cfg schema e) ns s)) q) =
     set (dict_get [] (ts_aliases s) q) \<union>
     {sg_name sg e n |n. n \<in> set ns \<and> \<not> skipped_table sg e n \<and> has_table schema (sg_name sg e n) \<and>
        (q = lower (sg_name sg e n) \<or> q = lower (py_or (sg_alias sg e n) (sg_name sg e n)))}"
proof (induction ns arbitrary: s)
  case Nil
  then show ?case by simp
next
  case (Cons n ns)
  have "set (dict_get [] (ts_aliases (table_step sg cfg schema e n s)) q) =
      set (dict_get [] (ts_aliases s) q) \<union>
      (if \<not> skipped_table sg e n \<and> has_table schema (sg_name sg e n) \<and>
          (q = lower (sg_name sg e n) \<or> q = lower (py_or (sg_alias sg e n) (sg_name sg e n)))
       then {sg_name sg e n} else {})"
    by (auto simp: table_step_def has_table_def Let_def dict_get_set_add split: option.splits)
  with Cons show ?case by (auto split: if_splits)
qed

lemma scan_aliases:
  "set (dict_get [] (ts_aliases (scan_tables sg cfg schema e out)) q) =
     {name. denotes sg schema e q name}"
  unfolding scan_tables_def scan_fold_aliases
  by (auto simp: denotes_def catalog_nodes_def dict_get_def)

section \<open>The scan of the columns\<close>

definition owners_of ::
    "('e, 'n) sqlglot \<Rightarrow> database_schema \<Rightarrow> 'e \<Rightarrow> string \<Rightarrow> string \<Rightarrow> table_info set" where
  "owners_of sg schema e q col =
     {t. \<exists>name. denotes sg schema e q name \<and> table schema name = Some t \<and> has_column t col}"

abbreviation infos_of ::
    "('e, 'n) sqlglot \<Rightarrow> validator_config \<Rightarrow> database_schema \<Rightarrow> 'e \<Rightarrow> table_info list" where
  "infos_of sg cfg schema e \<equiv>
     real_table_infos cfg schema (map qualified_name (referenced_infos sg schema e))"

definition column_ok ::
    "('e, 'n) sqlglot \<Rightarrow> validator_config \<Rightarrow> database_schema \<Rightarrow> 'e \<Rightarrow> 'n \<Rightarrow> bool" where
  "column_ok sg cfg schema e n \<longleftrightarrow>
     (let col = sg_name sg e n; q = lower (sg_table sg e n) in
      col = [] \<or> col = ''*''
      \<or> (if q \<noteq> []
         then q \<in> set (virtual_aliases sg e)
           \<or> (\<forall>name. \<not> denotes sg schema e q name)
           \<or> owners_of sg schema e q col \<noteq> {}
         else lower col \<in> set (output_aliases sg e)
           \<or> infos_of sg cfg schema e = []
           \<or> (\<exists>t\<in>set (infos_of sg cfg schema e). has_column t col)))"

definition column_refs ::
    "('e, 'n) sqlglot \<Rightarrow> validator_config \<Rightarrow> database_schema \<Rightarrow> 'e \<Rightarrow> 'n \<Rightarrow> string set" where
  "column_refs sg cfg schema e n =
     (let col = sg_name sg e n; q = lower (sg_table sg e n) in
      if col = [] \<or> col = ''*'' then {}
      else if q \<noteq> [] then
        (if q \<in> set (virtual_aliases sg e) then {}
         else (\<lambda>t. dotted (tbl_name t) col) ` owners_of sg schema e q col)
      else if lower col \<in> set (output_aliases sg e) then {}
      else (case filter (\<lambda>t. has_column t col) (infos_of sg cfg schema e) of
              [] \<Rightarrow> {} | t # _ \<Rightarrow> {dotted (tbl_name t) col}))"

lemma set_column_owners:
  assumes "\<And>name. name \<in> set candidates \<longleftrightarrow> denotes sg schema e q name"
  shows "set (column_owners schema candidates col) = owners_of sg schema e q col"
  using assms by (force simp: column_owners_def owners_of_def List.map_filter_def)

lemma column_step_spec:
  assumes al: "\<And>q. set (dict_get [] al q) = {name. denotes sg schema e q name}"
  shows "vo_is_valid (snd (column_step sg schema e al (infos_of sg cfg schema e) n x)) \<longleftrightarrow>
           vo_is_valid (snd x) \<and> column_ok sg cfg schema e n"
    and "set (fst (column_step sg schema e al (infos_of sg cfg schema e) n x)) =
           set (fst x) \<union> column_refs sg cfg schema e n"
proof -
  obtain resolved out where x: "x = (resolved, out)" by (cases x)
  define col q where "col = sg_name sg e n" and "q = lower (sg_table sg e n)"
  define cands where "cands = dict_get [] al q"
  have cands: "name \<in> set cands \<longleftrightarrow> denotes sg schema e q name" for name
    using al [of q] by (simp add: cands_def)
  then have none: "cands = [] \<longleftrightarrow> (\<forall>name. \<not> denotes sg schema e q name)"
    by (cases cands) auto
  have own: "set (column_owners schema cands col) = owners_of sg schema e q col"
    by (rule set_column_owners [OF cands])
  then have own_Nil: "column_owners schema cands col = [] \<longleftrightarrow> owners_of sg schema e q col = {}"
    by (cases "column_owners schema cands col") auto
  have empty: "(\<forall>name. \<not> denotes sg schema e q name) \<Longrightarrow> owners_of sg schema e q col = {}"
    by (simp add: owners_of_def)
  have found: "(\<exists>t\<in>set infos. has_column t col) \<longleftrightarrow> filter (\<lambda>t. has_column t col) infos \<noteq> []"
    for infos by (auto simp: filter_eq_Nil_iff)
  show "vo_is_valid (snd (column_step sg schema e al (infos_of sg cfg schema e) n x)) \<longleftrightarrow>
      vo_is_valid (snd x) \<and> column_ok sg cfg schema e n"
    unfolding x column_step_def column_ok_def Let_def prod.case
      col_def [symmetric] q_def [symmetric] cands_def [symmetric]
    by (auto simp: none own_Nil found split: list.splits)
  show "set (fst (column_step sg schema e al (infos_of sg cfg schema e) n x)) =
      set (fst x) \<union> column_refs sg cfg schema e n"
    unfolding x column_step_def column_refs_def Let_def prod.case
      col_def [symmetric] q_def [symmetric] cands_def [symmetric]
    using own empty by (auto simp: none own_Nil split: list.splits)
qed

lemma column_fold_spec:
  assumes al: "\<And>q. set (dict_get [] al q) = {name. denotes sg schema e q name}"
  shows "vo_is_valid (snd (fold (column_step sg schema e al (infos_of sg cfg schema e)) ns x)) \<longleftrightarrow>
           vo_is_valid (snd x) \<and> (\<forall>n\<in>set ns. column_ok sg cfg schema e n)"
    and "set (fst (fold (column_step sg schema e al (infos_of sg cfg schema e)) ns x)) =
           set (fst x) \<union> (\<Union>n\<in>set ns. column_refs sg cfg schema e n)"
proof -
  show "vo_is_valid (snd (fold (column_step sg schema e al (infos_of sg cfg schema e)) ns x)) \<longleftrightarrow>
      vo_is_valid (snd x) \<and> (\<forall>n\<in>set ns. column_ok sg cfg schema e n)"
    by (rule fold_bool_conj [of ns "\<lambda>x. vo_is_valid (snd x)"]) (rule column_step_spec(1) [OF al])
  show "set (fst (fold (column_step sg schema e al (infos_of sg cfg schema e)) ns x)) =
      set (fst x) \<union> (\<Union>n\<in>set ns. column_refs sg cfg schema e n)"
    by (induction ns arbitrary: x) (auto simp: column_step_spec(2) [OF al])
qed

section \<open>The whole validator\<close>

definition clean ::
    "('e, 'n) sqlglot \<Rightarrow> validator_config \<Rightarrow> database_schema \<Rightarrow> 'e \<Rightarrow> bool" where
  "clean sg cfg schema e \<longleftrightarrow>
     is_read_only (classify_statement sg e)
     \<and> (\<forall>n\<in>set (sg_walk sg e). \<not> is_forbidden sg e n)
     \<and> (\<forall>n\<in>set (sg_walk sg e). sg_comments sg e n = [])
     \<and> (\<forall>n\<in>set (sg_find_all sg e CStar). sg_find_ancestor sg e n CFunc \<noteq> None)
     \<and> (\<forall>n\<in>set (sg_find_all sg e CFunc). function_ok sg cfg e n)
     \<and> (\<forall>n\<in>set (sg_find_all sg e CTable). table_ok sg cfg schema e n)
     \<and> (\<forall>n\<in>set (sg_find_all sg e CColumn). column_ok sg cfg schema e n)"

lemma check_tables_and_columns_spec:
  "vo_is_valid (check_tables_and_columns sg cfg schema e out) \<longleftrightarrow>
     vo_is_valid out \<and> (\<forall>n\<in>set (sg_find_all sg e CTable). table_ok sg cfg schema e n)
     \<and> (\<forall>n\<in>set (sg_find_all sg e CColumn). column_ok sg cfg schema e n)"
  "set (vo_columns (check_tables_and_columns sg cfg schema e out)) =
     (\<Union>n\<in>set (sg_find_all sg e CColumn). column_refs sg cfg schema e n)"
proof -
  let ?s = "scan_tables sg cfg schema e out"
  let ?o = "(ts_outcome ?s)\<lparr> vo_tables := sorted_set (ts_real ?s) \<rparr>"
  note spec = column_fold_spec [of "ts_aliases ?s", OF scan_aliases,
      where ns = "sg_find_all sg e CColumn" and x = "([], ?o)" and cfg = cfg]
  show "vo_is_valid (check_tables_and_columns sg cfg schema e out) \<longleftrightarrow>
     vo_is_valid out \<and> (\<forall>n\<in>set (sg_find_all sg e CTable). table_ok sg cfg schema e n)
     \<and> (\<forall>n\<in>set (sg_find_all sg e CColumn). column_ok sg cfg schema e n)"
    using spec(1)
    by (simp add: check_tables_and_columns_def Let_def scan_real valid_scan_tables case_prod_beta)
  show "set (vo_columns (check_tables_and_columns sg cfg schema e out)) =
     (\<Union>n\<in>set (sg_find_all sg e CColumn). column_refs sg cfg schema e n)"
    using spec(2)
    by (simp add: check_tables_and_columns_def Let_def scan_real case_prod_beta)
qed

lemma column_step_tables: "vo_tables (snd (column_step sg schema e al infos n x)) = vo_tables (snd x)"
  by (cases x) (auto simp: column_step_def Let_def split: list.splits)

lemma check_tables_and_columns_tables:
  "vo_tables (check_tables_and_columns sg cfg schema e out) =
     sorted_set (map qualified_name (referenced_infos sg schema e))"
proof -
  let ?s = "scan_tables sg cfg schema e out"
  let ?o = "(ts_outcome ?s)\<lparr> vo_tables := sorted_set (ts_real ?s) \<rparr>"
  have "vo_tables (snd (fold (column_step sg schema e al infos) ns ([], ?o))) =
      sorted_set (ts_real ?s)" for al infos ns
    by (rule fold_invariant [of "\<lambda>x. vo_tables (snd x) = sorted_set (ts_real ?s)"])
      (auto simp: column_step_tables)
  then show ?thesis
    by (simp add: check_tables_and_columns_def Let_def scan_real case_prod_beta)
qed

lemma run_checks_valid:
  "vo_is_valid (run_checks sg cfg schema e out) \<longleftrightarrow> vo_is_valid out \<and> clean sg cfg schema e"
  by (auto simp: run_checks_def clean_def check_tables_and_columns_spec(1) valid_functions valid_star
      valid_comments valid_forbidden valid_read_only)

lemma run_checks_tables:
  "vo_tables (run_checks sg cfg schema e out) =
     sorted_set (map qualified_name (referenced_infos sg schema e))"
  by (simp add: run_checks_def check_tables_and_columns_tables)

lemma run_checks_columns:
  "set (vo_columns (run_checks sg cfg schema e out)) =
     (\<Union>n\<in>set (sg_find_all sg e CColumn). column_refs sg cfg schema e n)"
  by (simp add: run_checks_def check_tables_and_columns_spec(2))

lemma new_outcome_fields [simp]:
  "vo_is_valid (new_outcome sg es)" "vo_expression (new_outcome sg (e # es)) = Some e"
  by (simp_all add: new_outcome_def)

lemma validate_expression_valid:
  "vo_is_valid (validate_expression sg cfg schema e None) \<longleftrightarrow> clean sg cfg schema e"
  by (simp add: validate_expression_def run_checks_valid)

lemma run_checks_expression: "vo_expression (run_checks sg cfg schema e out) = vo_expression out"
proof -
  define x where "x = vo_expression out"
  have "closed_property (\<lambda>u. vo_expression u = x)" by (simp add: closed_property_def)
  then have "vo_expression (run_checks sg cfg schema e out) = x"
    by (rule closed_run_checks) (simp add: x_def)
  then show ?thesis by (simp add: x_def)
qed

lemma validate_valid_iff:
  "(\<exists>out. validate sg cfg sql d schema = Inr out \<and> vo_is_valid out) \<longleftrightarrow>
     (\<exists>e. parse_statements sg sql d = Inr [e] \<and> \<not> has_comment_marker sql \<and> clean sg cfg schema e)"
proof (cases "parse_statements sg sql d")
  case (Inl err)
  then show ?thesis by (simp add: validate_def)
next
  case (Inr es)
  show ?thesis
  proof (cases "length es = 1")
    case True
    then obtain e where "es = [e]" by (auto simp: length_Suc_conv)
    with Inr show ?thesis
      by (auto simp: validate_def Let_def validate_expression_def run_checks_valid comment_backstop_def)
  next
    case False
    with Inr show ?thesis by (auto simp: validate_def Let_def)
  qed
qed

lemma validate_valid_fields:
  assumes "validate sg cfg sql d schema = Inr out" and "vo_is_valid out"
  obtains e where "parse_statements sg sql d = Inr [e]" "vo_expression out = Some e"
    "clean sg cfg schema e"
    "vo_tables out = sorted_set (map qualified_name (referenced_infos sg schema e))"
    "set (vo_columns out) = (\<Union>n\<in>set (sg_find_all sg e CColumn). column_refs sg cfg schema e n)"
proof -
  from assms obtain es where es: "parse_statements sg sql d = Inr es"
    by (auto simp: validate_def split: sum.splits)
  with assms have "length es = 1"
    by (auto simp: validate_def Let_def split: if_splits)
  then obtain e where e: "es = [e]" by (auto simp: length_Suc_conv)
  with assms es have out: "out = run_checks sg cfg schema e (comment_backstop sql (new_outcome sg [e]))"
    by (simp add: validate_def Let_def validate_expression_def)
  show ?thesis
  proof (rule that [of e])
    show "parse_statements sg sql d = Inr [e]" using es e by simp
    show "vo_expression out = Some e"
      by (simp add: out run_checks_expression comment_backstop_def)
    show "clean sg cfg schema e" using assms(2) by (simp add: out run_checks_valid)
  qed (simp_all add: out run_checks_tables run_checks_columns)
qed

text \<open>A name that a qualifier denotes and that defines the column is recorded.\<close>

lemma qualified_column_recorded:
  assumes "n \<in> set (sg_find_all sg e CColumn)" and "sg_name sg e n \<noteq> []" and "sg_name sg e n \<noteq> ''*''"
    and "sg_table sg e n \<noteq> []" and "lower (sg_table sg e n) \<notin> set (virtual_aliases sg e)"
    and "denotes sg schema e (lower (sg_table sg e n)) name" and "table schema name = Some t"
    and "has_column t (sg_name sg e n)"
  shows "dotted (tbl_name t) (sg_name sg e n) \<in> set (vo_columns (run_checks sg cfg schema e out))"
  using assms by (auto simp: run_checks_columns column_refs_def owners_of_def Let_def intro!: bexI [of _ n])

end
