(* ===== verification/Security.thy ===== *)
theory Security
  imports ValidatorProps
begin

text \<open>
  Authorization and tenant isolation: \<open>security/classification.py\<close>, \<open>security/config.py\<close>,
  \<open>security/policy.py\<close> and \<open>security/rewriter.py\<close>.

  The lemmas give the exact condition under which the policy engine allows a query, and the
  exact WHERE conditions of a rewritten query.
\<close>

section \<open>Column access\<close>

text \<open>Each classification's allowed roles and grant.\<close>

fun rules :: "data_classification \<Rightarrow> string list \<times> string option" where
  "rules DC_PUBLIC = ([''*''], None)"
| "rules DC_INTERNAL = ([''*''], None)"
| "rules DC_CONFIDENTIAL = ([''admin'', ''analyst''], None)"
| "rules DC_FINANCIAL = ([''admin'', ''analyst''], Some ''finance_read'')"
| "rules DC_PII = ([''admin''], Some ''pii_read'')"
| "rules DC_AUTH_SECRET = ([], None)"
| "rules DC_HIGHLY_RESTRICTED = ([], None)"

definition can_view :: "data_classification \<Rightarrow> string list \<Rightarrow> bool" where
  "can_view c roles = (let (allowed_roles, required_grant) = rules c; role_set = map lower roles in
     if ''admin'' \<in> set role_set then c \<notin> {DC_AUTH_SECRET, DC_HIGHLY_RESTRICTED}
     else if ''*'' \<in> set allowed_roles then True
     else if \<exists>r\<in>set role_set. r \<in> set allowed_roles then True
     else (case required_grant of None \<Rightarrow> False | Some g \<Rightarrow> g \<noteq> [] \<and> g \<in> set role_set))"

definition deny_reason :: "data_classification \<Rightarrow> string" where
  "deny_reason c = (let q = [CHR 0x27] in
     if c \<in> {DC_AUTH_SECRET, DC_HIGHLY_RESTRICTED}
     then ''Columns classified '' @ q @ classification_value c @ q @ '' can never be selected.''
     else ''Your role is not permitted to select '' @ q @ classification_value c @ q @ '' data.'')"

text \<open>The access table as the module's documentation states it.\<close>

definition documented_access :: "data_classification \<Rightarrow> string set \<Rightarrow> bool" where
  "documented_access c roles = (case c of
     DC_PUBLIC \<Rightarrow> True
   | DC_INTERNAL \<Rightarrow> True
   | DC_CONFIDENTIAL \<Rightarrow> ''admin'' \<in> roles \<or> ''analyst'' \<in> roles
   | DC_FINANCIAL \<Rightarrow> ''admin'' \<in> roles \<or> ''analyst'' \<in> roles \<or> ''finance_read'' \<in> roles
   | DC_PII \<Rightarrow> ''admin'' \<in> roles \<or> ''pii_read'' \<in> roles
   | DC_AUTH_SECRET \<Rightarrow> False
   | DC_HIGHLY_RESTRICTED \<Rightarrow> False)"

lemma can_view_documented: "can_view c roles = documented_access c (lower ` set roles)"
proof -
  define R where "R = lower ` set roles"
  have R: "set (map lower roles) = R" by (simp add: R_def)
  show ?thesis
    unfolding can_view_def Let_def R R_def [symmetric]
    by (cases c) (auto simp: documented_access_def)
qed

lemma secret_never_viewed: "always_secret c \<Longrightarrow> \<not> can_view c roles"
  by (cases c) (auto simp: can_view_documented documented_access_def always_secret_def)

lemma documented_access_mono: "R \<subseteq> R' \<Longrightarrow> documented_access c R \<Longrightarrow> documented_access c R'"
  by (cases c) (auto simp: documented_access_def)

lemma can_view_mono: "set roles \<subseteq> set roles' \<Longrightarrow> can_view c roles \<Longrightarrow> can_view c roles'"
  unfolding can_view_documented by (erule documented_access_mono [rotated]) (rule image_mono)

section \<open>Configuration\<close>

record security_policy_config =
  sp_tenant_column :: string
  sp_max_rows :: int
  sp_max_joins :: int
  sp_max_subquery_depth :: int
  sp_max_selected_columns :: int
  sp_cost_rows_medium_threshold :: rat
  sp_cost_rows_high_threshold :: rat
  sp_allowed_schemas :: "string list"
  sp_allowed_tables :: "string list option"
  sp_denied_tables :: "string list"
  sp_function_denylist :: "string list"

definition default_policy_config :: security_policy_config where
  "default_policy_config =
     \<lparr> sp_tenant_column = ''organization_id'', sp_max_rows = 1000, sp_max_joins = 6,
       sp_max_subquery_depth = 4, sp_max_selected_columns = 60,
       sp_cost_rows_medium_threshold = 100000, sp_cost_rows_high_threshold = 1000000,
       sp_allowed_schemas = [], sp_allowed_tables = None, sp_denied_tables = [],
       sp_function_denylist = default_function_denylist \<rparr>"

section \<open>The policy engine\<close>

record policy_decision =
  pd_allowed :: bool
  pd_issues :: "validation_issue list"

definition deny :: "string \<Rightarrow> string \<Rightarrow> string option \<Rightarrow> policy_decision \<Rightarrow> policy_decision" where
  "deny code message location d =
     \<lparr> pd_allowed = False, pd_issues = pd_issues d @ [issue code message location] \<rparr>"

definition bare_table :: "string \<Rightarrow> string" where
  "bare_table qualified = lower (last (split_char (CHR ''.'') qualified))"

definition enforce_table ::
    "security_policy_config \<Rightarrow> string \<Rightarrow> policy_decision \<Rightarrow> policy_decision" where
  "enforce_table cfg qualified d =
     (let bare = bare_table qualified; q = [CHR 0x27];
          d1 = (if bare \<in> set (map lower (sp_denied_tables cfg))
                then deny ''table_denied''
                  (''Access to table '' @ q @ bare @ q @ '' is denied by policy.'')
                  (Some (''table: '' @ bare)) d
                else d)
      in case sp_allowed_tables cfg of
           None \<Rightarrow> d1
         | Some ts \<Rightarrow>
             if bare \<notin> set (map lower ts)
             then deny ''table_not_allowed''
               (''Table '' @ q @ bare @ q @ '' is not in the allowed set for this request.'')
               (Some (''table: '' @ bare)) d1
             else d1)"

definition resolve_ref :: "database_schema \<Rightarrow> string \<Rightarrow> column_info option" where
  "resolve_ref schema ref = (case partition_char (CHR ''.'') ref of (t, c) \<Rightarrow>
     (case table schema t of None \<Rightarrow> None | Some info \<Rightarrow> column info c))"

definition enforce_column ::
    "database_schema \<Rightarrow> auth_context \<Rightarrow> string \<Rightarrow> policy_decision \<Rightarrow> policy_decision" where
  "enforce_column schema auth ref d = (case resolve_ref schema ref of
     None \<Rightarrow> d
   | Some c \<Rightarrow>
       if \<not> can_view (col_classification c) (ac_roles auth)
       then (let (t, n) = partition_char (CHR ''.'') ref; q = [CHR 0x27] in
         deny ''column_denied''
           (deny_reason (col_classification c) @ '' (column '' @ q @ t @ ''.'' @ n @ q
            @ '', classification '' @ q @ classification_value (col_classification c) @ q @ '').'')
           (Some (''column: '' @ t @ ''.'' @ n)) d)
       else d)"

definition enforce ::
    "security_policy_config \<Rightarrow> string list \<Rightarrow> string list \<Rightarrow> database_schema \<Rightarrow> auth_context
      \<Rightarrow> policy_decision" where
  "enforce cfg referenced_tables referenced_columns schema auth =
     fold (enforce_column schema auth) referenced_columns
       (fold (enforce_table cfg) referenced_tables \<lparr> pd_allowed = True, pd_issues = [] \<rparr>)"

definition table_permitted :: "security_policy_config \<Rightarrow> string \<Rightarrow> bool" where
  "table_permitted cfg qualified \<longleftrightarrow>
     bare_table qualified \<notin> lower ` set (sp_denied_tables cfg)
     \<and> (case sp_allowed_tables cfg of None \<Rightarrow> True
        | Some ts \<Rightarrow> bare_table qualified \<in> lower ` set ts)"

definition column_permitted :: "database_schema \<Rightarrow> auth_context \<Rightarrow> string \<Rightarrow> bool" where
  "column_permitted schema auth ref \<longleftrightarrow> (case resolve_ref schema ref of
     None \<Rightarrow> True | Some c \<Rightarrow> can_view (col_classification c) (ac_roles auth))"

lemma deny_fields [simp]:
  "pd_allowed (deny c m l d) = False" "pd_issues (deny c m l d) = pd_issues d @ [issue c m l]"
  by (simp_all add: deny_def)

lemma allowed_enforce_table:
  "pd_allowed (enforce_table cfg q d) \<longleftrightarrow> pd_allowed d \<and> table_permitted cfg q"
  by (auto simp: enforce_table_def table_permitted_def Let_def split: option.splits)

lemma allowed_enforce_column:
  "pd_allowed (enforce_column schema auth ref d) \<longleftrightarrow>
     pd_allowed d \<and> column_permitted schema auth ref"
  by (simp add: enforce_column_def column_permitted_def case_prod_beta Let_def split: option.splits)

lemma allowed_enforce:
  "pd_allowed (enforce cfg tables columns schema auth) \<longleftrightarrow>
     (\<forall>q\<in>set tables. table_permitted cfg q) \<and> (\<forall>r\<in>set columns. column_permitted schema auth r)"
  unfolding enforce_def
  by (subst fold_bool_conj [of _ pd_allowed, OF allowed_enforce_column],
      subst fold_bool_conj [of _ pd_allowed, OF allowed_enforce_table]) simp

lemma issues_enforce:
  "pd_allowed (enforce cfg tables columns schema auth) \<longleftrightarrow>
     pd_issues (enforce cfg tables columns schema auth) = []"
  unfolding enforce_def
proof (rule fold_invariant [of "\<lambda>d. pd_allowed d \<longleftrightarrow> pd_issues d = []"])
  show "pd_allowed (fold (enforce_table cfg) tables \<lparr>pd_allowed = True, pd_issues = []\<rparr>) \<longleftrightarrow>
      pd_issues (fold (enforce_table cfg) tables \<lparr>pd_allowed = True, pd_issues = []\<rparr>) = []"
    by (rule fold_invariant [of "\<lambda>d. pd_allowed d \<longleftrightarrow> pd_issues d = []"])
      (auto simp: enforce_table_def Let_def split: option.splits)
next
  fix x and s :: policy_decision
  assume "pd_allowed s = (pd_issues s = [])"
  then show "pd_allowed (enforce_column schema auth x s) \<longleftrightarrow>
      pd_issues (enforce_column schema auth x s) = []"
    by (simp add: enforce_column_def case_prod_beta Let_def split: option.splits)
qed

text \<open>The reference the validator records for a column resolves to that column.\<close>

lemma partition_dotted: "CHR ''.'' \<notin> set t \<Longrightarrow> partition_char (CHR ''.'') (dotted t c) = (t, c)"
  by (induction t) (auto simp: partition_char_def dotted_def)

lemma resolve_dotted:
  assumes "CHR ''.'' \<notin> set (tbl_name t)" and "table schema (tbl_name t) = Some t"
  shows "resolve_ref schema (dotted (tbl_name t) c) = column t c"
  using assms by (simp add: resolve_ref_def partition_dotted)

section \<open>The tenant rewriter\<close>

definition build_predicate :: "string \<Rightarrow> string \<Rightarrow> string \<Rightarrow> tenant_predicate" where
  "build_predicate qualifier col tenant_id =
     \<lparr> tp_qualifier = qualifier, tp_column = col,
       tp_literal = (if isdigit tenant_id then NumberLiteral tenant_id
                     else StringLiteral tenant_id) \<rparr>"

text \<open>The scope, the node and the tenant column of every base table to constrain.\<close>

definition tenant_target ::
    "('e, 'n) sqlglot \<Rightarrow> 'e \<Rightarrow> database_schema \<Rightarrow> 'n \<Rightarrow> ('n \<times> 'n \<times> string) option" where
  "tenant_target sg e schema n = (case table schema (sg_name sg e n) of
     None \<Rightarrow> None
   | Some info \<Rightarrow>
       (case tbl_tenant_column info of
          None \<Rightarrow> None
        | Some col \<Rightarrow>
            if col = [] then None
            else (case sg_find_ancestor sg e n CSelect of
                    None \<Rightarrow> None | Some scope \<Rightarrow> Some (scope, n, col))))"

definition tenant_targets ::
    "('e, 'n) sqlglot \<Rightarrow> 'e \<Rightarrow> database_schema \<Rightarrow> ('n \<times> 'n \<times> string) list" where
  "tenant_targets sg e schema = List.map_filter (tenant_target sg e schema) (sg_find_all sg e CTable)"

definition target_qualifier :: "('e, 'n) sqlglot \<Rightarrow> 'e \<Rightarrow> 'n \<Rightarrow> string" where
  "target_qualifier sg e n = py_or (sg_alias sg e n) (sg_name sg e n)"

definition apply_target ::
    "('e, 'n) sqlglot \<Rightarrow> 'e \<Rightarrow> string \<Rightarrow> 'n \<times> 'n \<times> string \<Rightarrow> 'e \<times> string list \<Rightarrow> 'e \<times> string list" where
  "apply_target sg e0 tenant_id = (\<lambda>(scope, n, col) (e, applied).
     (let qualifier = target_qualifier sg e0 n in
      (sg_where sg e scope (build_predicate qualifier col tenant_id),
       applied @ [qualifier @ ''.'' @ col @ '' = '' @ tenant_id])))"

definition rewrite ::
    "('e, 'n) sqlglot \<Rightarrow> 'e \<Rightarrow> database_schema \<Rightarrow> string \<Rightarrow> 'e \<times> string list" where
  "rewrite sg e schema tenant_id =
     fold (apply_target sg e tenant_id) (tenant_targets sg e schema) (e, [])"

definition target_predicate ::
    "('e, 'n) sqlglot \<Rightarrow> 'e \<Rightarrow> string \<Rightarrow> 'n \<times> 'n \<times> string \<Rightarrow> tenant_predicate" where
  "target_predicate sg e tenant_id tg =
     build_predicate (target_qualifier sg e (fst (snd tg))) (snd (snd tg)) tenant_id"

lemma conds_fold_targets:
  assumes "where_documented sg conds"
  shows "conds (fst (fold (apply_target sg e0 tenant) tgs x)) s =
     conds (fst x) s \<union> target_predicate sg e0 tenant ` {tg \<in> set tgs. fst tg = s}"
proof (induction tgs arbitrary: x)
  case Nil
  then show ?case by simp
next
  case (Cons tg tgs)
  have "conds (fst (apply_target sg e0 tenant tg x)) s =
      conds (fst x) s \<union> (if fst tg = s then {target_predicate sg e0 tenant tg} else {})"
    using assms
    by (cases tg; cases x)
      (simp add: apply_target_def target_predicate_def Let_def assms [unfolded where_documented_def])
  with Cons show ?case by (auto simp: image_iff)
qed

lemma conds_rewrite:
  assumes "where_documented sg conds"
  shows "conds (fst (rewrite sg e schema tenant)) s =
     conds e s \<union> target_predicate sg e tenant ` {tg \<in> set (tenant_targets sg e schema). fst tg = s}"
  using conds_fold_targets [OF assms] by (simp add: rewrite_def)

lemma tenant_target_eq:
  "tenant_target sg e schema m = Some (scope, n, col) \<longleftrightarrow>
     m = n \<and> sg_find_ancestor sg e n CSelect = Some scope \<and> col \<noteq> []
     \<and> (\<exists>info. table schema (sg_name sg e n) = Some info \<and> tbl_tenant_column info = Some col)"
  by (auto simp: tenant_target_def split: option.splits if_splits)

lemma tenant_targets_iff:
  "(scope, n, col) \<in> set (tenant_targets sg e schema) \<longleftrightarrow>
     n \<in> set (sg_find_all sg e CTable) \<and> sg_find_ancestor sg e n CSelect = Some scope
     \<and> col \<noteq> [] \<and> (\<exists>info. table schema (sg_name sg e n) = Some info \<and> tbl_tenant_column info = Some col)"
  by (auto simp: tenant_targets_def map_filter_iff tenant_target_eq)

lemma rewrite_applied_length:
  "length (snd (rewrite sg e schema tenant)) = length (tenant_targets sg e schema)"
proof -
  have "length (snd (fold (apply_target sg e tenant) tgs x)) = length (snd x) + length tgs" for tgs x
    by (induction tgs arbitrary: x) (auto simp: apply_target_def case_prod_beta Let_def)
  then show ?thesis by (simp add: rewrite_def)
qed

text \<open>A literal that is rendered without quotes holds digits only.\<close>

lemma number_literal_digits:
  "tp_literal (build_predicate q c tenant) = NumberLiteral s \<Longrightarrow> \<forall>x\<in>set s. is_digit_char x"
  by (auto simp: build_predicate_def isdigit_def list_all_iff split: if_splits)

end
