(* ===== verification/Cost.thy ===== *)
theory Cost
  imports Security
begin

text \<open>
  Cost and complexity control (\<open>security/cost.py\<close>): the structural measures of a query, the
  hard limits on them, the planner estimate read from PostgreSQL's JSON plan, and the risk
  rating. The database is the function \<open>explain\<close>: what executing a statement and taking the
  first value of the first row gives (\<open>Inl\<close> the text of the exception, \<open>None\<close> for no row).

  The lemmas give the exact condition under which a query is allowed, and tie the rating to
  the decision.
\<close>

section \<open>Python's conversion to float\<close>

text \<open>
  The part of \<open>float(str)\<close> for decimal notation: sign, digits with an optional fraction and
  exponent. The spellings of infinities and NaN, which no rational denotes, and underscores
  between digits are left out.
\<close>

fun digits_value :: "rat \<Rightarrow> string \<Rightarrow> rat" where
  "digits_value acc [] = acc"
| "digits_value acc (c # cs) = digits_value (10 * acc + of_nat (code_point c - 48)) cs"

definition unsigned_float :: "string \<Rightarrow> rat option" where
  "unsigned_float s = (let whole = takeWhile is_decimal s; rest = dropWhile is_decimal s;
       frac = (if rest \<noteq> [] \<and> hd rest = CHR ''.'' then takeWhile is_decimal (tl rest) else []);
       rest' = (if rest \<noteq> [] \<and> hd rest = CHR ''.'' then dropWhile is_decimal (tl rest) else rest);
       mantissa = digits_value 0 (whole @ frac) / 10 ^ length frac
     in if whole @ frac = [] then None
        else if rest' = [] then Some mantissa
        else if hd rest' \<noteq> CHR ''e'' \<and> hd rest' \<noteq> CHR ''E'' then None
        else (let ex = tl rest'; neg = (ex \<noteq> [] \<and> hd ex = CHR ''-'');
                  ds = (if ex \<noteq> [] \<and> (hd ex = CHR ''-'' \<or> hd ex = CHR ''+'') then tl ex else ex);
                  k = nat \<lfloor>digits_value 0 ds\<rfloor>
              in if ds = [] \<or> \<not> list_all is_decimal ds then None
                 else Some (if neg then mantissa / 10 ^ k else mantissa * 10 ^ k)))"

definition float_of_string :: "string \<Rightarrow> rat option" where
  "float_of_string s = (let t = strip s in
     if t \<noteq> [] \<and> hd t = CHR ''-'' then map_option uminus (unsigned_float (tl t))
     else if t \<noteq> [] \<and> hd t = CHR ''+'' then unsigned_float (tl t)
     else unsigned_float t)"

fun to_float :: "json \<Rightarrow> py_exception + rat" where
  "to_float JNull = Inl PyTypeError"
| "to_float (JBool b) = Inr (if b then 1 else 0)"
| "to_float (JNum r) = Inr r"
| "to_float (JStr s) = (case float_of_string s of None \<Rightarrow> Inl PyValueError | Some r \<Rightarrow> Inr r)"
| "to_float (JList _) = Inl PyTypeError"
| "to_float (JObj _) = Inl PyTypeError"

definition truncate_rat :: "rat \<Rightarrow> int" where
  "truncate_rat r = (if r < 0 then \<lceil>r\<rceil> else \<lfloor>r\<rfloor>)"

section \<open>Reports\<close>

record cost_report =
  cr_allowed :: bool
  cr_risk_level :: risk_level
  cr_join_count :: nat
  cr_subquery_depth :: nat
  cr_selected_columns :: nat
  cr_estimated_rows :: "rat option"
  cr_estimated_cost :: "rat option"
  cr_issues :: "validation_issue list"

definition reject :: "string \<Rightarrow> string \<Rightarrow> cost_report \<Rightarrow> cost_report" where
  "reject code message r = r\<lparr> cr_allowed := False, cr_risk_level := RISK_HIGH,
     cr_issues := cr_issues r @ [issue code message None] \<rparr>"

definition reject_if :: "bool \<Rightarrow> string \<Rightarrow> string \<Rightarrow> cost_report \<Rightarrow> cost_report" where
  "reject_if b code message r = (if b then reject code message r else r)"

section \<open>Structural measures\<close>

definition select_depth :: "('e, 'n) sqlglot \<Rightarrow> 'e \<Rightarrow> 'n \<Rightarrow> nat" where
  "select_depth sg e n = 1 + length (filter (\<lambda>a. sg_isinstance sg e a CSelect) (sg_parents sg e n))"

definition max_select_depth :: "('e, 'n) sqlglot \<Rightarrow> 'e \<Rightarrow> nat" where
  "max_select_depth sg e =
     (let m = fold (\<lambda>n d. max d (select_depth sg e n)) (sg_find_all sg e CSelect) 0
      in if m = 0 then 1 else m)"

definition projected_column_count :: "('e, 'n) sqlglot \<Rightarrow> 'e \<Rightarrow> nat" where
  "projected_column_count sg e =
     (if sg_isinstance sg e (sg_root sg e) CSelect
      then length (sg_expressions sg e (sg_root sg e))
      else case sg_find_all sg e CSelect of
             [] \<Rightarrow> 0 | s # _ \<Rightarrow> length (sg_expressions sg e s))"

definition unconditioned_join :: "('e, 'n) sqlglot \<Rightarrow> 'e \<Rightarrow> 'n \<Rightarrow> bool" where
  "unconditioned_join sg e j \<longleftrightarrow>
     (let kind = upper (sg_kind sg e j); side = upper (sg_side sg e j) in
      if kind = ''CROSS'' then True
      else \<not> (sg_has_arg sg e j ''on'' \<or> sg_has_arg sg e j ''using'')
           \<and> \<not> (contains kind ''NATURAL'' \<or> contains side ''NATURAL''))"

definition has_cartesian_product :: "('e, 'n) sqlglot \<Rightarrow> 'e \<Rightarrow> bool" where
  "has_cartesian_product sg e \<longleftrightarrow> (\<exists>j\<in>set (sg_find_all sg e CJoin). unconditioned_join sg e j)"

section \<open>The planner estimate\<close>

definition explain_sql :: "string \<Rightarrow> string" where
  "explain_sql sql = ''EXPLAIN (FORMAT JSON) '' @ sql"

fun get_item :: "json \<Rightarrow> string \<Rightarrow> py_exception + json" where
  "get_item (JObj kvs) k = (case map_of kvs k of None \<Rightarrow> Inl PyKeyError | Some v \<Rightarrow> Inr v)"
| "get_item _ _ = Inl PyTypeError"

fun plan_of :: "json \<Rightarrow> py_exception + json" where
  "plan_of (JList []) = Inl PyIndexError"
| "plan_of (JList (r # _)) = get_item r ''Plan''"
| "plan_of r = get_item r ''Plan''"

fun plan_number :: "json \<Rightarrow> string \<Rightarrow> py_exception + rat" where
  "plan_number (JObj kvs) k = to_float (dict_get (JNum 0) kvs k)"
| "plan_number _ _ = Inl PyAttributeError"

text \<open>\<open>except (KeyError, IndexError, TypeError)\<close>.\<close>

definition plan_error_handled :: "py_exception \<Rightarrow> bool" where
  "plan_error_handled x \<longleftrightarrow> x \<in> {PyKeyError, PyIndexError, PyTypeError}"

definition swallow :: "py_exception \<Rightarrow> cost_report \<Rightarrow> failure + cost_report" where
  "swallow x r = (if plan_error_handled x then Inr r else Inl (Unhandled x))"

definition read_plan :: "json \<Rightarrow> cost_report \<Rightarrow> failure + cost_report" where
  "read_plan row r = (case plan_of row of
     Inl x \<Rightarrow> swallow x r
   | Inr plan \<Rightarrow>
       (case plan_number plan ''Plan Rows'' of
          Inl x \<Rightarrow> swallow x r
        | Inr rows \<Rightarrow>
            (let r1 = r\<lparr> cr_estimated_rows := Some rows \<rparr> in
             case plan_number plan ''Total Cost'' of
               Inl x \<Rightarrow> swallow x r1
             | Inr cost \<Rightarrow> Inr (r1\<lparr> cr_estimated_cost := Some cost \<rparr>))))"

type_synonym explain_fun = "string \<Rightarrow> string + json option"

definition estimate_with_explain ::
    "explain_fun \<Rightarrow> string \<Rightarrow> cost_report \<Rightarrow> failure + cost_report" where
  "estimate_with_explain explain sql r = (case explain (explain_sql sql) of
     Inl _ \<Rightarrow> Inr r
   | Inr None \<Rightarrow> Inr r
   | Inr (Some row) \<Rightarrow> read_plan row r)"

section \<open>The analysis\<close>

definition classify_risk :: "security_policy_config \<Rightarrow> cost_report \<Rightarrow> risk_level" where
  "classify_risk cfg r = (case cr_estimated_rows r of
     Some rows \<Rightarrow>
       if rows \<ge> sp_cost_rows_high_threshold cfg then RISK_HIGH
       else if rows \<ge> sp_cost_rows_medium_threshold cfg then RISK_MEDIUM
       else RISK_LOW
   | None \<Rightarrow>
       if int (cr_join_count r) \<ge> max 1 (sp_max_joins cfg - 1)
          \<or> int (cr_subquery_depth r) \<ge> max 1 (sp_max_subquery_depth cfg - 1)
       then RISK_MEDIUM else RISK_LOW)"

definition structural_report :: "('e, 'n) sqlglot \<Rightarrow> security_policy_config \<Rightarrow> 'e \<Rightarrow> cost_report" where
  "structural_report sg cfg e =
     (let joins = length (sg_find_all sg e CJoin); depth = max_select_depth sg e;
          selected = projected_column_count sg e;
          r0 = \<lparr> cr_allowed = True, cr_risk_level = RISK_LOW, cr_join_count = joins,
                 cr_subquery_depth = depth, cr_selected_columns = selected,
                 cr_estimated_rows = None, cr_estimated_cost = None, cr_issues = [] \<rparr>;
          r1 = reject_if (int joins > sp_max_joins cfg) ''too_many_joins''
            (''Query has '' @ show_nat joins @ '' joins; limit is ''
             @ show_int (sp_max_joins cfg) @ ''.'') r0;
          r2 = reject_if (int depth > sp_max_subquery_depth cfg) ''subquery_too_deep''
            (''Subquery nesting depth '' @ show_nat depth @ '' exceeds limit ''
             @ show_int (sp_max_subquery_depth cfg) @ ''.'') r1;
          r3 = reject_if (int selected > sp_max_selected_columns cfg) ''too_many_columns''
            (''Query projects '' @ show_nat selected @ '' columns; limit is ''
             @ show_int (sp_max_selected_columns cfg) @ ''.'') r2
      in reject_if (has_cartesian_product sg e) ''cartesian_product''
           ''Query contains a cross join / Cartesian product without a join condition.'' r3)"

definition final_rating :: "security_policy_config \<Rightarrow> cost_report \<Rightarrow> cost_report" where
  "final_rating cfg r =
     (if \<not> cr_allowed r then r
      else let r1 = r\<lparr> cr_risk_level := classify_risk cfg r \<rparr> in
        case cr_estimated_rows r1 of
          None \<Rightarrow> r1
        | Some rows \<Rightarrow>
            reject_if (rows \<ge> sp_cost_rows_high_threshold cfg) ''estimated_cost_too_high''
              (''Estimated result size (~'' @ show_int (truncate_rat rows)
               @ '' rows) exceeds the configured maximum.'') r1)"

definition analyze ::
    "('e, 'n) sqlglot \<Rightarrow> security_policy_config \<Rightarrow> 'e \<Rightarrow> string \<Rightarrow> sql_dialect \<Rightarrow> explain_fun option
      \<Rightarrow> failure + cost_report" where
  "analyze sg cfg e sql_text dialect engine =
     (let r = structural_report sg cfg e in
      case (case engine of
              Some explain \<Rightarrow>
                if dialect = POSTGRES then estimate_with_explain explain sql_text r else Inr r
            | None \<Rightarrow> Inr r) of
        Inl x \<Rightarrow> Inl x
      | Inr r' \<Rightarrow> Inr (final_rating cfg r'))"

text \<open>The statement the analysis sends to the database, if any.\<close>

definition analyze_statements :: "string \<Rightarrow> sql_dialect \<Rightarrow> explain_fun option \<Rightarrow> string list" where
  "analyze_statements sql_text dialect engine =
     (if engine \<noteq> None \<and> dialect = POSTGRES then [explain_sql sql_text] else [])"

section \<open>What the analysis guarantees\<close>

text \<open>A rejected report is rated high and names a reason.\<close>

definition report_ok :: "cost_report \<Rightarrow> bool" where
  "report_ok r \<longleftrightarrow> (cr_allowed r \<longleftrightarrow> cr_issues r = []) \<and> (cr_allowed r \<or> cr_risk_level r = RISK_HIGH)"

lemma reject_if_fields [simp]:
  "cr_allowed (reject_if b c m r) \<longleftrightarrow> cr_allowed r \<and> \<not> b"
  "cr_join_count (reject_if b c m r) = cr_join_count r"
  "cr_subquery_depth (reject_if b c m r) = cr_subquery_depth r"
  "cr_selected_columns (reject_if b c m r) = cr_selected_columns r"
  "cr_estimated_rows (reject_if b c m r) = cr_estimated_rows r"
  "cr_estimated_cost (reject_if b c m r) = cr_estimated_cost r"
  by (simp_all add: reject_if_def reject_def)

lemma reject_if_ok: "report_ok r \<Longrightarrow> report_ok (reject_if b c m r)"
  by (auto simp: reject_if_def reject_def report_ok_def)

definition within_limits :: "('e, 'n) sqlglot \<Rightarrow> security_policy_config \<Rightarrow> 'e \<Rightarrow> bool" where
  "within_limits sg cfg e \<longleftrightarrow>
     int (length (sg_find_all sg e CJoin)) \<le> sp_max_joins cfg
     \<and> int (max_select_depth sg e) \<le> sp_max_subquery_depth cfg
     \<and> int (projected_column_count sg e) \<le> sp_max_selected_columns cfg
     \<and> (\<forall>j\<in>set (sg_find_all sg e CJoin). \<not> unconditioned_join sg e j)"

lemma structural_report_allowed:
  "cr_allowed (structural_report sg cfg e) \<longleftrightarrow> within_limits sg cfg e"
  unfolding structural_report_def Let_def reject_if_fields within_limits_def has_cartesian_product_def
  by (simp add: not_less)

lemma structural_report_ok: "report_ok (structural_report sg cfg e)"
  unfolding structural_report_def Let_def
  by (intro reject_if_ok) (simp add: report_ok_def)

lemma structural_report_estimate [simp]: "cr_estimated_rows (structural_report sg cfg e) = None"
  by (simp add: structural_report_def Let_def)

lemma swallow_Inr: "swallow x r = Inr r' \<Longrightarrow> r' = r"
  by (simp add: swallow_def split: if_splits)

lemma read_plan_keeps:
  assumes "read_plan row r = Inr r'"
  shows "cr_allowed r' = cr_allowed r" "cr_issues r' = cr_issues r" "cr_risk_level r' = cr_risk_level r"
    "cr_join_count r' = cr_join_count r" "cr_subquery_depth r' = cr_subquery_depth r"
  using assms by (auto simp: read_plan_def Let_def dest!: swallow_Inr split: sum.splits)

lemma estimate_keeps:
  assumes "estimate_with_explain explain sql r = Inr r'"
  shows "cr_allowed r' = cr_allowed r" "cr_issues r' = cr_issues r" "cr_risk_level r' = cr_risk_level r"
    "cr_join_count r' = cr_join_count r" "cr_subquery_depth r' = cr_subquery_depth r"
  using assms read_plan_keeps
  by (auto simp: estimate_with_explain_def split: sum.splits option.splits)

lemma report_ok_cong:
  "cr_allowed r' = cr_allowed r \<Longrightarrow> cr_issues r' = cr_issues r \<Longrightarrow> cr_risk_level r' = cr_risk_level r
    \<Longrightarrow> report_ok r' = report_ok r"
  by (simp add: report_ok_def)

lemma analyze_cases:
  assumes "analyze sg cfg e sql d engine = Inr res"
  obtains r where "res = final_rating cfg r" "report_ok r" "cr_allowed r \<longleftrightarrow> within_limits sg cfg e"
proof -
  let ?s = "structural_report sg cfg e"
  have "\<exists>r. res = final_rating cfg r \<and> cr_allowed r = cr_allowed ?s \<and> cr_issues r = cr_issues ?s
      \<and> cr_risk_level r = cr_risk_level ?s"
    using assms estimate_keeps
    by (auto simp: analyze_def Let_def split: sum.splits option.splits if_splits)
  then show ?thesis
    using that report_ok_cong [of _ ?s] structural_report_ok structural_report_allowed by metis
qed

lemma final_rating_ok: "report_ok r \<Longrightarrow> report_ok (final_rating cfg r)"
  by (auto simp: final_rating_def Let_def report_ok_def reject_if_def reject_def split: option.splits)

lemma final_rating_allowed:
  "cr_allowed (final_rating cfg r) \<longleftrightarrow> cr_allowed r
     \<and> (case cr_estimated_rows r of None \<Rightarrow> True | Some rows \<Rightarrow> rows < sp_cost_rows_high_threshold cfg)"
  by (auto simp: final_rating_def Let_def split: option.splits)

lemma final_rating_rows [simp]: "cr_estimated_rows (final_rating cfg r) = cr_estimated_rows r"
  by (auto simp: final_rating_def Let_def split: option.splits)

lemma final_rating_risk:
  "report_ok r \<Longrightarrow> cr_risk_level (final_rating cfg r) = RISK_HIGH \<longleftrightarrow> \<not> cr_allowed (final_rating cfg r)"
  by (auto simp: final_rating_def Let_def report_ok_def reject_if_def reject_def classify_risk_def
      split: option.splits)

lemma analyze_allowed_iff:
  assumes "analyze sg cfg e sql d engine = Inr res"
  shows "cr_allowed res \<longleftrightarrow> within_limits sg cfg e
     \<and> (case cr_estimated_rows res of None \<Rightarrow> True | Some rows \<Rightarrow> rows < sp_cost_rows_high_threshold cfg)"
  using assms by (rule analyze_cases) (simp add: final_rating_allowed)

lemma analyze_risk_iff:
  assumes "analyze sg cfg e sql d engine = Inr res"
  shows "cr_risk_level res = RISK_HIGH \<longleftrightarrow> \<not> cr_allowed res"
  using assms by (rule analyze_cases) (simp add: final_rating_risk)

lemma analyze_report_ok: "analyze sg cfg e sql d engine = Inr res \<Longrightarrow> report_ok res"
  by (erule analyze_cases) (simp add: final_rating_ok)

text \<open>More estimated rows never lower the rating.\<close>

lemma classify_risk_mono:
  assumes "sp_cost_rows_medium_threshold cfg \<le> sp_cost_rows_high_threshold cfg"
    and "cr_estimated_rows r = Some x" and "cr_estimated_rows r' = Some y" and "x \<le> y"
  shows "classify_risk cfg r \<le> classify_risk cfg r'"
  using assms by (auto simp: classify_risk_def less_eq_risk_level_def)

text \<open>The depth is one more than the largest number of enclosing SELECTs.\<close>

lemma fold_max_bound: "fold (\<lambda>n d. max d (f n)) ns d \<le> k \<longleftrightarrow> d \<le> k \<and> (\<forall>n\<in>set ns. f n \<le> (k::nat))"
  by (induction ns arbitrary: d) auto

lemma max_select_depth_le:
  "max_select_depth sg e \<le> k \<longleftrightarrow> 1 \<le> k \<and> (\<forall>n\<in>set (sg_find_all sg e CSelect). select_depth sg e n \<le> k)"
proof -
  let ?m = "fold (\<lambda>n d. max d (select_depth sg e n)) (sg_find_all sg e CSelect) 0"
  have b: "?m \<le> k \<longleftrightarrow> (\<forall>n\<in>set (sg_find_all sg e CSelect). select_depth sg e n \<le> k)"
    by (simp add: fold_max_bound)
  show ?thesis
  proof (cases "?m = 0")
    case True
    then have "\<forall>n\<in>set (sg_find_all sg e CSelect). select_depth sg e n \<le> 0"
      using fold_max_bound [of "select_depth sg e" "sg_find_all sg e CSelect" 0 0] by simp
    then show ?thesis using True by (auto simp: max_select_depth_def select_depth_def)
  next
    case False
    then show ?thesis using b by (auto simp: max_select_depth_def Let_def)
  qed
qed

end
