(* ===== verification/ExampleAst.thy ===== *)
theory ExampleAst
  imports Cost
begin

text \<open>
  A concrete instance of the record \<open>sqlglot\<close>: trees as flat node lists with parent indices,
  a parser that looks the text up in a table, and the builder operations \<open>where\<close> and
  \<open>limit\<close>. It satisfies every documented-behaviour hypothesis of \<open>Sqlglot\<close>; the concrete
  queries at the end are the inputs of the witnesses and of the examples.
\<close>

section \<open>Trees\<close>

datatype nd = Nd nat | LimitNode | LimitLit

record ex_node =
  xn_class :: "sg_class list"
  xn_parent :: "nat option"
  xn_name :: string
  xn_alias :: string
  xn_catalog :: string
  xn_db :: string
  xn_table :: string
  xn_comments :: "string list"
  xn_args :: "string list"

record ex_tree =
  xt_nodes :: "ex_node list"
  xt_limit :: "int option"
  xt_conds :: "(nd \<times> tenant_predicate) list"

definition node :: "sg_class list \<Rightarrow> nat option \<Rightarrow> string \<Rightarrow> ex_node" where
  "node cs p name = \<lparr> xn_class = cs, xn_parent = p, xn_name = name, xn_alias = [], xn_catalog = [],
     xn_db = [], xn_table = [], xn_comments = [], xn_args = [] \<rparr>"

definition no_node :: ex_node where
  "no_node = node [] None []"

definition nth_node :: "ex_tree \<Rightarrow> nat \<Rightarrow> ex_node" where
  "nth_node e i = (if i < length (xt_nodes e) then xt_nodes e ! i else no_node)"

fun node_at :: "ex_tree \<Rightarrow> nd \<Rightarrow> ex_node" where
  "node_at e (Nd i) = nth_node e i"
| "node_at e LimitNode = node [CLimit] (Some 0) []"
| "node_at e LimitLit = node [CLiteral] None []"

definition ex_walk :: "ex_tree \<Rightarrow> nd list" where
  "ex_walk e = map Nd [0..<length (xt_nodes e)]
     @ (case xt_limit e of None \<Rightarrow> [] | Some _ \<Rightarrow> [LimitNode, LimitLit])"

fun chain :: "ex_tree \<Rightarrow> nat \<Rightarrow> nat option \<Rightarrow> nd list" where
  "chain e 0 p = []"
| "chain e (Suc k) None = []"
| "chain e (Suc k) (Some i) = Nd i # chain e k (xn_parent (nth_node e i))"

definition ex_parents :: "ex_tree \<Rightarrow> nd \<Rightarrow> nd list" where
  "ex_parents e n = (let up = chain e (length (xt_nodes e)) in
     case n of Nd i \<Rightarrow> up (xn_parent (nth_node e i))
     | LimitNode \<Rightarrow> up (Some 0) | LimitLit \<Rightarrow> LimitNode # up (Some 0))"

definition ex_isinstance :: "ex_tree \<Rightarrow> nd \<Rightarrow> sg_class \<Rightarrow> bool" where
  "ex_isinstance e n c \<longleftrightarrow> c \<in> set (xn_class (node_at e n))"

text \<open>\<open>where\<close> adds the predicate's column node below the scope.\<close>

definition ex_where :: "ex_tree \<Rightarrow> nd \<Rightarrow> tenant_predicate \<Rightarrow> ex_tree" where
  "ex_where e s p = e\<lparr> xt_nodes := xt_nodes e @
       [(node [CColumn] (case s of Nd i \<Rightarrow> Some i | _ \<Rightarrow> None) (tp_column p))
          \<lparr> xn_table := tp_qualifier p \<rparr>],
     xt_conds := (s, p) # xt_conds e \<rparr>"

definition ex_conds :: "ex_tree \<Rightarrow> nd \<Rightarrow> tenant_predicate set" where
  "ex_conds e s = {p. (s, p) \<in> set (xt_conds e)}"

definition ex_sqlglot :: "(string \<times> ex_tree) list \<Rightarrow> (ex_tree, nd) sqlglot" where
  "ex_sqlglot texts = \<lparr>
     sg_has_class = (\<lambda>_. True),
     sg_parse = (\<lambda>sql _. case map_of texts sql of
        Some e \<Rightarrow> Inr [Some e] | None \<Rightarrow> Inl (ParseError ''unexpected token'')),
     sg_transpile = (\<lambda>sql _ _. Inr [sql]),
     sg_sql = (\<lambda>e _ _. (case find (\<lambda>(s, t). xt_nodes t = take (length (xt_nodes t)) (xt_nodes e)) texts of
        Some (s, _) \<Rightarrow> s | None \<Rightarrow> ''?'')
        @ (case xt_limit e of None \<Rightarrow> [] | Some k \<Rightarrow> '' LIMIT '' @ show_int k)),
     sg_root = (\<lambda>_. Nd 0),
     sg_walk = ex_walk,
     sg_find_all = (\<lambda>e c. filter (\<lambda>n. ex_isinstance e n c) (ex_walk e)),
     sg_isinstance = ex_isinstance,
     sg_type_name = (\<lambda>e n. ''Node''),
     sg_parents = ex_parents,
     sg_find_ancestor = (\<lambda>e n c. find (\<lambda>a. ex_isinstance e a c) (ex_parents e n)),
     sg_comments = (\<lambda>e n. xn_comments (node_at e n)),
     sg_name = (\<lambda>e n. xn_name (node_at e n)),
     sg_alias = (\<lambda>e n. xn_alias (node_at e n)),
     sg_catalog = (\<lambda>e n. xn_catalog (node_at e n)),
     sg_db = (\<lambda>e n. xn_db (node_at e n)),
     sg_table = (\<lambda>e n. xn_table (node_at e n)),
     sg_this = (\<lambda>e n. xn_name (node_at e n)),
     sg_sql_name = (\<lambda>e n. Some (xn_name (node_at e n))),
     sg_expressions = (\<lambda>e n. filter (\<lambda>m. (case m of Nd i \<Rightarrow> n = Nd 0 \<and> i \<noteq> 0
        \<and> xn_parent (node_at e m) = Some 0 \<and> (ex_isinstance e m CColumn \<or> ex_isinstance e m CAlias)
        | _ \<Rightarrow> False)) (ex_walk e)),
     sg_kind = (\<lambda>_ _. []), sg_side = (\<lambda>_ _. []),
     sg_has_arg = (\<lambda>e n a. a \<in> set (xn_args (node_at e n))),
     sg_limit_arg = (\<lambda>e. map_option (\<lambda>_. LimitNode) (xt_limit e)),
     sg_expression = (\<lambda>e n. if n = LimitNode then Some LimitLit else None),
     sg_is_int = (\<lambda>e n. n = LimitLit),
     sg_int_name = (\<lambda>e n. case xt_limit e of Some k \<Rightarrow> k | None \<Rightarrow> 0),
     sg_where = ex_where,
     sg_limit = (\<lambda>e k. e\<lparr> xt_limit := Some k \<rparr>) \<rparr>"

section \<open>The documented behaviour holds\<close>

lemma ex_find_all_documented: "find_all_documented (ex_sqlglot texts) e"
  by (auto simp: find_all_documented_def ex_sqlglot_def)

lemma ex_find_ancestor_documented: "find_ancestor_documented (ex_sqlglot texts) e"
  by (auto simp: find_ancestor_documented_def ex_sqlglot_def)

lemma ex_where_documented: "where_documented (ex_sqlglot texts) ex_conds"
  by (auto simp: where_documented_def ex_sqlglot_def ex_where_def ex_conds_def)

lemma ex_limit_keeps_where: "limit_keeps_where (ex_sqlglot texts) ex_conds"
  by (auto simp: limit_keeps_where_def ex_sqlglot_def ex_conds_def)

lemma ex_limit_documented: "limit_documented (ex_sqlglot texts)"
  unfolding limit_documented_def
proof (intro allI exI conjI)
  fix e k
  show "sg_limit_arg (ex_sqlglot texts) (sg_limit (ex_sqlglot texts) e k) = Some LimitNode"
    and "sg_expression (ex_sqlglot texts) (sg_limit (ex_sqlglot texts) e k) LimitNode = Some LimitLit"
    by (simp_all add: ex_sqlglot_def)
qed (simp_all add: ex_sqlglot_def ex_isinstance_def node_def)

section \<open>A catalog and queries on it\<close>

definition ex_column :: "string \<Rightarrow> data_classification \<Rightarrow> column_info" where
  "ex_column name c = \<lparr> col_name = name, col_data_type = ''TEXT'', col_nullable = True,
     col_is_primary_key = False, col_comment = None, col_classification = c,
     col_sample_values = [] \<rparr>"

definition ex_table :: "string \<Rightarrow> column_info list \<Rightarrow> foreign_key_ref list \<Rightarrow> table_info" where
  "ex_table name cs fks = \<lparr> tbl_name = name, tbl_schema_name = None, tbl_kind = ''table'',
     tbl_comment = None, tbl_columns = cs, tbl_primary_key = [], tbl_foreign_keys = fks,
     tbl_unique_constraints = [], tbl_indexes = [], tbl_row_estimate = None,
     tbl_tenant_column = Some ''organization_id'' \<rparr>"

definition ex_fk :: "string \<Rightarrow> foreign_key_ref" where
  "ex_fk t = \<lparr> fk_columns = [t @ ''_id''], fk_referred_table = t, fk_referred_columns = [''id''],
     fk_referred_schema = None \<rparr>"

definition ex_users :: table_info where
  "ex_users = ex_table ''users'' [ex_column ''id'' DC_INTERNAL, ex_column ''email'' DC_PII,
     ex_column ''password_hash'' DC_AUTH_SECRET, ex_column ''organization_id'' DC_INTERNAL] []"

definition ex_orders :: table_info where
  "ex_orders = ex_table ''orders'' [ex_column ''id'' DC_INTERNAL, ex_column ''total'' DC_PUBLIC,
     ex_column ''organization_id'' DC_INTERNAL] [ex_fk ''users'']"

definition ex_schema :: database_schema where
  "ex_schema = \<lparr> db_dialect = SQLITE, db_tables = [ex_users, ex_orders], db_version = ''v1'' \<rparr>"

definition tree_of :: "ex_node list \<Rightarrow> ex_tree" where
  "tree_of ns = \<lparr> xt_nodes = ns, xt_limit = None, xt_conds = [] \<rparr>"

definition col_node :: "nat \<Rightarrow> string \<Rightarrow> string \<Rightarrow> ex_node" where
  "col_node p t c = (node [CColumn] (Some p) c)\<lparr> xn_table := t \<rparr>"

definition alias_node :: "nat \<Rightarrow> string \<Rightarrow> ex_node" where
  "alias_node p a = (node [CAlias] (Some p) a)\<lparr> xn_alias := a \<rparr>"

text \<open>\<open>SELECT orders.total FROM orders\<close>.\<close>

definition ex_query :: ex_tree where
  "ex_query = tree_of [node [CSelect] None [], col_node 0 ''orders'' ''total'',
     node [CTable] (Some 0) ''orders'']"

text \<open>\<open>SELECT users.password_hash FROM users\<close>.\<close>

definition ex_secret_query :: ex_tree where
  "ex_secret_query = tree_of [node [CSelect] None [], col_node 0 ''users'' ''password_hash'',
     node [CTable] (Some 0) ''users'']"

text \<open>\<open>SELECT password_hash AS password_hash FROM users\<close>.\<close>

definition ex_alias_query :: ex_tree where
  "ex_alias_query = tree_of [node [CSelect] None [], alias_node 0 ''password_hash'',
     col_node 1 [] ''password_hash'', node [CTable] (Some 0) ''users'']"

text \<open>
  \<open>SELECT users.password_hash FROM users WHERE EXISTS (SELECT users.id FROM (SELECT id FROM
  orders) AS users)\<close>: the name of the derived table hides the base table.
\<close>

definition ex_shadow_query :: ex_tree where
  "ex_shadow_query = tree_of [node [CSelect] None [], col_node 0 ''users'' ''password_hash'',
     node [CTable] (Some 0) ''users'', node [CSelect] (Some 0) [], col_node 3 ''users'' ''id'',
     (node [CSubquery] (Some 3) [])\<lparr> xn_alias := ''users'' \<rparr>, node [CSelect] (Some 5) [],
     col_node 6 [] ''id'', node [CTable] (Some 6) ''orders'']"

definition ex_delete_query :: ex_tree where
  "ex_delete_query = tree_of [node [CDelete] None [], node [CTable] (Some 0) ''orders'']"

definition ex_texts :: "(string \<times> ex_tree) list" where
  "ex_texts = [(''SELECT orders.total FROM orders'', ex_query),
     (''SELECT users.password_hash FROM users'', ex_secret_query),
     (''SELECT password_hash AS password_hash FROM users'', ex_alias_query),
     (''SELECT users.password_hash FROM users WHERE EXISTS (SELECT users.id FROM (SELECT id FROM orders) AS users)'',
      ex_shadow_query),
     (''DELETE FROM orders'', ex_delete_query)]"

definition ex_sg :: "(ex_tree, nd) sqlglot" where
  "ex_sg = ex_sqlglot ex_texts"

definition ex_validator :: validator_config where
  "ex_validator = sql_validator default_function_denylist False [] (\<lambda>xs. xs)"

definition ex_auth :: auth_context where
  "ex_auth = \<lparr> ac_user_id = ''u1'', ac_tenant_id = ''42'', ac_roles = [''analyst''] \<rparr>"

end
