(* ===== verification/GateProperties.thy ===== *)
theory GateProperties
  imports ExampleAst
begin

text \<open>
  The properties of the deterministic gate's parts: validation, column policy, tenant
  rewriting, the LIMIT and the cost limits. Each is proved from the lemmas of its component;
  the witnesses apply it to the queries of \<open>ExampleAst\<close>.
\<close>

section \<open>Validation\<close>

text \<open>
  C3: \<open>validate\<close> accepts a text exactly when it parses to one statement, holds no comment
  marker outside string literals, and the statement satisfies every rule: a read-only query,
  no forbidden node, no comment, no bare star, no denied function, every table known and
  permitted, every column known.
\<close>

theorem validate_accepts_exactly:
  "(\<exists>out. validate sg cfg sql d schema = Inr out \<and> vo_is_valid out) \<longleftrightarrow>
     (\<exists>e. parse_statements sg sql d = Inr [e] \<and> \<not> has_comment_marker sql
        \<and> is_query_root sg e
        \<and> (\<forall>n\<in>set (sg_walk sg e). \<not> is_forbidden sg e n \<and> sg_comments sg e n = [])
        \<and> (\<forall>n\<in>set (sg_find_all sg e CStar). sg_find_ancestor sg e n CFunc \<noteq> None)
        \<and> (\<forall>n\<in>set (sg_find_all sg e CFunc). func_name sg e n \<notin> set (vc_denylist cfg))
        \<and> (\<forall>n\<in>set (sg_find_all sg e CTable). table_ok sg cfg schema e n)
        \<and> (\<forall>n\<in>set (sg_find_all sg e CColumn). column_ok sg cfg schema e n))"
  unfolding validate_valid_iff clean_def classify_read_only_iff function_ok_def by blast

lemma validate_accepts_exactly_witness:
  "\<exists>e. parse_statements ex_sg ''SELECT orders.total FROM orders'' SQLITE = Inr [e] \<and> is_query_root ex_sg e
     \<and> (\<forall>n\<in>set (sg_find_all ex_sg e CTable). table_ok ex_sg ex_validator ex_schema e n)"
proof -
  have "case validate ex_sg ex_validator ''SELECT orders.total FROM orders'' SQLITE ex_schema of
      Inl _ \<Rightarrow> False | Inr out \<Rightarrow> vo_is_valid out"
    by code_simp
  then have "\<exists>out. validate ex_sg ex_validator ''SELECT orders.total FROM orders'' SQLITE ex_schema = Inr out
      \<and> vo_is_valid out"
    by (simp split: sum.splits)
  then show ?thesis unfolding validate_accepts_exactly by blast
qed

text \<open>
  A validation outcome is invalid exactly when it carries an issue, and no two issues
  have the same code and location.
\<close>

lemma validation_issues_consistent:
  assumes "validate sg cfg sql d schema = Inr out"
  shows "(vo_is_valid out \<longleftrightarrow> vo_issues out = [])
     \<and> distinct (map (\<lambda>i. (vi_code i, vi_location i)) (vo_issues out))"
  using validate_ok [OF assms] by (simp add: outcome_ok_def issues_distinct_def)

lemma validation_issues_consistent_witness:
  "\<exists>out. validate ex_sg ex_validator ''DELETE FROM orders'' SQLITE ex_schema = Inr out
     \<and> vo_issues out \<noteq> [] \<and> (vo_is_valid out \<longleftrightarrow> vo_issues out = [])"
proof -
  have "case validate ex_sg ex_validator ''DELETE FROM orders'' SQLITE ex_schema of
      Inl _ \<Rightarrow> False | Inr out \<Rightarrow> vo_issues out \<noteq> []"
    by code_simp
  then obtain out where
    "validate ex_sg ex_validator ''DELETE FROM orders'' SQLITE ex_schema = Inr out" "vo_issues out \<noteq> []"
    by (auto split: sum.splits)
  then show ?thesis using validation_issues_consistent by blast
qed

section \<open>Authorization\<close>

text \<open>
  Column access is the documented table: secrets for nobody, PII for admin or
  \<open>pii_read\<close>, financial data for admin, analyst or \<open>finance_read\<close>, confidential data for
  admin or analyst, the rest for everyone; and further roles never take access away.
\<close>

lemma column_access_as_documented:
  "can_view c roles = documented_access c (lower ` set roles)
   \<and> (can_view c roles \<longrightarrow> can_view c (roles @ extra))"
  using can_view_mono [of roles "roles @ extra" c] by (auto simp: can_view_documented)

lemma column_access_as_documented_witness:
  "can_view DC_FINANCIAL ([''Analyst''] @ [''viewer''])"
  using column_access_as_documented [of DC_FINANCIAL "[''Analyst'']" "[''viewer'']"] by code_simp

text \<open>
  C10: The policy engine allows a query exactly when every referenced table is neither
  denied nor outside the allowlist and every referenced column that resolves in the catalog
  has a classification the caller's roles may view; otherwise it reports an issue.
\<close>

theorem policy_allows_exactly:
  "(pd_allowed (enforce cfg tables columns schema auth) \<longleftrightarrow>
      (\<forall>q\<in>set tables. table_permitted cfg q) \<and> (\<forall>r\<in>set columns. column_permitted schema auth r))
   \<and> (pd_allowed (enforce cfg tables columns schema auth) \<longleftrightarrow>
      pd_issues (enforce cfg tables columns schema auth) = [])"
  using allowed_enforce issues_enforce by blast

lemma policy_allows_exactly_witness:
  "pd_issues (enforce default_policy_config [''users''] [''users.email''] ex_schema ex_auth) \<noteq> []"
proof -
  have "\<not> column_permitted ex_schema ex_auth ''users.email''" by code_simp
  then show ?thesis
    using policy_allows_exactly [of default_policy_config "[''users'']" "[''users.email'']" ex_schema ex_auth]
    by (meson list.set_intros(1))
qed

text \<open>
  C11: Validation and policy together: a column reference through a qualifier that denotes a
  catalog table, and that no CTE or derived table of the statement hides, is never allowed
  when the column is classified as a secret, whatever the caller's roles.
\<close>

theorem qualified_secret_denied:
  assumes "n \<in> set (sg_find_all sg e CColumn)" and "sg_name sg e n \<noteq> []" and "sg_name sg e n \<noteq> ''*''"
    and "sg_table sg e n \<noteq> []" and "lower (sg_table sg e n) \<notin> set (virtual_aliases sg e)"
    and "denotes sg schema e (lower (sg_table sg e n)) name" and "table schema name = Some t"
    and "column t (sg_name sg e n) = Some c" and "always_secret (col_classification c)"
    and "CHR ''.'' \<notin> set (tbl_name t)" and "table schema (tbl_name t) = Some t"
  shows "\<not> pd_allowed (enforce cfg (vo_tables (run_checks sg vcfg schema e out))
            (vo_columns (run_checks sg vcfg schema e out)) schema auth)"
proof -
  have "dotted (tbl_name t) (sg_name sg e n) \<in> set (vo_columns (run_checks sg vcfg schema e out))"
    using assms by (intro qualified_column_recorded) (auto simp: has_column_def)
  moreover have "\<not> column_permitted schema auth (dotted (tbl_name t) (sg_name sg e n))"
    using assms secret_never_viewed by (simp add: column_permitted_def resolve_dotted)
  ultimately show ?thesis by (auto simp: allowed_enforce)
qed

lemma qualified_secret_denied_witness:
  "\<not> pd_allowed (enforce default_policy_config
     (vo_tables (run_checks ex_sg ex_validator ex_schema ex_secret_query (new_outcome ex_sg [ex_secret_query])))
     (vo_columns (run_checks ex_sg ex_validator ex_schema ex_secret_query (new_outcome ex_sg [ex_secret_query])))
     ex_schema (ex_auth\<lparr> ac_roles := [''admin''] \<rparr>))"
proof (rule qualified_secret_denied [where n = "Nd 1" and name = "''users''" and t = ex_users
      and c = "ex_column ''password_hash'' DC_AUTH_SECRET"])
  have "Nd 2 \<in> set (catalog_nodes ex_sg ex_schema ex_secret_query)
      \<and> sg_name ex_sg ex_secret_query (Nd 2) = ''users''
      \<and> lower (sg_table ex_sg ex_secret_query (Nd 1)) = lower ''users''"
    by code_simp
  then show "denotes ex_sg ex_schema ex_secret_query (lower (sg_table ex_sg ex_secret_query (Nd 1))) ''users''"
    unfolding denotes_def by (metis)
qed code_simp+

text \<open>
  C33: What the gate does not see: an unqualified column whose name is also an output alias of
  the statement, or a qualified one whose qualifier is also the name of a CTE or derived
  table anywhere in it, is not handed to the policy. A valid statement all of whose columns
  are of this kind is allowed whatever columns it reads, secrets included.
\<close>

theorem hidden_columns_unchecked:
  assumes "validate sg cfg src d schema = Inr out" and "vo_is_valid out"
    and "parse_statements sg src d = Inr [e]"
    and "\<forall>n\<in>set (sg_find_all sg e CColumn).
      if sg_table sg e n = [] then lower (sg_name sg e n) \<in> set (output_aliases sg e)
      else lower (sg_table sg e n) \<in> set (virtual_aliases sg e)"
  shows "pd_allowed (enforce pcfg (vo_tables out) (vo_columns out) schema auth) \<longleftrightarrow>
    (\<forall>q\<in>set (vo_tables out). table_permitted pcfg q)"
proof -
  have "column_refs sg cfg schema e n = {}" if "n \<in> set (sg_find_all sg e CColumn)" for n
    using assms(4) [rule_format, OF that] by (auto simp: column_refs_def Let_def lower_def split: if_splits)
  then have "vo_columns out = []"
    using validate_valid_fields [OF assms(1,2)] assms(3) by fastforce
  then show ?thesis by (simp add: allowed_enforce)
qed

lemma hidden_columns_unchecked_witness:
  "\<exists>out. validate ex_sg ex_validator ''SELECT password_hash AS password_hash FROM users'' SQLITE ex_schema = Inr out
     \<and> pd_allowed (enforce default_policy_config (vo_tables out) (vo_columns out) ex_schema ex_auth)
     \<and> \<not> column_permitted ex_schema ex_auth ''users.password_hash''"
proof -
  let ?src = "''SELECT password_hash AS password_hash FROM users''"
  have p: "parse_statements ex_sg ?src SQLITE = Inr [ex_alias_query]" by code_simp
  have "case validate ex_sg ex_validator ?src SQLITE ex_schema of
      Inl _ \<Rightarrow> False | Inr out \<Rightarrow> vo_is_valid out \<and> vo_tables out = [''users'']"
    by code_simp
  then obtain out where out: "validate ex_sg ex_validator ?src SQLITE ex_schema = Inr out" "vo_is_valid out"
    "vo_tables out = [''users'']"
    by (auto split: sum.splits)
  have hidden: "\<forall>n\<in>set (sg_find_all ex_sg ex_alias_query CColumn).
      if sg_table ex_sg ex_alias_query n = [] then lower (sg_name ex_sg ex_alias_query n) \<in> set (output_aliases ex_sg ex_alias_query)
      else lower (sg_table ex_sg ex_alias_query n) \<in> set (virtual_aliases ex_sg ex_alias_query)"
    by code_simp
  have "table_permitted default_policy_config ''users'' \<and> \<not> column_permitted ex_schema ex_auth ''users.password_hash''"
    by code_simp
  with hidden_columns_unchecked [OF out(1,2) p hidden, of default_policy_config ex_auth] out
  show ?thesis by auto
qed

section \<open>Tenant isolation\<close>

text \<open>
  C2: After tenant rewriting, the WHERE of each SELECT holds its former conjuncts and, for
  exactly the tenant tables whose nearest enclosing SELECT it is, the predicate
  \<open><alias or name>.<tenant column> = <tenant id>\<close>; enforcing the LIMIT changes none of them.
\<close>

theorem tenant_predicates_injected:
  assumes "where_documented sg conds" and "limit_keeps_where sg conds"
  shows "conds (lo_expression (enforce_limit sg (fst (rewrite sg e schema tenant)) m)) s =
     conds e s \<union>
     {build_predicate (py_or (sg_alias sg e n) (sg_name sg e n)) col tenant | n col info.
        n \<in> set (sg_find_all sg e CTable) \<and> sg_find_ancestor sg e n CSelect = Some s
        \<and> table schema (sg_name sg e n) = Some info \<and> tbl_tenant_column info = Some col \<and> col \<noteq> []}"
proof -
  have "conds (lo_expression (enforce_limit sg (fst (rewrite sg e schema tenant)) m)) s =
      conds e s \<union> target_predicate sg e tenant ` {tg \<in> set (tenant_targets sg e schema). fst tg = s}"
    using assms by (simp add: enforce_limit_keeps_where conds_rewrite)
  also have "target_predicate sg e tenant ` {tg \<in> set (tenant_targets sg e schema). fst tg = s} =
      {target_predicate sg e tenant (s, n, col) | n col. (s, n, col) \<in> set (tenant_targets sg e schema)}"
    by force
  finally show ?thesis
    unfolding tenant_targets_iff target_predicate_def target_qualifier_def fst_conv snd_conv by blast
qed

lemma tenant_predicates_injected_witness:
  "\<lparr> tp_qualifier = ''orders'', tp_column = ''organization_id'', tp_literal = NumberLiteral ''42'' \<rparr>
     \<in> ex_conds (lo_expression (enforce_limit ex_sg
          (fst (rewrite ex_sg ex_query ex_schema ''42'')) 100)) (Nd 0)"
proof -
  have n: "Nd 2 \<in> set (sg_find_all ex_sg ex_query CTable)
      \<and> sg_find_ancestor ex_sg ex_query (Nd 2) CSelect = Some (Nd 0)
      \<and> table ex_schema (sg_name ex_sg ex_query (Nd 2)) = Some ex_orders
      \<and> tbl_tenant_column ex_orders = Some ''organization_id''
      \<and> build_predicate (py_or (sg_alias ex_sg ex_query (Nd 2)) (sg_name ex_sg ex_query (Nd 2)))
          ''organization_id'' ''42'' =
        \<lparr> tp_qualifier = ''orders'', tp_column = ''organization_id'', tp_literal = NumberLiteral ''42'' \<rparr>"
    by code_simp
  have "where_documented ex_sg ex_conds" "limit_keeps_where ex_sg ex_conds"
    by (simp_all add: ex_sg_def ex_where_documented ex_limit_keeps_where)
  note eq = tenant_predicates_injected [OF this, of ex_query ex_schema "''42''" 100 "Nd 0"]
  show ?thesis
    unfolding eq
    by (rule UnI2, rule CollectI, intro exI [of _ "Nd 2"] exI [of _ "''organization_id''"]
        exI [of _ ex_orders]) (use n in auto)
qed

section \<open>Bounded results\<close>

text \<open>
  After \<open>enforce_limit\<close> a query carries an integer LIMIT of at most the row cap, and it
  is the effective limit reported; a LIMIT that is no integer literal counts as \<open>10 ^ 12\<close>,
  so the cap has to be below that.
\<close>

lemma result_limit_bounded:
  assumes "limit_documented sg" and "is_query_root sg e" and "max_rows < 10 ^ 12"
  shows "\<exists>k. limit_value sg (lo_expression (enforce_limit sg e max_rows))
               (sg_limit_arg sg (lo_expression (enforce_limit sg e max_rows))) = Some k
             \<and> k \<le> max_rows \<and> k = lo_effective_limit (enforce_limit sg e max_rows)"
  using assms by (rule enforce_limit_bound)

lemma result_limit_bounded_witness:
  "\<exists>k \<le> 100. limit_value ex_sg (lo_expression (enforce_limit ex_sg ex_query 100))
     (sg_limit_arg ex_sg (lo_expression (enforce_limit ex_sg ex_query 100))) = Some k"
proof -
  have "is_query_root ex_sg ex_query" by code_simp
  from result_limit_bounded [OF _ this, of 100] show ?thesis
    by (auto simp: ex_sg_def ex_limit_documented)
qed

section \<open>Cost control\<close>

text \<open>
  C32: A cost report allows the query exactly when the numbers of joins, of nested SELECTs
  and of projected columns are within the configured limits, every join has a condition,
  and the planner's estimate, when there is one, is below the high threshold; a report is
  rated high exactly when it rejects.
\<close>

theorem cost_allows_exactly:
  assumes "analyze sg cfg e sql d engine = Inr res"
  shows "(cr_allowed res \<longleftrightarrow> within_limits sg cfg e
        \<and> (case cr_estimated_rows res of None \<Rightarrow> True
           | Some rows \<Rightarrow> rows < sp_cost_rows_high_threshold cfg))
     \<and> (cr_risk_level res = RISK_HIGH \<longleftrightarrow> \<not> cr_allowed res)
     \<and> (cr_allowed res \<longleftrightarrow> cr_issues res = [])"
  using analyze_allowed_iff [OF assms] analyze_risk_iff [OF assms]
    analyze_report_ok [OF assms, unfolded report_ok_def] by blast

lemma cost_allows_exactly_witness:
  "\<exists>res. analyze ex_sg (default_policy_config\<lparr> sp_max_selected_columns := 0 \<rparr>) ex_query ''q'' SQLITE None
       = Inr res \<and> \<not> cr_allowed res \<and> cr_issues res \<noteq> []"
proof -
  let ?cfg = "default_policy_config\<lparr> sp_max_selected_columns := 0 \<rparr>"
  have "sg_isinstance ex_sg ex_query (sg_root ex_sg ex_query) CSelect"
    and "length (sg_expressions ex_sg ex_query (sg_root ex_sg ex_query)) = 1" by code_simp+
  then have limits: "\<not> within_limits ex_sg ?cfg ex_query"
    by (simp add: within_limits_def projected_column_count_def)
  obtain res where res: "analyze ex_sg ?cfg ex_query ''q'' SQLITE None = Inr res"
    by (simp add: analyze_def Let_def)
  show ?thesis
    using cost_allows_exactly [OF res] limits by (intro exI [of _ res]) (auto simp: res)
qed

end
