(* ===== verification/Semantic.thy ===== *)
theory Semantic
  imports SchemaModels
begin

text \<open>
  The semantic layer (\<open>semantic/models.py\<close>): business terms, metrics, column and table
  annotations, and the lookups the retriever, the catalog and the ambiguity detector use.
\<close>

datatype term_kind = TK_METRIC | TK_DIMENSION | TK_ENTITY | TK_FILTER

fun term_kind_value :: "term_kind \<Rightarrow> string" where
  "term_kind_value TK_METRIC = ''metric''"
| "term_kind_value TK_DIMENSION = ''dimension''"
| "term_kind_value TK_ENTITY = ''entity''"
| "term_kind_value TK_FILTER = ''filter''"

record business_term =
  bt_term :: string
  bt_kind :: term_kind
  bt_definition :: string
  bt_synonyms :: "string list"
  bt_related_tables :: "string list"
  bt_related_columns :: "string list"

record metric_definition =
  md_name :: string
  md_description :: string
  md_sql_expression :: string
  md_required_tables :: "string list"
  md_default_filters :: "string list"
  md_synonyms :: "string list"

record column_annotation =
  ca_table :: string
  ca_column :: string
  ca_classification :: data_classification
  ca_comment :: "string option"
  ca_sample_values :: "string list"

record table_annotation =
  ta_table :: string
  ta_comment :: "string option"
  ta_tenant_column :: "string option"
  ta_aliases :: "string list"

record semantic_layer =
  sl_terms :: "business_term list"
  sl_metrics :: "metric_definition list"
  sl_column_annotations :: "column_annotation list"
  sl_table_annotations :: "table_annotation list"
  sl_date_policy :: string
  sl_default_date_fields :: "(string \<times> string) list"

definition term_surface_forms :: "business_term \<Rightarrow> string list" where
  "term_surface_forms t = bt_term t # bt_synonyms t"

definition metric_surface_forms :: "metric_definition \<Rightarrow> string list" where
  "metric_surface_forms m = md_name m # md_synonyms m"

section \<open>Lookups\<close>

text \<open>The index maps each lowered surface form to the last item that has it.\<close>

definition surface_index :: "('a \<Rightarrow> string list) \<Rightarrow> 'a list \<Rightarrow> (string \<times> 'a) list" where
  "surface_index forms items =
     fold (\<lambda>x idx. fold (\<lambda>form. AList.update (lower form) x) (forms x) idx) items []"

definition term_index :: "semantic_layer \<Rightarrow> (string \<times> business_term) list" where
  "term_index l = surface_index term_surface_forms (sl_terms l)"

definition metric_index :: "semantic_layer \<Rightarrow> (string \<times> metric_definition) list" where
  "metric_index l = surface_index metric_surface_forms (sl_metrics l)"

definition resolve_term :: "semantic_layer \<Rightarrow> string \<Rightarrow> business_term option" where
  "resolve_term l text = map_of (term_index l) (lower (strip text))"

definition resolve_metric :: "semantic_layer \<Rightarrow> string \<Rightarrow> metric_definition option" where
  "resolve_metric l text = map_of (metric_index l) (lower (strip text))"

definition column_annotation_for :: "semantic_layer \<Rightarrow> string \<Rightarrow> string \<Rightarrow> column_annotation option" where
  "column_annotation_for l tname cname = (let t = lower (strip tname); c = lower (strip cname) in
     find (\<lambda>a. lower (ca_table a) = t \<and> lower (ca_column a) = c) (sl_column_annotations l))"

definition table_annotation_for :: "semantic_layer \<Rightarrow> string \<Rightarrow> table_annotation option" where
  "table_annotation_for l tname = (let t = lower (strip tname) in
     find (\<lambda>a. lower (ta_table a) = t) (sl_table_annotations l))"

definition default_date_field :: "semantic_layer \<Rightarrow> string \<Rightarrow> string option" where
  "default_date_field l tname = (let t = lower (strip tname) in
     map_option snd (find (\<lambda>p. lower (fst p) = t) (sl_default_date_fields l)))"

definition padded :: "string \<Rightarrow> string" where
  "padded s = '' '' @ lower s @ '' ''"

text \<open>Items with a surface form in the question, each name once.\<close>

definition find_items ::
    "('a \<Rightarrow> string) \<Rightarrow> ('a \<Rightarrow> string list) \<Rightarrow> string \<Rightarrow> 'a list \<Rightarrow> 'a list" where
  "find_items name forms question items = (let lowered = padded question in
     fst (fold (\<lambda>x (found, seen).
            if (\<exists>form\<in>set (forms x). contains lowered (padded form)) \<and> name x \<notin> set seen
            then (found @ [x], name x # seen) else (found, seen))
          items ([], [])))"

definition find_surface_forms :: "semantic_layer \<Rightarrow> string \<Rightarrow> business_term list" where
  "find_surface_forms l question = find_items bt_term term_surface_forms question (sl_terms l)"

definition find_metrics :: "semantic_layer \<Rightarrow> string \<Rightarrow> metric_definition list" where
  "find_metrics l question = find_items md_name metric_surface_forms question (sl_metrics l)"

section \<open>What the lookups find\<close>

lemma fold_update_index:
  "map_of (fold (\<lambda>form. AList.update (lower form) x) fs idx) k =
     (if k \<in> lower ` set fs then Some x else map_of idx k)"
  by (induction fs arbitrary: idx) auto

lemma surface_index_lookup:
  "map_of (surface_index forms items) k = find (\<lambda>x. k \<in> lower ` set (forms x)) (rev items)"
proof -
  have "map_of (fold (\<lambda>x idx. fold (\<lambda>form. AList.update (lower form) x) (forms x) idx) items idx) k =
      (case find (\<lambda>x. k \<in> lower ` set (forms x)) (rev items) of
         Some x \<Rightarrow> Some x | None \<Rightarrow> map_of idx k)" for idx
    by (induction items arbitrary: idx)
      (simp_all add: find_snoc fold_update_index split: option.splits)
  then show ?thesis by (simp add: surface_index_def split: option.splits)
qed

lemma resolve_term_Some:
  "resolve_term l text = Some t \<Longrightarrow> t \<in> set (sl_terms l) \<and> lower (strip text) \<in> lower ` set (term_surface_forms t)"
  using find_SomeD [of "\<lambda>x. lower (strip text) \<in> lower ` set (term_surface_forms x)" "rev (sl_terms l)" t]
  by (simp add: resolve_term_def term_index_def surface_index_lookup)

lemma find_items_step:
  "fold (\<lambda>x (found, seen).
       if P x \<and> name x \<notin> set seen then (found @ [x], name x # seen) else (found, seen)) items (found, seen)
   = (found', seen') \<Longrightarrow> set seen = name ` set found \<Longrightarrow> distinct (map name found) \<Longrightarrow>
   set seen' = name ` set found' \<and> distinct (map name found')
   \<and> set found' \<subseteq> set found \<union> {x \<in> set items. P x}
   \<and> name ` set found' = name ` set found \<union> name ` {x \<in> set items. P x}"
proof (induction items arbitrary: found seen)
  case Nil
  then show ?case by simp
next
  case (Cons x items)
  have hits: "{y \<in> set (x # items). P y} = (if P x then {x} else {}) \<union> {y \<in> set items. P y}"
    by auto
  show ?case
  proof (cases "P x \<and> name x \<notin> set seen")
    case True
    with Cons.prems Cons.IH [of "found @ [x]" "name x # seen"] show ?thesis
      unfolding hits by (simp add: image_Un Un_assoc Un_insert_left insert_is_Un [symmetric])
  next
    case False
    then have "name ` (if P x then {x} else {}) \<subseteq> name ` set found"
      using Cons.prems(2) by auto
    then have absorbed: "name ` set found \<union> name ` {y \<in> set (x # items). P y} =
        name ` set found \<union> name ` {y \<in> set items. P y}"
      unfolding hits image_Un by blast
    have "fold (\<lambda>x (found, seen).
        if P x \<and> name x \<notin> set seen then (found @ [x], name x # seen) else (found, seen))
        items (found, seen) = (found', seen')"
      using Cons.prems(1) unfolding fold_simps comp_def prod.case if_not_P [OF False] .
    then have "set seen' = name ` set found' \<and> distinct (map name found')
        \<and> set found' \<subseteq> set found \<union> {x \<in> set items. P x}
        \<and> name ` set found' = name ` set found \<union> name ` {x \<in> set items. P x}"
      by (rule Cons.IH) (fact Cons.prems)+
    then show ?thesis unfolding absorbed by auto
  qed
qed

lemma find_items_spec:
  defines "P \<equiv> \<lambda>forms question x. \<exists>form\<in>set (forms x). contains (padded question) (padded form)"
  shows "set (find_items name forms question items) \<subseteq> {x \<in> set items. P forms question x}"
    and "name ` set (find_items name forms question items) = name ` {x \<in> set items. P forms question x}"
    and "distinct (map name (find_items name forms question items))"
  using find_items_step [of "P forms question" name items "[]" "[]"]
  by (auto simp: find_items_def P_def Let_def prod_eq_iff)

end
