(* ===== verification/Execution.thy ===== *)
theory Execution
  imports Cost
begin

text \<open>
  Read-only execution (\<open>execution/executor.py\<close>) and repair planning
  (\<open>application/repair.py\<close>).

  The database engine is a parameter: what connecting gives and what running a statement
  gives, both depending on the statements run so far, which the state \<open>world\<close> records. The
  performance counter is a parameter too; the state counts its readings.
\<close>

section \<open>The outside world\<close>

datatype db_exn = SQLAlchemyError string | OtherException py_exception

datatype db_value =
    DbNull | DbBool bool | DbInt int | DbFloat rat | DbStr string
  | DbDecimal rat
  | DbTemporal string
  | DbBytes
  | DbOther string

text \<open>A \<open>DbTemporal\<close> carries its \<open>isoformat()\<close> text, a \<open>DbOther\<close> its \<open>str()\<close> text.\<close>

record sql_engine =
  en_connect :: "string list \<Rightarrow> db_exn option"
  en_run :: "string list \<Rightarrow> string \<Rightarrow> db_exn + string list \<times> db_value list list"

record world =
  w_log :: "string list"
  w_ticks :: nat

definition perf_counter :: "(nat \<Rightarrow> rat) \<Rightarrow> ('z) world_scheme \<Rightarrow> rat \<times> 'z world_scheme" where
  "perf_counter clock w = (clock (w_ticks w), w\<lparr> w_ticks := w_ticks w + 1 \<rparr>)"

definition send :: "string \<Rightarrow> 'z world_scheme \<Rightarrow> 'z world_scheme" where
  "send stmt w = w\<lparr> w_log := w_log w @ [stmt] \<rparr>"

lemma send_fields [simp]: "w_log (send s w) = w_log w @ [s]" "w_ticks (send s w) = w_ticks w"
  by (simp_all add: send_def)

section \<open>The executor\<close>

record execution_result =
  er_columns :: "string list"
  er_rows :: "json list list"
  er_row_count :: nat
  er_truncated :: bool
  er_duration_ms :: rat

fun to_jsonable :: "db_value \<Rightarrow> json" where
  "to_jsonable DbNull = JNull"
| "to_jsonable (DbBool b) = JBool b"
| "to_jsonable (DbInt i) = JNum (of_int i)"
| "to_jsonable (DbFloat r) = JNum r"
| "to_jsonable (DbStr s) = JStr s"
| "to_jsonable (DbDecimal r) = JNum r"
| "to_jsonable (DbTemporal s) = JStr s"
| "to_jsonable DbBytes = JStr ([CHR 0xAB] @ ''binary'' @ [CHR 0xBB])"
| "to_jsonable (DbOther s) = JStr s"

definition classify_db_error :: "string \<Rightarrow> string" where
  "classify_db_error text = (let t = lower text in
     if contains t ''timeout'' \<or> contains t ''canceling statement'' then ''statement_timeout''
     else if contains t ''permission'' \<or> contains t ''read-only'' \<or> contains t ''readonly''
       then ''read_only_violation''
     else if contains t ''syntax'' then ''syntax_error''
     else ''database_error'')"

definition session_guards :: "sql_dialect \<Rightarrow> int \<Rightarrow> string list" where
  "session_guards dialect timeout_ms =
     (if dialect = POSTGRES
      then [''SET TRANSACTION READ ONLY'',
            ''SET LOCAL statement_timeout = '' @ show_int timeout_ms]
      else [])"

text \<open>The statements of a session in order, up to the first exception.\<close>

fun run_guards ::
    "sql_engine \<Rightarrow> string list \<Rightarrow> 'z world_scheme \<Rightarrow> db_exn option \<times> 'z world_scheme" where
  "run_guards eng [] w = (None, w)"
| "run_guards eng (g # gs) w = (case en_run eng (w_log w) g of
     Inl x \<Rightarrow> (Some x, send g w)
   | Inr _ \<Rightarrow> run_guards eng gs (send g w))"

definition db_session ::
    "sql_engine \<Rightarrow> sql_dialect \<Rightarrow> int \<Rightarrow> string \<Rightarrow> 'z world_scheme
      \<Rightarrow> (db_exn + string list \<times> db_value list list) \<times> 'z world_scheme" where
  "db_session eng dialect timeout_ms sql w = (case en_connect eng (w_log w) of
     Some x \<Rightarrow> (Inl x, w)
   | None \<Rightarrow>
       (case run_guards eng (session_guards dialect timeout_ms) w of
          (Some x, w1) \<Rightarrow> (Inl x, w1)
        | (None, w1) \<Rightarrow> (en_run eng (w_log w1) sql, send sql w1)))"

definition execute ::
    "sql_engine \<Rightarrow> sql_dialect \<Rightarrow> int \<Rightarrow> (nat \<Rightarrow> rat) \<Rightarrow> string \<Rightarrow> int \<Rightarrow> 'z world_scheme
      \<Rightarrow> (failure + execution_result) \<times> 'z world_scheme" where
  "execute eng dialect timeout_ms clock sql max_rows w =
     (let (start, w0) = perf_counter clock w in
      case db_session eng dialect timeout_ms sql w0 of
        (Inl (SQLAlchemyError t), w1) \<Rightarrow>
          (Inl (Raised (raise_error ExecutionError ''The query could not be executed.''
             [(''reason'', JStr (classify_db_error t))])), w1)
      | (Inl (OtherException x), w1) \<Rightarrow> (Inl (Unhandled x), w1)
      | (Inr (columns, result), w1) \<Rightarrow>
          (let fetched = take (nat (max_rows + 1)) result;
               rows = map (map to_jsonable) (slice_to max_rows fetched);
               (stop, w2) = perf_counter clock w1
           in (Inr \<lparr> er_columns = columns, er_rows = rows, er_row_count = length rows,
                     er_truncated = (int (length fetched) > max_rows),
                     er_duration_ms = (stop - start) * 1000 \<rparr>, w2)))"

text \<open>What was sent: a prefix of the session's statements, in order.\<close>

lemma run_guards_log:
  "\<exists>k. w_log (snd (run_guards eng gs w)) = w_log w @ take k gs
     \<and> (fst (run_guards eng gs w) = None \<longrightarrow> k = length gs)"
proof (induction gs arbitrary: w)
  case Nil
  then show ?case by simp
next
  case (Cons g gs)
  show ?case
  proof (cases "en_run eng (w_log w) g")
    case (Inl x)
    then show ?thesis by (intro exI [of _ 1]) simp
  next
    case (Inr r)
    from Cons [of "send g w"] obtain k where
      "w_log (snd (run_guards eng gs (send g w))) = w_log w @ g # take k gs"
      "fst (run_guards eng gs (send g w)) = None \<longrightarrow> k = length gs" by auto
    with Inr show ?thesis by (intro exI [of _ "Suc k"]) simp
  qed
qed

lemma db_session_log:
  "\<exists>k. w_log (snd (db_session eng d t sql w)) = w_log w @ take k (session_guards d t @ [sql])
     \<and> ((\<exists>r. fst (db_session eng d t sql w) = Inr r) \<longrightarrow> k = length (session_guards d t) + 1)"
proof (cases "en_connect eng (w_log w)")
  case (Some x)
  then show ?thesis by (intro exI [of _ 0]) (simp add: db_session_def)
next
  case None
  obtain x w1 where r: "run_guards eng (session_guards d t) w = (x, w1)" by fastforce
  from run_guards_log [of eng "session_guards d t" w] obtain k where
    k: "w_log w1 = w_log w @ take k (session_guards d t)" "x = None \<longrightarrow> k = length (session_guards d t)"
    by (auto simp: r)
  show ?thesis
  proof (cases x)
    case None
    with \<open>en_connect eng (w_log w) = None\<close> r k show ?thesis
      by (intro exI [of _ "length (session_guards d t) + 1"]) (simp add: db_session_def)
  next
    case (Some y)
    with None r k show ?thesis
      by (intro exI [of _ "min k (length (session_guards d t))"])
        (simp add: db_session_def min_def)
  qed
qed

lemma perf_counter_log [simp]: "w_log (snd (perf_counter clock w)) = w_log w"
  by (simp add: perf_counter_def)

lemma execute_log:
  "\<exists>k. w_log (snd (execute eng d t clock sql m w)) = w_log w @ take k (session_guards d t @ [sql])
     \<and> ((\<exists>r. fst (execute eng d t clock sql m w) = Inr r) \<longrightarrow> k = length (session_guards d t) + 1)"
proof -
  let ?w = "snd (perf_counter clock w)"
  have "w_log (snd (execute eng d t clock sql m w)) = w_log (snd (db_session eng d t sql ?w))"
    and "(\<exists>r. fst (execute eng d t clock sql m w) = Inr r) \<longleftrightarrow>
      (\<exists>r. fst (db_session eng d t sql ?w) = Inr r)"
    by (auto simp: execute_def Let_def case_prod_beta split: sum.splits db_exn.splits prod.splits)
  then show ?thesis using db_session_log [of eng d t sql ?w] by simp
qed

text \<open>Beside the log and the clock, execution changes nothing.\<close>

lemma run_guards_more: "world.more (snd (run_guards eng gs w)) = world.more w"
  by (induction gs arbitrary: w) (auto simp: send_def split: sum.splits)

lemma db_session_more: "world.more (snd (db_session eng d t sql w)) = world.more w"
  using run_guards_more [of eng "session_guards d t" w]
  by (auto simp: db_session_def send_def split: option.splits prod.splits)

lemma execute_more: "world.more (snd (execute eng d t clock sql m w)) = world.more w"
  using db_session_more [of eng d t sql "snd (perf_counter clock w)"]
  by (auto simp: execute_def Let_def case_prod_beta perf_counter_def
      split: sum.splits db_exn.splits prod.splits)

text \<open>The row cap and the truncation flag.\<close>

lemma execute_result:
  assumes "fst (execute eng d t clock sql m w) = Inr r" and "0 \<le> m"
  obtains columns result where
    "fst (db_session eng d t sql (snd (perf_counter clock w))) = Inr (columns, result)"
    "er_columns r = columns" "er_rows r = map (map to_jsonable) (take (nat m) result)"
    "er_row_count r = length (er_rows r)" "er_truncated r \<longleftrightarrow> int (length result) > m"
proof -
  obtain columns result where s:
    "fst (db_session eng d t sql (snd (perf_counter clock w))) = Inr (columns, result)"
    using assms(1)
    by (auto simp: execute_def Let_def case_prod_beta split: sum.splits db_exn.splits prod.splits)
  have n: "nat (m + 1) = Suc (nat m)" using assms(2) by simp
  have "er_columns r = columns \<and> er_rows r = map (map to_jsonable) (take (nat m) result)
      \<and> er_row_count r = length (er_rows r) \<and> (er_truncated r \<longleftrightarrow> int (length result) > m)"
    using assms s
    by (cases "db_session eng d t sql (snd (perf_counter clock w))")
      (auto simp: execute_def Let_def case_prod_beta slice_to_def n)
  then show ?thesis using that s by blast
qed

text \<open>An error reaching the caller carries one of four fixed reasons.\<close>

lemma classify_db_error_range: "classify_db_error t \<in>
   {''statement_timeout'', ''read_only_violation'', ''syntax_error'', ''database_error''}"
  by (simp add: classify_db_error_def Let_def)

lemma execute_error:
  assumes "fst (execute eng d t clock sql m w) = Inl (Raised err)"
  shows "ee_class err = ExecutionError \<and> ee_message err = ''The query could not be executed.''
     \<and> (\<exists>reason \<in> {''statement_timeout'', ''read_only_violation'', ''syntax_error'', ''database_error''}.
          ee_details err = [(''reason'', JStr reason)])"
proof -
  obtain t where "err = raise_error ExecutionError ''The query could not be executed.''
      [(''reason'', JStr (classify_db_error t))]"
    using assms by (auto simp: execute_def Let_def case_prod_beta split: sum.splits db_exn.splits prod.splits)
  then show ?thesis using classify_db_error_range [of t] by auto
qed

section \<open>Repair planning\<close>

definition repairable_codes :: "string list" where
  "repairable_codes = [''sql_parse_failed'', ''unknown_table'', ''unknown_column'',
     ''select_star_forbidden'', ''denied_function'']"

definition non_repairable_codes :: "string list" where
  "non_repairable_codes = [''non_read_only_statement'', ''forbidden_statement'',
     ''multiple_statements'', ''comment_present'', ''system_catalog_access'',
     ''cross_database_access'', ''schema_not_allowed'', ''column_denied'', ''table_denied'',
     ''table_not_allowed'', ''cartesian_product'', ''too_many_joins'', ''subquery_too_deep'',
     ''too_many_columns'', ''estimated_cost_too_high'']"

definition is_repairable :: "validation_issue list \<Rightarrow> bool" where
  "is_repairable issues = (if issues = [] then False
     else let codes = map vi_code issues in
       if \<exists>c\<in>set codes. c \<in> set non_repairable_codes then False
       else (\<exists>c\<in>set codes. c \<in> set repairable_codes))"

definition sanitized_feedback :: "validation_issue list \<Rightarrow> string list" where
  "sanitized_feedback issues = from_keys
     (map (\<lambda>i. vi_code i @ '': '' @ vi_message i)
        (filter (\<lambda>i. vi_code i \<in> set repairable_codes) issues))"

lemma codes_disjoint: "set repairable_codes \<inter> set non_repairable_codes = {}"
  by code_simp

lemma is_repairable_iff:
  "is_repairable issues \<longleftrightarrow>
     (\<exists>i\<in>set issues. vi_code i \<in> set repairable_codes)
     \<and> (\<forall>i\<in>set issues. vi_code i \<notin> set non_repairable_codes)"
  by (auto simp: is_repairable_def Let_def)

lemma feedback_iff:
  "f \<in> set (sanitized_feedback issues) \<longleftrightarrow>
     (\<exists>i\<in>set issues. vi_code i \<in> set repairable_codes \<and> f = vi_code i @ '': '' @ vi_message i)"
  by (auto simp: sanitized_feedback_def)

lemma feedback_distinct: "distinct (sanitized_feedback issues)"
  by (simp add: sanitized_feedback_def)

lemma repairable_feedback_not_Nil: "is_repairable issues \<Longrightarrow> sanitized_feedback issues \<noteq> []"
  using feedback_iff [of _ issues] by (fastforce simp: is_repairable_iff)

end
