(* ===== verification/Provider.thy ===== *)
theory Provider
  imports Prompt Execution
begin

text \<open>
  The sequencing of effectful calls, and the provider-independent generation interface of
  \<open>llm/base.py\<close>: the request and response objects and the protocol a provider implements.
  A provider is a function of the requests it has seen before and of the current one.
\<close>

section \<open>Calls in sequence\<close>

text \<open>A computation takes the state and ends with a failure or a value, and a state.\<close>

type_synonym ('a, 'w) call = "'w \<Rightarrow> (failure + 'a) \<times> 'w"

definition give :: "'a \<Rightarrow> ('a, 'w) call" where
  "give a w = (Inr a, w)"

definition fail :: "failure \<Rightarrow> ('a, 'w) call" where
  "fail x w = (Inl x, w)"

definition seq :: "('a, 'w) call \<Rightarrow> ('a \<Rightarrow> ('b, 'w) call) \<Rightarrow> ('b, 'w) call" where
  "seq m k w = (case m w of (Inl x, w1) \<Rightarrow> (Inl x, w1) | (Inr a, w1) \<Rightarrow> k a w1)"

definition change :: "('w \<Rightarrow> 'w) \<Rightarrow> (unit, 'w) call" where
  "change f w = (Inr (), f w)"

text \<open>A state operation that cannot fail, and a value that may be an exception.\<close>

definition ask :: "('w \<Rightarrow> 'a \<times> 'w) \<Rightarrow> ('a, 'w) call" where
  "ask f w = (case f w of (a, w1) \<Rightarrow> (Inr a, w1))"

definition lift_result :: "py_exception + 'a \<Rightarrow> ('a, 'w) call" where
  "lift_result r w = (case r of Inl x \<Rightarrow> (Inl (Unhandled x), w) | Inr a \<Rightarrow> (Inr a, w))"

section \<open>Requests and responses\<close>

record token_usage =
  tu_prompt_tokens :: int
  tu_completion_tokens :: int

definition total_tokens :: "token_usage \<Rightarrow> int" where
  "total_tokens u = tu_prompt_tokens u + tu_completion_tokens u"

record resolved_date =
  rv_description :: string
  rv_matched_phrase :: string
  rv_start_iso :: string
  rv_end_iso :: string

record repair_context =
  rc_attempt :: int
  rc_previous_sql :: string
  rc_errors :: "string list"

record generation_clarification =
  gc_category :: ambiguity_category
  gc_question :: string
  gc_interpretations :: "string list"

record generation_request =
  gr_question :: string
  gr_dialect :: sql_dialect
  gr_schema_subset :: database_schema
  gr_semantic_layer :: semantic_layer
  gr_prompt :: prompt_payload
  gr_max_rows :: int
  gr_resolved_date :: "resolved_date option"
  gr_conversation :: "conversation_state option"
  gr_repair :: "repair_context option"
  gr_model :: string
  gr_temperature :: rat
  gr_timeout_seconds :: rat

record generation_response =
  gs_sql :: string
  gs_dialect :: sql_dialect
  gs_explanation :: string
  gs_referenced_tables :: "string list"
  gs_referenced_columns :: "string list"
  gs_assumptions :: "string list"
  gs_confidence :: rat
  gs_needs_clarification :: bool
  gs_clarification :: "generation_clarification option"
  gs_prompt_version :: string
  gs_provider :: string
  gs_model :: string
  gs_usage :: token_usage

record llm_provider =
  lp_name :: string
  lp_model :: string
  lp_generate :: "generation_request list \<Rightarrow> generation_request \<Rightarrow> failure + generation_response"

section \<open>Facts on sequences\<close>

lemma seq_give [simp]: "seq (give a) k = k a"
  by (rule ext) (simp add: seq_def give_def)

lemma seq_fail [simp]: "seq (fail x) k = fail x"
  by (rule ext) (simp add: seq_def fail_def)

lemma seq_assoc: "seq (seq m k) h = seq m (\<lambda>a. seq (k a) h)"
  by (rule ext) (simp add: seq_def split: sum.splits prod.splits)

lemma seq_Inr:
  assumes "seq m k w = (Inr b, w2)"
  obtains a w1 where "m w = (Inr a, w1)" "k a w1 = (Inr b, w2)"
  using assms by (auto simp: seq_def split: sum.splits prod.splits)

text \<open>
  Triples: from a state with \<open>P\<close> the call ends with a value and a state in \<open>Q\<close>, or with a
  failure and a state in \<open>E\<close>. Calls always end, so a triple is total correctness.
\<close>

definition triple ::
    "('w \<Rightarrow> bool) \<Rightarrow> ('a, 'w) call \<Rightarrow> ('a \<Rightarrow> 'w \<Rightarrow> bool) \<Rightarrow> (failure \<Rightarrow> 'w \<Rightarrow> bool) \<Rightarrow> bool" where
  "triple P m Q E \<longleftrightarrow> (\<forall>w. P w \<longrightarrow> (case m w of (Inl x, w') \<Rightarrow> E x w' | (Inr a, w') \<Rightarrow> Q a w'))"

lemma tripleI:
  "(\<And>w x w'. P w \<Longrightarrow> m w = (Inl x, w') \<Longrightarrow> E x w') \<Longrightarrow>
   (\<And>w a w'. P w \<Longrightarrow> m w = (Inr a, w') \<Longrightarrow> Q a w') \<Longrightarrow> triple P m Q E"
  by (auto simp: triple_def split: prod.splits sum.splits)

lemma triple_Inr: "triple P m Q E \<Longrightarrow> P w \<Longrightarrow> m w = (Inr a, w') \<Longrightarrow> Q a w'"
  by (fastforce simp: triple_def)

lemma triple_Inl: "triple P m Q E \<Longrightarrow> P w \<Longrightarrow> m w = (Inl x, w') \<Longrightarrow> E x w'"
  by (fastforce simp: triple_def)

lemma triple_conseq:
  "triple P m Q E \<Longrightarrow> (\<And>w. P' w \<Longrightarrow> P w) \<Longrightarrow> (\<And>a w. Q a w \<Longrightarrow> Q' a w) \<Longrightarrow>
   (\<And>x w. E x w \<Longrightarrow> E' x w) \<Longrightarrow> triple P' m Q' E'"
  by (rule tripleI) (blast dest: triple_Inr triple_Inl)+

lemma triple_seq:
  assumes m: "triple P m Q E" and k: "\<And>a. triple (Q a) (k a) R E"
  shows "triple P (seq m k) R E"
proof (rule tripleI)
  fix w x w' assume w: "P w" "seq m k w = (Inl x, w')"
  then consider "m w = (Inl x, w')" | a w1 where "m w = (Inr a, w1)" "k a w1 = (Inl x, w')"
    by (auto simp: seq_def split: sum.splits prod.splits)
  then show "E x w'"
    by cases (blast dest: triple_Inl [OF m w(1)] triple_Inr [OF m w(1)] triple_Inl [OF k])+
next
  fix w b w' assume w: "P w" "seq m k w = (Inr b, w')"
  obtain a w1 where "m w = (Inr a, w1)" "k a w1 = (Inr b, w')" using w(2) by (rule seq_Inr)
  then show "R b w'" by (blast dest: triple_Inr [OF m w(1)] triple_Inr [OF k])
qed

lemma triple_give: "(\<And>w. P w \<Longrightarrow> Q a w) \<Longrightarrow> triple P (give a) Q E"
  by (simp add: triple_def give_def)

lemma triple_fail: "(\<And>w. P w \<Longrightarrow> E x w) \<Longrightarrow> triple P (fail x) Q E"
  by (simp add: triple_def fail_def)

lemma triple_change: "(\<And>w. P w \<Longrightarrow> Q () (f w)) \<Longrightarrow> triple P (change f) Q E"
  by (simp add: triple_def change_def)

lemma triple_ask: "(\<And>w a w'. P w \<Longrightarrow> f w = (a, w') \<Longrightarrow> Q a w') \<Longrightarrow> triple P (ask f) Q E"
  by (simp add: triple_def ask_def split: prod.splits)

lemma triple_lift:
  "(\<And>w x. P w \<Longrightarrow> r = Inl x \<Longrightarrow> E (Unhandled x) w) \<Longrightarrow> (\<And>w a. P w \<Longrightarrow> r = Inr a \<Longrightarrow> Q a w) \<Longrightarrow>
   triple P (lift_result r) Q E"
  by (cases r) (simp_all add: triple_def lift_result_def)

lemma triple_pre: "(\<And>w. P w \<Longrightarrow> A) \<Longrightarrow> (A \<Longrightarrow> triple P m Q E) \<Longrightarrow> triple P m Q E"
  by (auto simp: triple_def)

text \<open>A call that keeps \<open>P\<close> whatever its outcome.\<close>

definition keeps :: "('w \<Rightarrow> bool) \<Rightarrow> ('a, 'w) call \<Rightarrow> bool" where
  "keeps P m \<longleftrightarrow> triple P m (\<lambda>_. P) (\<lambda>_. P)"

lemma keeps_iff: "keeps P m \<longleftrightarrow> (\<forall>w. P w \<longrightarrow> P (snd (m w)))"
  by (auto simp: keeps_def triple_def split: prod.splits sum.splits) (metis snd_conv surj_pair)

lemma keeps_seq: "keeps P m \<Longrightarrow> (\<And>a. keeps P (k a)) \<Longrightarrow> keeps P (seq m k)"
  unfolding keeps_def by (rule triple_seq)

lemma keeps_give [simp]: "keeps P (give a)"
  by (simp add: keeps_iff give_def)

lemma keeps_fail [simp]: "keeps P (fail x)"
  by (simp add: keeps_iff fail_def)

lemma keeps_lift [simp]: "keeps P (lift_result r)"
  by (cases r) (simp_all add: keeps_iff lift_result_def)

lemma keeps_change: "keeps P (change f) \<longleftrightarrow> (\<forall>w. P w \<longrightarrow> P (f w))"
  by (simp add: keeps_iff change_def)

lemma keeps_ask: "keeps P (ask f) \<longleftrightarrow> (\<forall>w. P w \<longrightarrow> P (snd (f w)))"
  by (simp add: keeps_iff ask_def case_prod_beta)

text \<open>A kept property holds afterwards as well, beside what the call gives.\<close>

lemma triple_keeps: "keeps P m \<Longrightarrow> triple P m Q E \<Longrightarrow> triple P m (\<lambda>a w. P w \<and> Q a w) (\<lambda>x w. P w \<and> E x w)"
  unfolding keeps_def by (rule tripleI) (blast dest: triple_Inr triple_Inl)+

end
