(* ===== verification/Redaction.thy ===== *)
theory Redaction
  imports PyRegex Errors
begin

text \<open>
  Correlation identifiers (\<open>common/ids.py\<close>) and redaction (\<open>common/redaction.py\<close>). The
  random source of \<open>uuid4().hex\<close> is an argument; the order in which Python iterates over a
  set of literals of equal length is the field \<open>rx_set_order\<close>.
\<close>

section \<open>Identifiers\<close>

definition new_request_id :: "string \<Rightarrow> string" where
  "new_request_id hex = ''req_'' @ hex"

definition new_correlation_id :: "string \<Rightarrow> string" where
  "new_correlation_id hex = ''corr_'' @ hex"

definition is_ascii_alnum :: "char \<Rightarrow> bool" where
  "is_ascii_alnum c \<longleftrightarrow> (let n = code_point c in
     65 \<le> n \<and> n \<le> 90 \<or> 97 \<le> n \<and> n \<le> 122 \<or> 48 \<le> n \<and> n \<le> 57)"

definition safe_id_char :: "char \<Rightarrow> bool" where
  "safe_id_char c \<longleftrightarrow> is_ascii_alnum c \<or> c \<in> set ''_.:-''"

definition max_id_len :: nat where
  "max_id_len = 128"

definition sanitize_correlation_id :: "string \<Rightarrow> string option \<Rightarrow> string" where
  "sanitize_correlation_id hex value = (case value of
     None \<Rightarrow> new_correlation_id hex
   | Some v \<Rightarrow>
       if v = [] then new_correlation_id hex
       else py_or (take max_id_len (re_sub (Chars (\<lambda>c. \<not> safe_id_char c)) (\<lambda>_ _. []) v))
              (new_correlation_id hex))"

section \<open>Patterns\<close>

definition redacted_mark :: string where
  "redacted_mark = [CHR 0xAB] @ ''redacted'' @ [CHR 0xBB]"

definition ascii_alpha :: re where
  "ascii_alpha = Chars (\<lambda>c. is_ascii_alnum c \<and> \<not> is_decimal c)"

definition ascii_alnum_or :: "string \<Rightarrow> re" where
  "ascii_alnum_or cs = Chars (\<lambda>c. is_ascii_alnum c \<or> c \<in> set cs)"

definition no_space_or :: "string \<Rightarrow> re" where
  "no_space_or cs = Chars (\<lambda>c. \<not> is_space c \<and> c \<notin> set cs)"

definition credential_uri_re :: re where
  "credential_uri_re = seqs
     [Group 1 (seqs [ascii_alpha, Star (ascii_alnum_or ''+.-''), lit ''://'']),
      plus (no_space_or '':@/''), lit '':'', plus (no_space_or ''@/''), lit ''@'']"

definition bearer_re :: re where
  "bearer_re = seqs [WordB, lit_ci ''bearer'', plus space, plus (ascii_alnum_or ''._-'')]"

definition api_key_re :: re where
  "api_key_re = seqs [WordB,
     alts [seqs [lit_ci ''api'', opt (one_of ''_-''), lit_ci ''key''], lit_ci ''secret'', lit_ci ''token'',
       lit_ci ''password'', lit_ci ''passwd'', lit_ci ''pwd''],
     WordB, Star space, one_of '':='', Star space, opt (one_of [CHR 0x27, CHR 0x22]),
     plus (no_space_or [CHR 0x27, CHR 0x22, CHR ''&'', CHR '','', CHR '';''])]"

definition openai_key_re :: re where
  "openai_key_re = seqs [WordB, lit ''sk-'', rep_atleast 12 (ascii_alnum_or []), WordB]"

definition email_re :: re where
  "email_re = seqs [WordB, plus (ascii_alnum_or ''._%+-''), lit ''@'', plus (ascii_alnum_or ''.-''),
     lit ''.'', rep_atleast 2 ascii_alpha, WordB]"

definition card_re :: re where
  "card_re = seqs [WordB, rep_range 13 19 (seqs [digit, opt (one_of '' -'')]), WordB]"

definition phone_re :: re where
  "phone_re = seqs [WordB, opt (lit ''+''), digit,
     rep_atleast 7 (Chars (\<lambda>c. is_decimal c \<or> is_space c \<or> c \<in> set ''().-'')), digit, WordB]"

definition redact_text :: "string \<Rightarrow> string" where
  "redact_text text = (if text = [] then text
     else fold (\<lambda>r s. re_sub r (\<lambda>_ _. redacted_mark) s)
       [bearer_re, api_key_re, openai_key_re, email_re, card_re, phone_re]
       (re_sub credential_uri_re
          (\<lambda>t c. (case map_of c 1 of None \<Rightarrow> [] | Some scheme \<Rightarrow> scheme) @ redacted_mark @ ''@'') text))"

section \<open>The redactor\<close>

record redactor =
  rx_literals :: "string list"
  rx_apply_patterns :: bool

definition min_literal_len :: nat where
  "min_literal_len = 4"

definition new_redactor :: "(string list \<Rightarrow> string list) \<Rightarrow> string list \<Rightarrow> bool \<Rightarrow> redactor" where
  "new_redactor set_order literals patterns =
     \<lparr> rx_literals = sort_key (\<lambda>l. - int (length l))
         (set_order (remdups (filter (\<lambda>l. l \<noteq> [] \<and> length l \<ge> min_literal_len) literals))),
       rx_apply_patterns = patterns \<rparr>"

definition redact_literals :: "string list \<Rightarrow> string \<Rightarrow> string" where
  "redact_literals literals text =
     fold (\<lambda>l s. if contains s l then replace_all l redacted_mark s else s) literals text"

definition redact :: "redactor \<Rightarrow> string \<Rightarrow> string" where
  "redact rx text = (if text = [] then text
     else let result = redact_literals (rx_literals rx) text in
       if rx_apply_patterns rx then redact_text result else result)"

fun redact_value :: "redactor \<Rightarrow> json \<Rightarrow> json" where
  "redact_value rx (JStr s) = JStr (redact rx s)"
| "redact_value rx (JObj kvs) = JObj (map (\<lambda>(k, v). (k, redact_value rx v)) kvs)"
| "redact_value rx (JList xs) = JList (map (redact_value rx) xs)"
| "redact_value rx v = v"

definition redact_mapping :: "redactor \<Rightarrow> (string \<times> json) list \<Rightarrow> (string \<times> json) list" where
  "redact_mapping rx mapping = map (\<lambda>(k, v). (k, redact_value rx v)) mapping"

section \<open>Identifiers are safe\<close>

lemma sub_from_chars:
  "sub_from (Chars P) (\<lambda>_ _. []) p xs = filter (\<lambda>c. \<not> P c) xs"
proof (induction xs arbitrary: p)
  case Nil
  then show ?case by (subst sub_from.simps) (simp add: match_at_def)
next
  case (Cons x xs)
  then show ?case by (subst sub_from.simps) (simp add: match_at_def)
qed

lemma sanitize_correlation_id_eq:
  "sanitize_correlation_id hex value = (case value of None \<Rightarrow> new_correlation_id hex
     | Some v \<Rightarrow> py_or (take max_id_len (filter safe_id_char v)) (new_correlation_id hex))"
  by (auto simp: sanitize_correlation_id_def re_sub_def sub_from_chars py_or_def split: option.splits)

lemma sanitize_correlation_id_safe:
  assumes "list_all safe_id_char hex" and "length hex \<le> 123"
  shows "list_all safe_id_char (sanitize_correlation_id hex value)
     \<and> sanitize_correlation_id hex value \<noteq> [] \<and> length (sanitize_correlation_id hex value) \<le> max_id_len"
proof -
  have prefix: "list_all safe_id_char ''corr_''" by code_simp
  then have new: "list_all safe_id_char (new_correlation_id hex)"
    using assms(1) by (simp add: new_correlation_id_def)
  show ?thesis
    using new assms(2)
    by (auto simp: sanitize_correlation_id_eq py_or_def list_all_iff max_id_len_def new_correlation_id_def
        dest: in_set_takeD split: option.splits)
qed

section \<open>Literals are removed\<close>

definition mark_free :: "string \<Rightarrow> bool" where
  "mark_free q \<longleftrightarrow> q \<noteq> [] \<and> CHR 0xAB \<notin> set q \<and> CHR 0xBB \<notin> set q \<and> \<not> contains ''redacted'' q"

lemma contains_mark: "mark_free q \<Longrightarrow> contains (redacted_mark @ s) q \<longleftrightarrow> contains s q"
proof -
  assume q: "mark_free q"
  have eq: "redacted_mark @ s = [] @ CHR 0xAB # (''redacted'' @ CHR 0xBB # s)"
    by (simp add: redacted_mark_def)
  have sep: "CHR 0xAB \<notin> set q" "CHR 0xBB \<notin> set q" "q \<noteq> []" "\<not> contains ''redacted'' q" "\<not> contains [] q"
    using q by (simp_all only: mark_free_def contains.simps(1)) simp_all
  show ?thesis
    unfolding eq contains_append_sep [OF sep(1,3)] contains_append_sep [OF sep(2,3)] using sep(4,5) by blast
qed

lemma inert_mark: "mark_free q \<Longrightarrow> inert redacted_mark q"
  by (auto simp: inert_def contains_mark) (simp_all add: mark_free_def redacted_mark_def)

lemma redact_literals_removes:
  "(\<forall>l\<in>set ls. mark_free l) \<Longrightarrow> mark_free q \<Longrightarrow> q \<in> set ls \<or> \<not> contains s q \<Longrightarrow>
   \<not> contains (redact_literals ls s) q"
proof (induction ls arbitrary: s)
  case Nil
  then show ?case by (simp add: redact_literals_def)
next
  case (Cons l ls)
  let ?s = "if contains s l then replace_all l redacted_mark s else s"
  have "\<not> contains ?s q" if "q = l \<or> \<not> contains s q"
    using that Cons.prems(2) replace_removes [OF inert_mark, of l s]
      replace_adds_nothing [OF inert_mark, of q l s] Cons.prems(1) by auto
  then have "q \<in> set ls \<or> \<not> contains ?s q" using Cons.prems(3) by auto
  then have "\<not> contains (redact_literals ls ?s) q" using Cons by simp
  then show ?case by (simp add: redact_literals_def)
qed

lemma set_new_redactor:
  assumes "\<And>xs. set (set_order xs) = set xs"
  shows "set (rx_literals (new_redactor set_order ls b)) = {l \<in> set ls. length l \<ge> min_literal_len}"
  using assms by (auto simp: new_redactor_def min_literal_len_def)

lemma redact_removes:
  assumes "\<And>xs. set (set_order xs) = set xs"
    and "\<forall>l\<in>set ls. length l \<ge> min_literal_len \<longrightarrow> mark_free l"
    and "l \<in> set ls" and "length l \<ge> min_literal_len"
  shows "\<not> contains (redact (new_redactor set_order ls False) text) l"
proof (cases "text = []")
  case True
  with assms(4) show ?thesis by (cases l) (auto simp: redact_def min_literal_len_def)
next
  case False
  have "\<not> contains (redact_literals (rx_literals (new_redactor set_order ls False)) text) l"
    by (rule redact_literals_removes) (use assms set_new_redactor [OF assms(1)] in auto)
  with False show ?thesis by (simp add: redact_def Let_def new_redactor_def)
qed

end
