(* ===== verification/Explainer.thy ===== *)
theory Explainer
  imports Redaction Execution
begin

text \<open>
  The result explainer (\<open>application/explainer.py\<close>): number formatting with thousands
  separators, the factual sentence on a result set, and the warnings. Cells are the values
  \<open>to_jsonable\<close> gives; \<open>str\<close> of a list or dictionary, which the executor never puts into a
  cell, is the argument \<open>py_str\<close>.
\<close>

section \<open>Number formats\<close>

fun group_digits :: "string \<Rightarrow> string" where
  "group_digits (a # b # c # d # ds) = a # b # c # CHR '','' # group_digits (d # ds)"
| "group_digits ds = ds"

definition thousands :: "string \<Rightarrow> string" where
  "thousands digits = rev (group_digits (rev digits))"

text \<open>\<open>f"{value:,}"\<close> of an integer.\<close>

definition format_int :: "int \<Rightarrow> string" where
  "format_int i = (if i < 0 then ''-'' else []) @ thousands (show_nat (nat \<bar>i\<bar>))"

definition round_half_even :: "rat \<Rightarrow> int" where
  "round_half_even y = (let f = \<lfloor>y\<rfloor>; d = y - of_int f in
     if d < 1 / 2 then f else if d > 1 / 2 then f + 1 else if even f then f else f + 1)"

definition two_digits :: "nat \<Rightarrow> string" where
  "two_digits n = (if n < 10 then ''0'' else []) @ show_nat n"

text \<open>\<open>f"{value:,.2f}"\<close> of a float.\<close>

definition format_2f :: "rat \<Rightarrow> string" where
  "format_2f r = (let cents = nat (round_half_even (\<bar>r\<bar> * 100)) in
     (if r < 0 then ''-'' else []) @ thousands (show_nat (cents div 100)) @ ''.''
     @ two_digits (cents mod 100))"

definition is_integral :: "rat \<Rightarrow> bool" where
  "is_integral r \<longleftrightarrow> of_int \<lfloor>r\<rfloor> = r"

definition fmt :: "(json \<Rightarrow> string) \<Rightarrow> json \<Rightarrow> string" where
  "fmt py_str v = (case v of
     JNull \<Rightarrow> ''NULL''
   | JNum r \<Rightarrow> if is_integral r then format_int \<lfloor>r\<rfloor>
       else rstrip_by (\<lambda>c. c = CHR ''.'') (rstrip_by (\<lambda>c. c = CHR ''0'') (format_2f r))
   | JBool b \<Rightarrow> format_int (if b then 1 else 0)
   | JStr s \<Rightarrow> redact_text s
   | other \<Rightarrow> redact_text (py_str other))"

section \<open>Facts\<close>

definition cell :: "json list \<Rightarrow> nat \<Rightarrow> py_exception + json" where
  "cell row i = (if i < length row then Inr (row ! i) else Inl PyIndexError)"

definition first_row :: "json list list \<Rightarrow> py_exception + json list" where
  "first_row rows = (case rows of [] \<Rightarrow> Inl PyIndexError | r # _ \<Rightarrow> Inr r)"

definition pair_text :: "(json \<Rightarrow> string) \<Rightarrow> json list \<Rightarrow> py_exception + string" where
  "pair_text py_str row = and_then (cell row 0) (\<lambda>a. and_then (cell row 1) (\<lambda>b.
     Inr (fmt py_str a @ '': '' @ fmt py_str b)))"

fun map_result :: "('a \<Rightarrow> 'x + 'b) \<Rightarrow> 'a list \<Rightarrow> 'x + 'b list" where
  "map_result f [] = Inr []"
| "map_result f (x # xs) = and_then (f x) (\<lambda>y. and_then (map_result f xs) (\<lambda>ys. Inr (y # ys)))"

definition facts :: "(json \<Rightarrow> string) \<Rightarrow> execution_result \<Rightarrow> py_exception + string" where
  "facts py_str r = (let n = er_row_count r; columns = er_columns r in
     if n = 0 then Inr ''The query returned no matching rows.''
     else if n = 1 \<and> length columns = 1
     then and_then (first_row (er_rows r)) (\<lambda>row. and_then (cell row 0) (\<lambda>v.
            Inr (''The result is '' @ columns ! 0 @ '' = '' @ fmt py_str v @ ''.'')))
     else if length columns = 2 \<and> n \<le> 100
     then and_then (map_result (pair_text py_str) (take 5 (er_rows r))) (\<lambda>ps.
            Inr (''Returned '' @ show_nat n @ '' rows of '' @ columns ! 1 @ '' by '' @ columns ! 0
              @ ''. Top: '' @ join '', '' ps
              @ (if n \<le> 5 then [] else '' (and '' @ show_nat (n - 5) @ '' more)'') @ ''.''))
     else Inr (''Returned '' @ show_nat n @ '' rows with columns: '' @ join '', '' columns @ ''.''))"

definition truncation_warning :: "nat \<Rightarrow> string" where
  "truncation_warning n = ''Results were truncated to '' @ show_nat n
     @ '' rows; refine the question or add filters to see the full set.''"

definition confidence_warning :: string where
  "confidence_warning = ''Low generation confidence '' @ [CHR 0xE2] @ [CHR 0x80] @ [CHR 0x94]
     @ '' verify the SQL matches your intent.''"

definition explain ::
    "(json \<Rightarrow> string) \<Rightarrow> execution_result \<Rightarrow> string list \<Rightarrow> rat \<Rightarrow> bool
      \<Rightarrow> py_exception + string \<times> string list" where
  "explain py_str r assumptions confidence truncated_note =
     and_then (facts py_str r) (\<lambda>fs.
       Inr (join '' '' (fs # (if assumptions \<noteq> []
              then [''Assumptions: '' @ join ''; '' assumptions @ ''.''] else [])),
            (if truncated_note \<or> er_truncated r then [truncation_warning (er_row_count r)] else [])
            @ (if confidence < 1 / 2 then [confidence_warning] else [])))"

section \<open>Formatting loses no digit\<close>

lemma group_digits_plain: "CHR '','' \<notin> set s \<Longrightarrow> filter (\<lambda>c. c \<noteq> CHR '','') (group_digits s) = s"
  by (induction s rule: group_digits.induct) (simp_all, auto)

lemma thousands_plain: "CHR '','' \<notin> set s \<Longrightarrow> filter (\<lambda>c. c \<noteq> CHR '','') (thousands s) = s"
  using group_digits_plain [of "rev s"] by (simp add: thousands_def rev_filter [symmetric])

lemma show_nat_decimal: "c \<in> set (show_nat n) \<Longrightarrow> is_decimal c"
proof (induction n rule: show_nat.induct)
  case (1 n)
  have d: "is_decimal (char_of (48 + m))" if "m < 10" for m :: nat
    using that by (simp add: is_decimal_def of_char_of)
  show ?case
  proof (cases "n < 10")
    case True
    with 1 d show ?thesis by (subst (asm) show_nat.simps) simp
  next
    case False
    with 1(2) have "c \<in> set (show_nat (n div 10)) \<or> c = char_of (48 + n mod 10)"
      by (subst (asm) (1) show_nat.simps) auto
    then show ?thesis using 1(1) [OF False] d [of "n mod 10"] by auto
  qed
qed

lemma no_comma: "CHR '','' \<notin> set (show_nat n)"
  using show_nat_decimal [of "CHR '',''" n] by (auto simp: is_decimal_def)

lemma format_int_digits: "filter (\<lambda>c. c \<noteq> CHR '','') (format_int i) = show_int i"
  using thousands_plain [OF no_comma, of "nat \<bar>i\<bar>"] by (auto simp: format_int_def show_int_def)

lemma group_digits_short: "length s \<le> 3 \<Longrightarrow> group_digits s = s"
  by (cases s rule: group_digits.cases) auto

section \<open>The explanation exists and its warnings are exact\<close>

definition rectangular :: "execution_result \<Rightarrow> bool" where
  "rectangular r \<longleftrightarrow> er_row_count r = length (er_rows r)
     \<and> (\<forall>row\<in>set (er_rows r). length row = length (er_columns r))"

lemma map_result_total: "(\<And>x. x \<in> set xs \<Longrightarrow> \<exists>y. f x = Inr y) \<Longrightarrow> \<exists>ys. map_result f xs = Inr ys"
  by (induction xs) fastforce+

lemma facts_total: "rectangular r \<Longrightarrow> \<exists>s. facts py_str r = Inr s"
proof -
  assume r: "rectangular r"
  consider "er_row_count r = 0" | "er_row_count r = 1" "length (er_columns r) = 1"
    | "length (er_columns r) = 2" "er_row_count r \<noteq> 0" "er_row_count r \<le> 100"
    | "er_row_count r \<noteq> 0" "\<not> (er_row_count r = 1 \<and> length (er_columns r) = 1)"
      "\<not> (length (er_columns r) = 2 \<and> er_row_count r \<le> 100)"
    by blast
  then show ?thesis
  proof cases
    case 1
    then show ?thesis by (simp add: facts_def)
  next
    case 2
    then obtain row where "er_rows r = [row]" "length row = 1"
      using r by (cases "er_rows r") (simp_all add: rectangular_def)
    with 2 show ?thesis by (auto simp: facts_def first_row_def cell_def)
  next
    case 3
    have "\<exists>p. pair_text py_str row = Inr p" if "row \<in> set (take 5 (er_rows r))" for row
      using that r 3(1) in_set_takeD [of row 5 "er_rows r"]
      by (simp add: pair_text_def cell_def rectangular_def)
    then obtain ps where "map_result (pair_text py_str) (take 5 (er_rows r)) = Inr ps"
      using map_result_total [of "take 5 (er_rows r)" "pair_text py_str"] by blast
    with 3 show ?thesis by (simp add: facts_def Let_def)
  next
    case 4
    then show ?thesis
      unfolding facts_def Let_def if_not_P [OF 4(1)] if_not_P [OF 4(2)] if_not_P [OF 4(3)] by blast
  qed
qed

lemma explain_warnings:
  "explain py_str r assumptions confidence note = Inr (text, ws) \<Longrightarrow>
   (truncation_warning (er_row_count r) \<in> set ws \<longleftrightarrow> note \<or> er_truncated r)
   \<and> (confidence_warning \<in> set ws \<longleftrightarrow> confidence < 1 / 2) \<and> length ws \<le> 2"
proof -
  have ne: "truncation_warning n \<noteq> confidence_warning" "confidence_warning \<noteq> truncation_warning n" for n
    by (simp_all add: truncation_warning_def confidence_warning_def)
  assume "explain py_str r assumptions confidence note = Inr (text, ws)"
  then have "ws = (if note \<or> er_truncated r then [truncation_warning (er_row_count r)] else [])
      @ (if confidence < 1 / 2 then [confidence_warning] else [])"
    by (auto simp: explain_def)
  then show ?thesis using ne by (cases "note \<or> er_truncated r"; cases "confidence < 1 / 2") auto
qed

lemma explain_total:
  "rectangular r \<Longrightarrow> \<exists>text ws. explain py_str r assumptions confidence note = Inr (text, ws)"
  using facts_total [of r py_str] by (auto simp: explain_def)

end
