(* ===== verification/Ambiguity.thy ===== *)
theory Ambiguity
  imports PyRegex Semantic Models
begin

text \<open>
  Ambiguity detection (\<open>application/ambiguity.py\<close>): four rules in a fixed priority on the
  lowered question. The first rule that fires gives the clarification; its lemmas say exactly
  when none does.
\<close>

section \<open>Word tables\<close>

definition undefined_terms :: "(string \<times> string) list" where
  "undefined_terms =
     [(''churn'', ''customer churn rate''),
      (''ltv'', ''customer lifetime value''),
      (''cac'', ''customer acquisition cost''),
      (''arr'', ''annual recurring revenue''),
      (''retention'', ''a retention metric''),
      (''nps'', ''net promoter score''),
      (''conversion rate'', ''a conversion-rate metric'')]"

definition measure_words :: "string list" where
  "measure_words =
     [''revenue'', ''sales'', ''orders'', ''order'', ''count'', ''margin'', ''profit'',
      ''quantity'', ''spend'', ''amount'', ''mrr'', ''tickets'', ''value'', ''number'']"

definition rank_words :: "string list" where
  "rank_words = [''top'', ''best'', ''highest'', ''largest'', ''most'', ''biggest'', ''leading'']"

definition entity_words :: "string list" where
  "entity_words =
     [''customer'', ''customers'', ''product'', ''products'', ''region'', ''regions'',
      ''account'', ''accounts'', ''user'', ''users'']"

definition sales_qualifiers :: "string list" where
  "sales_qualifiers = [''revenue'', ''gross'', ''net'', ''count'', ''number'']"

definition commerce_words :: "string list" where
  "commerce_words = [''revenue'', ''orders'', ''order'', ''sales'', ''spend'', ''mrr'']"

definition has_any_word :: "string \<Rightarrow> string list \<Rightarrow> bool" where
  "has_any_word text words \<longleftrightarrow> (\<exists>w\<in>set words. has_word text w)"

definition em_dash :: string where
  "em_dash = [CHR 0xE2, CHR 0x80, CHR 0x94]"

section \<open>The rules\<close>

definition unknown_term_for :: "string \<times> string \<Rightarrow> clarification" where
  "unknown_term_for p = (case p of (trm, label) \<Rightarrow> let q = [CHR 0x27] in
     \<lparr> cl_category = AMB_UNKNOWN_TERM,
       cl_explanation = ''The term '' @ q @ trm @ q @ '' ('' @ label
         @ '') has no authoritative definition in the semantic layer, so it cannot be computed safely.'',
       cl_interpretations = [(''Provide a definition'',
         ''Define how '' @ q @ trm @ q @ '' should be calculated.'')],
       cl_suggested_question = ''How should '' @ q @ trm @ q
         @ '' be defined (which tables/columns and formula)?'',
       cl_confidence = 8 / 10 \<rparr>)"

definition has_definition :: "semantic_layer \<Rightarrow> string \<Rightarrow> bool" where
  "has_definition l trm \<longleftrightarrow> resolve_metric l trm \<noteq> None \<or> resolve_term l trm \<noteq> None"

definition unknown_term :: "semantic_layer \<Rightarrow> string \<Rightarrow> clarification option" where
  "unknown_term l q = map_option unknown_term_for
     (find (\<lambda>(trm, label). has_word q trm \<and> \<not> has_definition l trm) undefined_terms)"

definition ambiguous_metric :: "string \<Rightarrow> clarification option" where
  "ambiguous_metric q =
     (if \<not> has_word q ''sales'' then None
      else if has_any_word q sales_qualifiers then None
      else let a = [CHR 0x27] in Some
        \<lparr> cl_category = AMB_METRIC_DEFINITION,
          cl_explanation = a @ ''Sales'' @ a
            @ '' can mean net revenue, gross revenue, or the number of orders.'',
          cl_interpretations =
            [(''Net revenue'', ''Line-item revenue minus approved refunds.''),
             (''Gross revenue'', ''Line-item revenue before refunds.''),
             (''Order count'', ''The number of orders placed.'')],
          cl_suggested_question = ''By '' @ a @ ''sales'' @ a
            @ '' do you mean net revenue, gross revenue, or order count?'',
          cl_confidence = 75 / 100 \<rparr>)"

definition unspecified_measure :: "string \<Rightarrow> clarification option" where
  "unspecified_measure q =
     (if \<not> has_any_word q rank_words then None
      else if \<not> has_any_word q entity_words then None
      else if has_any_word q measure_words then None
      else Some
        \<lparr> cl_category = AMB_MEASURE_UNSPECIFIED,
          cl_explanation = ''A ranking was requested but the measure to rank by is unspecified.'',
          cl_interpretations =
            [(''By revenue'', ''Rank by net revenue.''),
             (''By order count'', ''Rank by number of orders.''),
             (''By MRR'', ''Rank by monthly recurring revenue.'')],
          cl_suggested_question = ''Which measure should the ranking use '' @ em_dash
            @ '' revenue, order count, or MRR?'',
          cl_confidence = 7 / 10 \<rparr>)"

definition entity_reference :: "string \<Rightarrow> clarification option" where
  "entity_reference q =
     (if has_any_word q commerce_words \<and> (has_word q ''user'' \<or> has_word q ''users'')
      then let a = [CHR 0x27] in Some
        \<lparr> cl_category = AMB_ENTITY_REFERENCE,
          cl_explanation = ''Commerce measures attach to customer accounts, but the question mentions ''
            @ a @ ''users'' @ a @ '' (application logins). These are different entities.'',
          cl_interpretations =
            [(''Customers'', ''Customer accounts that place orders.''),
             (''Application users'', ''Login users of the application.'')],
          cl_suggested_question = ''Do you mean customer accounts or application users?'',
          cl_confidence = 65 / 100 \<rparr>
      else None)"

text \<open>\<open>a or b\<close>: clarification objects are always truthy.\<close>

definition or_else :: "'a option \<Rightarrow> 'a option \<Rightarrow> 'a option" where
  "or_else a b = (case a of Some x \<Rightarrow> Some x | None \<Rightarrow> b)"

definition detect :: "semantic_layer \<Rightarrow> string \<Rightarrow> clarification option" where
  "detect l question = (let q = lower question in
     or_else (or_else (or_else (unknown_term l q) (ambiguous_metric q)) (unspecified_measure q))
       (entity_reference q))"

section \<open>When a rule fires\<close>

definition undefined_mention :: "semantic_layer \<Rightarrow> string \<Rightarrow> bool" where
  "undefined_mention l q \<longleftrightarrow>
     (\<exists>(trm, label)\<in>set undefined_terms. has_word q trm \<and> \<not> has_definition l trm)"

definition bare_sales :: "string \<Rightarrow> bool" where
  "bare_sales q \<longleftrightarrow> has_word q ''sales'' \<and> \<not> has_any_word q sales_qualifiers"

definition bare_ranking :: "string \<Rightarrow> bool" where
  "bare_ranking q \<longleftrightarrow> has_any_word q rank_words \<and> has_any_word q entity_words
     \<and> \<not> has_any_word q measure_words"

definition commerce_of_users :: "string \<Rightarrow> bool" where
  "commerce_of_users q \<longleftrightarrow> has_any_word q commerce_words \<and> (has_word q ''user'' \<or> has_word q ''users'')"

lemma unknown_term_category:
  "map_option cl_category (unknown_term l q) = (if undefined_mention l q then Some AMB_UNKNOWN_TERM else None)"
proof (cases "find (\<lambda>(trm, label). has_word q trm \<and> \<not> has_definition l trm) undefined_terms")
  case None
  then have "\<not> undefined_mention l q" unfolding undefined_mention_def find_None_iff by blast
  with None show ?thesis by (simp add: unknown_term_def)
next
  case (Some p)
  with find_SomeD [OF this] have "undefined_mention l q" unfolding undefined_mention_def by blast
  with Some show ?thesis by (simp add: unknown_term_def unknown_term_for_def Let_def split: prod.splits)
qed

lemma ambiguous_metric_category:
  "map_option cl_category (ambiguous_metric q) = (if bare_sales q then Some AMB_METRIC_DEFINITION else None)"
  by (simp add: ambiguous_metric_def bare_sales_def Let_def)

lemma unspecified_measure_category:
  "map_option cl_category (unspecified_measure q) =
     (if bare_ranking q then Some AMB_MEASURE_UNSPECIFIED else None)"
  by (simp add: unspecified_measure_def bare_ranking_def)

lemma entity_reference_category:
  "map_option cl_category (entity_reference q) =
     (if commerce_of_users q then Some AMB_ENTITY_REFERENCE else None)"
  by (simp add: entity_reference_def commerce_of_users_def Let_def)

lemma map_or_else [simp]: "map_option f (or_else a b) = or_else (map_option f a) (map_option f b)"
  by (simp add: or_else_def split: option.splits)

lemma or_else_simps [simp]: "or_else (Some x) b = Some x" "or_else None b = b"
  by (simp_all add: or_else_def)

text \<open>The category asked about, by the first rule that applies.\<close>

definition expected_category :: "semantic_layer \<Rightarrow> string \<Rightarrow> ambiguity_category option" where
  "expected_category l q =
     (if undefined_mention l q then Some AMB_UNKNOWN_TERM
      else if bare_sales q then Some AMB_METRIC_DEFINITION
      else if bare_ranking q then Some AMB_MEASURE_UNSPECIFIED
      else if commerce_of_users q then Some AMB_ENTITY_REFERENCE
      else None)"

lemma detect_category: "map_option cl_category (detect l question) = expected_category l (lower question)"
  by (simp add: detect_def Let_def expected_category_def unknown_term_category ambiguous_metric_category
      unspecified_measure_category entity_reference_category)

lemma detect_None: "detect l question = None \<longleftrightarrow> expected_category l (lower question) = None"
  using detect_category [of l question] by (metis option.map_disc_iff)

text \<open>A term the semantic layer defines is never reported as unknown.\<close>

lemma unknown_term_undefined:
  "unknown_term l q = Some c \<Longrightarrow>
   \<exists>trm label. (trm, label) \<in> set undefined_terms \<and> has_word q trm \<and> \<not> has_definition l trm
     \<and> c = unknown_term_for (trm, label)"
  by (auto simp: unknown_term_def find_Some_iff) (metis nth_mem)

lemma unknown_term_confidence: "detect l question = Some c \<Longrightarrow> 0 \<le> cl_confidence c \<and> cl_confidence c \<le> 1"
  by (auto simp: detect_def Let_def or_else_def unknown_term_def unknown_term_for_def ambiguous_metric_def
      unspecified_measure_def entity_reference_def split: option.splits if_splits prod.splits)

end
