(* ===== verification/Metrics.thy ===== *)
theory Metrics
  imports Prelude "HOL-Library.Multiset" "HOL-Library.Product_Lexorder"
begin

text \<open>
  The in-process metrics registry (\<open>observability/metrics.py\<close>): counters and histograms keyed
  by sorted label tuples, the cumulative bucket counts and the label rendering of the text
  exposition. The text form of a number (Python's \<open>str\<close> of a float or of a bucket bound) is an
  argument of the rendering.
\<close>

section \<open>Labels\<close>

type_synonym label_key = "(string \<times> string) list"

definition label_key :: "(string \<times> string) list \<Rightarrow> label_key" where
  "label_key labels = (if labels = [] then [] else sort_key fst labels)"

definition escape :: "string \<Rightarrow> string" where
  "escape v = replace_all newline '' '' (replace_all [CHR 0x22] [CHR 0x5C, CHR 0x22]
     (replace_all [CHR 0x5C] [CHR 0x5C, CHR 0x5C] v))"

definition render_labels :: "label_key \<Rightarrow> (string \<times> string) list \<Rightarrow> string" where
  "render_labels key more_labels = (let items = key @ more_labels in
     if items = [] then []
     else ''{'' @ join '','' (map (\<lambda>(n, v). n @ ''='' @ [CHR 0x22] @ escape v @ [CHR 0x22]) items) @ ''}'')"

section \<open>Counters and histograms\<close>

record counter =
  mc_name :: string
  mc_help :: string
  mc_values :: "(label_key \<times> rat) list"

definition counter_inc :: "rat \<Rightarrow> (string \<times> string) list \<Rightarrow> counter \<Rightarrow> counter" where
  "counter_inc amount labels c = (let k = label_key labels in
     c\<lparr> mc_values := AList.update k (dict_get 0 (mc_values c) k + amount) (mc_values c) \<rparr>)"

record histogram =
  mh_name :: string
  mh_help :: string
  mh_buckets :: "rat list"
  mh_counts :: "(label_key \<times> nat list) list"
  mh_sum :: "(label_key \<times> rat) list"
  mh_count :: "(label_key \<times> nat) list"

definition default_buckets_ms :: "rat list" where
  "default_buckets_ms = [1, 5, 10, 25, 50, 100, 250, 500, 1000, 2500, 5000, 10000]"

definition zero_counts :: "histogram \<Rightarrow> nat list" where
  "zero_counts h = replicate (length (mh_buckets h) + 1) 0"

text \<open>The first bucket whose upper bound is not below the value; past the end for \<open>+Inf\<close>.\<close>

definition bucket_index :: "rat list \<Rightarrow> rat \<Rightarrow> nat" where
  "bucket_index buckets v = length (takeWhile (\<lambda>upper. \<not> v \<le> upper) buckets)"

definition histogram_observe :: "rat \<Rightarrow> (string \<times> string) list \<Rightarrow> histogram \<Rightarrow> histogram" where
  "histogram_observe v labels h =
     (let k = label_key labels; counts = dict_get (zero_counts h) (mh_counts h) k;
          i = bucket_index (mh_buckets h) v
      in h\<lparr> mh_counts := AList.update k (counts[i := counts ! i + 1]) (mh_counts h),
            mh_sum := AList.update k (dict_get 0 (mh_sum h) k + v) (mh_sum h),
            mh_count := AList.update k (dict_get 0 (mh_count h) k + 1) (mh_count h) \<rparr>)"

text \<open>The numbers of the \<open>_bucket\<close> lines of one key: running sums, then the \<open>+Inf\<close> total.\<close>

fun cumulate :: "nat \<Rightarrow> nat list \<Rightarrow> nat list" where
  "cumulate acc [] = []"
| "cumulate acc (c # cs) = (acc + c) # cumulate (acc + c) cs"

definition rendered_buckets :: "histogram \<Rightarrow> label_key \<Rightarrow> nat list" where
  "rendered_buckets h k = (let counts = dict_get (zero_counts h) (mh_counts h) k in
     cumulate 0 (take (length (mh_buckets h)) counts @ [last counts]))"

section \<open>The registry\<close>

record registry =
  mr_counters :: "(string \<times> counter) list"
  mr_histograms :: "(string \<times> histogram) list"

definition empty_registry :: registry where
  "empty_registry = \<lparr> mr_counters = [], mr_histograms = [] \<rparr>"

definition new_counter :: "string \<Rightarrow> string \<Rightarrow> counter" where
  "new_counter name help_text = \<lparr> mc_name = name, mc_help = py_or help_text name, mc_values = [] \<rparr>"

definition new_histogram :: "string \<Rightarrow> string \<Rightarrow> rat list \<Rightarrow> histogram" where
  "new_histogram name help_text buckets = \<lparr> mh_name = name, mh_help = py_or help_text name,
     mh_buckets = buckets, mh_counts = [], mh_sum = [], mh_count = [] \<rparr>"

definition metric_inc :: "string \<Rightarrow> rat \<Rightarrow> (string \<times> string) list \<Rightarrow> registry \<Rightarrow> registry" where
  "metric_inc name amount labels r = r\<lparr> mr_counters := AList.update name
     (counter_inc amount labels (dict_get (new_counter name []) (mr_counters r) name))
     (mr_counters r) \<rparr>"

definition metric_observe :: "string \<Rightarrow> rat \<Rightarrow> (string \<times> string) list \<Rightarrow> registry \<Rightarrow> registry" where
  "metric_observe name v labels r = r\<lparr> mr_histograms := AList.update name
     (histogram_observe v labels
        (dict_get (new_histogram name [] default_buckets_ms) (mr_histograms r) name))
     (mr_histograms r) \<rparr>"

definition metric_reset :: "registry \<Rightarrow> registry" where
  "metric_reset r = r\<lparr> mr_counters := [], mr_histograms := [] \<rparr>"

text \<open>
  The text exposition. \<open>bound\<close> gives the text of a bucket's bound (an integer in the default
  buckets) and \<open>num\<close> that of a value (always a float).
\<close>

definition render_counter :: "(rat \<Rightarrow> string) \<Rightarrow> counter \<Rightarrow> string list" where
  "render_counter num c =
     [''# HELP '' @ mc_name c @ '' '' @ mc_help c, ''# TYPE '' @ mc_name c @ '' counter'']
     @ (if mc_values c = [] then [mc_name c @ '' 0''] else [])
     @ map (\<lambda>(k, v). mc_name c @ render_labels k [] @ '' '' @ num v) (sort_key fst (mc_values c))"

definition render_key :: "(rat \<Rightarrow> string) \<Rightarrow> (rat \<Rightarrow> string) \<Rightarrow> histogram \<Rightarrow> label_key \<Rightarrow> string list" where
  "render_key bound num h k =
     map2 (\<lambda>le n. mh_name h @ ''_bucket'' @ render_labels k [(''le'', le)] @ '' '' @ show_nat n)
       (map bound (mh_buckets h) @ [''+Inf'']) (rendered_buckets h k)
     @ [mh_name h @ ''_sum'' @ render_labels k [] @ '' '' @ num (dict_get 0 (mh_sum h) k),
        mh_name h @ ''_count'' @ render_labels k [] @ '' '' @ show_nat (dict_get 0 (mh_count h) k)]"

definition render_histogram :: "(rat \<Rightarrow> string) \<Rightarrow> (rat \<Rightarrow> string) \<Rightarrow> histogram \<Rightarrow> string list" where
  "render_histogram bound num h =
     [''# HELP '' @ mh_name h @ '' '' @ mh_help h, ''# TYPE '' @ mh_name h @ '' histogram'']
     @ concat (map (render_key bound num h)
         (if mh_count h = [] then [[]] else sorted_set (map fst (mh_count h))))"

definition metrics_render :: "(rat \<Rightarrow> string) \<Rightarrow> (rat \<Rightarrow> string) \<Rightarrow> registry \<Rightarrow> string" where
  "metrics_render bound num r = join newline
     (concat (map (render_counter num \<circ> snd) (mr_counters r))
      @ concat (map (render_histogram bound num \<circ> snd) (mr_histograms r))) @ newline"

definition counter_value :: "registry \<Rightarrow> string \<Rightarrow> label_key \<Rightarrow> rat" where
  "counter_value r name k =
     (case map_of (mr_counters r) name of None \<Rightarrow> 0 | Some c \<Rightarrow> dict_get 0 (mc_values c) k)"

lemma dict_get_update: "dict_get z (AList.update k v d) k' = (if k' = k then v else dict_get z d k')"
  by (simp add: dict_get_def)

lemma counter_value_inc:
  "counter_value (metric_inc name a labels r) name' k =
     counter_value r name' k + (if name' = name \<and> k = label_key labels then a else 0)"
  by (auto simp: counter_value_def metric_inc_def counter_inc_def Let_def dict_get_def new_counter_def
      split: option.splits)

lemma counter_value_observe [simp]: "counter_value (metric_observe n v l r) name k = counter_value r name k"
  by (simp add: counter_value_def metric_observe_def)

lemma label_key_order: "distinct (map fst labels) \<Longrightarrow> mset labels = mset labels' \<Longrightarrow>
    label_key labels = label_key labels'"
  by (auto simp: label_key_def distinct_map intro!: sort_key_inj_key_eq)

section \<open>Histograms count correctly\<close>

definition observe_all :: "label_key \<Rightarrow> rat list \<Rightarrow> histogram \<Rightarrow> histogram" where
  "observe_all labels vs h = fold (\<lambda>v. histogram_observe v labels) vs h"

lemma length_cumulate [simp]: "length (cumulate a cs) = length cs"
  by (induction cs arbitrary: a) auto

lemma nth_cumulate: "i < length cs \<Longrightarrow> cumulate a cs ! i = a + sum_list (take (Suc i) cs)"
  by (induction cs arbitrary: a i) (auto simp: nth_Cons split: nat.splits)

lemma bucket_index_le: "bucket_index buckets v \<le> length buckets"
  by (simp add: bucket_index_def length_takeWhile_le)

lemma bucket_index_iff:
  "sorted buckets \<Longrightarrow> i < length buckets \<Longrightarrow> bucket_index buckets v \<le> i \<longleftrightarrow> v \<le> buckets ! i"
proof (induction buckets arbitrary: i)
  case Nil
  then show ?case by simp
next
  case (Cons b bs)
  show ?case
  proof (cases "v \<le> b")
    case True
    with Cons.prems have "v \<le> (b # bs) ! i"
      by (metis (no_types) le0 length_Cons nth_Cons_0 order_trans sorted_iff_nth_mono zero_less_Suc)
    with True show ?thesis by (simp add: bucket_index_def)
  next
    case False
    then show ?thesis using Cons by (cases i) (auto simp: bucket_index_def)
  qed
qed

lemma sum_take_bump:
  "j < length cs \<Longrightarrow> i < length cs \<Longrightarrow>
   sum_list (take (Suc i) (cs[j := cs ! j + 1])) = sum_list (take (Suc i) cs) + (if j \<le> i then 1 else (0::nat))"
proof (induction cs arbitrary: i j)
  case Nil
  then show ?case by simp
next
  case (Cons c cs)
  then show ?case by (cases i; cases j) auto
qed

definition counts_of :: "histogram \<Rightarrow> label_key \<Rightarrow> nat list" where
  "counts_of h k = dict_get (zero_counts h) (mh_counts h) k"

lemma observe_fields [simp]:
  "mh_buckets (histogram_observe v l h) = mh_buckets h"
  "zero_counts (histogram_observe v l h) = zero_counts h"
  by (simp_all add: histogram_observe_def zero_counts_def Let_def)

lemma counts_observe:
  "counts_of (histogram_observe v l h) k =
     (if k = label_key l
      then (counts_of h k)[bucket_index (mh_buckets h) v := counts_of h k ! bucket_index (mh_buckets h) v + 1]
      else counts_of h k)"
  by (simp add: counts_of_def histogram_observe_def Let_def dict_get_update zero_counts_def)

lemma observe_all_spec:
  assumes "k = label_key labels" and "sorted (mh_buckets h)" and "length (counts_of h k) = length (mh_buckets h) + 1"
  shows "length (counts_of (observe_all labels vs h) k) = length (mh_buckets h) + 1
     \<and> mh_buckets (observe_all labels vs h) = mh_buckets h
     \<and> (\<forall>i < length (mh_buckets h). sum_list (take (Suc i) (counts_of (observe_all labels vs h) k)) =
          sum_list (take (Suc i) (counts_of h k)) + length (filter (\<lambda>v. v \<le> mh_buckets h ! i) vs))
     \<and> sum_list (counts_of (observe_all labels vs h) k) = sum_list (counts_of h k) + length vs
     \<and> dict_get 0 (mh_count (observe_all labels vs h)) k = dict_get 0 (mh_count h) k + length vs
     \<and> dict_get 0 (mh_sum (observe_all labels vs h)) k = dict_get 0 (mh_sum h) k + sum_list vs"
  using assms(2,3)
proof (induction vs arbitrary: h)
  case Nil
  then show ?case by (simp add: observe_all_def)
next
  case (Cons v vs)
  let ?h = "histogram_observe v labels h" and ?j = "bucket_index (mh_buckets h) v"
  have len: "length (counts_of ?h k) = length (mh_buckets h) + 1"
    using Cons.prems by (simp add: counts_observe assms(1))
  have j: "?j < length (counts_of h k)"
    using Cons.prems bucket_index_le [of "mh_buckets h" v] by simp
  have take: "sum_list (take (Suc i) (counts_of ?h k)) =
      sum_list (take (Suc i) (counts_of h k)) + (if v \<le> mh_buckets h ! i then 1 else 0)"
    if "i < length (mh_buckets h)" for i
    using that j Cons.prems sum_take_bump [OF j, of i]
    by (simp add: counts_observe assms(1) bucket_index_iff)
  have total: "sum_list (counts_of ?h k) = sum_list (counts_of h k) + 1"
    using j sum_take_bump [OF j, of "length (counts_of h k) - 1"] Cons.prems bucket_index_le [of "mh_buckets h" v]
    by (simp add: counts_observe assms(1))
  have "dict_get 0 (mh_count ?h) k = dict_get 0 (mh_count h) k + 1"
    and "dict_get 0 (mh_sum ?h) k = dict_get 0 (mh_sum h) k + v"
    by (simp_all add: histogram_observe_def Let_def dict_get_update assms(1))
  with Cons.IH [of ?h] Cons.prems len take total show ?case by (simp add: observe_all_def)
qed

text \<open>
  The rendered bucket line for a bound counts the observations up to the bound, the \<open>+Inf\<close>
  line all of them.
\<close>

lemma rendered_buckets_spec:
  assumes "sorted buckets" and "k = label_key labels"
    and h: "h = observe_all labels vs (new_histogram name help_text buckets)"
  shows "rendered_buckets h k =
     map (\<lambda>b. length (filter (\<lambda>v. v \<le> b) vs)) buckets @ [length vs]
     \<and> dict_get 0 (mh_count h) k = length vs \<and> dict_get 0 (mh_sum h) k = sum_list vs"
proof -
  let ?h = "new_histogram name help_text buckets"
  have init: "counts_of ?h k = replicate (length buckets + 1) 0"
    by (simp add: counts_of_def new_histogram_def dict_get_def zero_counts_def)
  have zero: "sum_list (take i (counts_of ?h k)) = 0" for i
    unfolding init take_replicate by (simp add: sum_list_replicate del: replicate.simps)
  have b: "mh_buckets ?h = buckets" by (simp add: new_histogram_def)
  have len: "length (counts_of ?h k) = length (mh_buckets ?h) + 1" by (simp add: init b)
  have total: "sum_list (counts_of ?h k) = 0" using zero [of "length (counts_of ?h k)"] by simp
  have none: "dict_get 0 (mh_count ?h) k = 0" "dict_get 0 (mh_sum ?h) k = 0"
    by (simp_all add: new_histogram_def dict_get_def)
  have sorted: "sorted (mh_buckets ?h)" using assms(1) by (simp add: b)
  have spec: "length (counts_of h k) = length buckets + 1" "mh_buckets h = buckets"
    "\<forall>i < length buckets. sum_list (take (Suc i) (counts_of h k)) = length (filter (\<lambda>v. v \<le> buckets ! i) vs)"
    "sum_list (counts_of h k) = length vs"
    "dict_get 0 (mh_count h) k = length vs" "dict_get 0 (mh_sum h) k = sum_list vs"
    using observe_all_spec [OF assms(2) sorted len, of vs, folded h] unfolding zero total none b
    by simp_all
  define cs where "cs = counts_of h k"
  have cs: "take (length buckets) cs @ [last cs] = cs"
    using spec(1) by (metis add_diff_cancel_right' append_butlast_last_id butlast_conv_take cs_def
        length_0_conv add_is_0 one_neq_zero)
  have r: "rendered_buckets h k = cumulate 0 cs"
    using cs by (simp add: rendered_buckets_def spec(2) cs_def counts_of_def Let_def)
  have "cumulate 0 cs = map (\<lambda>b. length (filter (\<lambda>v. v \<le> b) vs)) buckets @ [length vs]"
  proof (rule nth_equalityI)
    fix i assume "i < length (cumulate 0 cs)"
    then have "i < length buckets \<or> i = length buckets" "i < length cs"
      using spec(1) by (auto simp: cs_def)
    then show "cumulate 0 cs ! i = (map (\<lambda>b. length (filter (\<lambda>v. v \<le> b) vs)) buckets @ [length vs]) ! i"
      using spec by (auto simp: nth_cumulate nth_append cs_def)
  qed (use spec(1) in \<open>simp add: cs_def\<close>)
  with r spec show ?thesis by simp
qed

end
