(* ===== verification/Catalog.thy ===== *)
theory Catalog
  imports Semantic Metrics Models Execution
begin

text \<open>
  Schema introspection (\<open>schema/introspector.py\<close>), the single-slot cache
  (\<open>schema/cache.py\<close>) and the catalog (\<open>schema/catalog.py\<close>): enrichment with the semantic
  layer's annotations, cached access with drift detection, refresh and the
  authorization-filtered summary.

  SQLAlchemy's inspector is a record of functions, the version hash and the monotonic clock
  are functions; the state counts clock readings and introspections.
\<close>

section \<open>Introspection\<close>

record inspector_column =
  ic_name :: string
  ic_type :: "string option"
  ic_nullable :: "json option"
  ic_comment :: "string option"

record inspector_fk =
  if_referred_table :: "string option"
  if_constrained_columns :: "string list"
  if_referred_columns :: "string list"
  if_referred_schema :: "string option"

record inspector =
  in_table_names :: "string list"
  in_view_names :: "string list"
  in_pk_columns :: "string \<Rightarrow> string list option"
  in_columns :: "string \<Rightarrow> inspector_column list"
  in_foreign_keys :: "string \<Rightarrow> inspector_fk list"
  in_unique_constraints :: "string \<Rightarrow> string list option list"
  in_indexes :: "string \<Rightarrow> string option list"
  in_table_comment :: "string \<Rightarrow> py_exception + string option"

text \<open>\<open>ic_type\<close> is the text of the column type, \<open>None\<close> when rendering it raises.\<close>

definition type_name :: "string option \<Rightarrow> string" where
  "type_name t = (case t of Some s \<Rightarrow> upper s | None \<Rightarrow> ''UNKNOWN'')"

fun truthy :: "json \<Rightarrow> bool" where
  "truthy JNull = False"
| "truthy (JBool b) = b"
| "truthy (JNum r) = (r \<noteq> 0)"
| "truthy (JStr s) = (s \<noteq> [])"
| "truthy (JList xs) = (xs \<noteq> [])"
| "truthy (JObj kvs) = (kvs \<noteq> [])"

definition reflect_column :: "string list \<Rightarrow> inspector_column \<Rightarrow> column_info" where
  "reflect_column pk_set c = \<lparr> col_name = ic_name c, col_data_type = type_name (ic_type c),
     col_nullable = (case ic_nullable c of None \<Rightarrow> True | Some j \<Rightarrow> truthy j),
     col_is_primary_key = lower (ic_name c) \<in> set pk_set, col_comment = ic_comment c,
     col_classification = DC_INTERNAL, col_sample_values = [] \<rparr>"

definition reflect_fk :: "inspector_fk \<Rightarrow> foreign_key_ref option" where
  "reflect_fk fk = (case if_referred_table fk of
     None \<Rightarrow> None
   | Some referred \<Rightarrow> if referred = [] then None else Some
       \<lparr> fk_columns = if_constrained_columns fk, fk_referred_table = referred,
         fk_referred_columns = if_referred_columns fk, fk_referred_schema = if_referred_schema fk \<rparr>)"

definition reflect_table :: "inspector \<Rightarrow> string \<Rightarrow> string \<Rightarrow> table_info" where
  "reflect_table ins kind name =
     (let pk = (case in_pk_columns ins name of None \<Rightarrow> [] | Some cs \<Rightarrow> cs) in
      \<lparr> tbl_name = name, tbl_schema_name = None, tbl_kind = kind,
        tbl_comment = (case in_table_comment ins name of Inl _ \<Rightarrow> None | Inr c \<Rightarrow> c),
        tbl_columns = map (reflect_column (map lower pk)) (in_columns ins name),
        tbl_primary_key = pk,
        tbl_foreign_keys = List.map_filter reflect_fk (in_foreign_keys ins name),
        tbl_unique_constraints = filter (\<lambda>cs. cs \<noteq> [])
          (map (\<lambda>u. case u of None \<Rightarrow> [] | Some cs \<Rightarrow> cs) (in_unique_constraints ins name)),
        tbl_indexes = List.map_filter (\<lambda>i. case i of None \<Rightarrow> None
          | Some s \<Rightarrow> if s = [] then None else Some s) (in_indexes ins name),
        tbl_row_estimate = None, tbl_tenant_column = None \<rparr>)"

text \<open>What the version hash is computed from.\<close>

type_synonym table_shape =
  "string \<times> string \<times> (string \<times> string \<times> bool \<times> bool) list
     \<times> (string list \<times> string \<times> string list) list"

definition shape_of :: "table_info \<Rightarrow> table_shape" where
  "shape_of t = (qualified_name t, tbl_kind t,
     map (\<lambda>c. (col_name c, col_data_type c, col_nullable c, col_is_primary_key c)) (tbl_columns t),
     map (\<lambda>fk. (fk_columns fk, fk_referred_table fk, fk_referred_columns fk)) (tbl_foreign_keys t))"

definition compute_version :: "(table_shape list \<Rightarrow> string) \<Rightarrow> table_info list \<Rightarrow> string" where
  "compute_version sha256_hex tables = take 16 (sha256_hex (map shape_of tables))"

definition backend_dialect :: "string \<Rightarrow> sql_dialect" where
  "backend_dialect backend =
     dict_get SQLITE [(''sqlite'', SQLITE), (''postgresql'', POSTGRES)] backend"

definition introspect ::
    "(table_shape list \<Rightarrow> string) \<Rightarrow> string \<Rightarrow> inspector \<Rightarrow> database_schema" where
  "introspect sha256_hex backend ins =
     (let tables = map (reflect_table ins ''table'') (sort (in_table_names ins))
                 @ map (reflect_table ins ''view'') (sort (in_view_names ins))
      in \<lparr> db_dialect = backend_dialect backend, db_tables = tables,
           db_version = compute_version sha256_hex tables \<rparr>)"

section \<open>The cache\<close>

record schema_cache =
  sch_ttl :: rat
  sch_entry :: "(database_schema \<times> rat) option"

definition new_cache :: "rat \<Rightarrow> schema_cache" where
  "new_cache ttl = \<lparr> sch_ttl = ttl, sch_entry = None \<rparr>"

text \<open>\<open>now\<close> is the reading of the monotonic clock.\<close>

definition expired :: "rat \<Rightarrow> rat \<Rightarrow> rat \<Rightarrow> bool" where
  "expired ttl now stored \<longleftrightarrow> ttl > 0 \<and> now - stored > ttl"

definition cache_get :: "rat \<Rightarrow> schema_cache \<Rightarrow> database_schema option \<times> schema_cache" where
  "cache_get now c = (case sch_entry c of
     None \<Rightarrow> (None, c)
   | Some (schema, stored) \<Rightarrow>
       if expired (sch_ttl c) now stored then (None, c\<lparr> sch_entry := None \<rparr>)
       else (Some schema, c))"

definition cache_set :: "rat \<Rightarrow> database_schema \<Rightarrow> schema_cache \<Rightarrow> schema_cache" where
  "cache_set now schema c = c\<lparr> sch_entry := Some (schema, now) \<rparr>"

definition cache_invalidate :: "schema_cache \<Rightarrow> schema_cache" where
  "cache_invalidate c = c\<lparr> sch_entry := None \<rparr>"

definition current_version :: "schema_cache \<Rightarrow> string option" where
  "current_version c = map_option (\<lambda>(schema, _). db_version schema) (sch_entry c)"

section \<open>Enrichment\<close>

text \<open>\<open>a or b\<close> on optional strings.\<close>

definition or_opt :: "string option \<Rightarrow> string option \<Rightarrow> string option" where
  "or_opt a b = (case a of None \<Rightarrow> b | Some s \<Rightarrow> if s = [] then b else Some s)"

definition enrich_column :: "semantic_layer \<Rightarrow> string \<Rightarrow> column_info \<Rightarrow> column_info" where
  "enrich_column l tname c = (case column_annotation_for l tname (col_name c) of
     None \<Rightarrow> c
   | Some a \<Rightarrow> c\<lparr> col_classification := ca_classification a,
        col_comment := or_opt (ca_comment a) (col_comment c),
        col_sample_values := ca_sample_values a \<rparr>)"

definition enrich_tenant :: "semantic_layer \<Rightarrow> table_info \<Rightarrow> string option" where
  "enrich_tenant l t = (case table_annotation_for l (tbl_name t) of
     None \<Rightarrow> None
   | Some a \<Rightarrow> (case ta_tenant_column a of
        None \<Rightarrow> None
      | Some c \<Rightarrow> if c \<noteq> [] \<and> has_column t c then Some c else None))"

definition enrich_table :: "semantic_layer \<Rightarrow> table_info \<Rightarrow> table_info" where
  "enrich_table l t = t\<lparr>
     tbl_columns := map (enrich_column l (tbl_name t)) (tbl_columns t),
     tbl_tenant_column := enrich_tenant l t,
     tbl_comment := or_opt (case table_annotation_for l (tbl_name t) of
        None \<Rightarrow> None | Some a \<Rightarrow> ta_comment a) (tbl_comment t) \<rparr>"

definition enrich :: "semantic_layer \<Rightarrow> database_schema \<Rightarrow> database_schema" where
  "enrich l raw = raw\<lparr> db_tables := map (enrich_table l) (db_tables raw) \<rparr>"

section \<open>Cached access\<close>

record catalog_world = world +
  cw_cache :: schema_cache
  cw_metrics :: registry
  cw_clock :: nat
  cw_introspections :: nat

record catalog =
  ct_semantic :: semantic_layer
  ct_monotonic :: "nat \<Rightarrow> rat"
  ct_introspect :: "nat \<Rightarrow> failure + database_schema"

definition inc :: "string \<Rightarrow> (string \<times> string) list \<Rightarrow> 'z catalog_world_scheme \<Rightarrow> 'z catalog_world_scheme" where
  "inc name labels w = w\<lparr> cw_metrics := metric_inc name 1 labels (cw_metrics w) \<rparr>"

definition observe_metric :: "string \<Rightarrow> rat \<Rightarrow> 'z catalog_world_scheme \<Rightarrow> 'z catalog_world_scheme" where
  "observe_metric name v w = w\<lparr> cw_metrics := metric_observe name v [] (cw_metrics w) \<rparr>"

definition try_cache ::
    "catalog \<Rightarrow> 'z catalog_world_scheme \<Rightarrow> database_schema option \<times> 'z catalog_world_scheme" where
  "try_cache cat w = (let (r, c) = cache_get (ct_monotonic cat (cw_clock w)) (cw_cache w) in
     (r, w\<lparr> cw_cache := c, cw_clock := cw_clock w +
        (if sch_entry (cw_cache w) \<noteq> None \<and> sch_ttl (cw_cache w) > 0 then 1 else 0) \<rparr>))"

definition load_schema ::
    "catalog \<Rightarrow> 'z catalog_world_scheme \<Rightarrow> (failure + database_schema) \<times> 'z catalog_world_scheme" where
  "load_schema cat w =
     (let w1 = inc ''schema_cache_total'' [(''result'', ''miss'')] w;
          previous = current_version (cw_cache w1);
          w2 = w1\<lparr> cw_introspections := cw_introspections w1 + 1 \<rparr>
      in case ct_introspect cat (cw_introspections w1) of
           Inl err \<Rightarrow> (Inl err, w2)
         | Inr raw \<Rightarrow>
             (let enriched = enrich (ct_semantic cat) raw;
                  w3 = w2\<lparr> cw_cache := cache_set (ct_monotonic cat (cw_clock w2)) enriched (cw_cache w2),
                           cw_clock := cw_clock w2 + 1 \<rparr>;
                  w4 = (if previous \<noteq> None \<and> previous \<noteq> Some (db_version enriched)
                        then inc ''schema_drift_total'' [] w3 else w3)
              in (Inr enriched, w4)))"

definition get_schema ::
    "catalog \<Rightarrow> bool \<Rightarrow> 'z catalog_world_scheme \<Rightarrow> (failure + database_schema) \<times> 'z catalog_world_scheme" where
  "get_schema cat force_refresh w =
     (if force_refresh then load_schema cat w
      else case try_cache cat w of
        (Some cached, w1) \<Rightarrow> (Inr cached, inc ''schema_cache_total'' [(''result'', ''hit'')] w1)
      | (None, w1) \<Rightarrow> load_schema cat w1)"

definition refresh ::
    "catalog \<Rightarrow> 'z catalog_world_scheme \<Rightarrow> (failure + database_schema) \<times> 'z catalog_world_scheme" where
  "refresh cat w = get_schema cat True (w\<lparr> cw_cache := cache_invalidate (cw_cache w) \<rparr>)"

section \<open>Summaries\<close>

definition default_visibility :: "string \<Rightarrow> string \<Rightarrow> data_classification \<Rightarrow> bool" where
  "default_visibility t c cls \<longleftrightarrow> cls \<notin> {DC_AUTH_SECRET, DC_HIGHLY_RESTRICTED}"

definition summarize_column :: "column_info \<Rightarrow> schema_column_summary" where
  "summarize_column c = \<lparr> sc_name = col_name c, sc_data_type = col_data_type c,
     sc_nullable = col_nullable c, sc_is_primary_key = col_is_primary_key c,
     sc_classification = classification_value (col_classification c),
     sc_sensitive = is_sensitive (col_classification c) \<rparr>"

definition summary ::
    "database_schema \<Rightarrow> (string \<Rightarrow> string \<Rightarrow> data_classification \<Rightarrow> bool) option \<Rightarrow> schema_summary" where
  "summary schema visible =
     (let vis = (case visible of None \<Rightarrow> default_visibility | Some v \<Rightarrow> v) in
      \<lparr> ss_dialect = db_dialect schema, ss_version = db_version schema,
        ss_tables = map (\<lambda>t. \<lparr> sts_name = qualified_name t, sts_kind = tbl_kind t,
            sts_comment = tbl_comment t,
            sts_columns = map summarize_column
              (filter (\<lambda>c. vis (tbl_name t) (col_name c) (col_classification c)) (tbl_columns t)) \<rparr>)
          (db_tables schema) \<rparr>)"

section \<open>Enrichment keeps the structure and applies the annotations\<close>

lemma enrich_fields [simp]:
  "db_version (enrich l raw) = db_version raw" "db_dialect (enrich l raw) = db_dialect raw"
  "db_tables (enrich l raw) = map (enrich_table l) (db_tables raw)"
  by (simp_all add: enrich_def)

lemma enrich_column_name [simp]: "col_name (enrich_column l t c) = col_name c"
  by (simp add: enrich_column_def split: option.splits)

lemma enrich_column_key [simp]: "col_key (enrich_column l t c) = col_key c"
  by (simp add: col_key_def)

lemma enrich_table_fields [simp]:
  "tbl_name (enrich_table l t) = tbl_name t" "tbl_schema_name (enrich_table l t) = tbl_schema_name t"
  "tbl_kind (enrich_table l t) = tbl_kind t" "tbl_foreign_keys (enrich_table l t) = tbl_foreign_keys t"
  "tbl_columns (enrich_table l t) = map (enrich_column l (tbl_name t)) (tbl_columns t)"
  "tbl_tenant_column (enrich_table l t) = enrich_tenant l t"
  by (simp_all add: enrich_table_def)

lemma find_map: "find P (map f xs) = map_option f (find (P \<circ> f) xs)"
  by (induction xs) auto

lemma column_enrich: "column (enrich_table l t) name = map_option (enrich_column l (tbl_name t)) (column t name)"
  by (simp add: column_def find_map comp_def)

lemma has_column_enrich [simp]: "has_column (enrich_table l t) name = has_column t name"
  by (simp add: has_column_def column_enrich)

text \<open>A tenant column is assigned only when it exists on the table.\<close>

lemma enrich_tenant_exists:
  "tbl_tenant_column (enrich_table l t) = Some c \<Longrightarrow> has_column (enrich_table l t) c"
  by (auto simp: enrich_tenant_def split: option.splits if_splits)

lemma enrich_classification:
  "column_annotation_for l (tbl_name t) (col_name c) = Some a \<Longrightarrow>
   col_classification (enrich_column l (tbl_name t) c) = ca_classification a"
  by (simp add: enrich_column_def)

lemma enrich_unannotated: "column_annotation_for l t (col_name c) = None \<Longrightarrow> enrich_column l t c = c"
  by (simp add: enrich_column_def)

section \<open>The summary\<close>

lemma summary_tables:
  "map (map sc_name \<circ> sts_columns) (ss_tables (summary schema (Some vis))) =
     map (\<lambda>t. map col_name (filter (\<lambda>c. vis (tbl_name t) (col_name c) (col_classification c)) (tbl_columns t)))
       (db_tables schema)"
  by (simp add: summary_def summarize_column_def comp_def)

lemma summary_hides:
  assumes "s \<in> set (ss_tables (summary schema visible))" and "c \<in> set (sts_columns s)"
  shows "\<exists>t\<in>set (db_tables schema). \<exists>ci\<in>set (tbl_columns t). c = summarize_column ci
     \<and> (case visible of None \<Rightarrow> \<not> always_secret (col_classification ci)
        | Some vis \<Rightarrow> vis (tbl_name t) (col_name ci) (col_classification ci))"
  using assms
  by (cases visible; auto simp: summary_def default_visibility_def always_secret_def Let_def; blast)

section \<open>The cache and the catalog's promises\<close>

lemma cache_get_set:
  "fst (cache_get now (cache_set stored schema c)) =
     (if expired (sch_ttl c) now stored then None else Some schema)"
  by (simp add: cache_get_def cache_set_def)

lemma cache_get_invalidate [simp]: "cache_get now (cache_invalidate c) = (None, cache_invalidate c)"
  by (simp add: cache_get_def cache_invalidate_def)

lemma cache_get_miss: "fst (cache_get now c) = None \<Longrightarrow> sch_entry (snd (cache_get now c)) = None"
  by (auto simp: cache_get_def split: option.splits if_splits)

lemma cache_get_hit: "cache_get now c = (Some s, c') \<Longrightarrow> c' = c \<and> (\<exists>t. sch_entry c = Some (s, t))"
  by (auto simp: cache_get_def split: option.splits if_splits)

text \<open>What a schema handed out is: some introspection, enriched.\<close>

definition enriched_of :: "catalog \<Rightarrow> database_schema \<Rightarrow> bool" where
  "enriched_of cat s \<longleftrightarrow> (\<exists>n raw. ct_introspect cat n = Inr raw \<and> s = enrich (ct_semantic cat) raw)"

definition cache_ok :: "catalog \<Rightarrow> 'z catalog_world_scheme \<Rightarrow> bool" where
  "cache_ok cat w \<longleftrightarrow>
     (case sch_entry (cw_cache w) of None \<Rightarrow> True | Some (s, _) \<Rightarrow> enriched_of cat s)"

text \<open>
  The contract of a schema source: every operation keeps the state good and hands out good
  schemas only.
\<close>

locale schema_provider =
  fixes provide :: "'w \<Rightarrow> (failure + database_schema) \<times> 'w"
    and ok :: "'w \<Rightarrow> bool"
    and good :: "database_schema \<Rightarrow> bool"
  assumes keeps: "ok w \<Longrightarrow> ok (snd (provide w))"
    and gives: "ok w \<Longrightarrow> fst (provide w) = Inr s \<Longrightarrow> good s"
begin

lemma iterate_ok: "ok w \<Longrightarrow> ok (((\<lambda>w. snd (provide w)) ^^ n) w)"
  by (induction n) (auto intro: keeps)

lemma every_good: "ok w \<Longrightarrow> fst (provide (((\<lambda>w. snd (provide w)) ^^ n) w)) = Inr s \<Longrightarrow> good s"
  by (rule gives [OF iterate_ok])

end

lemma inc_fields [simp]:
  "cw_cache (inc name l w) = cw_cache w" "cw_introspections (inc name l w) = cw_introspections w"
  "w_log (inc name l w) = w_log w" "cw_clock (inc name l w) = cw_clock w"
  "w_ticks (inc name l w) = w_ticks w"
  by (simp_all add: inc_def)

lemma inc_metrics [simp]: "cw_metrics (inc name l w) = metric_inc name 1 l (cw_metrics w)"
  by (simp add: inc_def)

lemma load_schema_ok:
  "cache_ok cat w \<Longrightarrow> cache_ok cat (snd (load_schema cat w))
   \<and> (\<forall>s. fst (load_schema cat w) = Inr s \<longrightarrow> enriched_of cat s)"
  by (auto simp: load_schema_def Let_def cache_ok_def cache_set_def enriched_of_def
      split: sum.splits option.splits)

lemma try_cache_cases:
  assumes "try_cache cat w = (r, w1)"
  shows "(r = None \<longrightarrow> sch_entry (cw_cache w1) = None)
     \<and> (\<forall>s. r = Some s \<longrightarrow> cw_cache w1 = cw_cache w \<and> (\<exists>t. sch_entry (cw_cache w) = Some (s, t)))
     \<and> cw_metrics w1 = cw_metrics w \<and> w_log w1 = w_log w"
proof -
  obtain r' c' where c: "cache_get (ct_monotonic cat (cw_clock w)) (cw_cache w) = (r', c')"
    by fastforce
  with assms have "r = r'" "cw_cache w1 = c'" "cw_metrics w1 = cw_metrics w" "w_log w1 = w_log w"
    by (auto simp: try_cache_def)
  moreover have "r' = None \<longrightarrow> sch_entry c' = None"
    using cache_get_miss [of "ct_monotonic cat (cw_clock w)" "cw_cache w"] c by simp
  moreover have "\<forall>s. r' = Some s \<longrightarrow> c' = cw_cache w \<and> (\<exists>t. sch_entry (cw_cache w) = Some (s, t))"
    using cache_get_hit c by fastforce
  ultimately show ?thesis by blast
qed

lemma get_schema_ok:
  assumes "cache_ok cat w"
  shows "cache_ok cat (snd (get_schema cat force w))
     \<and> (\<forall>s. fst (get_schema cat force w) = Inr s \<longrightarrow> enriched_of cat s)"
proof (cases force)
  case True
  then show ?thesis using load_schema_ok [OF assms] by (simp add: get_schema_def)
next
  case False
  obtain r w1 where t: "try_cache cat w = (r, w1)" by fastforce
  note c = try_cache_cases [OF t]
  show ?thesis
  proof (cases r)
    case None
    then have "cache_ok cat w1" using c by (simp add: cache_ok_def)
    from load_schema_ok [OF this] show ?thesis using False t None by (simp add: get_schema_def)
  next
    case (Some s)
    with c obtain ts where "sch_entry (cw_cache w) = Some (s, ts)" "cw_cache w1 = cw_cache w" by blast
    then show ?thesis using assms False t Some
      by (simp add: get_schema_def cache_ok_def)
  qed
qed

lemma refresh_ok:
  "cache_ok cat (snd (refresh cat w)) \<and> (\<forall>s. fst (refresh cat w) = Inr s \<longrightarrow> enriched_of cat s)"
  unfolding refresh_def by (rule get_schema_ok) (simp add: cache_ok_def cache_invalidate_def)

interpretation serving: schema_provider "get_schema cat force" "cache_ok cat" "enriched_of cat" for cat force
  by unfold_locales (use get_schema_ok in blast)+

interpretation refreshing: schema_provider "refresh cat" "cache_ok cat" "enriched_of cat" for cat
  by unfold_locales (use refresh_ok in blast)+

lemma load_schema_log: "w_log (snd (load_schema cat w)) = w_log w"
  by (simp add: load_schema_def Let_def split: sum.splits)

lemma get_schema_log: "w_log (snd (get_schema cat force w)) = w_log w"
proof (cases force)
  case True
  then show ?thesis by (simp add: get_schema_def load_schema_log)
next
  case False
  obtain r w1 where "try_cache cat w = (r, w1)" by fastforce
  with try_cache_cases [OF this] False show ?thesis
    by (cases r) (simp_all add: get_schema_def load_schema_log)
qed

section \<open>The catalog as a transition system\<close>

inductive catalog_step :: "catalog \<Rightarrow> 'z catalog_world_scheme \<Rightarrow> 'z catalog_world_scheme \<Rightarrow> bool" for cat where
  serve: "catalog_step cat w (snd (get_schema cat False w))"
| reload: "catalog_step cat w (snd (refresh cat w))"

inductive_simps catalog_step_iff: "catalog_step cat w w'"

definition drift_count :: "'z catalog_world_scheme \<Rightarrow> rat" where
  "drift_count w = counter_value (cw_metrics w) ''schema_drift_total'' []"

lemma drift_count_inc:
  "drift_count (inc name l w) =
     drift_count w + (if name = ''schema_drift_total'' \<and> label_key l = [] then 1 else 0)"
  by (auto simp: drift_count_def counter_value_inc)

lemma load_schema_drift:
  "current_version (cw_cache w) = None \<Longrightarrow> drift_count (snd (load_schema cat w)) = drift_count w"
  by (auto simp: load_schema_def Let_def drift_count_def counter_value_inc split: sum.splits)

lemma catalog_step_drift: "catalog_step cat w w' \<Longrightarrow> drift_count w' = drift_count w"
proof (induction rule: catalog_step.induct)
  case (serve w)
  obtain r w1 where t: "try_cache cat w = (r, w1)" by fastforce
  note c = try_cache_cases [OF t]
  have same: "drift_count w1 = drift_count w" using c by (simp add: drift_count_def)
  show ?case
  proof (cases r)
    case None
    then have "current_version (cw_cache w1) = None" using c by (simp add: current_version_def)
    then show ?thesis using t None same by (simp add: get_schema_def load_schema_drift)
  next
    case (Some s)
    then show ?thesis using t same by (simp add: get_schema_def drift_count_inc)
  qed
next
  case (reload w)
  have "drift_count (snd (load_schema cat (w\<lparr> cw_cache := cache_invalidate (cw_cache w) \<rparr>))) =
      drift_count (w\<lparr> cw_cache := cache_invalidate (cw_cache w) \<rparr>)"
    by (rule load_schema_drift) (simp add: current_version_def cache_invalidate_def)
  then show ?case by (simp add: refresh_def get_schema_def drift_count_def)
qed

lemma catalog_reach_drift: "(catalog_step cat)\<^sup>*\<^sup>* w w' \<Longrightarrow> drift_count w' = drift_count w"
  by (induction rule: rtranclp_induct) (auto dest: catalog_step_drift)

lemma catalog_reach_ok: "(catalog_step cat)\<^sup>*\<^sup>* w w' \<Longrightarrow> cache_ok cat w \<Longrightarrow> cache_ok cat w'"
  by (induction rule: rtranclp_induct)
    (auto simp: catalog_step_iff intro: serving.keeps refreshing.keeps)

text \<open>A forced reload without the preceding invalidation would see the change.\<close>

lemma forced_drift:
  assumes "sch_entry (cw_cache w) = Some (s, ts)" and "ct_introspect cat (cw_introspections w) = Inr raw"
    and "db_version raw \<noteq> db_version s"
  shows "drift_count (snd (get_schema cat True w)) = drift_count w + 1"
  using assms
  by (simp add: get_schema_def load_schema_def Let_def current_version_def drift_count_def
      counter_value_inc label_key_def)

text \<open>Within the time to live a second access is served from the cache.\<close>

lemma get_schema_hit:
  assumes "sch_entry (cw_cache w) = Some (s, ts)"
    and "\<not> expired (sch_ttl (cw_cache w)) (ct_monotonic cat (cw_clock w)) ts"
  shows "fst (get_schema cat False w) = Inr s
     \<and> cw_introspections (snd (get_schema cat False w)) = cw_introspections w"
  using assms by (simp add: get_schema_def try_cache_def cache_get_def)

lemma get_schema_miss:
  assumes "sch_entry (cw_cache w) = None
     \<or> (\<exists>s ts. sch_entry (cw_cache w) = Some (s, ts)
          \<and> expired (sch_ttl (cw_cache w)) (ct_monotonic cat (cw_clock w)) ts)"
    and "ct_introspect cat (cw_introspections w) = Inr raw"
  shows "fst (get_schema cat False w) = Inr (enrich (ct_semantic cat) raw)
     \<and> cw_introspections (snd (get_schema cat False w)) = cw_introspections w + 1
     \<and> (\<exists>ts. sch_entry (cw_cache (snd (get_schema cat False w))) = Some (enrich (ct_semantic cat) raw, ts))"
  using assms
  by (auto simp: get_schema_def try_cache_def cache_get_def load_schema_def Let_def cache_set_def
      current_version_def)

end
