(* ===== verification/ShortestPath.thy ===== *)
theory ShortestPath
  imports SchemaModels
begin

text \<open>
  The breadth-first search of \<open>retrieval/retriever.py\<close> (\<open>_shortest_path\<close>): the predecessor
  map, the queue, the early exit when the destination is discovered and the walk back along
  the predecessors. The walk back is a loop that need not end on an arbitrary map, so it is
  a partial function; the results show that it always ends here, and that the search returns
  a shortest path or, when there is none, the empty list.
\<close>

section \<open>The search\<close>

type_synonym prev_map = "(string \<times> string) list"

partial_function (option) walk_back ::
    "prev_map \<Rightarrow> string \<Rightarrow> string list \<Rightarrow> string \<Rightarrow> (py_exception + string list) option" where
  "walk_back prev src path cur =
     (if cur = src then Some (Inr path)
      else case map_of prev cur of
        None \<Rightarrow> Some (Inl PyKeyError)
      | Some p \<Rightarrow> walk_back prev src (path @ [p]) p)"

declare walk_back.simps [code]

text \<open>One node's neighbours: \<open>Inl\<close> when the destination is discovered among them.\<close>

fun scan_nbrs ::
    "string \<Rightarrow> string \<Rightarrow> string list \<Rightarrow> prev_map \<Rightarrow> string list \<Rightarrow> prev_map + prev_map \<times> string list" where
  "scan_nbrs node dst [] prev queue = Inr (prev, queue)"
| "scan_nbrs node dst (v # vs) prev queue =
     (if map_of prev v \<noteq> None then scan_nbrs node dst vs prev queue
      else let prev' = AList.update v node prev in
        if v = dst then Inl prev' else scan_nbrs node dst vs prev' (queue @ [v]))"

definition sorted_nbrs :: "graph \<Rightarrow> string \<Rightarrow> string list" where
  "sorted_nbrs g u = sorted_set (nbrs g u)"

definition graph_targets :: "graph \<Rightarrow> string set" where
  "graph_targets g = (\<Union>p\<in>set g. set (snd p))"

lemma finite_graph_targets [simp]: "finite (graph_targets g)"
  by (simp add: graph_targets_def)

lemma nbrs_targets: "set (nbrs g u) \<subseteq> graph_targets g"
proof (cases "map_of g u")
  case (Some vs)
  from map_of_SomeD [OF Some] show ?thesis
    by (auto simp: nbrs_def dict_get_def graph_targets_def Some intro: bexI [of _ "(u, vs)"])
qed (simp add: nbrs_def dict_get_def)

lemma set_sorted_nbrs [simp]: "set (sorted_nbrs g u) = set (nbrs g u)"
  by (simp add: sorted_nbrs_def)

lemma scan_measure:
  "scan_nbrs node dst vs prev queue = Inr (prev', queue') \<Longrightarrow> set vs \<subseteq> T \<Longrightarrow> finite T \<Longrightarrow>
   2 * card (T - dom (map_of prev')) + length queue' \<le> 2 * card (T - dom (map_of prev)) + length queue"
proof (induction vs arbitrary: prev queue)
  case Nil
  then show ?case by simp
next
  case (Cons v vs)
  show ?case
  proof (cases "map_of prev v")
    case (Some p)
    with Cons show ?thesis by simp
  next
    case None
    let ?prev = "AList.update v node prev"
    have "T - dom (map_of ?prev) = (T - dom (map_of prev)) - {v}" by auto
    moreover have "v \<in> T - dom (map_of prev)" using None Cons.prems by auto
    ultimately have "Suc (card (T - dom (map_of ?prev))) = card (T - dom (map_of prev))"
      using Cons.prems(3) by (metis card_Suc_Diff1 finite_Diff)
    moreover have "2 * card (T - dom (map_of prev')) + length queue'
        \<le> 2 * card (T - dom (map_of ?prev)) + length (queue @ [v])"
      using None Cons.prems by (intro Cons.IH) (auto simp: Let_def split: if_splits)
    ultimately show ?thesis by simp
  qed
qed

function bfs ::
    "graph \<Rightarrow> string \<Rightarrow> prev_map \<Rightarrow> string list \<Rightarrow> prev_map option" where
  "bfs g dst prev [] = None"
| "bfs g dst prev (node # queue) =
     (case scan_nbrs node dst (sorted_nbrs g node) prev queue of
        Inl prev' \<Rightarrow> Some prev'
      | Inr (prev', queue') \<Rightarrow> bfs g dst prev' queue')"
  by pat_completeness auto

termination
proof (relation "measure (\<lambda>(g, dst, prev, queue).
    2 * card (graph_targets g - dom (map_of prev)) + length queue)")
  fix g :: graph and dst node queue prev r prev' queue'
  assume "scan_nbrs node dst (sorted_nbrs g node) prev queue = Inr r" and "(prev', queue') = r"
  then have "2 * card (graph_targets g - dom (map_of prev')) + length queue'
      \<le> 2 * card (graph_targets g - dom (map_of prev)) + length queue"
    using scan_measure [of node dst "sorted_nbrs g node" prev queue prev' queue' "graph_targets g"]
      nbrs_targets [of g node] by simp
  then show "((g, dst, prev', queue'), g, dst, prev, node # queue) \<in> measure (\<lambda>(g, dst, prev, queue).
      2 * card (graph_targets g - dom (map_of prev)) + length queue)"
    by simp
qed simp

definition shortest_path :: "graph \<Rightarrow> string \<Rightarrow> string \<Rightarrow> (py_exception + string list) option" where
  "shortest_path g src dst =
     (if src = dst then Some (Inr [src])
      else case bfs g dst [(src, src)] [src] of
        None \<Rightarrow> Some (Inr [])
      | Some prev \<Rightarrow> map_option (map_sum id rev) (walk_back prev src [dst] dst))"

section \<open>Distances\<close>

definition dist_is :: "(string \<times> string) set \<Rightarrow> string \<Rightarrow> nat \<Rightarrow> string \<Rightarrow> bool" where
  "dist_is E src k v \<longleftrightarrow> (src, v) \<in> E ^^ k \<and> (\<forall>j<k. (src, v) \<notin> E ^^ j)"

lemma dist_unique: "dist_is E src k v \<Longrightarrow> dist_is E src k' v \<Longrightarrow> k = k'"
  unfolding dist_is_def by (meson linorder_less_linear)

lemma dist_exists: "(src, v) \<in> E ^^ j \<Longrightarrow> \<exists>k\<le>j. dist_is E src k v"
proof (intro exI conjI)
  let ?P = "\<lambda>k. (src, v) \<in> E ^^ k"
  assume "(src, v) \<in> E ^^ j"
  then show "(LEAST k. ?P k) \<le> j" and "dist_is E src (LEAST k. ?P k) v"
    unfolding dist_is_def by (auto intro: LeastI [of ?P] Least_le [of ?P] dest: not_less_Least)
qed

lemma dist_zero: "dist_is E src 0 v \<longleftrightarrow> v = src"
  by (auto simp: dist_is_def)

lemma dist_pred:
  assumes "dist_is E src (Suc k) v"
  obtains u where "dist_is E src k u" "(u, v) \<in> E"
proof -
  from assms obtain u where u: "(src, u) \<in> E ^^ k" "(u, v) \<in> E"
    by (auto simp: dist_is_def)
  have "(src, u) \<notin> E ^^ j" if "j < k" for j
  proof
    assume "(src, u) \<in> E ^^ j"
    then have "(src, v) \<in> E ^^ Suc j" using u(2) by (rule relpow_Suc_I)
    with assms that show False unfolding dist_is_def by blast
  qed
  with u show ?thesis using that by (auto simp: dist_is_def)
qed

lemma dist_step:
  assumes "dist_is E src k u" and "(u, v) \<in> E" and "\<And>j. j \<le> k \<Longrightarrow> \<not> dist_is E src j v"
  shows "dist_is E src (Suc k) v"
proof -
  have "(src, v) \<in> E ^^ Suc k" using assms(1,2) by (auto simp: dist_is_def)
  moreover have "(src, v) \<notin> E ^^ j" if "j < Suc k" for j
    using dist_exists [of src v j E] assms(3) that by force
  ultimately show ?thesis by (simp add: dist_is_def)
qed

section \<open>The predecessor map\<close>

definition prev_ok :: "(string \<times> string) set \<Rightarrow> string \<Rightarrow> prev_map \<Rightarrow> bool" where
  "prev_ok E src prev \<longleftrightarrow> src \<in> dom (map_of prev)
     \<and> (\<forall>v\<in>dom (map_of prev) - {src}. \<exists>p k. map_of prev v = Some p \<and> p \<in> dom (map_of prev)
          \<and> (p, v) \<in> E \<and> dist_is E src k p \<and> dist_is E src (Suc k) v)"

lemma dom_map_update [simp]: "dom (map_of (AList.update v w d)) = insert v (dom (map_of d))"
  by simp

lemma prev_ok_update:
  assumes "prev_ok E src prev" and "v \<notin> dom (map_of prev)" and "node \<in> dom (map_of prev)"
    and "(node, v) \<in> E" and "dist_is E src k node" and "dist_is E src (Suc k) v"
  shows "prev_ok E src (AList.update v node prev)"
  unfolding prev_ok_def
proof (intro conjI ballI)
  show "src \<in> dom (map_of (AList.update v node prev))" using assms(1) by (auto simp: prev_ok_def)
  fix w
  assume w: "w \<in> dom (map_of (AList.update v node prev)) - {src}"
  show "\<exists>p k. map_of (AList.update v node prev) w = Some p
      \<and> p \<in> dom (map_of (AList.update v node prev)) \<and> (p, w) \<in> E
      \<and> dist_is E src k p \<and> dist_is E src (Suc k) w"
  proof (cases "w = v")
    case True
    with assms show ?thesis by (intro exI [of _ node] exI [of _ k]) auto
  next
    case False
    with w have "w \<in> dom (map_of prev) - {src}" by auto
    with assms(1) obtain p j where "map_of prev w = Some p" "p \<in> dom (map_of prev)" "(p, w) \<in> E"
      "dist_is E src j p" "dist_is E src (Suc j) w"
      unfolding prev_ok_def by blast
    with False show ?thesis by (intro exI [of _ p] exI [of _ j]) auto
  qed
qed

abbreviation path_in :: "(string \<times> string) set \<Rightarrow> string list \<Rightarrow> bool" where
  "path_in E p \<equiv> successively (\<lambda>u v. (u, v) \<in> E) p"

text \<open>The walk back along a correct map ends at the source, one step per unit of distance.\<close>

lemma walk_back_path:
  assumes "prev_ok E src prev"
  shows "dist_is E src k v \<Longrightarrow> v \<in> dom (map_of prev) \<Longrightarrow>
    \<exists>ps. walk_back prev src path v = Some (Inr (path @ ps)) \<and> length ps = k
       \<and> last (v # ps) = src \<and> path_in E (rev (v # ps))"
proof (induction k arbitrary: v path)
  case 0
  then show ?case by (intro exI [of _ "[]"]) (simp add: dist_zero walk_back.simps)
next
  case (Suc k)
  then have "v \<noteq> src" using dist_unique [of E src "Suc k" v 0] by (auto simp: dist_zero)
  with assms Suc.prems(2) obtain p j where p: "map_of prev v = Some p" "p \<in> dom (map_of prev)"
    "(p, v) \<in> E" "dist_is E src j p" "dist_is E src (Suc j) v"
    unfolding prev_ok_def by blast
  then have "j = k" using dist_unique [OF Suc.prems(1)] by blast
  with p Suc.IH [of p "path @ [p]"] obtain ps where
    ps: "walk_back prev src (path @ [p]) p = Some (Inr (path @ [p] @ ps))" "length ps = k"
    "last (p # ps) = src" "path_in E (rev (p # ps))" by auto
  have "path_in E (rev (p # ps) @ [v])"
    using ps(4) p(3) by (simp add: successively_append_iff)
  with ps p(1) \<open>v \<noteq> src\<close> show ?case
    by (intro exI [of _ "p # ps"]) (simp add: walk_back.simps [of prev src path v])
qed

section \<open>The invariant of the search\<close>

definition bfs_inv :: "(string \<times> string) set \<Rightarrow> string \<Rightarrow> prev_map \<Rightarrow> string list \<Rightarrow> bool" where
  "bfs_inv E src prev queue \<longleftrightarrow> prev_ok E src prev \<and> set queue \<subseteq> dom (map_of prev)
     \<and> (\<forall>v\<in>dom (map_of prev) - set queue. E `` {v} \<subseteq> dom (map_of prev))
     \<and> (\<exists>k q1 q2. queue = q1 @ q2 \<and> (\<forall>v\<in>set q1. dist_is E src k v)
          \<and> (\<forall>v\<in>set q2. dist_is E src (Suc k) v)
          \<and> (\<forall>v j. j \<le> k \<longrightarrow> dist_is E src j v \<longrightarrow> v \<in> dom (map_of prev)))"

text \<open>The head of the queue has the smallest distance, and all nearer nodes are known.\<close>

lemma bfs_inv_head:
  assumes "bfs_inv E src prev (node # queue)"
  obtains k q1 q2 where "queue = q1 @ q2" "dist_is E src k node" "\<forall>v\<in>set q1. dist_is E src k v"
    "\<forall>v\<in>set q2. dist_is E src (Suc k) v"
    "\<forall>v j. j \<le> k \<longrightarrow> dist_is E src j v \<longrightarrow> v \<in> dom (map_of prev)"
proof -
  from assms obtain k q1 q2 where q: "node # queue = q1 @ q2" "\<forall>v\<in>set q1. dist_is E src k v"
    "\<forall>v\<in>set q2. dist_is E src (Suc k) v"
    and known: "\<forall>v j. j \<le> k \<longrightarrow> dist_is E src j v \<longrightarrow> v \<in> dom (map_of prev)"
    and closed: "\<forall>v\<in>dom (map_of prev) - set (node # queue). E `` {v} \<subseteq> dom (map_of prev)"
    unfolding bfs_inv_def by blast
  show ?thesis
  proof (cases q1)
    case (Cons x xs)
    with q known show ?thesis by (intro that [of xs q2 k]) auto
  next
    case Nil
    have kn: "v \<in> dom (map_of prev)" if "j \<le> Suc k" "dist_is E src j v" for v j
    proof (cases "j \<le> k")
      case False
      with that have "dist_is E src (Suc k) v" by (simp add: le_Suc_eq)
      then obtain u where u: "dist_is E src k u" "(u, v) \<in> E" by (rule dist_pred)
      have "u \<notin> set (node # queue)"
      proof
        assume "u \<in> set (node # queue)"
        then have "dist_is E src (Suc k) u" using q Nil by simp
        from dist_unique [OF this u(1)] show False by simp
      qed
      moreover have "u \<in> dom (map_of prev)" using known u(1) by blast
      ultimately show ?thesis using closed u(2) by blast
    qed (use that known in blast)
    then have all_known: "\<forall>v j. j \<le> Suc k \<longrightarrow> dist_is E src j v \<longrightarrow> v \<in> dom (map_of prev)"
      by (intro allI impI) (rule kn)
    from q Nil have "dist_is E src (Suc k) node" "\<forall>v\<in>set queue. dist_is E src (Suc k) v" by auto
    then show ?thesis using all_known by (intro that [of queue "[]" "Suc k"]) simp_all
  qed
qed

lemma scan_spec:
  assumes "dist_is E src k node"
  shows "prev_ok E src prev \<Longrightarrow> node \<in> dom (map_of prev) \<Longrightarrow>
    (\<And>v j. j \<le> k \<Longrightarrow> dist_is E src j v \<Longrightarrow> v \<in> dom (map_of prev)) \<Longrightarrow> set vs \<subseteq> E `` {node} \<Longrightarrow>
    (case scan_nbrs node dst vs prev queue of
       Inl prev' \<Rightarrow> prev_ok E src prev' \<and> dst \<in> dom (map_of prev')
     | Inr (prev', queue') \<Rightarrow> prev_ok E src prev'
         \<and> dom (map_of prev') = dom (map_of prev) \<union> set vs
         \<and> (dst \<in> dom (map_of prev') \<longrightarrow> dst \<in> dom (map_of prev))
         \<and> (\<exists>new. queue' = queue @ new \<and> set new = set vs - dom (map_of prev)
              \<and> (\<forall>v\<in>set new. dist_is E src (Suc k) v)))"
proof (induction vs arbitrary: prev queue)
  case Nil
  then show ?case by simp
next
  case (Cons v vs)
  show ?case
  proof (cases "map_of prev v")
    case (Some p)
    then have "v \<in> dom (map_of prev)" by auto
    moreover have "case scan_nbrs node dst vs prev queue of
       Inl prev' \<Rightarrow> prev_ok E src prev' \<and> dst \<in> dom (map_of prev')
     | Inr (prev', queue') \<Rightarrow> prev_ok E src prev'
         \<and> dom (map_of prev') = dom (map_of prev) \<union> set vs
         \<and> (dst \<in> dom (map_of prev') \<longrightarrow> dst \<in> dom (map_of prev))
         \<and> (\<exists>new. queue' = queue @ new \<and> set new = set vs - dom (map_of prev)
              \<and> (\<forall>v\<in>set new. dist_is E src (Suc k) v))"
      using Cons.prems by (intro Cons.IH) auto
    ultimately show ?thesis using Some
      by (auto simp: insert_Diff_if insert_absorb Un_insert_right split: sum.splits)
  next
    case None
    let ?prev = "AList.update v node prev"
    have new: "v \<notin> dom (map_of prev)" using None by auto
    have dist: "dist_is E src (Suc k) v"
      using Cons.prems(3,4) new by (intro dist_step [OF assms]) auto
    have ok: "prev_ok E src ?prev"
      using Cons.prems new dist assms by (intro prev_ok_update) auto
    show ?thesis
    proof (cases "v = dst")
      case True
      with ok None show ?thesis by (simp add: Let_def)
    next
      case False
      have IH: "case scan_nbrs node dst vs ?prev (queue @ [v]) of
         Inl prev' \<Rightarrow> prev_ok E src prev' \<and> dst \<in> dom (map_of prev')
       | Inr (prev', queue') \<Rightarrow> prev_ok E src prev'
           \<and> dom (map_of prev') = dom (map_of ?prev) \<union> set vs
           \<and> (dst \<in> dom (map_of prev') \<longrightarrow> dst \<in> dom (map_of ?prev))
           \<and> (\<exists>new. queue' = (queue @ [v]) @ new \<and> set new = set vs - dom (map_of ?prev)
                \<and> (\<forall>v\<in>set new. dist_is E src (Suc k) v))"
      proof (rule Cons.IH [OF ok])
        show "node \<in> dom (map_of ?prev)" using Cons.prems(2) by (simp only: dom_map_update insert_iff) simp
        show "set vs \<subseteq> E `` {node}" using Cons.prems(4) by simp
        show "w \<in> dom (map_of ?prev)" if "j \<le> k" "dist_is E src j w" for w j
          using Cons.prems(3) [OF that] by (simp only: dom_map_update insert_iff) simp
      qed
      have eq: "scan_nbrs node dst (v # vs) prev queue = scan_nbrs node dst vs ?prev (queue @ [v])"
        using None False by (simp add: Let_def)
      show ?thesis
      proof (cases "scan_nbrs node dst vs ?prev (queue @ [v])")
        case (Inl p')
        with IH show ?thesis by (simp only: eq sum.case)
      next
        case (Inr r)
        obtain p' q' where r: "r = (p', q')" by (cases r)
        from IH [unfolded Inr r sum.case prod.case] obtain new' where
          s: "prev_ok E src p'" "dom (map_of p') = insert v (dom (map_of prev)) \<union> set vs"
          "dst \<in> dom (map_of p') \<longrightarrow> dst \<in> insert v (dom (map_of prev))"
          "q' = (queue @ [v]) @ new'" "set new' = set vs - insert v (dom (map_of prev))"
          "\<forall>w\<in>set new'. dist_is E src (Suc k) w"
          unfolding dom_map_update by blast
        show ?thesis
          unfolding eq Inr r sum.case prod.case
        proof (intro conjI exI [of _ "v # new'"])
          show "dom (map_of p') = dom (map_of prev) \<union> set (v # vs)" using s(2) by simp
          show "dst \<in> dom (map_of p') \<longrightarrow> dst \<in> dom (map_of prev)" using s(3) False by blast
          show "set (v # new') = set (v # vs) - dom (map_of prev)" using s(5) new by auto
        qed (use s dist in simp_all)
      qed
    qed
  qed
qed

lemma bfs_inv_step:
  assumes inv: "bfs_inv (edges g) src prev (node # queue)"
  shows "case scan_nbrs node dst (sorted_nbrs g node) prev queue of
      Inl prev' \<Rightarrow> prev_ok (edges g) src prev' \<and> dst \<in> dom (map_of prev')
    | Inr (prev', queue') \<Rightarrow> bfs_inv (edges g) src prev' queue'
        \<and> (dst \<in> dom (map_of prev') \<longrightarrow> dst \<in> dom (map_of prev))"
proof -
  let ?E = "edges g"
  obtain k q1 q2 where q: "queue = q1 @ q2" "dist_is ?E src k node" "\<forall>v\<in>set q1. dist_is ?E src k v"
    "\<forall>v\<in>set q2. dist_is ?E src (Suc k) v"
    and known: "\<forall>v j. j \<le> k \<longrightarrow> dist_is ?E src j v \<longrightarrow> v \<in> dom (map_of prev)"
    by (rule bfs_inv_head [OF inv])
  have nbrs: "set (sorted_nbrs g node) = ?E `` {node}"
    by (auto simp: edges_def)
  have base: "prev_ok ?E src prev" "set (node # queue) \<subseteq> dom (map_of prev)"
    "\<forall>v\<in>dom (map_of prev) - set (node # queue). ?E `` {v} \<subseteq> dom (map_of prev)"
    using inv unfolding bfs_inv_def by blast+
  note scan = scan_spec [OF q(2) base(1), of "sorted_nbrs g node" dst queue]
  show ?thesis
  proof (cases "scan_nbrs node dst (sorted_nbrs g node) prev queue")
    case (Inl prev')
    with scan known base nbrs show ?thesis by simp
  next
    case (Inr r)
    obtain prev' queue' where r: "r = (prev', queue')" by (cases r)
    from scan known base nbrs Inr r obtain new where
      s: "prev_ok ?E src prev'" "dom (map_of prev') = dom (map_of prev) \<union> ?E `` {node}"
      "dst \<in> dom (map_of prev') \<longrightarrow> dst \<in> dom (map_of prev)"
      "queue' = queue @ new" "set new = ?E `` {node} - dom (map_of prev)"
      "\<forall>v\<in>set new. dist_is ?E src (Suc k) v" by auto
    have "bfs_inv ?E src prev' queue'"
      unfolding bfs_inv_def
    proof (intro conjI)
      show "set queue' \<subseteq> dom (map_of prev')" using s base(2) by auto
      show "\<forall>v\<in>dom (map_of prev') - set queue'. ?E `` {v} \<subseteq> dom (map_of prev')"
      proof
        fix v assume v: "v \<in> dom (map_of prev') - set queue'"
        then have "v \<in> dom (map_of prev)" using s by auto
        then show "?E `` {v} \<subseteq> dom (map_of prev')"
          using v s(2,4) base(3) by (cases "v = node") auto
      qed
      show "\<exists>k q1 q2. queue' = q1 @ q2 \<and> (\<forall>v\<in>set q1. dist_is ?E src k v)
          \<and> (\<forall>v\<in>set q2. dist_is ?E src (Suc k) v)
          \<and> (\<forall>v j. j \<le> k \<longrightarrow> dist_is ?E src j v \<longrightarrow> v \<in> dom (map_of prev'))"
        using q s known by (intro exI [of _ k] exI [of _ q1] exI [of _ "q2 @ new"]) auto
    qed (rule s(1))
    with s Inr r show ?thesis by simp
  qed
qed

lemma bfs_spec:
  "bfs_inv (edges g) src prev queue \<Longrightarrow> dst \<notin> dom (map_of prev) \<Longrightarrow>
   (case bfs g dst prev queue of
      None \<Rightarrow> (src, dst) \<notin> (edges g)\<^sup>*
    | Some prev' \<Rightarrow> prev_ok (edges g) src prev' \<and> dst \<in> dom (map_of prev'))"
proof (induction g dst prev queue rule: bfs.induct)
  case (1 g dst prev)
  then have closed: "\<forall>v\<in>dom (map_of prev). edges g `` {v} \<subseteq> dom (map_of prev)"
    and src: "src \<in> dom (map_of prev)" by (auto simp: bfs_inv_def prev_ok_def)
  have "v \<in> dom (map_of prev)" if "(src, v) \<in> (edges g)\<^sup>*" for v
    using that by (induction rule: rtrancl_induct) (use closed src in auto)
  with 1 show ?case by auto
next
  case (2 g dst prev node queue)
  note step = bfs_inv_step [OF 2(2), of dst]
  show ?case
  proof (cases "scan_nbrs node dst (sorted_nbrs g node) prev queue")
    case (Inl prev')
    with step show ?thesis by simp
  next
    case (Inr r)
    obtain prev' queue' where r: "r = (prev', queue')" by (cases r)
    with step Inr 2 show ?thesis by simp
  qed
qed

lemma bfs_inv_init: "bfs_inv E src [(src, src)] [src]"
  unfolding bfs_inv_def
proof (intro conjI)
  show "\<exists>k q1 q2. [src] = q1 @ q2 \<and> (\<forall>v\<in>set q1. dist_is E src k v)
      \<and> (\<forall>v\<in>set q2. dist_is E src (Suc k) v)
      \<and> (\<forall>v j. j \<le> k \<longrightarrow> dist_is E src j v \<longrightarrow> v \<in> dom (map_of [(src, src)]))"
    by (intro exI [of _ 0] exI [of _ "[src]"] exI [of _ "[]"]) (simp add: dist_zero)
qed (auto simp: prev_ok_def)

text \<open>
  The search returns, without an exception: a shortest path from source to destination, or
  the empty list exactly when the destination is unreachable.
\<close>

lemma shortest_path_spec:
  "\<exists>p. shortest_path g src dst = Some (Inr p)
     \<and> (p = [] \<longleftrightarrow> (src, dst) \<notin> (edges g)\<^sup>*)
     \<and> (p \<noteq> [] \<longrightarrow> hd p = src \<and> last p = dst \<and> path_in (edges g) p
          \<and> (\<forall>k. (src, dst) \<in> edges g ^^ k \<longrightarrow> length p \<le> k + 1))"
proof (cases "src = dst")
  case True
  then show ?thesis by (simp add: shortest_path_def)
next
  case False
  then have spec: "case bfs g dst [(src, src)] [src] of
      None \<Rightarrow> (src, dst) \<notin> (edges g)\<^sup>*
    | Some prev' \<Rightarrow> prev_ok (edges g) src prev' \<and> dst \<in> dom (map_of prev')"
    by (intro bfs_spec bfs_inv_init) auto
  show ?thesis
  proof (cases "bfs g dst [(src, src)] [src]")
    case None
    with False spec show ?thesis by (simp add: shortest_path_def)
  next
    case (Some prev)
    with spec False obtain k where ok: "prev_ok (edges g) src prev" "dst \<in> dom (map_of prev)"
      and k: "dist_is (edges g) src k dst"
      unfolding prev_ok_def by fastforce
    from walk_back_path [OF ok(1) k ok(2), of "[dst]"] obtain ps where
      ps: "walk_back prev src [dst] dst = Some (Inr (dst # ps))" "length ps = k"
      "last (dst # ps) = src" "path_in (edges g) (rev (dst # ps))" by auto
    have "(src, dst) \<in> (edges g)\<^sup>*"
      using k by (auto simp: dist_is_def intro: relpow_imp_rtrancl)
    moreover have "k \<le> j" if "(src, dst) \<in> edges g ^^ j" for j
      using k that unfolding dist_is_def by (meson not_less)
    moreover have "hd (rev (dst # ps)) = src" using ps(3) by (simp only: hd_rev)
    ultimately show ?thesis
      using False Some ps by (intro exI [of _ "rev (dst # ps)"]) (simp add: shortest_path_def)
  qed
qed

end
