(* ===== verification/Retriever.thy ===== *)
theory Retriever
  imports ShortestPath Semantic Models "HOL-Library.Product_Lexorder"
begin

text \<open>
  The lexical schema retriever (\<open>retrieval/retriever.py\<close>): tokenization, the scoring signals,
  the seeds, the join bridges along shortest foreign-key paths, and the selected sub-schema.
  Scores are exact rationals. The order in which Python iterates over the set of bridges is
  the field \<open>lr_set_order\<close>.
\<close>

section \<open>Tokens\<close>

definition stopwords :: "string list" where
  "stopwords = [''the'', ''a'', ''an'', ''of'', ''by'', ''for'', ''to'', ''in'', ''on'', ''and'', ''or'', ''with'', ''show'',
     ''list'', ''get'', ''give'', ''me'', ''our'', ''what'', ''which'', ''how'', ''many'', ''much'', ''was'', ''were'',
     ''is'', ''are'', ''that'', ''this'', ''over'', ''per'', ''each'', ''all'', ''top'', ''last'', ''past'', ''year'',
     ''month'', ''quarter'', ''week'', ''day'', ''days'', ''compare'', ''between'', ''from'', ''have'', ''has'',
     ''not'', ''who'', ''their'', ''them'', ''did'', ''do'', ''does'', ''count'', ''number'']"

definition token_char :: "char \<Rightarrow> bool" where
  "token_char c \<longleftrightarrow> (let n = code_point c in 97 \<le> n \<and> n \<le> 122 \<or> 48 \<le> n \<and> n \<le> 57)"

definition singular :: "string \<Rightarrow> string option" where
  "singular tok = (if tok \<noteq> [] \<and> last tok = CHR ''s'' \<and> length tok > 3 then Some (butlast tok) else None)"

definition keep_token :: "string \<Rightarrow> bool" where
  "keep_token tok \<longleftrightarrow> tok \<noteq> [] \<and> tok \<notin> set stopwords \<and> length tok \<ge> 3"

text \<open>The pieces between runs of separators, as a list without duplicates.\<close>

definition tokenize :: "string \<Rightarrow> string list" where
  "tokenize text = remdups (concat (map
     (\<lambda>tok. tok # (case singular tok of None \<Rightarrow> [] | Some s \<Rightarrow> [s]))
     (filter keep_token (split_by (\<lambda>c. \<not> token_char c) [] (lower text)))))"

definition overlap :: "string list \<Rightarrow> string list \<Rightarrow> string list" where
  "overlap tokens others = sorted_set (filter (\<lambda>t. t \<in> set others) tokens)"

section \<open>Scores\<close>

type_synonym scores = "(string \<times> rat) list"
type_synonym reasons = "(string \<times> string list) list"

definition w_table_name :: rat where "w_table_name = 5"
definition w_column_name :: rat where "w_column_name = 2"
definition w_comment :: rat where "w_comment = 1"
definition w_glossary :: rat where "w_glossary = 4"
definition w_metric :: rat where "w_metric = 4"
definition bridge_score :: rat where "bridge_score = 1 / 2"

definition add_score :: "string \<Rightarrow> rat \<Rightarrow> string \<Rightarrow> scores \<times> reasons \<Rightarrow> scores \<times> reasons" where
  "add_score key amount reason = (\<lambda>(scores, reasons).
     (AList.update key (dict_get 0 scores key + amount) scores,
      AList.update key (dict_get [] reasons key @ [reason]) reasons))"

definition score_lexical :: "string list \<Rightarrow> table_info \<Rightarrow> scores \<times> reasons \<Rightarrow> scores \<times> reasons" where
  "score_lexical tokens t st =
     (let q = [CHR 0x27]; names = overlap tokens (tokenize (tbl_name t));
          st1 = (if names \<noteq> []
            then add_score (tbl_key t) w_table_name
              (''table name matches '' @ q @ join '', '' names @ q) st else st);
          hits = sorted_set (map col_name
            (filter (\<lambda>c. overlap tokens (tokenize (col_name c)) \<noteq> []) (tbl_columns t)));
          st2 = (if hits \<noteq> []
            then add_score (tbl_key t) (w_column_name * of_nat (min (length hits) 3))
              (''columns match: '' @ join '', '' hits) st1 else st1)
      in case tbl_comment t of
           None \<Rightarrow> st2
         | Some c \<Rightarrow> if c \<noteq> [] \<and> overlap tokens (tokenize c) \<noteq> []
                     then add_score (tbl_key t) w_comment ''description matches question terms'' st2
                     else st2)"

definition score_related ::
    "database_schema \<Rightarrow> rat \<Rightarrow> string \<Rightarrow> string list \<Rightarrow> scores \<times> reasons \<Rightarrow> scores \<times> reasons" where
  "score_related schema weight reason names st =
     fold (\<lambda>name st. case table schema name of
         None \<Rightarrow> st | Some t \<Rightarrow> add_score (tbl_key t) weight reason st) names st"

definition score_tables ::
    "semantic_layer \<Rightarrow> string \<Rightarrow> database_schema \<Rightarrow> scores \<times> reasons" where
  "score_tables l question schema =
     (let q = [CHR 0x27];
          st1 = fold (score_lexical (tokenize question)) (db_tables schema) ([], []);
          st2 = fold (\<lambda>t. score_related schema w_glossary (''glossary term '' @ q @ bt_term t @ q)
                  (bt_related_tables t)) (find_surface_forms l question) st1
      in fold (\<lambda>m. score_related schema w_metric
             (''metric '' @ q @ md_name m @ q @ '' requires this table'') (md_required_tables m))
           (find_metrics l question) st2)"

section \<open>Seeds and bridges\<close>

record lexical_retriever =
  lr_semantic :: semantic_layer
  lr_top_k :: int
  lr_set_order :: "string list \<Rightarrow> string list"

definition ranked_keys :: "scores \<Rightarrow> string list" where
  "ranked_keys scores = map fst (sort_key (\<lambda>(k, v). (- v, k)) scores)"

definition choose_seeds ::
    "int \<Rightarrow> database_schema \<Rightarrow> scores \<times> reasons \<Rightarrow> string list \<times> scores \<times> reasons" where
  "choose_seeds top_k schema st =
     (let seeds = slice_to top_k (ranked_keys (fst st)) in
      if seeds \<noteq> [] then (seeds, st)
      else let fallback = slice_to top_k (sort (map tbl_key (db_tables schema))) in
        (fallback, fold (\<lambda>k. add_score k (1 / 10)
           ''fallback: no strong signal, included by default'') fallback st))"

text \<open>The nodes on the path of each pair of seeds.\<close>

fun seed_pairs :: "string list \<Rightarrow> (string \<times> string) list" where
  "seed_pairs [] = []"
| "seed_pairs (s # ss) = map (Pair s) ss @ seed_pairs ss"

definition path_nodes :: "graph \<Rightarrow> string \<times> string \<Rightarrow> string list" where
  "path_nodes g = (\<lambda>(src, dst). case shortest_path g src dst of
     Some (Inr p) \<Rightarrow> p | _ \<Rightarrow> [])"

definition add_bridges :: "database_schema \<Rightarrow> string list \<Rightarrow> string list" where
  "add_bridges schema seeds = (let g = join_graph schema in
     filter (\<lambda>k. k \<notin> set seeds)
       (remdups (concat (map (path_nodes g) (seed_pairs seeds)))))"

section \<open>Retrieval\<close>

record retrieval_result =
  rr_selected :: "retrieved_object list"
  rr_schema_subset :: database_schema

definition rr_table_names :: "retrieval_result \<Rightarrow> string list" where
  "rr_table_names r = map ro_table (rr_selected r)"

definition qualified_key :: "database_schema \<Rightarrow> string \<Rightarrow> string" where
  "qualified_key schema key = (case table schema key of None \<Rightarrow> key | Some t \<Rightarrow> qualified_name t)"

text \<open>\<open>round(x, 3)\<close>, ties to even.\<close>

definition round3 :: "rat \<Rightarrow> rat" where
  "round3 x = (let y = x * 1000; f = \<lfloor>y\<rfloor>; d = y - of_int f in
     of_int (if d < 1 / 2 then f else if d > 1 / 2 then f + 1 else if even f then f else f + 1) / 1000)"

definition selected_keys :: "lexical_retriever \<Rightarrow> string list \<Rightarrow> string list \<Rightarrow> string list" where
  "selected_keys r seeds bridges = from_keys (seeds @ lr_set_order r bridges)"

definition retrieve :: "lexical_retriever \<Rightarrow> string \<Rightarrow> database_schema \<Rightarrow> retrieval_result" where
  "retrieve r question schema =
     (case choose_seeds (lr_top_k r) schema (score_tables (lr_semantic r) question schema) of
        (seeds, st) \<Rightarrow>
          (let bridges = add_bridges schema seeds;
               (scores, reasons) = fold (\<lambda>k st. if map_of (fst st) k = None
                   then add_score k bridge_score ''join bridge required to connect selected tables'' st
                   else st) (lr_set_order r bridges) st;
               keys = selected_keys r seeds bridges;
               selected = map (\<lambda>k. \<lparr> ro_table = qualified_key schema k,
                   ro_score = round3 (dict_get bridge_score scores k),
                   ro_reason = join ''; '' (dict_get [''included''] reasons k) \<rparr>) keys
           in \<lparr> rr_selected = sort_key (\<lambda>x. (- ro_score x, ro_table x)) selected,
                rr_schema_subset = subset schema (map (qualified_key schema) keys) \<rparr>))"

section \<open>Seeds\<close>

lemma set_slice_to: "set (slice_to k xs) \<subseteq> set xs"
  by (auto simp: slice_to_def dest: in_set_takeD)

lemma length_slice_to: "0 \<le> k \<Longrightarrow> length (slice_to k xs) \<le> nat k"
  by (simp add: slice_to_def)

lemma seeds_bounded:
  "0 \<le> k \<Longrightarrow> int (length (fst (choose_seeds k schema st))) \<le> k"
proof -
  assume "0 \<le> k"
  then have "int (length (slice_to k xs)) \<le> k" for xs :: "string list"
    using length_slice_to [of k xs] by linarith
  then show ?thesis by (simp add: choose_seeds_def Let_def)
qed

text \<open>The keys in score order: no key outside the seeds beats a seed.\<close>

lemma ranked_sorted:
  assumes "distinct (map fst scores)" and "i < j" and "j < length (ranked_keys scores)"
  shows "dict_get 0 scores (ranked_keys scores ! j) \<le> dict_get 0 scores (ranked_keys scores ! i)"
proof -
  let ?s = "sort_key (\<lambda>(k, v). (- v, k)) scores"
  have len: "length (ranked_keys scores) = length ?s" by (simp add: ranked_keys_def)
  have get: "dict_get 0 scores (fst p) = snd p" if "p \<in> set ?s" for p
  proof -
    have "(fst p, snd p) \<in> set scores" using that by simp
    with assms(1) have "map_of scores (fst p) = Some (snd p)" by (rule map_of_is_SomeI)
    then show ?thesis by (simp add: dict_get_def)
  qed
  have nth: "ranked_keys scores ! m = fst (?s ! m)" if "m < length ?s" for m
    using that by (simp add: ranked_keys_def)
  have "sorted (map (\<lambda>(k, v). (- v, k)) ?s)" by simp
  then have "(\<lambda>(k, v). (- v, k)) (?s ! i) \<le> (\<lambda>(k, v). (- v, k)) (?s ! j)"
    using assms(2,3) sorted_nth_mono [of "map (\<lambda>(k, v). (- v, k)) ?s" i j] by (simp add: len)
  then have "snd (?s ! j) \<le> snd (?s ! i)"
    by (auto simp: case_prod_beta less_eq_prod_def)
  moreover have "?s ! i \<in> set ?s" "?s ! j \<in> set ?s"
    using assms(2,3) by (simp_all only: len nth_mem less_trans)
  ultimately show ?thesis
    using assms(2,3) nth [of i] nth [of j] by (simp only: get len less_trans)
qed

section \<open>Bridges\<close>

lemma seed_pairs_cover:
  "a \<in> set seeds \<Longrightarrow> b \<in> set seeds \<Longrightarrow> a \<noteq> b \<Longrightarrow>
   (a, b) \<in> set (seed_pairs seeds) \<or> (b, a) \<in> set (seed_pairs seeds)"
  by (induction seeds) auto

lemma set_add_bridges:
  "set (add_bridges schema seeds) =
     (\<Union>p\<in>set (seed_pairs seeds). set (path_nodes (join_graph schema) p)) - set seeds"
  by (auto simp: add_bridges_def Let_def)

lemma path_in_sym:
  assumes "sym E" and "path_in E p"
  shows "path_in E (rev p)"
  using assms(2) unfolding successively_rev
  by (rule successively_mono) (use assms(1) in \<open>auto dest: symD\<close>)

lemma sym_relpow: "sym E \<Longrightarrow> (x, y) \<in> E ^^ k \<Longrightarrow> (y, x) \<in> E ^^ k"
proof (induction k arbitrary: y)
  case (Suc k)
  then obtain z where "(x, z) \<in> E ^^ k" "(z, y) \<in> E" by (auto elim: relpow_Suc_E)
  with Suc have "(z, x) \<in> E ^^ k" "(y, z) \<in> E" by (auto dest: symD)
  then show ?case by (intro relpow_Suc_I2)
qed simp

lemma bridge_path:
  assumes "a \<in> set seeds" and "b \<in> set seeds" and "(a, b) \<in> (edges (join_graph schema))\<^sup>*"
  shows "\<exists>p. p \<noteq> [] \<and> hd p = a \<and> last p = b \<and> path_in (edges (join_graph schema)) p
     \<and> (\<forall>k. (a, b) \<in> edges (join_graph schema) ^^ k \<longrightarrow> length p \<le> k + 1)
     \<and> set p \<subseteq> set seeds \<union> set (add_bridges schema seeds)"
proof (cases "a = b")
  case True
  with assms show ?thesis by (intro exI [of _ "[a]"]) simp
next
  case False
  note neq = False
  let ?g = "join_graph schema" and ?E = "edges (join_graph schema)"
  have path: "\<exists>p. path_nodes ?g (x, y) = p \<and> p \<noteq> [] \<and> hd p = x \<and> last p = y \<and> path_in ?E p
      \<and> (\<forall>k. (x, y) \<in> ?E ^^ k \<longrightarrow> length p \<le> k + 1)" if "(x, y) \<in> ?E\<^sup>*" for x y
    using shortest_path_spec [of ?g x y] that by (auto simp: path_nodes_def)
  have covered: "set (path_nodes ?g (x, y)) \<subseteq> set seeds \<union> set (add_bridges schema seeds)"
    if "(x, y) \<in> set (seed_pairs seeds)" for x y
    using that by (auto simp: set_add_bridges)
  show ?thesis
  proof (cases "(a, b) \<in> set (seed_pairs seeds)")
    case True
    then show ?thesis using path [OF assms(3)] covered by blast
  next
    case False
    then have ba: "(b, a) \<in> set (seed_pairs seeds)" using seed_pairs_cover assms neq by blast
    have flip: "(x, y) \<in> ?E ^^ k \<Longrightarrow> (y, x) \<in> ?E ^^ k" for x y k
      by (rule sym_relpow [OF sym_join_graph])
    then have "(b, a) \<in> ?E\<^sup>*" using assms(3) by (metis rtrancl_imp_relpow relpow_imp_rtrancl)
    from path [OF this] obtain p where p: "path_nodes ?g (b, a) = p" "p \<noteq> []" "hd p = b" "last p = a"
      "path_in ?E p" "\<forall>k. (b, a) \<in> ?E ^^ k \<longrightarrow> length p \<le> k + 1" by blast
    show ?thesis
      using p covered [OF ba] flip path_in_sym [OF sym_join_graph p(5)]
      by (intro exI [of _ "rev p"]) (auto simp: hd_rev last_rev)
  qed
qed

section \<open>The selected sub-schema\<close>

text \<open>Keys are stable under normalization and denote their tables.\<close>

definition keys_resolve :: "database_schema \<Rightarrow> bool" where
  "keys_resolve schema \<longleftrightarrow> (\<forall>t\<in>set (db_tables schema). table schema (tbl_key t) = Some t)"

definition retrieval_seeds :: "lexical_retriever \<Rightarrow> string \<Rightarrow> database_schema \<Rightarrow> string list" where
  "retrieval_seeds r question schema =
     fst (choose_seeds (lr_top_k r) schema (score_tables (lr_semantic r) question schema))"

lemma retrieve_subset:
  "rr_schema_subset (retrieve r question schema) =
     (let seeds = retrieval_seeds r question schema in
      subset schema (map (qualified_key schema) (selected_keys r seeds (add_bridges schema seeds))))"
  by (simp add: retrieve_def retrieval_seeds_def case_prod_beta Let_def)

lemma retrieve_keeps_key:
  assumes "keys_resolve schema" and "t \<in> set (db_tables schema)"
    and "tbl_key t \<in> set (selected_keys r seeds bridges)"
  shows "t \<in> set (db_tables (subset schema (map (qualified_key schema) (selected_keys r seeds bridges))))"
proof -
  have "qualified_key schema (tbl_key t) = qualified_name t"
    using assms(1,2) by (simp add: qualified_key_def keys_resolve_def)
  with assms(3) have "qualified_name t \<in> set (map (qualified_key schema) (selected_keys r seeds bridges))"
    by (metis image_eqI set_map)
  with assms(2) show ?thesis by (rule subset_keeps)
qed

lemma retrieve_joinable:
  assumes order: "\<And>xs. set (lr_set_order r xs) = set xs" and keys: "keys_resolve schema"
    and "a \<in> set (retrieval_seeds r question schema)" and "b \<in> set (retrieval_seeds r question schema)"
    and "(a, b) \<in> (edges (join_graph schema))\<^sup>*"
  shows "\<exists>p. p \<noteq> [] \<and> hd p = a \<and> last p = b \<and> path_in (edges (join_graph schema)) p
     \<and> (\<forall>k. (a, b) \<in> edges (join_graph schema) ^^ k \<longrightarrow> length p \<le> k + 1)
     \<and> (\<forall>t\<in>set (db_tables schema). tbl_key t \<in> set p \<longrightarrow>
          t \<in> set (db_tables (rr_schema_subset (retrieve r question schema))))"
proof -
  from bridge_path [OF assms(3-5)] obtain p where
    p: "p \<noteq> []" "hd p = a" "last p = b" "path_in (edges (join_graph schema)) p"
    "\<forall>k. (a, b) \<in> edges (join_graph schema) ^^ k \<longrightarrow> length p \<le> k + 1"
    and sel: "set p \<subseteq> set (retrieval_seeds r question schema)
      \<union> set (add_bridges schema (retrieval_seeds r question schema))" by blast
  have "t \<in> set (db_tables (rr_schema_subset (retrieve r question schema)))"
    if "t \<in> set (db_tables schema)" "tbl_key t \<in> set p" for t
    unfolding retrieve_subset Let_def
    using keys that(1) by (rule retrieve_keeps_key) (use sel that(2) order in \<open>auto simp: selected_keys_def\<close>)
  with p show ?thesis by blast
qed

text \<open>
  The retrieval interface: a retriever selects from the catalog it is given. What the
  language model is shown is then bounded and drawn from the catalog.
\<close>

locale schema_retriever =
  fixes retrieve_from :: "string \<Rightarrow> database_schema \<Rightarrow> retrieval_result"
  assumes selects: "set (db_tables (rr_schema_subset (retrieve_from q s))) \<subseteq> set (db_tables s)"
    and same_catalog: "db_dialect (rr_schema_subset (retrieve_from q s)) = db_dialect s"
      "db_version (rr_schema_subset (retrieve_from q s)) = db_version s"
begin

lemma shown_columns:
  "(t, c) \<in> set (iter_columns (rr_schema_subset (retrieve_from q s))) \<Longrightarrow>
   t \<in> set (db_tables s) \<and> c \<in> set (tbl_columns t)"
  using selects [of q s] by (auto simp: iter_columns_def)

lemma shown_text_bounded:
  "length (serialize_for_prompt (rr_schema_subset (retrieve_from q s)) m) \<le> m + length truncation_marker"
  by (rule serialize_bounded)

end

interpretation lexical: schema_retriever "retrieve r" for r
proof
  fix q s
  show "set (db_tables (rr_schema_subset (retrieve r q s))) \<subseteq> set (db_tables s)"
    unfolding retrieve_subset Let_def by (rule subset_tables)
  show "db_dialect (rr_schema_subset (retrieve r q s)) = db_dialect s"
    "db_version (rr_schema_subset (retrieve r q s)) = db_version s"
    unfolding retrieve_subset Let_def by (simp_all add: subset_def Let_def)
qed

end
