(* ===== verification/Dates.thy ===== *)
theory Dates
  imports PyRegex Errors
begin

text \<open>
  Relative-date resolution (\<open>semantic/dates.py\<close>). A \<open>datetime\<close> is its calendar fields; day
  arithmetic goes through the proleptic Gregorian ordinal, as Python's does, and raises
  outside the years 1 to 9999. The reference time \<open>now\<close> is an argument.
\<close>

section \<open>The Gregorian calendar\<close>

definition is_leap :: "int \<Rightarrow> bool" where
  "is_leap y \<longleftrightarrow> y mod 4 = 0 \<and> (y mod 100 \<noteq> 0 \<or> y mod 400 = 0)"

definition days_in_month :: "int \<Rightarrow> int \<Rightarrow> int" where
  "days_in_month y m = (if m = 2 then (if is_leap y then 29 else 28)
     else if m \<in> {4, 6, 9, 11} then 30 else 31)"

record datetime =
  dt_year :: int
  dt_month :: int
  dt_day :: int
  dt_hour :: int
  dt_minute :: int
  dt_second :: int
  dt_micro :: int

definition valid_date :: "int \<Rightarrow> int \<Rightarrow> int \<Rightarrow> bool" where
  "valid_date y m d \<longleftrightarrow> 1 \<le> y \<and> y \<le> 9999 \<and> 1 \<le> m \<and> m \<le> 12 \<and> 1 \<le> d \<and> d \<le> days_in_month y m"

definition valid_datetime :: "datetime \<Rightarrow> bool" where
  "valid_datetime t \<longleftrightarrow> valid_date (dt_year t) (dt_month t) (dt_day t)
     \<and> 0 \<le> dt_hour t \<and> dt_hour t \<le> 23 \<and> 0 \<le> dt_minute t \<and> dt_minute t \<le> 59
     \<and> 0 \<le> dt_second t \<and> dt_second t \<le> 59 \<and> 0 \<le> dt_micro t \<and> dt_micro t \<le> 999999"

text \<open>\<open>datetime(y, m, d)\<close>.\<close>

definition midnight :: "int \<Rightarrow> int \<Rightarrow> int \<Rightarrow> datetime" where
  "midnight y m d = \<lparr> dt_year = y, dt_month = m, dt_day = d, dt_hour = 0, dt_minute = 0,
     dt_second = 0, dt_micro = 0 \<rparr>"

definition mk_date :: "int \<Rightarrow> int \<Rightarrow> int \<Rightarrow> py_exception + datetime" where
  "mk_date y m d = (if valid_date y m d then Inr (midnight y m d) else Inl PyValueError)"

text \<open>One day back and forth, and n days back (\<open>t - timedelta(days=n)\<close>).\<close>

definition prev_day :: "int \<times> int \<times> int \<Rightarrow> int \<times> int \<times> int" where
  "prev_day = (\<lambda>(y, m, d). if d > 1 then (y, m, d - 1)
     else if m > 1 then (y, m - 1, days_in_month y (m - 1)) else (y - 1, 12, 31))"

definition next_day :: "int \<times> int \<times> int \<Rightarrow> int \<times> int \<times> int" where
  "next_day = (\<lambda>(y, m, d). if d < days_in_month y m then (y, m, d + 1)
     else if m < 12 then (y, m + 1, 1) else (y + 1, 1, 1))"

definition date_of :: "datetime \<Rightarrow> int \<times> int \<times> int" where
  "date_of t = (dt_year t, dt_month t, dt_day t)"

definition set_date :: "int \<times> int \<times> int \<Rightarrow> datetime \<Rightarrow> datetime" where
  "set_date = (\<lambda>(y, m, d) t. t\<lparr> dt_year := y, dt_month := m, dt_day := d \<rparr>)"

definition minus_days :: "datetime \<Rightarrow> nat \<Rightarrow> py_exception + datetime" where
  "minus_days t n = (let r = set_date ((prev_day ^^ n) (date_of t)) t in
     if 1 \<le> dt_year r then Inr r else Inl PyOverflowError)"

definition plus_one_day :: "datetime \<Rightarrow> py_exception + datetime" where
  "plus_one_day t = (let r = set_date (next_day (date_of t)) t in
     if dt_year r \<le> 9999 then Inr r else Inl PyOverflowError)"

text \<open>Days before a date since year 1, and the weekday (Monday is 0).\<close>

definition days_before_year :: "int \<Rightarrow> int" where
  "days_before_year y = (y - 1) * 365 + (y - 1) div 4 - (y - 1) div 100 + (y - 1) div 400"

definition days_before_month :: "int \<Rightarrow> int \<Rightarrow> int" where
  "days_before_month y m = (\<Sum>k\<leftarrow>[1..m - 1]. days_in_month y k)"

definition ordinal :: "int \<times> int \<times> int \<Rightarrow> int" where
  "ordinal = (\<lambda>(y, m, d). days_before_year y + days_before_month y m + d)"

definition weekday :: "datetime \<Rightarrow> nat" where
  "weekday t = nat ((ordinal (date_of t) + 6) mod 7)"

section \<open>Resolution\<close>

record resolved_date_range =
  rd_start :: datetime
  rd_end :: datetime
  rd_description :: string
  rd_matched_phrase :: string

abbreviation window :: "datetime \<Rightarrow> datetime \<Rightarrow> string \<Rightarrow> string \<Rightarrow> resolved_date_range" where
  "window s e desc phrase \<equiv>
     \<lparr> rd_start = s, rd_end = e, rd_description = desc, rd_matched_phrase = phrase \<rparr>"

definition month_start :: "datetime \<Rightarrow> py_exception + datetime" where
  "month_start t = mk_date (dt_year t) (dt_month t) 1"

definition add_month :: "int \<Rightarrow> int \<Rightarrow> int \<Rightarrow> int \<times> int" where
  "add_month year month delta = (let index = (year * 12 + (month - 1)) + delta in
     (index div 12, index mod 12 + 1))"

definition quarter_of :: "int \<Rightarrow> int" where
  "quarter_of month = (month - 1) div 3"

definition two_words :: "string \<Rightarrow> string \<Rightarrow> re" where
  "two_words a b = seqs [WordB, lit a, plus space, lit b, WordB]"

definition pat_last_n_days :: re where
  "pat_last_n_days = seqs [WordB, alts [lit ''last'', lit ''past'', lit ''previous''], plus space,
     Group 1 (rep_range 1 4 digit), plus space, lit ''day'', opt (lit ''s''), WordB]"

definition pat_this_year :: re where
  "pat_this_year = seqs [WordB, alts [seqs [lit ''this'', plus space, lit ''year''],
     seqs [lit ''year'', plus space, lit ''to'', plus space, lit ''date''], lit ''ytd''], WordB]"

definition one_word :: "string \<Rightarrow> re" where
  "one_word w = seqs [WordB, lit w, WordB]"

definition mentions :: "re \<Rightarrow> string \<Rightarrow> bool" where
  "mentions r text \<longleftrightarrow> search r text \<noteq> None"

fun nat_of_digits :: "nat \<Rightarrow> string \<Rightarrow> nat" where
  "nat_of_digits acc [] = acc"
| "nat_of_digits acc (c # cs) = nat_of_digits (10 * acc + (code_point c - 48)) cs"

definition last_n_days_range :: "datetime \<Rightarrow> re_match \<Rightarrow> py_exception + resolved_date_range" where
  "last_n_days_range now m = (let days = nat_of_digits 0 (group m 1) in
     and_then (minus_days now days) (\<lambda>start.
       Inr (window start now (''the last '' @ show_nat days @ '' days'') (m_text m))))"

definition last_quarter_range :: "datetime \<Rightarrow> py_exception + resolved_date_range" where
  "last_quarter_range now =
     and_then (mk_date (dt_year now) (quarter_of (dt_month now) * 3 + 1) 1) (\<lambda>cur.
       case add_month (dt_year cur) (dt_month cur) (- 3) of (ly, lm) \<Rightarrow>
         and_then (mk_date ly lm 1) (\<lambda>start.
           Inr (window start cur ''the last completed calendar quarter'' ''last quarter'')))"

definition this_quarter_range :: "datetime \<Rightarrow> py_exception + resolved_date_range" where
  "this_quarter_range now =
     and_then (mk_date (dt_year now) (quarter_of (dt_month now) * 3 + 1) 1) (\<lambda>start.
       Inr (window start now ''the current quarter to date'' ''this quarter''))"

definition last_month_range :: "datetime \<Rightarrow> py_exception + resolved_date_range" where
  "last_month_range now = (case add_month (dt_year now) (dt_month now) (- 1) of (ly, lm) \<Rightarrow>
     and_then (mk_date ly lm 1) (\<lambda>start. and_then (month_start now) (\<lambda>end'.
       Inr (window start end' ''the last completed calendar month'' ''last month''))))"

definition this_month_range :: "datetime \<Rightarrow> py_exception + resolved_date_range" where
  "this_month_range now = and_then (month_start now) (\<lambda>start.
     Inr (window start now ''the current month to date'' ''this month''))"

definition last_year_range :: "datetime \<Rightarrow> py_exception + resolved_date_range" where
  "last_year_range now = and_then (mk_date (dt_year now - 1) 1 1) (\<lambda>start.
     and_then (mk_date (dt_year now) 1 1) (\<lambda>end'.
       Inr (window start end' ''the previous calendar year'' ''last year'')))"

definition this_year_range :: "datetime \<Rightarrow> py_exception + resolved_date_range" where
  "this_year_range now = and_then (mk_date (dt_year now) 1 1) (\<lambda>start.
     Inr (window start now ''the current year to date'' ''this year''))"

definition today_start :: "datetime \<Rightarrow> py_exception + datetime" where
  "today_start now = mk_date (dt_year now) (dt_month now) (dt_day now)"

definition last_week_range :: "datetime \<Rightarrow> py_exception + resolved_date_range" where
  "last_week_range now = and_then (today_start now) (\<lambda>day.
     and_then (minus_days day (weekday now)) (\<lambda>week.
       and_then (minus_days week 7) (\<lambda>start.
         Inr (window start week ''the last completed week'' ''last week''))))"

definition yesterday_range :: "datetime \<Rightarrow> py_exception + resolved_date_range" where
  "yesterday_range now = and_then (today_start now) (\<lambda>today.
     and_then (minus_days today 1) (\<lambda>day. and_then (plus_one_day day) (\<lambda>end'.
       Inr (window day end' ''yesterday'' ''yesterday''))))"

definition today_range :: "datetime \<Rightarrow> py_exception + resolved_date_range" where
  "today_range now = and_then (today_start now) (\<lambda>day. and_then (plus_one_day day) (\<lambda>end'.
     Inr (window day end' ''today'' ''today'')))"

definition found :: "py_exception + resolved_date_range \<Rightarrow> py_exception + resolved_date_range option" where
  "found r = map_sum id Some r"

definition resolve_relative_date ::
    "string \<Rightarrow> datetime \<Rightarrow> py_exception + resolved_date_range option" where
  "resolve_relative_date question now = (let text = lower question in
     case search pat_last_n_days text of
       Some m \<Rightarrow> found (last_n_days_range now m)
     | None \<Rightarrow>
          if mentions (two_words ''last'' ''quarter'') text then found (last_quarter_range now)
          else if mentions (two_words ''this'' ''quarter'') text then found (this_quarter_range now)
          else if mentions (two_words ''last'' ''month'') text then found (last_month_range now)
          else if mentions (two_words ''this'' ''month'') text then found (this_month_range now)
          else if mentions (two_words ''last'' ''year'') text then found (last_year_range now)
          else if mentions pat_this_year text then found (this_year_range now)
          else if mentions (two_words ''last'' ''week'') text then found (last_week_range now)
          else if mentions (one_word ''yesterday'') text then found (yesterday_range now)
          else if mentions (one_word ''today'') text then found (today_range now)
          else Inr None)"

section \<open>Rendering\<close>

definition pad_zeros :: "nat \<Rightarrow> int \<Rightarrow> string" where
  "pad_zeros n i = (let s = show_int i in replicate (n - length s) (CHR ''0'') @ s)"

text \<open>\<open>isoformat(sep=' ')\<close>.\<close>

definition isoformat :: "datetime \<Rightarrow> string" where
  "isoformat t = pad_zeros 4 (dt_year t) @ ''-'' @ pad_zeros 2 (dt_month t) @ ''-''
     @ pad_zeros 2 (dt_day t) @ '' '' @ pad_zeros 2 (dt_hour t) @ '':'' @ pad_zeros 2 (dt_minute t)
     @ '':'' @ pad_zeros 2 (dt_second t)
     @ (if dt_micro t = 0 then [] else ''.'' @ pad_zeros 6 (dt_micro t))"

definition as_sql_predicate :: "resolved_date_range \<Rightarrow> string \<Rightarrow> string" where
  "as_sql_predicate r col = (let q = [CHR 0x27] in
     col @ '' >= '' @ q @ isoformat (rd_start r) @ q @ '' AND ''
     @ col @ '' < '' @ q @ isoformat (rd_end r) @ q)"

section \<open>Day arithmetic against the ordinal\<close>

definition valid_cal :: "int \<times> int \<times> int \<Rightarrow> bool" where
  "valid_cal = (\<lambda>(y, m, d). 1 \<le> m \<and> m \<le> 12 \<and> 1 \<le> d \<and> d \<le> days_in_month y m)"

lemma div_step: "0 < k \<Longrightarrow> y div k = (y - 1) div k + (if y mod k = 0 then 1 else (0::int))"
proof -
  assume k: "0 < k"
  have "y = k * (y div k) + y mod k" by simp
  then have y: "y - 1 = k * (y div k) + (y mod k - 1)" by linarith
  have range: "0 \<le> y mod k" "y mod k < k" using k by simp_all
  show ?thesis
  proof (cases "y mod k = 0")
    case True
    then have "y - 1 = k * (y div k - 1) + (k - 1)" using y by (simp add: algebra_simps)
    then have "(y - 1) div k = y div k - 1"
      using k by (metis add.commute add_0 div_mult_self2 div_pos_pos_trivial less_add_same_cancel1
          less_irrefl zle_diff1_eq le_less diff_ge_0_iff_ge int_one_le_iff_zero_less diff_less_eq)
    with True show ?thesis by simp
  next
    case False
    then have "(y - 1) div k = y div k"
    proof -
      have "(y mod k - 1) div k = 0"
        by (rule div_pos_pos_trivial) (use range False in linarith)+
      then show ?thesis unfolding y using k by simp
    qed
    with False show ?thesis by simp
  qed
qed

lemma leap_sum:
  fixes y :: int
  assumes "a' = a + (if P then 1 else 0)" "b' = b + (if Q then 1 else 0)" "c' = c + (if R then 1 else 0)"
    and "Q \<Longrightarrow> P" and "R \<Longrightarrow> Q"
  shows "y * 365 + a' - b' + c' = (y - 1) * 365 + a - b + c + (if P \<and> (\<not> Q \<or> R) then 366 else 365)"
proof (cases Q)
  case True
  with assms show ?thesis by (cases R) simp_all
next
  case False
  with assms(5) have "\<not> R" by blast
  with False assms(1-3) show ?thesis by (cases P) simp_all
qed

lemma days_before_year_Suc:
  "days_before_year (y + 1) = days_before_year y + (if is_leap y then 366 else 365)"
proof -
  have mods: "y mod 100 = 0 \<Longrightarrow> y mod 4 = 0" "y mod 400 = 0 \<Longrightarrow> y mod 100 = 0"
  proof -
    have "4 dvd (100::int)" by (rule dvdI [of _ _ 25]) simp
    moreover have "100 dvd (400::int)" by (rule dvdI [of _ _ 4]) simp
    ultimately show "y mod 100 = 0 \<Longrightarrow> y mod 4 = 0" "y mod 400 = 0 \<Longrightarrow> y mod 100 = 0"
      unfolding mod_eq_0_iff_dvd by (blast intro: dvd_trans)+
  qed
  show ?thesis
    unfolding days_before_year_def is_leap_def add_diff_cancel_right'
    by (rule leap_sum [OF div_step div_step div_step]) (simp_all only: mods zero_less_numeral)
qed

lemma days_before_month_Suc:
  "1 \<le> m \<Longrightarrow> days_before_month y (m + 1) = days_before_month y m + days_in_month y m"
  by (simp add: days_before_month_def upto_rec2)

lemma upto_small: "[1..0] = []" "[1..1] = [1]" by simp_all

lemma days_before_december: "days_before_month y 12 + 31 = (if is_leap y then 366 else 365)"
proof -
  have "[1..(11::int)] = [1, 2, 3, 4, 5, 6, 7, 8, 9, 10, 11]" by (simp add: upto.simps)
  then show ?thesis by (simp add: days_before_month_def days_in_month_def)
qed

lemma days_before_january [simp]: "days_before_month y 1 = 0"
  by (simp add: days_before_month_def)

lemma days_in_month_pos: "28 \<le> days_in_month y m" "days_in_month y m \<le> 31"
  by (auto simp: days_in_month_def)

lemma next_day_ordinal:
  "valid_cal x \<Longrightarrow> valid_cal (next_day x) \<and> ordinal (next_day x) = ordinal x + 1"
proof (cases x)
  case (fields y m d)
  assume v: "valid_cal x"
  show ?thesis
  proof (cases "d < days_in_month y m \<or> m < 12")
    case True
    then show ?thesis
      using v fields days_before_month_Suc [of m y] days_in_month_pos [of y "m + 1"]
      by (auto simp: valid_cal_def next_day_def ordinal_def)
  next
    case False
    with v fields have "m = 12" "d = days_in_month y 12" by (auto simp: valid_cal_def)
    then show ?thesis
      using fields days_before_year_Suc [of y] days_before_december [of y]
      by (simp add: valid_cal_def next_day_def ordinal_def days_in_month_def)
  qed
qed

lemma prev_day_ordinal:
  "valid_cal x \<Longrightarrow> valid_cal (prev_day x) \<and> ordinal (prev_day x) = ordinal x - 1
     \<and> fst (prev_day x) \<le> fst x"
proof (cases x)
  case (fields y m d)
  assume v: "valid_cal x"
  show ?thesis
  proof (cases "d > 1 \<or> m > 1")
    case True
    then show ?thesis
      using v fields days_before_month_Suc [of "m - 1" y] days_in_month_pos [of y "m - 1"]
      by (auto simp: valid_cal_def prev_day_def ordinal_def)
  next
    case False
    with v fields have "m = 1" "d = 1" by (auto simp: valid_cal_def)
    then show ?thesis
      using fields days_before_year_Suc [of "y - 1"] days_before_december [of "y - 1"]
      by (simp add: valid_cal_def prev_day_def ordinal_def days_in_month_def)
  qed
qed

lemma prev_days_ordinal:
  "valid_cal x \<Longrightarrow> valid_cal ((prev_day ^^ n) x) \<and> ordinal ((prev_day ^^ n) x) = ordinal x - int n
     \<and> fst ((prev_day ^^ n) x) \<le> fst x"
proof (induction n)
  case (Suc n)
  then show ?case using prev_day_ordinal [of "(prev_day ^^ n) x"] by auto
qed simp

lemma ordinal_before_year_one:
  assumes "valid_cal (y, m, d)" and "y \<le> 0"
  shows "ordinal (y, m, d) \<le> 0"
proof -
  have month: "days_before_month y m + d \<le> 366"
  proof -
    have "days_before_month y m + days_in_month y m \<le> days_before_month y 12 + 31"
    proof -
      have "1 \<le> m" "m \<le> 12" using assms(1) by (auto simp: valid_cal_def)
      then have "m = 1 \<or> m = 2 \<or> m = 3 \<or> m = 4 \<or> m = 5 \<or> m = 6 \<or> m = 7 \<or> m = 8 \<or> m = 9
          \<or> m = 10 \<or> m = 11 \<or> m = 12" by presburger
      then show ?thesis
        by (elim disjE) (simp_all add: days_before_month_def days_in_month_def upto.simps)
    qed
    then show ?thesis using assms(1) days_before_december [of y] by (auto simp: valid_cal_def split: if_splits)
  qed
  have "(y - 1) div 4 \<le> - 1" "(y - 1) div 400 \<le> - 1" "- ((y - 1) div 100) \<le> - (y - 1)"
  proof -
    show "(y - 1) div 4 \<le> - 1" "(y - 1) div 400 \<le> - 1"
      using pos_imp_zdiv_neg_iff [of 4 "y - 1"] pos_imp_zdiv_neg_iff [of 400 "y - 1"] assms(2) by linarith+
    have "(y - 1) div 100 \<le> - 1"
      using pos_imp_zdiv_neg_iff [of 100 "y - 1"] assms(2) by linarith
    then show "- ((y - 1) div 100) \<le> - (y - 1)"
      using div_mult_mod_eq [of "y - 1" 100] pos_mod_bound [of 100 "y - 1"] by linarith
  qed
  then have "days_before_year y \<le> (y - 1) * 364 - 2" unfolding days_before_year_def by simp
  then show ?thesis using month assms(2) by (simp add: ordinal_def)
qed

section \<open>Instants\<close>

definition time_of_day :: "datetime \<Rightarrow> int" where
  "time_of_day t = ((dt_hour t * 60 + dt_minute t) * 60 + dt_second t) * 1000000 + dt_micro t"

definition instant :: "datetime \<Rightarrow> int" where
  "instant t = ordinal (date_of t) * 86400000000 + time_of_day t"

lemma time_of_day_range: "valid_datetime t \<Longrightarrow> 0 \<le> time_of_day t \<and> time_of_day t < 86400000000"
  by (auto simp: valid_datetime_def time_of_day_def)

lemma valid_datetime_cal: "valid_datetime t \<Longrightarrow> valid_cal (date_of t)"
  by (simp add: valid_datetime_def valid_date_def valid_cal_def date_of_def)

lemma midnight_fields [simp]:
  "date_of (midnight y m d) = (y, m, d)" "time_of_day (midnight y m d) = 0"
  "dt_year (midnight y m d) = y" "dt_month (midnight y m d) = m" "dt_day (midnight y m d) = d"
  "set_date (y', m', d') (midnight y m d) = midnight y' m' d'"
  by (simp_all add: midnight_def date_of_def time_of_day_def set_date_def)

lemma mk_date_Inr [simp]: "mk_date y m d = Inr t \<longleftrightarrow> valid_date y m d \<and> t = midnight y m d"
  by (auto simp: mk_date_def)

lemma valid_midnight [simp]: "valid_datetime (midnight y m d) \<longleftrightarrow> valid_date y m d"
  by (simp add: valid_datetime_def midnight_def)

lemma minus_days_Inr:
  assumes "minus_days t n = Inr r" and "valid_datetime t"
  shows "valid_datetime r \<and> ordinal (date_of r) = ordinal (date_of t) - int n
     \<and> time_of_day r = time_of_day t"
proof -
  obtain y m d where p: "(prev_day ^^ n) (date_of t) = (y, m, d)" by (cases "(prev_day ^^ n) (date_of t)")
  with prev_days_ordinal [OF valid_datetime_cal [OF assms(2)], of n]
  have c: "valid_cal (y, m, d)" "ordinal (y, m, d) = ordinal (date_of t) - int n" "y \<le> dt_year t"
    by (simp_all add: date_of_def)
  have r: "r = set_date (y, m, d) t" "1 \<le> y"
    using assms(1) p by (auto simp: minus_days_def Let_def set_date_def split: if_splits)
  show ?thesis
    using c r assms(2) by (auto simp: valid_datetime_def valid_date_def valid_cal_def set_date_def date_of_def
        time_of_day_def)
qed

lemma minus_days_total:
  assumes "valid_datetime t" and "int n < ordinal (date_of t)"
  shows "\<exists>r. minus_days t n = Inr r"
proof -
  obtain y m d where p: "(prev_day ^^ n) (date_of t) = (y, m, d)" by (cases "(prev_day ^^ n) (date_of t)")
  with prev_days_ordinal [OF valid_datetime_cal [OF assms(1)], of n] assms(2)
  have "valid_cal (y, m, d)" "0 < ordinal (y, m, d)" by simp_all
  then have "1 \<le> y" using ordinal_before_year_one [of y m d] by linarith
  then show ?thesis using p by (simp add: minus_days_def set_date_def)
qed

lemma plus_one_day_Inr:
  assumes "plus_one_day t = Inr r" and "valid_datetime t"
  shows "valid_datetime r \<and> ordinal (date_of r) = ordinal (date_of t) + 1
     \<and> time_of_day r = time_of_day t"
proof -
  obtain y m d where p: "next_day (date_of t) = (y, m, d)" by (cases "next_day (date_of t)")
  with next_day_ordinal [OF valid_datetime_cal [OF assms(2)]]
  have c: "valid_cal (y, m, d)" "ordinal (y, m, d) = ordinal (date_of t) + 1" by simp_all
  have "1 \<le> y" using p assms(2)
    by (auto simp: next_day_def date_of_def valid_datetime_def valid_date_def split: if_splits)
  moreover have "r = set_date (y, m, d) t" "y \<le> 9999"
    using assms(1) p by (auto simp: plus_one_day_def Let_def set_date_def split: if_splits)
  ultimately show ?thesis
    using c assms(2) by (auto simp: valid_datetime_def valid_date_def valid_cal_def set_date_def date_of_def
        time_of_day_def)
qed

section \<open>The windows\<close>

definition good_window :: "resolved_date_range \<Rightarrow> bool" where
  "good_window w \<longleftrightarrow> valid_datetime (rd_start w) \<and> valid_datetime (rd_end w)
     \<and> instant (rd_start w) \<le> instant (rd_end w)"

named_theorems window_defs \<open>the definitions of the windows\<close>

lemmas [window_defs] = last_quarter_range_def this_quarter_range_def last_month_range_def
  this_month_range_def last_year_range_def this_year_range_def month_start_def today_start_def

lemma month_cases:
  assumes "1 \<le> m" and "m \<le> (12::int)"
  shows "m = 1 \<or> m = 2 \<or> m = 3 \<or> m = 4 \<or> m = 5 \<or> m = 6 \<or> m = 7 \<or> m = 8 \<or> m = 9
    \<or> m = 10 \<or> m = 11 \<or> m = 12"
  using assms by presburger

lemma quarter_start_le:
  assumes "1 \<le> m" and "m \<le> 12"
  shows "days_before_month y (quarter_of m * 3 + 1) \<le> days_before_month y m
     \<and> quarter_of m * 3 + 1 \<in> {1, 4, 7, 10} \<and> quarter_of m * 3 + 1 \<le> m \<and> m < quarter_of m * 3 + 4"
  using month_cases [OF assms]
  by (elim disjE) (simp_all add: quarter_of_def days_before_month_def days_in_month_def upto.simps)

lemma days_before_month_nonneg: "0 \<le> days_before_month y m"
  unfolding days_before_month_def using days_in_month_pos(1) [of y]
  by (intro sum_list_nonneg) (auto intro: order_trans [of 0 28])

lemma instant_midnight: "instant (midnight y m d) = ordinal (y, m, d) * 86400000000"
  by (simp add: instant_def)

lemma instant_le:
  assumes "ordinal x \<le> ordinal (date_of t)" and "valid_datetime t"
  shows "ordinal x * 86400000000 \<le> instant t"
  using assms time_of_day_range [OF assms(2)] by (simp add: instant_def)

lemma to_date_windows:
  assumes "valid_datetime now"
    and "this_quarter_range now = Inr w \<or> this_month_range now = Inr w \<or> this_year_range now = Inr w"
  shows "good_window w \<and> rd_end w = now"
proof -
  have v: "1 \<le> dt_month now" "dt_month now \<le> 12" "1 \<le> dt_day now"
    using assms(1) by (auto simp: valid_datetime_def valid_date_def)
  have "ordinal (dt_year now, quarter_of (dt_month now) * 3 + 1, 1) \<le> ordinal (date_of now)"
    "ordinal (dt_year now, dt_month now, 1) \<le> ordinal (date_of now)"
    "ordinal (dt_year now, 1, 1) \<le> ordinal (date_of now)"
    using v quarter_start_le [OF v(1,2), of "dt_year now"] days_before_month_nonneg [of "dt_year now" "dt_month now"]
    by (simp_all add: ordinal_def date_of_def)
  then show ?thesis
    using assms instant_le [OF _ assms(1)]
    by (auto simp: window_defs good_window_def instant_midnight)
qed

lemma add_month_back:
  assumes "valid_datetime now" and "0 \<le> k" and "k \<le> 3" and "add_month (dt_year now) m (- k) = (y', m')"
    and "1 \<le> m" and "m \<le> 12"
  shows "1 \<le> m' \<and> m' \<le> 12 \<and> y' * 12 + m' = dt_year now * 12 + m - k
     \<and> (y' = dt_year now \<and> m' = m - k \<or> y' = dt_year now - 1 \<and> m' = m - k + 12)"
proof -
  have "y' = (dt_year now * 12 + (m - 1) - k) div 12" "m' = (dt_year now * 12 + (m - 1) - k) mod 12 + 1"
    using assms(4) by (auto simp: add_month_def Let_def)
  moreover have "(x * 12 + j) div 12 = x \<and> (x * 12 + j) mod 12 = j" if "0 \<le> j" "j < 12" for x j :: int
    using that by simp
  note eq = this
  show ?thesis
  proof (cases "k \<le> m - 1")
    case True
    with eq [of "m - 1 - k" "dt_year now"] assms calculation show ?thesis
      by (simp add: algebra_simps)
  next
    case False
    with eq [of "m + 11 - k" "dt_year now - 1"] assms calculation show ?thesis
      by (simp add: algebra_simps)
  qed
qed

lemma month_step_ordinal:
  assumes "1 \<le> m" and "m \<le> 12" and "1 \<le> k" and "k \<le> 3"
    and "y' = y \<and> m' = m - k \<or> y' = y - 1 \<and> m' = m - k + 12" and "1 \<le> m'" and "m' \<le> 12"
  shows "ordinal (y', m', 1) \<le> ordinal (y, m, 1)"
  using assms(5)
proof
  assume a: "y' = y \<and> m' = m - k"
  have "days_before_month y m' \<le> days_before_month y m"
  proof -
    have "days_before_month y m' \<le> days_before_month y (m' + int j)" for j
    proof (induction j)
      case (Suc j)
      then show ?case
        using days_before_month_Suc [of "m' + int j" y] days_in_month_pos(1) [of y "m' + int j"] assms(6)
        by (simp add: algebra_simps)
    qed simp
    from this [of "nat k"] show ?thesis using a assms(3) by simp
  qed
  then show ?thesis using a by (simp add: ordinal_def)
next
  assume a: "y' = y - 1 \<and> m' = m - k + 12"
  have "days_before_month y' m' \<le> 365"
    using month_cases [OF assms(6,7)]
    by (elim disjE) (simp_all add: days_before_month_def days_in_month_def upto.simps)
  then show ?thesis
    using a days_before_year_Suc [of "y - 1"] days_before_month_nonneg [of y m]
    by (simp add: ordinal_def split: if_splits)
qed

text \<open>The completed calendar periods, with the period that \<open>now\<close> lies in.\<close>

lemma last_quarter_window:
  assumes "valid_datetime now" and "last_quarter_range now = Inr w"
  shows "\<exists>y m y' m'. rd_start w = midnight y m 1 \<and> rd_end w = midnight y' m' 1
     \<and> m \<in> {1, 4, 7, 10} \<and> m' \<in> {1, 4, 7, 10} \<and> y' * 12 + m' = y * 12 + m + 3
     \<and> y' = dt_year now \<and> m' \<le> dt_month now \<and> dt_month now < m' + 3 \<and> good_window w"
proof -
  have v: "1 \<le> dt_month now" "dt_month now \<le> 12"
    using assms(1) by (auto simp: valid_datetime_def valid_date_def)
  define q where "q = quarter_of (dt_month now) * 3 + 1"
  note qs = quarter_start_le [OF v, of "dt_year now", folded q_def]
  obtain y m where am: "add_month (dt_year now) q (- 3) = (y, m)" by fastforce
  from qs have q: "1 \<le> q" "q \<le> 12" by auto
  have m: "1 \<le> m" "m \<le> 12" "y * 12 + m = dt_year now * 12 + q - 3"
    "y = dt_year now \<and> m = q - 3 \<or> y = dt_year now - 1 \<and> m = q - 3 + 12"
    using add_month_back [OF assms(1) _ _ am q] by simp_all
  have w: "w = window (midnight y m 1) (midnight (dt_year now) q 1)
      ''the last completed calendar quarter'' ''last quarter''"
    "valid_date y m 1" "valid_date (dt_year now) q 1"
    using assms(2) am by (auto simp: last_quarter_range_def q_def [symmetric])
  have "ordinal (y, m, 1) \<le> ordinal (dt_year now, q, 1)"
    by (rule month_step_ordinal [OF q _ _ m(4) m(1,2)]) simp_all
  moreover have "m \<in> {1, 4, 7, 10}" using m(1,2,4) qs by auto
  ultimately have "good_window w" "m \<in> {1, 4, 7, 10}" "rd_start w = midnight y m 1"
    "rd_end w = midnight (dt_year now) q 1"
    by (simp_all add: w good_window_def instant_midnight)
  moreover have "dt_year now * 12 + q = y * 12 + m + 3" using m(3) by simp
  moreover have "dt_month now < q + 3" using qs q_def by linarith
  ultimately show ?thesis using qs by blast
qed

lemma last_month_window:
  assumes "valid_datetime now" and "last_month_range now = Inr w"
  shows "\<exists>y m. rd_start w = midnight y m 1 \<and> rd_end w = midnight (dt_year now) (dt_month now) 1
     \<and> dt_year now * 12 + dt_month now = y * 12 + m + 1 \<and> good_window w"
proof -
  have v: "1 \<le> dt_month now" "dt_month now \<le> 12"
    using assms(1) by (auto simp: valid_datetime_def valid_date_def)
  obtain y m where am: "add_month (dt_year now) (dt_month now) (- 1) = (y, m)" by fastforce
  have m: "1 \<le> m" "m \<le> 12" "y * 12 + m = dt_year now * 12 + dt_month now - 1"
    "y = dt_year now \<and> m = dt_month now - 1 \<or> y = dt_year now - 1 \<and> m = dt_month now - 1 + 12"
    using add_month_back [OF assms(1) _ _ am v] by simp_all
  have w: "w = window (midnight y m 1) (midnight (dt_year now) (dt_month now) 1)
      ''the last completed calendar month'' ''last month''"
    "valid_date y m 1" "valid_date (dt_year now) (dt_month now) 1"
    using assms(2) am by (auto simp: last_month_range_def month_start_def)
  have "ordinal (y, m, 1) \<le> ordinal (dt_year now, dt_month now, 1)"
    by (rule month_step_ordinal [OF v _ _ m(4) m(1,2)]) simp_all
  then show ?thesis
    using w m by (intro exI [of _ y] exI [of _ m]) (auto simp: good_window_def instant_midnight)
qed

lemma last_year_window:
  assumes "last_year_range now = Inr w"
  shows "rd_start w = midnight (dt_year now - 1) 1 1 \<and> rd_end w = midnight (dt_year now) 1 1
     \<and> good_window w"
  using assms days_before_year_Suc [of "dt_year now - 1"]
  by (auto simp: window_defs good_window_def instant_midnight ordinal_def split: if_splits)

text \<open>Windows made of whole days.\<close>

lemma last_n_days_window:
  assumes "valid_datetime now" and "last_n_days_range now m = Inr w"
  shows "rd_end w = now \<and> good_window w
     \<and> ordinal (date_of now) - ordinal (date_of (rd_start w)) = int (nat_of_digits 0 (group m 1))
     \<and> time_of_day (rd_start w) = time_of_day now"
  using assms minus_days_Inr [OF _ assms(1)]
  by (auto simp: last_n_days_range_def Let_def good_window_def instant_def)

lemma weekday_range: "weekday t < 7"
  by (simp add: weekday_def nat_less_iff)

lemma last_week_window:
  assumes "valid_datetime now" and "last_week_range now = Inr w"
  shows "weekday (rd_start w) = 0 \<and> time_of_day (rd_start w) = 0 \<and> time_of_day (rd_end w) = 0
     \<and> ordinal (date_of (rd_end w)) = ordinal (date_of (rd_start w)) + 7
     \<and> ordinal (date_of (rd_end w)) \<le> ordinal (date_of now)
     \<and> ordinal (date_of now) < ordinal (date_of (rd_end w)) + 7 \<and> good_window w"
proof -
  obtain day week start where d: "today_start now = Inr day" "minus_days day (weekday now) = Inr week"
    "minus_days week 7 = Inr start" "w = window start week ''the last completed week'' ''last week''"
    using assms(2) by (auto simp: last_week_range_def)
  have day: "valid_datetime day" "date_of day = date_of now" "time_of_day day = 0"
    using d(1) by (auto simp: today_start_def date_of_def midnight_def time_of_day_def
        valid_datetime_def)
  note wk = minus_days_Inr [OF d(2) day(1)]
  then have "valid_datetime week" by simp
  note st = minus_days_Inr [OF d(3) this]
  have wd: "int (weekday now) = (ordinal (date_of now) + 6) mod 7"
    by (simp add: weekday_def)
  have "(ordinal (date_of start) + 6) mod 7 = 0"
  proof -
    have "ordinal (date_of start) + 6 = (ordinal (date_of now) + 6) - (ordinal (date_of now) + 6) mod 7 - 7"
      using wk st day wd by simp
    also have "\<dots> = 7 * ((ordinal (date_of now) + 6) div 7 - 1)"
      unfolding minus_mod_eq_mult_div by (simp add: right_diff_distrib)
    finally show ?thesis by (simp only: mod_mult_self1_is_0)
  qed
  then show ?thesis
    using wk st day d(4) weekday_range [of now]
    by (simp add: weekday_def [of start] good_window_def instant_def)
qed

lemma day_windows:
  assumes "valid_datetime now" and "yesterday_range now = Inr w \<or> today_range now = Inr w"
  shows "good_window w \<and> time_of_day (rd_start w) = 0 \<and> time_of_day (rd_end w) = 0
     \<and> ordinal (date_of (rd_end w)) = ordinal (date_of (rd_start w)) + 1
     \<and> ordinal (date_of now) - ordinal (date_of (rd_start w)) \<in> {0, 1}"
proof -
  have day: "valid_datetime day \<and> date_of day = date_of now \<and> time_of_day day = 0"
    if "today_start now = Inr day" for day
    using that by (auto simp: today_start_def date_of_def midnight_def time_of_day_def valid_datetime_def)
  from assms(2) show ?thesis
  proof
    assume "yesterday_range now = Inr w"
    then obtain today day end' where d: "today_start now = Inr today" "minus_days today 1 = Inr day"
      "plus_one_day day = Inr end'" "w = window day end' ''yesterday'' ''yesterday''"
      by (auto simp: yesterday_range_def)
    note t = day [OF d(1)]
    note a = minus_days_Inr [OF d(2)] t
    then have "valid_datetime day" by blast
    note b = plus_one_day_Inr [OF d(3) this]
    show ?thesis using a b d(4) by (simp add: good_window_def instant_def)
  next
    assume "today_range now = Inr w"
    then obtain today end' where d: "today_start now = Inr today"
      "plus_one_day today = Inr end'" "w = window today end' ''today'' ''today''"
      by (auto simp: today_range_def)
    note t = day [OF d(1)]
    then have "valid_datetime today" by blast
    note b = plus_one_day_Inr [OF d(2) this]
    show ?thesis using t b d(3) by (simp add: good_window_def instant_def)
  qed
qed

lemma found_Inr [simp]: "found r = Inr (Some w) \<longleftrightarrow> r = Inr w" "found r \<noteq> Inr None"
  by (cases r; simp add: found_def)+

lemma resolve_cases:
  assumes "resolve_relative_date question now = Inr (Some w)"
  shows "(\<exists>m. search pat_last_n_days (lower question) = Some m \<and> last_n_days_range now m = Inr w)
     \<or> (last_quarter_range now = Inr w \<or> last_month_range now = Inr w \<or> last_year_range now = Inr w)
     \<or> (this_quarter_range now = Inr w \<or> this_month_range now = Inr w \<or> this_year_range now = Inr w)
     \<or> (last_week_range now = Inr w \<or> yesterday_range now = Inr w \<or> today_range now = Inr w)"
  using assms by (auto simp: resolve_relative_date_def Let_def split: option.splits if_splits)

lemma resolve_good:
  assumes "valid_datetime now" and "resolve_relative_date question now = Inr (Some w)"
  shows "good_window w"
  using resolve_cases [OF assms(2)] last_n_days_window [OF assms(1)] last_quarter_window [OF assms(1)]
    last_month_window [OF assms(1)] last_year_window to_date_windows [OF assms(1)]
    last_week_window [OF assms(1)] day_windows [OF assms(1)]
  by blast

end
