(* ===== verification/Orchestrator.thy ===== *)
theory Orchestrator
  imports Provider Explainer Ambiguity Catalog Retriever Dates Security
begin

text \<open>
  The query orchestrator (\<open>application/orchestrator.py\<close>): the deterministic gate every
  candidate passes, the bounded generate-and-repair loop, the pipeline \<open>process\<close> and
  \<open>validate_sql\<close>.

  The state extends the catalog's by the bound correlation id, the number of identifiers drawn
  and of wall-clock readings, and the requests the provider received. The tracer's spans and
  the log lines, which nothing reads back, are left out. The provider, the database, the
  clocks and the random source are fields of the record \<open>orchestrator\<close>, functions of what
  they were asked before.
\<close>

section \<open>State and configuration\<close>

record orchestrator_world = catalog_world +
  ow_correlation :: string
  ow_ids :: nat
  ow_now :: nat
  ow_requests :: "generation_request list"

record ('e, 'n) orchestrator =
  oc_default_dialect :: sql_dialect
  oc_max_rows :: int
  oc_max_repair :: int
  oc_disclose :: bool
  oc_catalog :: catalog
  oc_semantic :: semantic_layer
  oc_ambiguity :: semantic_layer
  oc_retriever :: lexical_retriever
  oc_provider :: llm_provider
  oc_sqlglot :: "('e, 'n) sqlglot"
  oc_validator :: validator_config
  oc_policy :: security_policy_config
  oc_cost :: security_policy_config
  oc_engine :: sql_engine
  oc_explain :: "string list \<Rightarrow> explain_fun"
  oc_timeout_ms :: int
  oc_perf :: "nat \<Rightarrow> rat"
  oc_clock :: "nat \<Rightarrow> datetime"
  oc_hex :: "nat \<Rightarrow> string"
  oc_py_str :: "json \<Rightarrow> string"

definition tick :: "('e, 'n) orchestrator \<Rightarrow> (rat, 'z orchestrator_world_scheme) call" where
  "tick oc = ask (perf_counter (oc_perf oc))"

definition count :: "string \<Rightarrow> (string \<times> string) list \<Rightarrow> (unit, 'z orchestrator_world_scheme) call" where
  "count name labels = change (inc name labels)"

definition observe :: "string \<Rightarrow> rat \<Rightarrow> (unit, 'z orchestrator_world_scheme) call" where
  "observe name v = change (observe_metric name v)"

definition call_provider ::
    "('e, 'n) orchestrator \<Rightarrow> generation_request
      \<Rightarrow> (generation_response, 'z orchestrator_world_scheme) call" where
  "call_provider oc req w = (lp_generate (oc_provider oc) (ow_requests w) req,
     w\<lparr> ow_requests := ow_requests w @ [req] \<rparr>)"

definition assertion_error :: failure where
  "assertion_error = Unhandled (PyOther ''AssertionError'')"

section \<open>The deterministic gate\<close>

record secured =
  sec_ok :: bool
  sec_issues :: "validation_issue list"
  sec_final_sql :: "string option"
  sec_statement_type :: statement_type
  sec_tables :: "string list"
  sec_columns :: "string list"
  sec_rewrites :: "string list"
  sec_cost :: "cost_report option"

definition not_secured :: "validation_issue list \<Rightarrow> secured" where
  "not_secured issues = \<lparr> sec_ok = False, sec_issues = issues, sec_final_sql = None,
     sec_statement_type = ST_OTHER, sec_tables = [], sec_columns = [], sec_rewrites = [],
     sec_cost = None \<rparr>"

definition not_secured_after :: "'e validation_outcome \<Rightarrow> validation_issue list \<Rightarrow> secured" where
  "not_secured_after out issues = (not_secured issues)\<lparr> sec_statement_type := vo_statement_type out,
     sec_tables := vo_tables out, sec_columns := vo_columns out \<rparr>"

text \<open>\<open>str(exc.details.get("reason", ...))\<close>; a parse error's reason is always a string.\<close>

definition reason_text :: "engine_error \<Rightarrow> string" where
  "reason_text err = (case map_of (ee_details err) ''reason'' of
     Some (JStr s) \<Rightarrow> s | _ \<Rightarrow> ''SQL could not be parsed.'')"

text \<open>The analysis with \<open>EXPLAIN\<close> on its own connection.\<close>

definition run_analysis ::
    "('e, 'n) orchestrator \<Rightarrow> 'e \<Rightarrow> string \<Rightarrow> sql_dialect
      \<Rightarrow> (cost_report, 'z orchestrator_world_scheme) call" where
  "run_analysis oc e sql dialect w =
     (let down = en_connect (oc_engine oc) (w_log w) \<noteq> None;
          explain = (\<lambda>s. if down then Inl [] else oc_explain oc (w_log w) s)
      in (analyze (oc_sqlglot oc) (oc_cost oc) e sql dialect (Some explain),
          w\<lparr> w_log := w_log w @ (if down then [] else analyze_statements sql dialect (Some explain)) \<rparr>))"

definition secure_rewritten ::
    "('e, 'n) orchestrator \<Rightarrow> sql_dialect \<Rightarrow> database_schema \<Rightarrow> string list \<Rightarrow> 'e
      \<Rightarrow> (secured, 'z orchestrator_world_scheme) call" where
  "secure_rewritten oc dialect schema applied final_expr =
     (let again = validate_expression (oc_sqlglot oc) (oc_validator oc) schema final_expr None in
      if \<not> vo_is_valid again then give (not_secured (vo_issues again))
      else let final_sql = normalize_sql (oc_sqlglot oc) final_expr dialect False in
        seq (run_analysis oc final_expr final_sql dialect) (\<lambda>cost.
          if \<not> cr_allowed cost
          then give ((not_secured (cr_issues cost))\<lparr> sec_cost := Some cost \<rparr>)
          else give \<lparr> sec_ok = True, sec_issues = [], sec_final_sql = Some final_sql,
                 sec_statement_type = vo_statement_type again, sec_tables = vo_tables again,
                 sec_columns = vo_columns again, sec_rewrites = applied, sec_cost = Some cost \<rparr>))"

definition secure_candidate ::
    "('e, 'n) orchestrator \<Rightarrow> string \<Rightarrow> sql_dialect \<Rightarrow> database_schema \<Rightarrow> auth_context \<Rightarrow> int
      \<Rightarrow> (secured, 'z orchestrator_world_scheme) call" where
  "secure_candidate oc sql dialect schema auth max_rows =
     (case validate (oc_sqlglot oc) (oc_validator oc) sql dialect schema of
        Inl err \<Rightarrow>
          if ee_class err = SQLParseError
          then give (not_secured [issue ''sql_parse_failed'' (reason_text err) None])
          else fail (Raised err)
      | Inr outcome \<Rightarrow>
          if \<not> vo_is_valid outcome \<or> vo_expression outcome = None
          then give (not_secured_after outcome (vo_issues outcome))
          else let decision = enforce (oc_policy oc) (vo_tables outcome) (vo_columns outcome) schema auth in
            if \<not> pd_allowed decision then give (not_secured_after outcome (pd_issues decision))
            else let (scoped, applied) =
                     rewrite (oc_sqlglot oc) (the (vo_expression outcome)) schema (ac_tenant_id auth) in
              secure_rewritten oc dialect schema applied
                (lo_expression (enforce_limit (oc_sqlglot oc) scoped max_rows)))"

section \<open>Helpers\<close>

definition bind_correlation_id :: "string \<Rightarrow> (unit, 'z orchestrator_world_scheme) call" where
  "bind_correlation_id cid = change (\<lambda>w. w\<lparr> ow_correlation := cid \<rparr>)"

text \<open>The identifier of the body, else the one the transport bound, made safe.\<close>

definition new_correlation ::
    "('e, 'n) orchestrator \<Rightarrow> string option \<Rightarrow> (string, 'z orchestrator_world_scheme) call" where
  "new_correlation oc given = ask (\<lambda>w.
     (let bound = ow_correlation w;
          raw = (case or_opt given None of Some g \<Rightarrow> Some g
                 | None \<Rightarrow> if bound = ''-'' then None else Some bound)
      in (sanitize_correlation_id (oc_hex oc (ow_ids w)) raw, w\<lparr> ow_ids := ow_ids w + 1 \<rparr>)))"

definition authorize_tenant ::
    "query_request \<Rightarrow> auth_context \<Rightarrow> (unit, 'z orchestrator_world_scheme) call" where
  "authorize_tenant request auth =
     (if qr_tenant_id request \<noteq> None \<and> qr_tenant_id request \<noteq> Some (ac_tenant_id auth)
      then fail (Raised (raise_error AuthorizationError
        ''The requested tenant does not match the authenticated tenant.''
        [(''code'', JStr ''tenant_mismatch'')]))
      else give ())"

definition note_markers :: "query_request \<Rightarrow> (unit, 'z orchestrator_world_scheme) call" where
  "note_markers request =
     (if contains_injection_markers (qr_question request)
      then count ''t2sql_injection_markers_total'' [(''surface'', ''question'')] else give ())"

definition resolve_date ::
    "('e, 'n) orchestrator \<Rightarrow> string \<Rightarrow> (resolved_date option, 'z orchestrator_world_scheme) call" where
  "resolve_date oc question =
     seq (ask (\<lambda>w. (oc_clock oc (ow_now w), w\<lparr> ow_now := ow_now w + 1 \<rparr>))) (\<lambda>now.
     seq (lift_result (resolve_relative_date question now)) (\<lambda>rd.
     give (map_option (\<lambda>r. \<lparr> rv_description = rd_description r,
       rv_matched_phrase = rd_matched_phrase r, rv_start_iso = isoformat (rd_start r),
       rv_end_iso = isoformat (rd_end r) \<rparr>) rd)))"

definition listed :: "string \<Rightarrow> string list \<Rightarrow> string list" where
  "listed title xs = (if xs = [] then [] else [title @ join '', '' xs])"

definition conversation_summary :: "query_request \<Rightarrow> string option" where
  "conversation_summary request = (case qr_conversation request of
     None \<Rightarrow> None
   | Some c \<Rightarrow> (case last_turn c of
        None \<Rightarrow> None
      | Some t \<Rightarrow> Some (join ''; ''
          ([''Previous question: '' @ ct_question t]
           @ listed ''metrics: '' (ct_metrics t)
           @ listed ''dimensions: '' (ct_dimensions t)
           @ listed ''filters: '' (ct_filters t)
           @ (case or_opt (ct_date_range t) None of None \<Rightarrow> [] | Some r \<Rightarrow> [''date range: '' @ r])))))"

definition build_report :: "secured \<Rightarrow> string list \<Rightarrow> validation_report" where
  "build_report s applied =
     \<lparr> rp_is_valid = sec_ok s, rp_statement_type = Some (statement_value (sec_statement_type s)),
       rp_referenced_tables = sec_tables s, rp_referenced_columns = sec_columns s,
       rp_issues = sec_issues s, rp_risk_level = map_option cr_risk_level (sec_cost s),
       rp_estimated_cost = Option.bind (sec_cost s) cr_estimated_rows,
       rp_applied_rewrites = applied \<rparr>"

definition model_metadata_of ::
    "('e, 'n) orchestrator \<Rightarrow> generation_response \<Rightarrow> nat \<Rightarrow> model_metadata option" where
  "model_metadata_of oc g attempts = (if \<not> oc_disclose oc then None else Some
     \<lparr> mm_provider = gs_provider g, mm_model = gs_model g, mm_prompt_version = gs_prompt_version g,
       mm_prompt_tokens = Some (tu_prompt_tokens (gs_usage g)),
       mm_completion_tokens = Some (tu_completion_tokens (gs_usage g)),
       mm_repair_attempts = attempts \<rparr>)"

definition auth_codes :: "string list" where
  "auth_codes = [''column_denied'', ''table_denied'', ''table_not_allowed'']"

definition cost_codes :: "string list" where
  "cost_codes = [''cartesian_product'', ''too_many_joins'', ''subquery_too_deep'',
     ''too_many_columns'', ''estimated_cost_too_high'']"

definition security_codes :: "string list" where
  "security_codes = [''non_read_only_statement'', ''forbidden_statement'', ''multiple_statements'',
     ''comment_present'', ''system_catalog_access'', ''cross_database_access'', ''schema_not_allowed'']"

definition dump_issue :: "validation_issue \<Rightarrow> json" where
  "dump_issue i = JObj [(''code'', JStr (vi_code i)), (''message'', JStr (vi_message i)),
     (''location'', case vi_location i of None \<Rightarrow> JNull | Some l \<Rightarrow> JStr l)]"

definition failure_error :: "secured \<Rightarrow> nat \<Rightarrow> engine_error" where
  "failure_error s attempts =
     (let codes = set (map vi_code (sec_issues s));
          details = [(''issues'', JList (map dump_issue (sec_issues s))),
                     (''repair_attempts'', JNum (of_nat attempts))]
      in if codes \<inter> set auth_codes \<noteq> {}
         then raise_error AuthorizationError
           ''The query accesses data you are not permitted to read.'' details
         else if codes \<inter> set cost_codes \<noteq> {}
         then raise_error CostRejectedError
           ''The query was rejected as too expensive or complex.'' details
         else if codes \<inter> set security_codes \<noteq> {}
         then raise_error SQLValidationError ''The generated SQL violated a safety rule.'' details
         else raise_error RepairExhaustedError
           ''A valid query could not be produced within the allowed repair attempts.'' details)"

definition raise_for_failure ::
    "secured \<Rightarrow> nat \<Rightarrow> ('a, 'z orchestrator_world_scheme) call" where
  "raise_for_failure s attempts =
     seq (count ''t2sql_requests_rejected_total'' []) (\<lambda>_. fail (Raised (failure_error s attempts)))"

section \<open>Generation and bounded repair\<close>

record loop_state =
  ls_repair :: "repair_context option"
  ls_last :: "generation_response option"
  ls_secured :: secured
  ls_attempts :: nat
  ls_generation_ms :: rat

definition repair_attempt ::
    "('e, 'n) orchestrator \<Rightarrow> auth_context \<Rightarrow> database_schema \<Rightarrow> generation_request \<Rightarrow> nat \<Rightarrow> loop_state
      \<Rightarrow> (bool \<times> loop_state, 'z orchestrator_world_scheme) call" where
  "repair_attempt oc auth schema base attempt st =
     seq (tick oc) (\<lambda>t0.
     seq (call_provider oc (base\<lparr> gr_repair := ls_repair st \<rparr>)) (\<lambda>generation.
     seq (tick oc) (\<lambda>t1.
     let gen_ms = ls_generation_ms st + (t1 - t0) * 1000 in
     seq (observe ''t2sql_generation_ms'' gen_ms) (\<lambda>_.
     seq (secure_candidate oc (gs_sql generation) (gr_dialect base) schema auth (gr_max_rows base)) (\<lambda>s.
     let st' = st\<lparr> ls_last := Some generation, ls_secured := s, ls_generation_ms := gen_ms \<rparr> in
     if sec_ok s then give (False, st')
     else if int attempt < oc_max_repair oc \<and> is_repairable (sec_issues s)
     then seq (count ''t2sql_repair_attempts_total'' []) (\<lambda>_.
       let attempts = ls_attempts st + 1 in
       give (True, st'\<lparr> ls_attempts := attempts,
         ls_repair := Some \<lparr> rc_attempt = int attempts, rc_previous_sql = gs_sql generation,
           rc_errors = sanitized_feedback (sec_issues s) \<rparr> \<rparr>))
     else give (False, st'))))))"

fun attempt_loop ::
    "(nat \<Rightarrow> loop_state \<Rightarrow> (bool \<times> loop_state, 'w) call) \<Rightarrow> nat list \<Rightarrow> loop_state
      \<Rightarrow> (loop_state, 'w) call" where
  "attempt_loop body [] st = give st"
| "attempt_loop body (a # rest) st =
     seq (body a st) (\<lambda>(again, st'). if again then attempt_loop body rest st' else give st')"

definition initial_loop :: loop_state where
  "initial_loop = \<lparr> ls_repair = None, ls_last = None, ls_secured = not_secured [], ls_attempts = 0,
     ls_generation_ms = 0 \<rparr>"

definition max_prompt_chars :: nat where
  "max_prompt_chars = 8000"

definition prompt_context_for ::
    "('e, 'n) orchestrator \<Rightarrow> query_request \<Rightarrow> sql_dialect \<Rightarrow> int \<Rightarrow> retrieval_result
      \<Rightarrow> resolved_date option \<Rightarrow> prompt_context" where
  "prompt_context_for oc request dialect max_rows retrieval date =
     \<lparr> pc_question = qr_question request, pc_dialect = dialect,
       pc_schema_text = serialize_for_prompt (rr_schema_subset retrieval) max_prompt_chars,
       pc_semantic_text = render_semantic_context (oc_semantic oc) (rr_table_names retrieval),
       pc_max_rows = max_rows, pc_resolved_date_text = map_option rv_description date,
       pc_conversation_summary = conversation_summary request, pc_repair_text = None \<rparr>"

definition base_request ::
    "('e, 'n) orchestrator \<Rightarrow> query_request \<Rightarrow> sql_dialect \<Rightarrow> int \<Rightarrow> retrieval_result
      \<Rightarrow> resolved_date option \<Rightarrow> generation_request" where
  "base_request oc request dialect max_rows retrieval date =
     \<lparr> gr_question = qr_question request, gr_dialect = dialect,
       gr_schema_subset = rr_schema_subset retrieval, gr_semantic_layer = oc_semantic oc,
       gr_prompt = build_prompt (prompt_context_for oc request dialect max_rows retrieval date),
       gr_max_rows = max_rows, gr_resolved_date = date, gr_conversation = qr_conversation request,
       gr_repair = None, gr_model = lp_model (oc_provider oc), gr_temperature = 0,
       gr_timeout_seconds = 30 \<rparr>"

definition generate_with_repair ::
    "('e, 'n) orchestrator \<Rightarrow> auth_context \<Rightarrow> database_schema \<Rightarrow> generation_request
      \<Rightarrow> (generation_response \<times> loop_state, 'z orchestrator_world_scheme) call" where
  "generate_with_repair oc auth schema base =
     seq (attempt_loop (repair_attempt oc auth schema base) [0..<nat (oc_max_repair oc + 1)] initial_loop)
       (\<lambda>st. case ls_last st of None \<Rightarrow> fail assertion_error | Some g \<Rightarrow> give (g, st))"

section \<open>The pipeline\<close>

definition effective_max_rows :: "('e, 'n) orchestrator \<Rightarrow> query_request \<Rightarrow> int" where
  "effective_max_rows oc request =
     min (case qr_max_rows request of None \<Rightarrow> oc_max_rows oc | Some m \<Rightarrow> if m = 0 then oc_max_rows oc else m)
       (oc_max_rows oc)"

definition request_dialect :: "('e, 'n) orchestrator \<Rightarrow> sql_dialect option \<Rightarrow> sql_dialect" where
  "request_dialect oc d = (case d of None \<Rightarrow> oc_default_dialect oc | Some x \<Rightarrow> x)"

record progress =
  pg_correlation :: string
  pg_start :: rat
  pg_retrieval :: retrieval_result
  pg_timings :: stage_timings
  pg_dialect :: sql_dialect
  pg_max_rows :: int

definition success_base ::
    "progress \<Rightarrow> response_status \<Rightarrow> string \<Rightarrow> generation_response \<Rightarrow> secured \<Rightarrow> query_response" where
  "success_base pg status final_sql g s = (new_response status (pg_correlation pg))\<lparr>
     rs_sql := Some final_sql, rs_dialect := Some (pg_dialect pg),
     rs_assumptions := gs_assumptions g, rs_confidence := Some (gs_confidence g),
     rs_validation := Some (build_report s (sec_rewrites s)),
     rs_retrieval := rr_selected (pg_retrieval pg) \<rparr>"

definition preview_response ::
    "('e, 'n) orchestrator \<Rightarrow> progress \<Rightarrow> generation_response \<Rightarrow> loop_state \<Rightarrow> string
      \<Rightarrow> (query_response, 'z orchestrator_world_scheme) call" where
  "preview_response oc pg g st final_sql =
     seq (tick oc) (\<lambda>stop.
     seq (count ''t2sql_requests_success_total'' [(''mode'', ''preview'')]) (\<lambda>_.
     give ((success_base pg RS_PREVIEW final_sql g (ls_secured st))\<lparr>
       rs_explanation := (if gs_explanation g = [] then None else Some (gs_explanation g)),
       rs_timings := (pg_timings pg)\<lparr> st_total_ms := (stop - pg_start pg) * 1000 \<rparr>,
       rs_model := model_metadata_of oc g (ls_attempts st) \<rparr>)))"

definition explained ::
    "('e, 'n) orchestrator \<Rightarrow> query_request \<Rightarrow> generation_response \<Rightarrow> execution_result
      \<Rightarrow> py_exception + string \<times> string list" where
  "explained oc request g r =
     (if qr_explain request
      then explain (oc_py_str oc) r (gs_assumptions g) (gs_confidence g) (er_truncated r)
      else Inr (gs_explanation g, []))"

definition execute_response ::
    "('e, 'n) orchestrator \<Rightarrow> query_request \<Rightarrow> progress \<Rightarrow> generation_response \<Rightarrow> loop_state \<Rightarrow> string
      \<Rightarrow> (query_response, 'z orchestrator_world_scheme) call" where
  "execute_response oc request pg g st final_sql =
     seq (tick oc) (\<lambda>t0.
     seq (execute (oc_engine oc) (pg_dialect pg) (oc_timeout_ms oc) (oc_perf oc) final_sql (pg_max_rows pg)) (\<lambda>r.
     seq (tick oc) (\<lambda>t1.
     let exec_ms = (t1 - t0) * 1000 in
     seq (observe ''t2sql_execution_ms'' exec_ms) (\<lambda>_.
     seq (lift_result (explained oc request g r)) (\<lambda>(explanation, warnings).
     seq (tick oc) (\<lambda>stop.
     seq (count ''t2sql_requests_success_total'' [(''mode'', ''execute'')]) (\<lambda>_.
     let total = (stop - pg_start pg) * 1000 in
     seq (observe ''t2sql_total_ms'' total) (\<lambda>_.
     give ((success_base pg RS_SUCCESS final_sql g (ls_secured st))\<lparr>
       rs_columns := er_columns r, rs_rows := er_rows r, rs_row_count := Some (er_row_count r),
       rs_truncated := er_truncated r, rs_explanation := Some explanation, rs_warnings := warnings,
       rs_timings := (pg_timings pg)\<lparr> st_execution_ms := exec_ms, st_total_ms := total \<rparr>,
       rs_execution := Some \<lparr> em_row_count = er_row_count r, em_truncated = er_truncated r,
         em_duration_ms = er_duration_ms r \<rparr>,
       rs_model := model_metadata_of oc g (ls_attempts st) \<rparr>)))))))))"

definition finish ::
    "('e, 'n) orchestrator \<Rightarrow> query_request \<Rightarrow> bool \<Rightarrow> progress \<Rightarrow> generation_response \<Rightarrow> loop_state
      \<Rightarrow> (query_response, 'z orchestrator_world_scheme) call" where
  "finish oc request exec pg g st =
     (if \<not> sec_ok (ls_secured st)
      then seq (tick oc) (\<lambda>_. raise_for_failure (ls_secured st) (ls_attempts st))
      else case sec_final_sql (ls_secured st) of
        None \<Rightarrow> fail assertion_error
      | Some final_sql \<Rightarrow>
          if \<not> (exec \<and> \<not> qr_dry_run request \<and> \<not> qr_sql_only request)
          then preview_response oc pg g st final_sql
          else execute_response oc request pg g st final_sql)"

definition answer ::
    "('e, 'n) orchestrator \<Rightarrow> query_request \<Rightarrow> auth_context \<Rightarrow> bool \<Rightarrow> string \<Rightarrow> rat
      \<Rightarrow> (query_response, 'z orchestrator_world_scheme) call" where
  "answer oc request auth exec cid start =
     (let dialect = request_dialect oc (qr_dialect request);
          max_rows = effective_max_rows oc request in
      seq (get_schema (oc_catalog oc) False) (\<lambda>schema.
      seq (tick oc) (\<lambda>t0.
      let retrieval = retrieve (oc_retriever oc) (qr_question request) schema in
      seq (tick oc) (\<lambda>t1.
      seq (resolve_date oc (qr_question request)) (\<lambda>date.
      seq (generate_with_repair oc auth schema (base_request oc request dialect max_rows retrieval date))
        (\<lambda>(g, st).
      finish oc request exec
        \<lparr> pg_correlation = cid, pg_start = start, pg_retrieval = retrieval,
          pg_timings = no_timings\<lparr> st_retrieval_ms := (t1 - t0) * 1000,
            st_generation_ms := ls_generation_ms st \<rparr>,
          pg_dialect = dialect, pg_max_rows = max_rows \<rparr> g st))))))"

definition clarify ::
    "('e, 'n) orchestrator \<Rightarrow> clarification \<Rightarrow> string \<Rightarrow> rat
      \<Rightarrow> (query_response, 'z orchestrator_world_scheme) call" where
  "clarify oc c cid start =
     seq (count ''t2sql_clarifications_total'' [(''category'', ambiguity_value (cl_category c))]) (\<lambda>_.
     seq (tick oc) (\<lambda>stop.
     give ((new_response RS_CLARIFICATION_REQUIRED cid)\<lparr> rs_clarification := Some c,
       rs_timings := no_timings\<lparr> st_total_ms := (stop - start) * 1000 \<rparr> \<rparr>)))"

definition process ::
    "('e, 'n) orchestrator \<Rightarrow> query_request \<Rightarrow> auth_context \<Rightarrow> bool
      \<Rightarrow> (query_response, 'z orchestrator_world_scheme) call" where
  "process oc request auth exec =
     seq (new_correlation oc (qr_correlation_id request)) (\<lambda>cid.
     seq (bind_correlation_id cid) (\<lambda>_.
     seq (tick oc) (\<lambda>start.
     seq (authorize_tenant request auth) (\<lambda>_.
     seq (count ''t2sql_requests_total'' [(''mode'', if exec then ''execute'' else ''preview'')]) (\<lambda>_.
     seq (note_markers request) (\<lambda>_.
     case detect (oc_ambiguity oc) (qr_question request) of
       Some c \<Rightarrow> clarify oc c cid start
     | None \<Rightarrow> answer oc request auth exec cid start))))))"

definition validate_sql ::
    "('e, 'n) orchestrator \<Rightarrow> validate_sql_request \<Rightarrow> auth_context
      \<Rightarrow> (validation_report, 'z orchestrator_world_scheme) call" where
  "validate_sql oc request auth =
     seq (ask (\<lambda>w. (sanitize_correlation_id (oc_hex oc (ow_ids w)) None, w\<lparr> ow_ids := ow_ids w + 1 \<rparr>))) (\<lambda>cid.
     seq (bind_correlation_id cid) (\<lambda>_.
     seq (get_schema (oc_catalog oc) False) (\<lambda>schema.
     seq (secure_candidate oc (vr_sql request) (request_dialect oc (vr_dialect request)) schema auth
       (oc_max_rows oc)) (\<lambda>s.
     give (build_report s (sec_rewrites s))))))"

end
