(* ===== verification/OrchestratorProps.thy ===== *)
theory OrchestratorProps
  imports Orchestrator
begin

text \<open>
  Lemmas on the orchestrator: what the gate lets through (\<open>authorized\<close>), which statements
  the pipeline sends to the database (\<open>keeps_to\<close>), how often it asks the provider, and what
  its responses hold.
\<close>

section \<open>What the gate lets through\<close>

definition permitted_statement ::
    "('e, 'n) orchestrator \<Rightarrow> database_schema \<Rightarrow> auth_context \<Rightarrow> 'e \<Rightarrow> bool" where
  "permitted_statement oc schema auth e \<longleftrightarrow>
     (\<forall>t\<in>set (referenced_infos (oc_sqlglot oc) schema e). table_permitted (oc_policy oc) (qualified_name t))
     \<and> (\<forall>n\<in>set (sg_find_all (oc_sqlglot oc) e CColumn).
          \<forall>r\<in>column_refs (oc_sqlglot oc) (oc_validator oc) schema e n. column_permitted schema auth r)"

definition tenant_scoped ::
    "('e, 'n) sqlglot \<Rightarrow> ('e \<Rightarrow> 'n \<Rightarrow> tenant_predicate set) \<Rightarrow> database_schema \<Rightarrow> string \<Rightarrow> 'e \<Rightarrow> 'e \<Rightarrow> bool" where
  "tenant_scoped sg conds schema tenant e f \<longleftrightarrow>
     (\<forall>n info col s. n \<in> set (sg_find_all sg e CTable) \<longrightarrow> table schema (sg_name sg e n) = Some info \<longrightarrow>
        tbl_tenant_column info = Some col \<longrightarrow> col \<noteq> [] \<longrightarrow> sg_find_ancestor sg e n CSelect = Some s \<longrightarrow>
        build_predicate (py_or (sg_alias sg e n) (sg_name sg e n)) col tenant \<in> conds f s)"

definition row_capped :: "('e, 'n) sqlglot \<Rightarrow> int \<Rightarrow> 'e \<Rightarrow> bool" where
  "row_capped sg m f \<longleftrightarrow> (\<exists>k\<le>m. limit_value sg f (sg_limit_arg sg f) = Some k)"

text \<open>
  A statement text \<open>sql\<close> is authorized as the rendering of \<open>f\<close>: \<open>f\<close> passes every rule of the
  validator, is row-capped, and is tenant-scoped with respect to a statement \<open>e\<close> all of whose
  tables and columns the policy permits.
\<close>

definition authorized ::
    "('e, 'n) orchestrator \<Rightarrow> ('e \<Rightarrow> 'n \<Rightarrow> tenant_predicate set) \<Rightarrow> sql_dialect \<Rightarrow> database_schema
      \<Rightarrow> auth_context \<Rightarrow> int \<Rightarrow> 'e \<Rightarrow> string \<Rightarrow> bool" where
  "authorized oc conds dialect schema auth m f sql \<longleftrightarrow>
     sql = normalize_sql (oc_sqlglot oc) f dialect False
     \<and> clean (oc_sqlglot oc) (oc_validator oc) schema f \<and> row_capped (oc_sqlglot oc) m f
     \<and> (\<exists>e. clean (oc_sqlglot oc) (oc_validator oc) schema e \<and> permitted_statement oc schema auth e
          \<and> tenant_scoped (oc_sqlglot oc) conds schema (ac_tenant_id auth) e f)"

definition documented_sqlglot ::
    "('e, 'n) sqlglot \<Rightarrow> ('e \<Rightarrow> 'n \<Rightarrow> tenant_predicate set) \<Rightarrow> bool" where
  "documented_sqlglot sg conds \<longleftrightarrow>
     where_documented sg conds \<and> limit_keeps_where sg conds \<and> limit_documented sg"

lemma tenant_scoped_rewrite:
  assumes "documented_sqlglot sg conds"
  shows "tenant_scoped sg conds schema tenant e (lo_expression (enforce_limit sg (fst (rewrite sg e schema tenant)) m))"
  unfolding tenant_scoped_def
proof (intro allI impI)
  fix n info col s
  assume "n \<in> set (sg_find_all sg e CTable)" "table schema (sg_name sg e n) = Some info"
    "tbl_tenant_column info = Some col" "col \<noteq> []" "sg_find_ancestor sg e n CSelect = Some s"
  then have "(s, n, col) \<in> set (tenant_targets sg e schema)" by (auto simp: tenant_targets_iff)
  then have "target_predicate sg e tenant (s, n, col) \<in> conds (fst (rewrite sg e schema tenant)) s"
    using assms by (auto simp: documented_sqlglot_def conds_rewrite)
  then show "build_predicate (py_or (sg_alias sg e n) (sg_name sg e n)) col tenant
      \<in> conds (lo_expression (enforce_limit sg (fst (rewrite sg e schema tenant)) m)) s"
    using assms by (simp add: documented_sqlglot_def enforce_limit_keeps_where target_predicate_def
        target_qualifier_def)
qed

lemma row_capped_enforced:
  assumes "documented_sqlglot sg conds" and "m < 10 ^ 12" and "clean sg cfg schema (lo_expression (enforce_limit sg e m))"
  shows "row_capped sg m (lo_expression (enforce_limit sg e m))"
proof -
  have "is_query_root sg (lo_expression (enforce_limit sg e m))"
    using assms(3) by (simp add: clean_def classify_read_only_iff)
  then have "is_query_root sg e" by (cases "is_query_root sg e") (simp_all add: enforce_limit_def)
  with assms enforce_limit_bound [of sg e m] show ?thesis
    unfolding row_capped_def documented_sqlglot_def by blast
qed

lemma permitted_statement_enforce:
  assumes "vo_tables out = sorted_set (map qualified_name (referenced_infos (oc_sqlglot oc) schema e))"
    and "set (vo_columns out) =
      (\<Union>n\<in>set (sg_find_all (oc_sqlglot oc) e CColumn). column_refs (oc_sqlglot oc) (oc_validator oc) schema e n)"
  shows "pd_allowed (enforce (oc_policy oc) (vo_tables out) (vo_columns out) schema auth) \<longleftrightarrow>
    permitted_statement oc schema auth e"
  unfolding allowed_enforce assms(1) set_sorted_set assms(2) permitted_statement_def by simp

section \<open>The gate\<close>

definition gate_explains ::
    "('e, 'n) orchestrator \<Rightarrow> ('e \<Rightarrow> 'n \<Rightarrow> tenant_predicate set) \<Rightarrow> sql_dialect \<Rightarrow> database_schema
      \<Rightarrow> auth_context \<Rightarrow> int \<Rightarrow> string \<Rightarrow> bool" where
  "gate_explains oc conds dialect schema auth m s \<longleftrightarrow>
     (\<exists>f sql. authorized oc conds dialect schema auth m f sql \<and> s = explain_sql sql)"

definition gate_passed ::
    "('e, 'n) orchestrator \<Rightarrow> ('e \<Rightarrow> 'n \<Rightarrow> tenant_predicate set) \<Rightarrow> sql_dialect \<Rightarrow> database_schema
      \<Rightarrow> auth_context \<Rightarrow> int \<Rightarrow> secured \<Rightarrow> bool" where
  "gate_passed oc conds dialect schema auth m s \<longleftrightarrow>
     (sec_ok s \<longrightarrow> (\<exists>f sql. sec_final_sql s = Some sql \<and> authorized oc conds dialect schema auth m f sql
        \<and> within_limits (oc_sqlglot oc) (oc_cost oc) f))"

text \<open>The state beside the log: the schema cache holds enriched introspections only.\<close>

definition sent_only ::
    "catalog \<Rightarrow> (string \<Rightarrow> bool) \<Rightarrow> string list \<Rightarrow> 'z catalog_world_scheme \<Rightarrow> bool" where
  "sent_only cat S L w \<longleftrightarrow> cache_ok cat w \<and> (\<exists>ss. w_log w = L @ ss \<and> list_all S ss)"

lemma sent_only_start: "cache_ok cat w \<Longrightarrow> sent_only cat S (w_log w) w"
  by (simp add: sent_only_def)

lemma sent_only_cong:
  "w_log w' = w_log w \<Longrightarrow> cw_cache w' = cw_cache w \<Longrightarrow> sent_only cat S L w' \<longleftrightarrow> sent_only cat S L w"
  by (simp add: sent_only_def cache_ok_def)

lemma sent_only_append:
  "sent_only cat S L w \<Longrightarrow> w_log w' = w_log w @ ss \<Longrightarrow> list_all S ss \<Longrightarrow> cw_cache w' = cw_cache w \<Longrightarrow>
   sent_only cat S L w'"
  by (auto simp: sent_only_def cache_ok_def)

lemma run_analysis_sent:
  assumes "S (explain_sql sql)"
  shows "keeps (sent_only cat S L) (run_analysis oc e sql d)"
  unfolding keeps_iff
proof (intro allI impI)
  fix w :: "'z orchestrator_world_scheme"
  assume "sent_only cat S L w"
  then show "sent_only cat S L (snd (run_analysis oc e sql d w))"
    by (rule sent_only_append [where ss = "if en_connect (oc_engine oc) (w_log w) \<noteq> None then []
        else analyze_statements sql d (Some (\<lambda>_. Inl []))"])
      (simp_all add: run_analysis_def Let_def analyze_statements_def assms)
qed

lemma run_analysis_allowed:
  "run_analysis oc e sql d w = (Inr cost, w') \<Longrightarrow> cr_allowed cost \<Longrightarrow>
   within_limits (oc_sqlglot oc) (oc_cost oc) e"
  by (auto simp: run_analysis_def Let_def dest!: analyze_allowed_iff)

lemma secure_rewritten_sent:
  assumes "clean (oc_sqlglot oc) (oc_validator oc) schema f \<Longrightarrow>
    S (explain_sql (normalize_sql (oc_sqlglot oc) f d False))"
  shows "keeps (sent_only cat S L) (secure_rewritten oc d schema applied f)"
  using assms
  by (auto simp: secure_rewritten_def Let_def validate_expression_valid intro!: keeps_seq run_analysis_sent)

lemma secure_rewritten_gives:
  assumes "\<And>sql. clean (oc_sqlglot oc) (oc_validator oc) schema f \<Longrightarrow>
    sql = normalize_sql (oc_sqlglot oc) f d False \<Longrightarrow> authorized oc conds d schema auth m f sql"
  shows "triple (\<lambda>_. True) (secure_rewritten oc d schema applied f)
    (\<lambda>s _. gate_passed oc conds d schema auth m s) (\<lambda>_ _. True)"
proof (rule tripleI)
  fix w s w' assume r: "secure_rewritten oc d schema applied f w = (Inr s, w')"
  show "gate_passed oc conds d schema auth m s"
    unfolding gate_passed_def
  proof
    assume ok: "sec_ok s"
    with r have c: "clean (oc_sqlglot oc) (oc_validator oc) schema f"
      by (auto simp: secure_rewritten_def Let_def validate_expression_valid give_def not_secured_def
          split: if_splits)
    let ?sql = "normalize_sql (oc_sqlglot oc) f d False"
    from r c obtain cost w1 where a: "run_analysis oc f ?sql d w = (Inr cost, w1)"
      and s: "(if \<not> cr_allowed cost then give ((not_secured (cr_issues cost))\<lparr> sec_cost := Some cost \<rparr>)
        else give \<lparr> sec_ok = True, sec_issues = [], sec_final_sql = Some ?sql,
          sec_statement_type = vo_statement_type (validate_expression (oc_sqlglot oc) (oc_validator oc) schema f None),
          sec_tables = vo_tables (validate_expression (oc_sqlglot oc) (oc_validator oc) schema f None),
          sec_columns = vo_columns (validate_expression (oc_sqlglot oc) (oc_validator oc) schema f None),
          sec_rewrites = applied, sec_cost = Some cost \<rparr>) w1 = (Inr s, w')"
      by (auto simp: secure_rewritten_def Let_def validate_expression_valid elim!: seq_Inr)
    from s ok have "cr_allowed cost" "sec_final_sql s = Some ?sql"
      by (auto simp: give_def not_secured_def split: if_splits)
    with a assms [OF c refl] run_analysis_allowed [OF a] show "\<exists>f sql. sec_final_sql s = Some sql
        \<and> authorized oc conds d schema auth m f sql \<and> within_limits (oc_sqlglot oc) (oc_cost oc) f"
      by blast
  qed
qed simp

text \<open>What reaches the last stage of the gate.\<close>

lemma secure_candidate_cases:
  assumes c: "c = secure_candidate oc src d schema auth m"
  obtains (refused) s where "c = give s" "\<not> sec_ok s"
  | (raised) x where "c = fail x"
  | (rewritten) e applied where
      "c = secure_rewritten oc d schema applied
         (lo_expression (enforce_limit (oc_sqlglot oc)
            (fst (rewrite (oc_sqlglot oc) e schema (ac_tenant_id auth))) m))"
      "clean (oc_sqlglot oc) (oc_validator oc) schema e" "permitted_statement oc schema auth e"
proof (cases "validate (oc_sqlglot oc) (oc_validator oc) src d schema")
  case (Inl err)
  then show ?thesis
    using that(1) [of "not_secured [issue ''sql_parse_failed'' (reason_text err) None]"] that(2) [of "Raised err"]
    by (cases "ee_class err = SQLParseError") (simp_all add: c secure_candidate_def not_secured_def)
next
  case (Inr out)
  show ?thesis
  proof (cases "vo_is_valid out \<and> pd_allowed (enforce (oc_policy oc) (vo_tables out) (vo_columns out) schema auth)")
    case False
    show ?thesis
    proof (cases "vo_is_valid out")
      case True
      then obtain e where "vo_expression out = Some e" using validate_valid_fields [OF Inr] by metis
      with True False show ?thesis
        by (intro that(1) [of "not_secured_after out
            (pd_issues (enforce (oc_policy oc) (vo_tables out) (vo_columns out) schema auth))"])
          (simp_all add: c secure_candidate_def Inr not_secured_after_def not_secured_def)
    next
      case False
      then show ?thesis
        by (intro that(1) [of "not_secured_after out (vo_issues out)"])
          (simp_all add: c secure_candidate_def Inr not_secured_after_def not_secured_def)
    qed
  next
    case True
    then obtain e where e: "vo_expression out = Some e" "clean (oc_sqlglot oc) (oc_validator oc) schema e"
      and t: "vo_tables out = sorted_set (map qualified_name (referenced_infos (oc_sqlglot oc) schema e))"
      and k: "set (vo_columns out) = (\<Union>n\<in>set (sg_find_all (oc_sqlglot oc) e CColumn).
        column_refs (oc_sqlglot oc) (oc_validator oc) schema e n)"
      using validate_valid_fields [OF Inr] by metis
    have "permitted_statement oc schema auth e"
      using True permitted_statement_enforce [OF t k] by simp
    with e True show ?thesis
      by (intro that(3) [OF _ e(2), where applied = "snd (rewrite (oc_sqlglot oc) e schema (ac_tenant_id auth))"])
        (simp_all add: c secure_candidate_def Inr Let_def case_prod_beta)
  qed
qed

lemma rewritten_authorized:
  assumes "documented_sqlglot (oc_sqlglot oc) conds" and "m < 10 ^ 12"
    and "clean (oc_sqlglot oc) (oc_validator oc) schema e" and "permitted_statement oc schema auth e"
    and "f = lo_expression (enforce_limit (oc_sqlglot oc)
          (fst (rewrite (oc_sqlglot oc) e schema (ac_tenant_id auth))) m)"
    and "clean (oc_sqlglot oc) (oc_validator oc) schema f"
    and "sql = normalize_sql (oc_sqlglot oc) f d False"
  shows "authorized oc conds d schema auth m f sql"
  unfolding authorized_def
  using assms row_capped_enforced [OF assms(1,2), of "oc_validator oc" schema
      "fst (rewrite (oc_sqlglot oc) e schema (ac_tenant_id auth))"]
    tenant_scoped_rewrite [OF assms(1), of schema "ac_tenant_id auth" e m]
  by blast

lemma secure_candidate_sent:
  assumes "documented_sqlglot (oc_sqlglot oc) conds" and "m < 10 ^ 12"
    and S: "\<And>s. gate_explains oc conds d schema auth m s \<Longrightarrow> S s"
  shows "keeps (sent_only cat S L) (secure_candidate oc src d schema auth m)" (is "keeps _ ?c")
  using refl [of ?c]
proof (cases rule: secure_candidate_cases)
  case (rewritten e applied)
  show ?thesis
    unfolding rewritten(1)
    by (rule secure_rewritten_sent, rule S)
      (use rewritten_authorized [OF assms(1,2) rewritten(2,3) refl] in \<open>auto simp: gate_explains_def\<close>)
qed simp_all

lemma secure_candidate_gives:
  assumes "documented_sqlglot (oc_sqlglot oc) conds" and "m < 10 ^ 12"
  shows "triple (\<lambda>_. True) (secure_candidate oc src d schema auth m)
    (\<lambda>s _. gate_passed oc conds d schema auth m s) (\<lambda>_ _. True)" (is "triple _ ?c _ _")
  using refl [of ?c]
proof (cases rule: secure_candidate_cases)
  case (refused s)
  then show ?thesis by (auto simp: gate_passed_def intro: triple_give)
next
  case (raised x)
  then show ?thesis by (auto intro: triple_fail)
next
  case (rewritten e applied)
  show ?thesis
    unfolding rewritten(1)
    by (rule secure_rewritten_gives) (rule rewritten_authorized [OF assms rewritten(2,3) refl])
qed

section \<open>Predicates the bookkeeping cannot change\<close>

definition stable :: "('z orchestrator_world_scheme \<Rightarrow> bool) \<Rightarrow> bool" where
  "stable P \<longleftrightarrow> (\<forall>w n r c. P w \<longrightarrow> P (w\<lparr> w_ticks := n \<rparr>) \<and> P (w\<lparr> cw_metrics := r \<rparr>)
     \<and> P (w\<lparr> ow_correlation := c \<rparr>) \<and> P (w\<lparr> ow_ids := n \<rparr>) \<and> P (w\<lparr> ow_now := n \<rparr>))"

named_theorems keeps_rules

declare keeps_seq [keeps_rules] keeps_give [keeps_rules] keeps_fail [keeps_rules] keeps_lift [keeps_rules]

lemma keeps_tick [keeps_rules]: "stable P \<Longrightarrow> keeps P (tick oc)"
  by (simp add: tick_def keeps_ask perf_counter_def stable_def)

lemma keeps_count [keeps_rules]: "stable P \<Longrightarrow> keeps P (count name labels)"
  by (simp add: count_def keeps_change inc_def stable_def)

lemma keeps_observe [keeps_rules]: "stable P \<Longrightarrow> keeps P (observe name v)"
  by (simp add: observe_def keeps_change observe_metric_def stable_def)

lemma keeps_bind [keeps_rules]: "stable P \<Longrightarrow> keeps P (bind_correlation_id cid)"
  by (simp add: bind_correlation_id_def keeps_change stable_def)

lemma keeps_new_correlation [keeps_rules]: "stable P \<Longrightarrow> keeps P (new_correlation oc given)"
  by (simp add: new_correlation_def keeps_ask Let_def stable_def)

lemma keeps_authorize [keeps_rules]: "keeps P (authorize_tenant request auth)"
  by (simp add: authorize_tenant_def)

lemma keeps_markers [keeps_rules]: "stable P \<Longrightarrow> keeps P (note_markers request)"
  by (simp add: note_markers_def keeps_count)

lemma keeps_resolve_date [keeps_rules]: "stable P \<Longrightarrow> keeps P (resolve_date oc question)"
  unfolding resolve_date_def
  by (intro keeps_rules) (simp add: keeps_ask stable_def)

lemma keeps_raise [keeps_rules]: "stable P \<Longrightarrow> keeps P (raise_for_failure s n)"
  unfolding raise_for_failure_def by (intro keeps_rules)

lemma keeps_preview [keeps_rules]: "stable P \<Longrightarrow> keeps P (preview_response oc pg g st sql)"
  unfolding preview_response_def by (intro keeps_rules)

lemma keeps_clarify [keeps_rules]: "stable P \<Longrightarrow> keeps P (clarify oc c cid start)"
  unfolding clarify_def by (intro keeps_rules)

lemma stable_sent_only: "stable (sent_only cat S L)"
  unfolding stable_def sent_only_def cache_ok_def by simp

lemma stable_asked: "stable (\<lambda>w. Q (ow_requests w))"
  by (simp add: stable_def)

section \<open>Calls that touch the database\<close>

lemma keeps_get_schema: "keeps (sent_only cat S L) (get_schema cat force)"
  unfolding keeps_iff
proof (intro allI impI)
  fix w assume w: "sent_only cat S L w"
  have "cache_ok cat (snd (get_schema cat force w))"
    by (rule serving.keeps) (use w in \<open>simp add: sent_only_def\<close>)
  with w show "sent_only cat S L (snd (get_schema cat force w))"
    by (simp add: sent_only_def get_schema_log)
qed

lemma get_schema_gives:
  "triple (sent_only cat S L) (get_schema cat force)
     (\<lambda>s w. sent_only cat S L w \<and> enriched_of cat s) (\<lambda>_. sent_only cat S L)"
proof (rule triple_conseq [OF triple_keeps [OF keeps_get_schema]])
  show "triple (sent_only cat S L) (get_schema cat force) (\<lambda>s _. enriched_of cat s) (\<lambda>_ _. True)"
  proof (rule tripleI)
    fix w s w' assume "sent_only cat S L w" "get_schema cat force w = (Inr s, w')"
    then show "enriched_of cat s"
      by (intro serving.gives [where w = w and force = force]) (simp_all add: sent_only_def)
  qed simp
qed simp_all

lemma cw_cache_more: "world.more w = world.more w' \<Longrightarrow> cw_cache w = cw_cache w'"
  by (cases w; cases w') simp

lemma execute_sent:
  assumes "list_all S (session_guards d t @ [sql])"
  shows "keeps (sent_only cat S L) (execute eng d t clock sql m)"
  unfolding keeps_iff
proof (intro allI impI)
  fix w assume w: "sent_only cat S L w"
  obtain k where k: "w_log (snd (execute eng d t clock sql m w)) = w_log w @ take k (session_guards d t @ [sql])"
    using execute_log by blast
  have "list_all S (take k (session_guards d t @ [sql]))"
    using assms by (meson in_set_takeD list_all_iff)
  with w k show "sent_only cat S L (snd (execute eng d t clock sql m w))"
    by (rule sent_only_append) (rule cw_cache_more [OF execute_more])
qed

section \<open>The repair loop\<close>

lemma keeps_attempt_loop:
  "(\<And>a st. keeps P (body a st)) \<Longrightarrow> keeps P (attempt_loop body as st)"
  by (induction body as st rule: attempt_loop.induct) (auto intro!: keeps_seq split: prod.splits)

lemma triple_any: "triple P m (\<lambda>_ _. True) (\<lambda>_ _. True)"
  by (rule tripleI) simp_all

lemma attempt_loop_gives:
  assumes "\<And>a st. triple (\<lambda>_. True) (body a st) (\<lambda>r _. Q (snd r)) (\<lambda>_ _. True)" and "Q st"
  shows "triple (\<lambda>_. True) (attempt_loop body as st) (\<lambda>st' _. Q st') (\<lambda>_ _. True)"
  using assms
proof (induction body as st rule: attempt_loop.induct)
  case (1 body st)
  then show ?case by (auto intro: triple_give)
next
  case (2 body a rest st)
  have "triple (\<lambda>_. Q (snd r)) (case r of (again, st') \<Rightarrow>
      if again then attempt_loop body rest st' else give st') (\<lambda>st' _. Q st') (\<lambda>_ _. True)" for r
  proof (cases "Q (snd r)")
    case True
    obtain again st' where r: "r = (again, st')" by (cases r)
    show ?thesis
    proof (cases again)
      case again: True
      from True r have "Q st'" by simp
      from 2(1) [OF again 2(2) this] r again show ?thesis
        by (auto elim: triple_conseq)
    next
      case False
      with True r show ?thesis by (auto intro: triple_give)
    qed
  qed (simp add: triple_def)
  then show ?case
    unfolding attempt_loop.simps by (intro triple_seq [OF 2(2)])
qed

lemma keeps_call_provider: "keeps (sent_only cat S L) (call_provider oc req)"
  by (simp add: keeps_iff call_provider_def sent_only_def cache_ok_def)

lemma repair_attempt_sent:
  assumes "documented_sqlglot (oc_sqlglot oc) conds" and "gr_max_rows base < 10 ^ 12"
    and "\<And>s. gate_explains oc conds (gr_dialect base) schema auth (gr_max_rows base) s \<Longrightarrow> S s"
  shows "keeps (sent_only cat S L) (repair_attempt oc auth schema base a st)"
  unfolding repair_attempt_def Let_def
  by (intro keeps_rules stable_sent_only keeps_call_provider secure_candidate_sent [OF assms])
    (auto intro!: keeps_rules stable_sent_only)

lemma repair_attempt_gives:
  assumes "documented_sqlglot (oc_sqlglot oc) conds" and "gr_max_rows base < 10 ^ 12"
  shows "triple (\<lambda>_. True) (repair_attempt oc auth schema base a st)
    (\<lambda>r _. gate_passed oc conds (gr_dialect base) schema auth (gr_max_rows base) (ls_secured (snd r))) (\<lambda>_ _. True)"
  unfolding repair_attempt_def Let_def
proof (rule triple_seq [OF triple_any], rule triple_seq [OF triple_any], rule triple_seq [OF triple_any],
    rule triple_seq [OF triple_any], rule triple_seq [OF secure_candidate_gives [OF assms]], goal_cases)
  case (1 t0 g t1 _ s)
  let ?G = "gate_passed oc conds (gr_dialect base) schema auth (gr_max_rows base) s"
  show ?case
  proof (cases ?G)
    case True
    then show ?thesis by (auto intro!: triple_give triple_seq [OF triple_any])
  qed (simp add: triple_def)
qed

lemma generate_sent:
  assumes "documented_sqlglot (oc_sqlglot oc) conds" and "gr_max_rows base < 10 ^ 12"
    and "\<And>s. gate_explains oc conds (gr_dialect base) schema auth (gr_max_rows base) s \<Longrightarrow> S s"
  shows "keeps (sent_only cat S L) (generate_with_repair oc auth schema base)"
  unfolding generate_with_repair_def
  by (intro keeps_seq keeps_attempt_loop repair_attempt_sent [OF assms]) (simp_all split: option.splits)

lemma not_secured_passed [simp]: "gate_passed oc conds d schema auth m (not_secured is)"
  by (simp add: gate_passed_def not_secured_def)

lemma generate_gives:
  assumes "documented_sqlglot (oc_sqlglot oc) conds" and "gr_max_rows base < 10 ^ 12"
  shows "triple (\<lambda>_. True) (generate_with_repair oc auth schema base)
    (\<lambda>r _. gate_passed oc conds (gr_dialect base) schema auth (gr_max_rows base) (ls_secured (snd r))) (\<lambda>_ _. True)"
  unfolding generate_with_repair_def
proof (rule triple_seq [OF attempt_loop_gives [where
      Q = "\<lambda>st. gate_passed oc conds (gr_dialect base) schema auth (gr_max_rows base) (ls_secured st)"]])
  show "triple (\<lambda>_. gate_passed oc conds (gr_dialect base) schema auth (gr_max_rows base) (ls_secured st))
      (case ls_last st of None \<Rightarrow> fail assertion_error | Some g \<Rightarrow> give (g, st))
      (\<lambda>r _. gate_passed oc conds (gr_dialect base) schema auth (gr_max_rows base) (ls_secured (snd r)))
      (\<lambda>_ _. True)" for st
    by (cases "ls_last st") (auto intro: triple_give triple_fail)
qed (use repair_attempt_gives [OF assms] in \<open>simp_all add: initial_loop_def\<close>)

section \<open>What the pipeline sends\<close>

text \<open>\<open>EXPLAIN\<close> of an authorized statement; with \<open>run\<close> also the session guards and the statement.\<close>

definition may_send ::
    "('e, 'n) orchestrator \<Rightarrow> ('e \<Rightarrow> 'n \<Rightarrow> tenant_predicate set) \<Rightarrow> sql_dialect \<Rightarrow> auth_context \<Rightarrow> int
      \<Rightarrow> bool \<Rightarrow> string \<Rightarrow> bool" where
  "may_send oc conds d auth m run s \<longleftrightarrow>
     run \<and> s \<in> set (session_guards d (oc_timeout_ms oc))
     \<or> (\<exists>schema f sql. enriched_of (oc_catalog oc) schema \<and> authorized oc conds d schema auth m f sql
          \<and> (s = explain_sql sql \<or> run \<and> s = sql \<and> within_limits (oc_sqlglot oc) (oc_cost oc) f))"

lemma may_send_explain:
  "enriched_of (oc_catalog oc) schema \<Longrightarrow> gate_explains oc conds d schema auth m s \<Longrightarrow>
   may_send oc conds d auth m run s"
  by (auto simp: may_send_def gate_explains_def)

lemma execute_response_sent:
  assumes "list_all S (session_guards (pg_dialect pg) (oc_timeout_ms oc) @ [sql])"
  shows "keeps (sent_only cat S L) (execute_response oc request pg g st sql)"
  unfolding execute_response_def Let_def
  by (intro keeps_rules stable_sent_only execute_sent [OF assms])
    (auto intro!: keeps_rules stable_sent_only split: prod.splits)

lemma finish_sent:
  assumes "gate_passed oc conds (pg_dialect pg) schema auth (pg_max_rows pg) (ls_secured st)"
    and "enriched_of (oc_catalog oc) schema"
    and run: "exec \<and> \<not> qr_dry_run request \<and> \<not> qr_sql_only request \<longrightarrow> run"
  shows "keeps (sent_only cat (may_send oc conds (pg_dialect pg) auth (pg_max_rows pg) run) L)
    (finish oc request exec pg g st)"
proof (cases "sec_ok (ls_secured st)")
  case False
  then show ?thesis by (auto simp: finish_def intro!: keeps_rules stable_sent_only)
next
  case True
  with assms(1) obtain f sql where sql: "sec_final_sql (ls_secured st) = Some sql"
    "authorized oc conds (pg_dialect pg) schema auth (pg_max_rows pg) f sql"
    "within_limits (oc_sqlglot oc) (oc_cost oc) f"
    by (auto simp: gate_passed_def)
  show ?thesis
  proof (cases "exec \<and> \<not> qr_dry_run request \<and> \<not> qr_sql_only request")
    case False
    with True sql(1) show ?thesis
      by (auto simp: finish_def intro!: keeps_rules stable_sent_only)
  next
    case ex: True
    have "list_all (may_send oc conds (pg_dialect pg) auth (pg_max_rows pg) run)
        (session_guards (pg_dialect pg) (oc_timeout_ms oc) @ [sql])"
      using sql assms(2) run ex by (auto simp: list_all_iff may_send_def)
    from execute_response_sent [OF this] True sql(1) ex show ?thesis by (simp add: finish_def)
  qed
qed

lemma answer_sent:
  assumes doc: "documented_sqlglot (oc_sqlglot oc) conds" and "effective_max_rows oc request < 10 ^ 12"
    and run: "exec \<and> \<not> qr_dry_run request \<and> \<not> qr_sql_only request \<longrightarrow> run"
  shows "keeps (sent_only (oc_catalog oc) (may_send oc conds (request_dialect oc (qr_dialect request)) auth
      (effective_max_rows oc request) run) L) (answer oc request auth exec cid start)"
    (is "keeps ?P _")
proof -
  let ?d = "request_dialect oc (qr_dialect request)" and ?m = "effective_max_rows oc request"
  have tail: "keeps ?P (finish oc request exec pg g st)"
    if "pg_dialect pg = ?d" "pg_max_rows pg = ?m" "enriched_of (oc_catalog oc) schema"
      "gate_passed oc conds ?d schema auth ?m (ls_secured st)" for pg g st schema
    using finish_sent [of oc conds pg schema auth st exec request run] that run by simp
  have gen: "triple ?P (generate_with_repair oc auth schema (base_request oc request ?d ?m retrieval date))
      (\<lambda>r w. ?P w \<and> gate_passed oc conds ?d schema auth ?m (ls_secured (snd r))) (\<lambda>_. ?P)"
    if "enriched_of (oc_catalog oc) schema" for schema retrieval date
  proof (rule triple_conseq [OF triple_keeps])
    show "keeps ?P (generate_with_repair oc auth schema (base_request oc request ?d ?m retrieval date))"
      by (rule generate_sent [OF doc]) (use assms(2) in \<open>simp_all add: base_request_def may_send_explain [OF that]\<close>)
    show "triple ?P (generate_with_repair oc auth schema (base_request oc request ?d ?m retrieval date))
        (\<lambda>r _. gate_passed oc conds ?d schema auth ?m (ls_secured (snd r))) (\<lambda>_ _. True)"
      by (rule triple_conseq [OF generate_gives [OF doc]]) (use assms(2) in \<open>simp_all add: base_request_def\<close>)
  qed simp_all
  have rest: "triple (\<lambda>w. ?P w \<and> gate_passed oc conds ?d schema auth ?m (ls_secured st))
      (finish oc request exec pg g st) (\<lambda>_. ?P) (\<lambda>_. ?P)"
    if "pg_dialect pg = ?d" "pg_max_rows pg = ?m" "enriched_of (oc_catalog oc) schema" for pg g st schema
    by (rule triple_pre [where A = "gate_passed oc conds ?d schema auth ?m (ls_secured st)"])
      (use tail [OF that] in \<open>auto simp: keeps_def elim: triple_conseq\<close>)
  show ?thesis
    unfolding answer_def Let_def keeps_def
  proof (rule triple_seq [OF get_schema_gives], rule triple_pre, erule conjunct2)
    fix schema assume schema: "enriched_of (oc_catalog oc) schema"
    show "triple (\<lambda>w. ?P w \<and> enriched_of (oc_catalog oc) schema)
       (seq (tick oc) (\<lambda>t0. seq (tick oc) (\<lambda>t1. seq (resolve_date oc (qr_question request)) (\<lambda>date.
          seq (generate_with_repair oc auth schema (base_request oc request ?d ?m
                 (retrieve (oc_retriever oc) (qr_question request) schema) date))
          (\<lambda>(g, st). finish oc request exec
             \<lparr> pg_correlation = cid, pg_start = start,
               pg_retrieval = retrieve (oc_retriever oc) (qr_question request) schema,
               pg_timings = no_timings\<lparr> st_retrieval_ms := (t1 - t0) * 1000,
                 st_generation_ms := ls_generation_ms st \<rparr>,
               pg_dialect = ?d, pg_max_rows = ?m \<rparr> g st))))) (\<lambda>_. ?P) (\<lambda>_. ?P)"
      unfolding keeps_def [symmetric]
      by (rule triple_conseq [where P = ?P and Q = "\<lambda>_. ?P" and E = "\<lambda>_. ?P"],
          rule triple_seq, rule keeps_tick [OF stable_sent_only, unfolded keeps_def],
          rule triple_seq, rule keeps_tick [OF stable_sent_only, unfolded keeps_def],
          rule triple_seq, rule keeps_resolve_date [OF stable_sent_only, unfolded keeps_def],
          rule triple_seq, rule gen [OF schema])
        (auto simp: case_prod_beta intro!: rest [OF _ _ schema])
  qed
qed

lemma process_sent:
  assumes "documented_sqlglot (oc_sqlglot oc) conds" and "effective_max_rows oc request < 10 ^ 12"
    and "exec \<and> \<not> qr_dry_run request \<and> \<not> qr_sql_only request \<longrightarrow> run"
  shows "keeps (sent_only (oc_catalog oc) (may_send oc conds (request_dialect oc (qr_dialect request)) auth
      (effective_max_rows oc request) run) L) (process oc request auth exec)"
  unfolding process_def
  by (intro keeps_rules stable_sent_only)
    (auto intro!: keeps_rules stable_sent_only answer_sent [OF assms] split: option.splits)

lemma validate_sql_sent:
  assumes "documented_sqlglot (oc_sqlglot oc) conds" and "oc_max_rows oc < 10 ^ 12"
  shows "keeps (sent_only (oc_catalog oc) (may_send oc conds (request_dialect oc (vr_dialect request)) auth
      (oc_max_rows oc) False) L) (validate_sql oc request auth)" (is "keeps ?P _")
proof -
  have cand: "triple (\<lambda>w. ?P w \<and> enriched_of (oc_catalog oc) schema)
      (seq (secure_candidate oc (vr_sql request) (request_dialect oc (vr_dialect request)) schema auth (oc_max_rows oc))
        (\<lambda>s. give (build_report s (sec_rewrites s)))) (\<lambda>_. ?P) (\<lambda>_. ?P)" for schema
  proof (rule triple_pre, erule conjunct2)
    assume schema: "enriched_of (oc_catalog oc) schema"
    have "keeps ?P (seq (secure_candidate oc (vr_sql request) (request_dialect oc (vr_dialect request)) schema auth
        (oc_max_rows oc)) (\<lambda>s. give (build_report s (sec_rewrites s))))"
      by (intro keeps_rules secure_candidate_sent [OF assms] may_send_explain [OF schema])
    then show "triple (\<lambda>w. ?P w \<and> enriched_of (oc_catalog oc) schema)
        (seq (secure_candidate oc (vr_sql request) (request_dialect oc (vr_dialect request)) schema auth (oc_max_rows oc))
          (\<lambda>s. give (build_report s (sec_rewrites s)))) (\<lambda>_. ?P) (\<lambda>_. ?P)"
      unfolding keeps_def by (rule triple_conseq) simp_all
  qed
  have draw: "keeps ?P (ask (\<lambda>w. (sanitize_correlation_id (oc_hex oc (ow_ids w)) None, w\<lparr> ow_ids := ow_ids w + 1 \<rparr>)))"
    by (simp add: keeps_ask sent_only_def cache_ok_def)
  show ?thesis
    unfolding validate_sql_def
    by (rule keeps_seq [OF draw], rule keeps_seq [OF keeps_bind [OF stable_sent_only]], unfold keeps_def,
        rule triple_seq [OF get_schema_gives], rule cand)
qed

section \<open>How often the provider is asked\<close>

text \<open>
  Requests since \<open>R\<close>: \<open>n\<close> of them, all equal to \<open>base\<close> but for the repair context, the prompt
  included.
\<close>

definition asked_since ::
    "generation_request \<Rightarrow> generation_request list \<Rightarrow> nat \<Rightarrow> 'z orchestrator_world_scheme \<Rightarrow> bool" where
  "asked_since base R n w \<longleftrightarrow> (\<exists>rs. ow_requests w = R @ map (\<lambda>r. base\<lparr> gr_repair := r \<rparr>) rs \<and> length rs = n)"

lemma stable_asked_since: "stable (asked_since base R n)"
  by (simp add: stable_def asked_since_def)

lemma asked_since_append:
  "asked_since base R n w \<Longrightarrow> ow_requests w' = ow_requests w @ [base\<lparr> gr_repair := r \<rparr>] \<Longrightarrow>
   asked_since base R (Suc n) w'"
proof -
  assume "asked_since base R n w"
  then obtain rs where "ow_requests w = R @ map (\<lambda>r. base\<lparr> gr_repair := r \<rparr>) rs" "length rs = n"
    by (auto simp: asked_since_def)
  moreover assume "ow_requests w' = ow_requests w @ [base\<lparr> gr_repair := r \<rparr>]"
  ultimately show ?thesis by (auto simp: asked_since_def intro!: exI [of _ "rs @ [r]"])
qed

lemma call_provider_asks:
  "triple (asked_since base R n) (call_provider oc (base\<lparr> gr_repair := r \<rparr>))
     (\<lambda>_. asked_since base R (Suc n)) (\<lambda>_. asked_since base R (Suc n))"
  by (rule tripleI; erule asked_since_append [where r = r]) (auto simp: call_provider_def)

lemma run_analysis_requests [simp]: "ow_requests (snd (run_analysis oc e sql d w)) = ow_requests w"
  by (simp add: run_analysis_def Let_def)

lemma secure_candidate_asks: "keeps (asked_since base R n) (secure_candidate oc src d schema auth m)"
  (is "keeps ?P ?c")
  using refl [of ?c]
proof (cases rule: secure_candidate_cases)
  case (rewritten e applied)
  have a: "keeps ?P (run_analysis oc f sql d)" for f sql
    by (simp add: keeps_iff asked_since_def)
  show ?thesis
    unfolding rewritten(1) secure_rewritten_def Let_def
    by (auto intro!: keeps_rules a)
qed simp_all

lemma keeps_weaken:
  "keeps P m \<Longrightarrow> (\<And>w. P w \<Longrightarrow> E w) \<Longrightarrow> triple P m (\<lambda>_. P) (\<lambda>_. E)"
  unfolding keeps_def by (erule triple_conseq)

lemma repair_attempt_asks:
  "triple (asked_since base R n) (repair_attempt oc auth schema base a st)
     (\<lambda>_. asked_since base R (Suc n)) (\<lambda>_ w. asked_since base R n w \<or> asked_since base R (Suc n) w)"
  unfolding repair_attempt_def
  by (rule triple_seq [OF keeps_weaken [OF keeps_tick [OF stable_asked_since]]], blast,
      rule triple_seq [OF triple_conseq [OF call_provider_asks]], assumption, assumption, blast,
      rule keeps_weaken)
    (auto simp: Let_def intro!: keeps_rules stable_asked_since secure_candidate_asks)

definition asked_at_most ::
    "nat \<Rightarrow> generation_request list \<Rightarrow> 'z orchestrator_world_scheme \<Rightarrow> bool" where
  "asked_at_most m R w \<longleftrightarrow> (\<exists>base k. k \<le> m \<and> asked_since base R k w)"

lemma stable_asked_at_most: "stable (asked_at_most m R)"
  using stable_asked_since unfolding asked_at_most_def stable_def by blast

lemma asked_since_0: "asked_since base R 0 w \<longleftrightarrow> ow_requests w = R"
  by (simp add: asked_since_def)

lemma asked_at_most_start: "ow_requests w = R \<Longrightarrow> asked_at_most m R w"
  using asked_since_0 unfolding asked_at_most_def by blast

lemma asked_at_mostI: "asked_since base R k w \<Longrightarrow> k \<le> m \<Longrightarrow> asked_at_most m R w"
  by (auto simp: asked_at_most_def)

lemma attempt_loop_asks:
  "triple (asked_since base R n) (attempt_loop (repair_attempt oc auth schema base) as st)
     (\<lambda>_. asked_at_most (n + length as) R) (\<lambda>_. asked_at_most (n + length as) R)"
proof (induction as arbitrary: n st)
  case Nil
  then show ?case by (auto intro: triple_give asked_at_mostI)
next
  case (Cons a as)
  have n: "n + length (a # as) = Suc n + length as" by simp
  show ?case
    unfolding attempt_loop.simps n
  proof (rule triple_seq [OF triple_conseq [OF repair_attempt_asks]], assumption, assumption, goal_cases)
    case (1 x w)
    then show ?case by (auto intro: asked_at_mostI)
  next
    case (2 r)
    show ?case using Cons [of "Suc n"] by (cases r) (auto intro!: triple_give elim!: asked_at_mostI)
  qed
qed

lemma attempt_loop_asks_from_start:
  "triple (\<lambda>w. ow_requests w = R) (attempt_loop (repair_attempt oc auth schema base) as st)
     (\<lambda>_. asked_at_most (length as) R) (\<lambda>_. asked_at_most (length as) R)"
  by (rule triple_conseq [OF attempt_loop_asks [where n = 0 and base = base]]) (simp_all add: asked_since_0)

lemma generate_asks:
  "triple (\<lambda>w. ow_requests w = R) (generate_with_repair oc auth schema base)
     (\<lambda>_. asked_at_most (nat (oc_max_repair oc + 1)) R) (\<lambda>_. asked_at_most (nat (oc_max_repair oc + 1)) R)"
  unfolding generate_with_repair_def
  using attempt_loop_asks_from_start [of R oc auth schema base "[0..<nat (oc_max_repair oc + 1)]" initial_loop]
  by (intro triple_seq, simp) (auto intro: triple_give triple_fail split: option.splits)

lemma execute_requests [simp]: "ow_requests (snd (execute eng d t clock sql m w)) = ow_requests w"
proof -
  have "world.more w = world.more w' \<Longrightarrow> ow_requests w = ow_requests w'" for w w' :: "'z orchestrator_world_scheme"
    by (cases w; cases w') simp
  then show ?thesis using execute_more by blast
qed

lemma load_schema_requests: "ow_requests (snd (load_schema cat w)) = ow_requests w"
  by (simp add: load_schema_def Let_def inc_def split: sum.splits)

lemma get_schema_requests [simp]: "ow_requests (snd (get_schema cat force w)) = ow_requests w"
proof (cases "force")
  case False
  obtain r w1 where t: "try_cache cat w = (r, w1)" by fastforce
  then have "ow_requests w1 = ow_requests w" by (auto simp: try_cache_def split: prod.splits)
  then show ?thesis using t False by (cases r) (simp_all add: get_schema_def load_schema_requests inc_def)
qed (simp add: get_schema_def load_schema_requests)

lemma finish_asks: "keeps (asked_at_most m R) (finish oc request exec pg g st)"
proof -
  have ex: "keeps (asked_at_most m R) (execute eng d t clock sql k)" for eng d t clock sql k
    by (simp add: keeps_iff asked_at_most_def asked_since_def)
  have "keeps (asked_at_most m R) (execute_response oc request pg g st sql)" for sql
    unfolding execute_response_def Let_def
    by (intro keeps_rules stable_asked_at_most ex)
      (auto intro!: keeps_rules stable_asked_at_most split: prod.splits)
  then show ?thesis
    unfolding finish_def
    by (auto intro!: keeps_rules stable_asked_at_most split: option.splits)
qed

lemma stable_requests: "stable (\<lambda>w. ow_requests w = R)"
  by (simp add: stable_def)

lemma keeps_get_schema_requests: "keeps (\<lambda>w. ow_requests w = R) (get_schema cat force)"
  by (simp add: keeps_iff)

lemma answer_asks:
  "triple (\<lambda>w. ow_requests w = R) (answer oc request auth exec cid start)
     (\<lambda>_. asked_at_most (nat (oc_max_repair oc + 1)) R) (\<lambda>_. asked_at_most (nat (oc_max_repair oc + 1)) R)"
  unfolding answer_def Let_def
  by (rule triple_seq [OF keeps_weaken [OF keeps_get_schema_requests asked_at_most_start]], assumption,
      rule triple_seq [OF keeps_weaken [OF keeps_tick [OF stable_requests] asked_at_most_start]], assumption,
      rule triple_seq [OF keeps_weaken [OF keeps_tick [OF stable_requests] asked_at_most_start]], assumption,
      rule triple_seq [OF keeps_weaken [OF keeps_resolve_date [OF stable_requests] asked_at_most_start]], assumption,
      rule triple_seq [OF generate_asks])
    (auto intro: finish_asks [unfolded keeps_def])

lemma process_asks:
  "triple (\<lambda>w. ow_requests w = R) (process oc request auth exec)
     (\<lambda>_. asked_at_most (nat (oc_max_repair oc + 1)) R) (\<lambda>_. asked_at_most (nat (oc_max_repair oc + 1)) R)"
proof -
  have clar: "triple (\<lambda>w. ow_requests w = R) (clarify oc c cid start) (\<lambda>_. asked_at_most m R) (\<lambda>_. asked_at_most m R)"
    for c cid start m
    by (rule triple_conseq [OF keeps_clarify [OF stable_requests, unfolded keeps_def]])
      (auto intro: asked_at_most_start)
  show ?thesis
    unfolding process_def
    by (rule triple_seq [OF keeps_weaken [OF keeps_new_correlation [OF stable_requests] asked_at_most_start]], assumption,
        rule triple_seq [OF keeps_weaken [OF keeps_bind [OF stable_requests] asked_at_most_start]], assumption,
        rule triple_seq [OF keeps_weaken [OF keeps_tick [OF stable_requests] asked_at_most_start]], assumption,
        rule triple_seq [OF keeps_weaken [OF keeps_authorize asked_at_most_start]], assumption,
        rule triple_seq [OF keeps_weaken [OF keeps_count [OF stable_requests] asked_at_most_start]], assumption,
        rule triple_seq [OF keeps_weaken [OF keeps_markers [OF stable_requests] asked_at_most_start]], assumption)
      (auto intro: clar answer_asks split: option.splits)
qed

section \<open>Responses\<close>

definition executes :: "query_request \<Rightarrow> bool \<Rightarrow> bool" where
  "executes request exec \<longleftrightarrow> exec \<and> \<not> qr_dry_run request \<and> \<not> qr_sql_only request"

definition validated :: "query_response \<Rightarrow> bool" where
  "validated r \<longleftrightarrow> rs_sql r \<noteq> None \<and> (case rs_validation r of None \<Rightarrow> False | Some v \<Rightarrow> rp_is_valid v)"

definition response_ok ::
    "('e, 'n) orchestrator \<Rightarrow> query_request \<Rightarrow> bool \<Rightarrow> query_response \<Rightarrow> bool" where
  "response_ok oc request exec r = (case rs_status r of
     RS_SUCCESS \<Rightarrow> executes request exec \<and> validated r \<and> rs_row_count r = Some (length (rs_rows r))
       \<and> int (length (rs_rows r)) \<le> effective_max_rows oc request
       \<and> rs_dialect r = Some (request_dialect oc (qr_dialect request))
   | RS_PREVIEW \<Rightarrow> \<not> executes request exec \<and> validated r \<and> rs_rows r = [] \<and> rs_row_count r = None
       \<and> rs_execution r = None
   | RS_CLARIFICATION_REQUIRED \<Rightarrow> rs_clarification r \<noteq> None \<and> rs_sql r = None \<and> rs_rows r = []
       \<and> rs_clarification r = detect (oc_ambiguity oc) (qr_question request)
   | _ \<Rightarrow> False)"

lemma new_response_fields [simp]:
  "rs_status (new_response st cid) = st" "rs_rows (new_response st cid) = []"
  "rs_row_count (new_response st cid) = None" "rs_sql (new_response st cid) = None"
  "rs_execution (new_response st cid) = None" "rs_correlation_id (new_response st cid) = cid"
  by (simp_all add: new_response_def)

lemma execute_rows:
  assumes "execute eng d t clock sql m w = (Inr r, w')" and "0 \<le> m"
  shows "er_row_count r = length (er_rows r) \<and> int (length (er_rows r)) \<le> m"
proof -
  from assms have "fst (execute eng d t clock sql m w) = Inr r" by simp
  from this assms(2) show ?thesis
    by (rule execute_result) (use assms(2) in simp)
qed

lemma execute_rows_triple:
  "0 \<le> m \<Longrightarrow> triple (\<lambda>_. True) (execute eng d t clock sql m)
     (\<lambda>r _. er_row_count r = length (er_rows r) \<and> int (length (er_rows r)) \<le> m) (\<lambda>_ _. True)"
  by (rule tripleI, simp) (erule (1) execute_rows)

lemma preview_response_ok:
  assumes "\<not> executes request exec" and "sec_ok (ls_secured st)"
  shows "triple (\<lambda>_. True) (preview_response oc pg g st sql) (\<lambda>r _. response_ok oc request exec r) (\<lambda>_ _. True)"
  unfolding preview_response_def using assms
  by (intro triple_seq [OF triple_any] triple_give)
    (simp add: response_ok_def success_base_def validated_def build_report_def)

lemma execute_response_ok:
  assumes "executes request exec" and "sec_ok (ls_secured st)"
    and "pg_dialect pg = request_dialect oc (qr_dialect request)"
    and "pg_max_rows pg = effective_max_rows oc request" and "0 \<le> pg_max_rows pg"
  shows "triple (\<lambda>_. True) (execute_response oc request pg g st sql) (\<lambda>r _. response_ok oc request exec r) (\<lambda>_ _. True)"
  unfolding execute_response_def Let_def
proof (rule triple_seq [OF triple_any], rule triple_seq [OF execute_rows_triple [OF assms(5)]],
    rule triple_pre, assumption, goal_cases)
  case (1 t0 r)
  show ?case
    by (rule triple_conseq [where P = "\<lambda>_. True", OF triple_seq [OF triple_any]],
        rule triple_seq [OF triple_any], rule triple_seq [OF triple_any])
      (use 1 assms in \<open>auto intro!: triple_seq [OF triple_any] triple_give
        simp: response_ok_def success_base_def validated_def build_report_def\<close>)
qed

lemma finish_response:
  assumes "pg_dialect pg = request_dialect oc (qr_dialect request)"
    and "pg_max_rows pg = effective_max_rows oc request" and "0 \<le> pg_max_rows pg"
  shows "triple (\<lambda>_. True) (finish oc request exec pg g st) (\<lambda>r _. response_ok oc request exec r) (\<lambda>_ _. True)"
proof (cases "sec_ok (ls_secured st) \<and> sec_final_sql (ls_secured st) \<noteq> None")
  case False
  then show ?thesis
    by (auto simp: finish_def raise_for_failure_def intro!: triple_seq [OF triple_any] triple_fail
        split: option.splits)
next
  case True
  then obtain sql where "sec_ok (ls_secured st)" "sec_final_sql (ls_secured st) = Some sql" by blast
  then show ?thesis
    using assms(3) [unfolded assms(2)]
    by (auto simp: finish_def executes_def assms intro!: preview_response_ok execute_response_ok)
qed

lemma answer_response:
  assumes "0 \<le> effective_max_rows oc request"
  shows "triple (\<lambda>_. True) (answer oc request auth exec cid start) (\<lambda>r _. response_ok oc request exec r) (\<lambda>_ _. True)"
  unfolding answer_def Let_def
  by (rule triple_seq [OF triple_any], rule triple_seq [OF triple_any], rule triple_seq [OF triple_any],
      rule triple_seq [OF triple_any], rule triple_seq [OF triple_any])
    (auto intro!: finish_response simp: assms split: prod.splits)

lemma clarify_response:
  assumes "detect (oc_ambiguity oc) (qr_question request) = Some c"
  shows "triple (\<lambda>_. True) (clarify oc c cid start) (\<lambda>r _. response_ok oc request exec r) (\<lambda>_ _. True)"
  unfolding clarify_def
  by (intro triple_seq [OF triple_any] triple_give) (simp add: response_ok_def assms)

lemma process_response:
  assumes "0 \<le> effective_max_rows oc request"
  shows "triple (\<lambda>_. True) (process oc request auth exec) (\<lambda>r _. response_ok oc request exec r) (\<lambda>_ _. True)"
  unfolding process_def
  by (rule triple_seq [OF triple_any], rule triple_seq [OF triple_any], rule triple_seq [OF triple_any],
      rule triple_seq [OF triple_any], rule triple_seq [OF triple_any], rule triple_seq [OF triple_any])
    (auto intro!: answer_response clarify_response simp: assms split: option.splits)

section \<open>Errors\<close>

text \<open>The class of the error a rejected candidate ends with, from its issue codes.\<close>

definition rejection_class :: "string set \<Rightarrow> error_class" where
  "rejection_class codes =
     (if codes \<inter> set auth_codes \<noteq> {} then AuthorizationError
      else if codes \<inter> set cost_codes \<noteq> {} then CostRejectedError
      else if codes \<inter> set security_codes \<noteq> {} then SQLValidationError
      else RepairExhaustedError)"

lemma failure_error_class: "ee_class (failure_error s n) = rejection_class (set (map vi_code (sec_issues s)))"
  by (simp add: failure_error_def rejection_class_def Let_def)

lemma failure_error_not_retryable: "\<not> ee_retryable (failure_error s n)"
  by (simp add: failure_error_def mk_error_def Let_def)

lemma failure_error_details:
  "ee_details (failure_error s n) =
     [(''issues'', JList (map dump_issue (sec_issues s))), (''repair_attempts'', JNum (of_nat n))]"
  by (simp add: failure_error_def Let_def)

lemma rejection_repairable:
  assumes "is_repairable issues"
  shows "rejection_class (set (map vi_code issues)) = RepairExhaustedError"
proof -
  have "set (auth_codes @ cost_codes @ security_codes) \<subseteq> set non_repairable_codes" by code_simp
  then have "set (map vi_code issues) \<inter> (set auth_codes \<union> set cost_codes \<union> set security_codes) = {}"
    using assms by (auto simp: is_repairable_iff)
  then show ?thesis by (simp add: rejection_class_def Int_Un_distrib)
qed

section \<open>A request for another tenant\<close>

lemma tenant_mismatch_refused:
  assumes "qr_tenant_id request = Some t" and "t \<noteq> ac_tenant_id auth"
  shows "fst (process oc request auth exec w) = Inl (Raised (raise_error AuthorizationError
      ''The requested tenant does not match the authenticated tenant.''
      [(''code'', JStr ''tenant_mismatch'')]))"
    and "w_log (snd (process oc request auth exec w)) = w_log w"
    and "ow_requests (snd (process oc request auth exec w)) = ow_requests w"
    and "cw_metrics (snd (process oc request auth exec w)) = cw_metrics w"
    and "cw_introspections (snd (process oc request auth exec w)) = cw_introspections w"
  using assms
  by (simp_all add: process_def seq_def new_correlation_def ask_def bind_correlation_id_def change_def
      tick_def perf_counter_def authorize_tenant_def fail_def Let_def)

section \<open>What the gate decides without a planner\<close>

definition gate_accepts ::
    "('e, 'n) orchestrator \<Rightarrow> string \<Rightarrow> sql_dialect \<Rightarrow> database_schema \<Rightarrow> auth_context \<Rightarrow> int \<Rightarrow> 'e \<Rightarrow> bool" where
  "gate_accepts oc src d schema auth m f \<longleftrightarrow>
     (\<exists>e. parse_statements (oc_sqlglot oc) src d = Inr [e] \<and> \<not> has_comment_marker src
        \<and> clean (oc_sqlglot oc) (oc_validator oc) schema e \<and> permitted_statement oc schema auth e
        \<and> f = lo_expression (enforce_limit (oc_sqlglot oc)
            (fst (rewrite (oc_sqlglot oc) e schema (ac_tenant_id auth))) m)
        \<and> clean (oc_sqlglot oc) (oc_validator oc) schema f
        \<and> within_limits (oc_sqlglot oc) (oc_cost oc) f)"

lemma parse_error_class: "parse_statements sg src d = Inl err \<Longrightarrow> ee_class err = SQLParseError"
  by (auto simp: parse_statements_def Let_def split: sum.splits if_splits)

lemma run_analysis_sqlite:
  "run_analysis oc e sql SQLITE w =
     (Inr (final_rating (oc_cost oc) (structural_report (oc_sqlglot oc) (oc_cost oc) e)), w)"
  by (simp add: run_analysis_def analyze_def analyze_statements_def Let_def)

lemma structural_rating_allowed:
  "cr_allowed (final_rating cfg (structural_report sg cfg e)) \<longleftrightarrow> within_limits sg cfg e"
  by (simp add: final_rating_allowed structural_report_allowed)

lemma secure_rewritten_sqlite:
  "\<exists>s. secure_rewritten oc SQLITE schema applied f w = (Inr s, w)
     \<and> (sec_ok s \<longleftrightarrow> clean (oc_sqlglot oc) (oc_validator oc) schema f \<and> within_limits (oc_sqlglot oc) (oc_cost oc) f)
     \<and> (sec_ok s \<longrightarrow> sec_final_sql s = Some (normalize_sql (oc_sqlglot oc) f SQLITE False))"
  by (simp add: secure_rewritten_def Let_def validate_expression_valid give_def seq_def
      run_analysis_sqlite structural_rating_allowed not_secured_def)

lemma gate_sqlite:
  "\<exists>s. secure_candidate oc src SQLITE schema auth m w = (Inr s, w)
     \<and> (sec_ok s \<longleftrightarrow> (\<exists>f. gate_accepts oc src SQLITE schema auth m f))
     \<and> (\<forall>f. gate_accepts oc src SQLITE schema auth m f \<longrightarrow>
          sec_final_sql s = Some (normalize_sql (oc_sqlglot oc) f SQLITE False))"
proof (cases "validate (oc_sqlglot oc) (oc_validator oc) src SQLITE schema")
  case (Inl err)
  then have p: "parse_statements (oc_sqlglot oc) src SQLITE = Inl err"
    by (auto simp: validate_def Let_def split: sum.splits if_splits)
  then have "\<not> gate_accepts oc src SQLITE schema auth m f" for f by (simp add: gate_accepts_def)
  then show ?thesis
    using Inl parse_error_class [OF p] by (simp add: secure_candidate_def give_def not_secured_def)
next
  case (Inr out)
  note v = validate_valid_iff [of "oc_sqlglot oc" "oc_validator oc" src SQLITE schema, unfolded Inr]
  show ?thesis
  proof (cases "vo_is_valid out")
    case False
    with v have "\<not> gate_accepts oc src SQLITE schema auth m f" for f by (auto simp: gate_accepts_def)
    with False show ?thesis
      by (simp add: secure_candidate_def Inr give_def not_secured_after_def not_secured_def)
  next
    case True
    obtain e where e: "parse_statements (oc_sqlglot oc) src SQLITE = Inr [e]" "vo_expression out = Some e"
      "clean (oc_sqlglot oc) (oc_validator oc) schema e"
      and t: "vo_tables out = sorted_set (map qualified_name (referenced_infos (oc_sqlglot oc) schema e))"
      and k: "set (vo_columns out) = (\<Union>n\<in>set (sg_find_all (oc_sqlglot oc) e CColumn).
        column_refs (oc_sqlglot oc) (oc_validator oc) schema e n)"
      using validate_valid_fields [OF Inr True] by metis
    have nc: "\<not> has_comment_marker src" using v True e(1) by auto
    note perm = permitted_statement_enforce [OF t k, of auth]
    let ?r = "rewrite (oc_sqlglot oc) e schema (ac_tenant_id auth)"
    let ?f = "lo_expression (enforce_limit (oc_sqlglot oc) (fst ?r) m)"
    have acc: "gate_accepts oc src SQLITE schema auth m f \<longleftrightarrow> permitted_statement oc schema auth e \<and> f = ?f
        \<and> clean (oc_sqlglot oc) (oc_validator oc) schema ?f \<and> within_limits (oc_sqlglot oc) (oc_cost oc) ?f" for f
      using e(1,3) nc by (auto simp: gate_accepts_def)
    show ?thesis
    proof (cases "permitted_statement oc schema auth e")
      case False
      then show ?thesis
        using True e(2) perm acc
        by (simp add: secure_candidate_def Inr give_def not_secured_after_def not_secured_def)
    next
      case p: True
      then have "secure_candidate oc src SQLITE schema auth m w = secure_rewritten oc SQLITE schema (snd ?r) ?f w"
        using True e(2) perm by (simp add: secure_candidate_def Inr case_prod_beta)
      then show ?thesis using secure_rewritten_sqlite [of oc schema "snd ?r" ?f w] acc p by auto
    qed
  qed
qed


end
