(* ===== verification/OrchestratorLiveness.thy ===== *)
theory OrchestratorLiveness
  imports OrchestratorProps
begin

text \<open>
  Progress of the pipeline: when the provider keeps offering candidates the gate accepts, and
  introspection and date resolution succeed, a request that is not executed ends with a
  preview of an accepted statement.
\<close>

section \<open>An accepted candidate is answered\<close>

text \<open>Calls that always end with a value and keep \<open>P\<close>.\<close>

definition succeeds :: "('w \<Rightarrow> bool) \<Rightarrow> ('a, 'w) call \<Rightarrow> ('a \<Rightarrow> bool) \<Rightarrow> bool" where
  "succeeds P m Q \<longleftrightarrow> triple P m (\<lambda>a w. P w \<and> Q a) (\<lambda>_ _. False)"

lemma succeeds_iff:
  fixes m :: "('a, 'w) call"
  shows "succeeds P m Q \<longleftrightarrow> (\<forall>w. P w \<longrightarrow> P (snd (m w)) \<and> (\<exists>a. fst (m w) = Inr a \<and> Q a))"
proof -
  have "(case r of (Inl x, w') \<Rightarrow> False | (Inr a, w') \<Rightarrow> P w' \<and> Q a) \<longleftrightarrow> P (snd r) \<and> (\<exists>a. fst r = Inr a \<and> Q a)"
    for r :: "(failure + 'a) \<times> 'w"
    by (cases r; cases "fst r") auto
  then show ?thesis by (simp add: succeeds_def triple_def)
qed

lemma succeeds_seq: "succeeds P m Q \<Longrightarrow> (\<And>a. Q a \<Longrightarrow> succeeds P (k a) R) \<Longrightarrow> succeeds P (seq m k) R"
proof -
  assume m: "succeeds P m Q" and k: "\<And>a. Q a \<Longrightarrow> succeeds P (k a) R"
  have "triple (\<lambda>w. P w \<and> Q a) (k a) (\<lambda>b w. P w \<and> R b) (\<lambda>_ _. False)" for a
  proof (cases "Q a")
    case True
    from k [OF this] show ?thesis unfolding succeeds_def by (rule triple_conseq) simp_all
  qed (simp add: triple_def)
  with m show "succeeds P (seq m k) R" unfolding succeeds_def by (rule triple_seq)
qed

lemma succeeds_give: "Q a \<Longrightarrow> succeeds P (give a) Q"
  by (simp add: succeeds_iff give_def)

lemma succeeds_tick: "stable P \<Longrightarrow> succeeds P (tick oc) (\<lambda>_. True)"
  by (simp add: succeeds_iff tick_def ask_def perf_counter_def stable_def)

lemma succeeds_count: "stable P \<Longrightarrow> succeeds P (count name labels) (\<lambda>_. True)"
  by (simp add: succeeds_iff count_def change_def inc_def stable_def)

lemma succeeds_observe: "stable P \<Longrightarrow> succeeds P (observe name v) (\<lambda>_. True)"
  by (simp add: succeeds_iff observe_def change_def observe_metric_def stable_def)

lemma succeeds_bind: "stable P \<Longrightarrow> succeeds P (bind_correlation_id cid) (\<lambda>_. True)"
  by (simp add: succeeds_iff bind_correlation_id_def change_def stable_def)

lemma succeeds_new_correlation: "stable P \<Longrightarrow> succeeds P (new_correlation oc given) (\<lambda>_. True)"
  by (simp add: succeeds_iff new_correlation_def ask_def Let_def stable_def)

lemma succeeds_markers: "stable P \<Longrightarrow> succeeds P (note_markers request) (\<lambda>_. True)"
  by (simp add: note_markers_def succeeds_count succeeds_give)

lemma succeeds_authorize:
  "qr_tenant_id request \<in> {None, Some (ac_tenant_id auth)} \<Longrightarrow> succeeds P (authorize_tenant request auth) (\<lambda>_. True)"
  by (auto simp: authorize_tenant_def intro: succeeds_give)

lemma succeeds_resolve_date:
  "stable P \<Longrightarrow> (\<And>n. \<exists>r. resolve_relative_date question (oc_clock oc n) = Inr r) \<Longrightarrow>
   succeeds P (resolve_date oc question) (\<lambda>_. True)"
  unfolding succeeds_iff resolve_date_def
  by (auto simp: seq_def ask_def lift_result_def give_def stable_def split: sum.splits prod.splits)
    (metis Inl_Inr_False)+

lemma succeeds_provider:
  "(\<And>seen. \<exists>g. lp_generate (oc_provider oc) seen req = Inr g \<and> Q g) \<Longrightarrow>
   succeeds (cache_ok cat) (call_provider oc req) Q"
  by (simp add: succeeds_iff call_provider_def cache_ok_def)

lemma stable_cache_ok: "stable (cache_ok cat)"
  by (simp add: stable_def cache_ok_def)

lemma succeeds_get_schema:
  assumes "\<And>n. \<exists>raw. ct_introspect cat n = Inr raw"
  shows "succeeds (cache_ok cat) (get_schema cat force) (enriched_of cat)"
proof -
  have load: "\<exists>s. fst (load_schema cat w) = Inr s" for w
    using assms [of "cw_introspections w"] by (auto simp: load_schema_def Let_def)
  have "\<exists>s. fst (get_schema cat force w) = Inr s" for w
    using load by (auto simp: get_schema_def split: prod.splits option.splits)
  then show ?thesis
    unfolding succeeds_iff using serving.keeps serving.gives by meson
qed

text \<open>The renderings of what the gate accepts.\<close>

definition accepted_sql ::
    "('e, 'n) orchestrator \<Rightarrow> database_schema \<Rightarrow> auth_context \<Rightarrow> int \<Rightarrow> string \<Rightarrow> string \<Rightarrow> bool" where
  "accepted_sql oc schema auth m src sql \<longleftrightarrow>
     (\<exists>f. gate_accepts oc src SQLITE schema auth m f \<and> sql = normalize_sql (oc_sqlglot oc) f SQLITE False)"

lemma succeeds_gate:
  assumes "gate_accepts oc src SQLITE schema auth m f"
  shows "succeeds (cache_ok cat) (secure_candidate oc src SQLITE schema auth m)
    (\<lambda>s. sec_ok s \<and> (\<exists>sql. sec_final_sql s = Some sql \<and> accepted_sql oc schema auth m src sql))"
  unfolding succeeds_iff
proof (intro allI impI, goal_cases)
  case (1 w)
  then show ?case using gate_sqlite [of oc src schema auth m w] assms by (auto simp: accepted_sql_def)
qed

text \<open>The provider answers every request with a candidate that \<open>P\<close> holds of.\<close>

definition always_replies :: "llm_provider \<Rightarrow> (string \<Rightarrow> bool) \<Rightarrow> bool" where
  "always_replies lp P \<longleftrightarrow> (\<forall>seen req. \<exists>g. lp_generate lp seen req = Inr g \<and> P (gs_sql g))"

definition answered :: "('e, 'n) orchestrator \<Rightarrow> database_schema \<Rightarrow> auth_context \<Rightarrow> int \<Rightarrow> loop_state \<Rightarrow> bool" where
  "answered oc schema auth m st \<longleftrightarrow> ls_last st \<noteq> None \<and> sec_ok (ls_secured st)
     \<and> (\<exists>src sql. sec_final_sql (ls_secured st) = Some sql \<and> accepted_sql oc schema auth m src sql)"

lemma succeeds_attempt:
  assumes p: "always_replies (oc_provider oc) (\<lambda>src. \<exists>f. gate_accepts oc src SQLITE schema auth (gr_max_rows base) f)"
    and d: "gr_dialect base = SQLITE"
  shows "succeeds (cache_ok cat) (repair_attempt oc auth schema base a st)
    (\<lambda>r. \<not> fst r \<and> answered oc schema auth (gr_max_rows base) (snd r))"
  unfolding repair_attempt_def Let_def
proof (rule succeeds_seq [OF succeeds_tick [OF stable_cache_ok]], rule succeeds_seq [OF succeeds_provider],
    rule p [unfolded always_replies_def, rule_format], rule succeeds_seq [OF succeeds_tick [OF stable_cache_ok]],
    rule succeeds_seq [OF succeeds_observe [OF stable_cache_ok]], goal_cases)
  case (1 t0 g t1 u)
  then obtain f where f: "gate_accepts oc (gs_sql g) SQLITE schema auth (gr_max_rows base) f" by blast
  show ?case
    unfolding d
    by (rule succeeds_seq [OF succeeds_gate [OF f]]) (auto simp: answered_def intro!: succeeds_give)
qed

lemma succeeds_generate:
  assumes "always_replies (oc_provider oc) (\<lambda>src. \<exists>f. gate_accepts oc src SQLITE schema auth (gr_max_rows base) f)"
    and "gr_dialect base = SQLITE" and "0 \<le> oc_max_repair oc"
  shows "succeeds (cache_ok cat) (generate_with_repair oc auth schema base)
    (\<lambda>r. answered oc schema auth (gr_max_rows base) (snd r))"
proof -
  have "[0..<nat (oc_max_repair oc + 1)] = 0 # [1..<nat (oc_max_repair oc + 1)]"
    using assms(3) by (simp add: upt_conv_Cons)
  then show ?thesis
    unfolding generate_with_repair_def
    by (simp only: attempt_loop.simps seq_assoc)
      (rule succeeds_seq [OF succeeds_attempt [OF assms(1,2)]],
        auto simp: answered_def intro!: succeeds_give split: option.splits; blast)
qed

lemma succeeds_preview_response:
  assumes "enriched_of (oc_catalog oc) schema" and "accepted_sql oc schema auth m src sql"
  shows "succeeds (cache_ok cat) (preview_response oc pg g st sql)
    (\<lambda>r. rs_status r = RS_PREVIEW \<and> (\<exists>s src sql. rs_sql r = Some sql \<and> enriched_of (oc_catalog oc) s
       \<and> accepted_sql oc s auth m src sql))"
  unfolding preview_response_def success_base_def
  by (intro succeeds_seq [OF succeeds_tick [OF stable_cache_ok]]
      succeeds_seq [OF succeeds_count [OF stable_cache_ok]] succeeds_give conjI exI [of _ schema] exI [of _ src]
      exI [of _ sql]) (simp_all add: assms)

lemma succeeds_preview:
  assumes "answered oc schema auth m st" and "enriched_of (oc_catalog oc) schema" and "\<not> executes request exec"
  shows "succeeds (cache_ok cat) (finish oc request exec pg g st)
    (\<lambda>r. rs_status r = RS_PREVIEW \<and> (\<exists>s src sql. rs_sql r = Some sql \<and> enriched_of (oc_catalog oc) s
       \<and> accepted_sql oc s auth m src sql))"
proof -
  from assms(1) obtain src sql where sql: "sec_ok (ls_secured st)" "sec_final_sql (ls_secured st) = Some sql"
    "accepted_sql oc schema auth m src sql"
    by (auto simp: answered_def)
  then show ?thesis
    using assms(3)
    by (auto simp: finish_def executes_def intro!: succeeds_preview_response [OF assms(2) sql(3)])
qed

lemma succeeds_process:
  assumes tenant: "qr_tenant_id request \<in> {None, Some (ac_tenant_id auth)}"
    and clear: "detect (oc_ambiguity oc) (qr_question request) = None"
    and schema: "\<And>n. \<exists>raw. ct_introspect (oc_catalog oc) n = Inr raw"
    and date: "\<And>n. \<exists>r. resolve_relative_date (qr_question request) (oc_clock oc n) = Inr r"
    and d: "request_dialect oc (qr_dialect request) = SQLITE" and n: "0 \<le> oc_max_repair oc"
    and replies: "\<And>s. enriched_of (oc_catalog oc) s \<Longrightarrow> always_replies (oc_provider oc)
      (\<lambda>src. \<exists>f. gate_accepts oc src SQLITE s auth (effective_max_rows oc request) f)"
    and ex: "\<not> executes request exec"
  shows "succeeds (cache_ok (oc_catalog oc)) (process oc request auth exec)
    (\<lambda>r. rs_status r = RS_PREVIEW \<and> (\<exists>s src sql. rs_sql r = Some sql \<and> enriched_of (oc_catalog oc) s
       \<and> accepted_sql oc s auth (effective_max_rows oc request) src sql))"
proof -
  let ?m = "effective_max_rows oc request" and ?P = "cache_ok (oc_catalog oc)"
  show ?thesis
    unfolding process_def clear option.case answer_def Let_def d
  proof (rule succeeds_seq [OF succeeds_new_correlation [OF stable_cache_ok]],
      rule succeeds_seq [OF succeeds_bind [OF stable_cache_ok]],
      rule succeeds_seq [OF succeeds_tick [OF stable_cache_ok]],
      rule succeeds_seq [OF succeeds_authorize [OF tenant]],
      rule succeeds_seq [OF succeeds_count [OF stable_cache_ok]],
      rule succeeds_seq [OF succeeds_markers [OF stable_cache_ok]],
      rule succeeds_seq [OF succeeds_get_schema [OF schema]],
      rule succeeds_seq [OF succeeds_tick [OF stable_cache_ok]],
      rule succeeds_seq [OF succeeds_tick [OF stable_cache_ok]],
      rule succeeds_seq [OF succeeds_resolve_date [OF stable_cache_ok date]], goal_cases)
    case (1 cid u1 start u2 u3 u4 s t0 t1 date)
    then have s: "enriched_of (oc_catalog oc) s" by simp
    have base: "gr_max_rows (base_request oc request SQLITE ?m r date) = ?m"
      "gr_dialect (base_request oc request SQLITE ?m r date) = SQLITE" for r
      by (simp_all add: base_request_def)
    show ?case
    proof (rule succeeds_seq [OF succeeds_generate], goal_cases)
      case (4 r)
      then show ?case
        by (cases r) (simp add: base succeeds_preview [OF _ s ex])
    qed (use replies [OF s] n in \<open>simp_all add: base\<close>)
  qed
qed

end
