(* ===== verification/ExampleWorld.thy ===== *)
theory ExampleWorld
  imports ExampleAst Orchestrator
begin

text \<open>
  A concrete deployment on the catalog and the queries of \<open>ExampleAst\<close>: a semantic layer, a
  catalog, a provider that answers with fixed candidates, a database and an orchestrator. The
  witnesses apply the pipeline's properties to it.
\<close>

definition ex_semantic :: semantic_layer where
  "ex_semantic = \<lparr> sl_terms = [], sl_metrics = [], sl_column_annotations = [],
     sl_table_annotations =
       [\<lparr> ta_table = ''users'', ta_comment = None, ta_tenant_column = Some ''organization_id'', ta_aliases = [] \<rparr>,
        \<lparr> ta_table = ''orders'', ta_comment = None, ta_tenant_column = Some ''organization_id'', ta_aliases = [] \<rparr>],
     sl_date_policy = ''calendar'', sl_default_date_fields = [] \<rparr>"

definition ex_catalog :: catalog where
  "ex_catalog = \<lparr> ct_semantic = ex_semantic, ct_monotonic = (\<lambda>n. of_nat n), ct_introspect = (\<lambda>_. Inr ex_schema) \<rparr>"

definition ex_retriever :: lexical_retriever where
  "ex_retriever = \<lparr> lr_semantic = ex_semantic, lr_top_k = 6, lr_set_order = (\<lambda>xs. xs) \<rparr>"

definition ex_response :: "string \<Rightarrow> generation_response" where
  "ex_response sql = \<lparr> gs_sql = sql, gs_dialect = SQLITE, gs_explanation = ''totals'',
     gs_referenced_tables = [], gs_referenced_columns = [], gs_assumptions = [], gs_confidence = 9 / 10,
     gs_needs_clarification = False, gs_clarification = None, gs_prompt_version = ''v1'',
     gs_provider = ''fixed'', gs_model = ''m'',
     gs_usage = \<lparr> tu_prompt_tokens = 0, tu_completion_tokens = 0 \<rparr> \<rparr>"

text \<open>The candidates in turn; the last one is repeated.\<close>

definition ex_provider :: "string list \<Rightarrow> llm_provider" where
  "ex_provider candidates = \<lparr> lp_name = ''fixed'', lp_model = ''m'',
     lp_generate = (\<lambda>seen _. Inr (ex_response (candidates ! min (length seen) (length candidates - 1)))) \<rparr>"

definition ex_engine :: sql_engine where
  "ex_engine = \<lparr> en_connect = (\<lambda>_. None), en_run = (\<lambda>_ _. Inr ([''total''], [[DbInt 5], [DbInt 7]])) \<rparr>"

definition ex_now :: datetime where
  "ex_now = midnight 2024 5 15"

definition ex_orchestrator :: "sql_dialect \<Rightarrow> string list \<Rightarrow> (ex_tree, nd) orchestrator" where
  "ex_orchestrator d candidates =
     \<lparr> oc_default_dialect = d, oc_max_rows = 100, oc_max_repair = 2, oc_disclose = False,
       oc_catalog = ex_catalog, oc_semantic = ex_semantic, oc_ambiguity = ex_semantic,
       oc_retriever = ex_retriever, oc_provider = ex_provider candidates, oc_sqlglot = ex_sg,
       oc_validator = ex_validator, oc_policy = default_policy_config, oc_cost = default_policy_config,
       oc_engine = ex_engine, oc_explain = (\<lambda>_ _. Inr None), oc_timeout_ms = 5000,
       oc_perf = (\<lambda>n. of_nat n), oc_clock = (\<lambda>_. ex_now), oc_hex = (\<lambda>_. ''0a''),
       oc_py_str = (\<lambda>_. []) \<rparr>"

definition ex_world :: orchestrator_world where
  "ex_world = \<lparr> w_log = [], w_ticks = 0, cw_cache = new_cache 300, cw_metrics = empty_registry,
     cw_clock = 0, cw_introspections = 0, ow_correlation = ''-'', ow_ids = 0, ow_now = 0, ow_requests = [] \<rparr>"

definition ex_request :: query_request where
  "ex_request = \<lparr> qr_question = ''order totals'', qr_data_source = None, qr_dialect = None,
     qr_tenant_id = None, qr_conversation = None, qr_glossary_overrides = [], qr_max_rows = Some 1,
     qr_dry_run = False, qr_sql_only = False, qr_explain = False, qr_correlation_id = None \<rparr>"

lemma ex_enrich: "enrich ex_semantic ex_schema = ex_schema"
  by code_simp

lemma ex_enriched_of: "enriched_of ex_catalog s \<longleftrightarrow> s = ex_schema"
  by (simp add: enriched_of_def ex_catalog_def ex_enrich)

lemma ex_cache_ok: "cache_ok cat ex_world"
  by (simp add: cache_ok_def ex_world_def new_cache_def)

end
