(* ===== verification/OrchestratorProperties.thy ===== *)
theory OrchestratorProperties
  imports OrchestratorLiveness ExampleWorld
begin

text \<open>
  The properties of the whole pipeline. The witnesses apply them to the deployment of
  \<open>ExampleWorld\<close>.
\<close>

lemma ex_documented: "documented_sqlglot ex_sg ex_conds"
  by (simp add: documented_sqlglot_def ex_sg_def ex_where_documented ex_limit_keeps_where ex_limit_documented)

lemma ex_orchestrator_fields [simp]:
  "oc_sqlglot (ex_orchestrator d cs) = ex_sg" "oc_catalog (ex_orchestrator d cs) = ex_catalog"
  "oc_max_rows (ex_orchestrator d cs) = 100" "oc_max_repair (ex_orchestrator d cs) = 2"
  "oc_ambiguity (ex_orchestrator d cs) = ex_semantic" "oc_default_dialect (ex_orchestrator d cs) = d"
  "oc_provider (ex_orchestrator d cs) = ex_provider cs" "oc_validator (ex_orchestrator d cs) = ex_validator"
  "oc_policy (ex_orchestrator d cs) = default_policy_config" "oc_cost (ex_orchestrator d cs) = default_policy_config"
  "oc_clock (ex_orchestrator d cs) = (\<lambda>_. ex_now)" "oc_hex (ex_orchestrator d cs) = (\<lambda>_. ''0a'')"
  by (simp_all add: ex_orchestrator_def)

lemma ex_max_rows: "effective_max_rows (ex_orchestrator d cs) ex_request = 1"
  by (simp add: effective_max_rows_def ex_request_def)

section \<open>What reaches the database\<close>

lemma post_of_both: "(case r of (Inl x, w) \<Rightarrow> P w | (Inr a, w) \<Rightarrow> P w) \<Longrightarrow> P (snd r)"
  by (auto split: prod.splits sum.splits)

lemma sent_only_log: "sent_only cat S L w \<Longrightarrow> \<exists>ss. w_log w = L @ ss \<and> list_all S ss"
  by (simp add: sent_only_def)

lemma preview_sends: "may_send oc conds d auth m False s \<Longrightarrow>
    \<exists>schema f sql. s = explain_sql sql \<and> authorized oc conds d schema auth m f sql"
  by (auto simp: may_send_def)

lemma process_log:
  assumes "documented_sqlglot (oc_sqlglot oc) conds" and "effective_max_rows oc request < 10 ^ 12"
    and "cache_ok (oc_catalog oc) w" and "executes request exec \<longrightarrow> run"
  shows "\<exists>ss. w_log (snd (process oc request auth exec w)) = w_log w @ ss
     \<and> list_all (may_send oc conds (request_dialect oc (qr_dialect request)) auth (effective_max_rows oc request) run) ss"
  using assms
  by (intro sent_only_log [of "oc_catalog oc"] process_sent [unfolded keeps_iff, rule_format]) (simp_all add: executes_def sent_only_start)

lemma validate_sql_log:
  assumes "documented_sqlglot (oc_sqlglot oc) conds" and "oc_max_rows oc < 10 ^ 12" and "cache_ok (oc_catalog oc) w"
  shows "\<exists>ss. w_log (snd (validate_sql oc request auth w)) = w_log w @ ss
     \<and> list_all (may_send oc conds (request_dialect oc (vr_dialect request)) auth (oc_max_rows oc) False) ss"
  using assms
  by (intro sent_only_log [of "oc_catalog oc"] validate_sql_sent [unfolded keeps_iff, rule_format]) (simp_all add: sent_only_start)





section \<open>Requests the pipeline refuses\<close>

text \<open>
  A request that names a tenant other than the caller's is refused with an authorization
  error before anything happens: no statement is sent, the provider is not asked, no metric
  is counted and the catalog is not introspected.
\<close>

lemma other_tenant_refused:
  assumes "qr_tenant_id request = Some t" and "t \<noteq> ac_tenant_id auth"
  shows "fst (process oc request auth exec w) = Inl (Raised (raise_error AuthorizationError
       ''The requested tenant does not match the authenticated tenant.''
       [(''code'', JStr ''tenant_mismatch'')]))
     \<and> w_log (snd (process oc request auth exec w)) = w_log w
     \<and> ow_requests (snd (process oc request auth exec w)) = ow_requests w
     \<and> cw_metrics (snd (process oc request auth exec w)) = cw_metrics w
     \<and> cw_introspections (snd (process oc request auth exec w)) = cw_introspections w"
  using tenant_mismatch_refused [OF assms] by blast

lemma other_tenant_refused_witness:
  "w_log (snd (process (ex_orchestrator POSTGRES [''SELECT orders.total FROM orders''])
     (ex_request\<lparr> qr_tenant_id := Some ''7'' \<rparr>) ex_auth True ex_world)) = []"
  using other_tenant_refused [of "ex_request\<lparr> qr_tenant_id := Some ''7'' \<rparr>" "''7''" ex_auth
      "ex_orchestrator POSTGRES [''SELECT orders.total FROM orders'']" True ex_world]
  by (simp add: ex_auth_def ex_world_def)

text \<open>
  A candidate the gate rejects for good ends in the error class its issue codes call for,
  authorization before cost before safety before exhausted repair; the error is never marked
  retryable, its details are the issues and the number of repairs, and issues that could
  still have been repaired give exactly the exhausted-repair error.
\<close>

lemma rejection_error:
  "ee_class (failure_error s n) = rejection_class (set (map vi_code (sec_issues s)))
   \<and> \<not> ee_retryable (failure_error s n)
   \<and> ee_details (failure_error s n) =
       [(''issues'', JList (map dump_issue (sec_issues s))), (''repair_attempts'', JNum (of_nat n))]
   \<and> (is_repairable (sec_issues s) \<longrightarrow> ee_class (failure_error s n) = RepairExhaustedError)"
  using failure_error_class failure_error_not_retryable failure_error_details rejection_repairable by metis

lemma rejection_error_witness:
  "ee_class (failure_error (not_secured [issue ''unknown_column'' ''m'' None]) 2) = RepairExhaustedError"
proof -
  have "is_repairable (sec_issues (not_secured [issue ''unknown_column'' ''m'' None]))" by code_simp
  then show ?thesis using rejection_error by blast
qed

section \<open>Bounded generation\<close>

lemma process_asks_at_most:
  "asked_at_most (nat (oc_max_repair oc + 1)) (ow_requests w) (snd (process oc request auth exec w))"
  using process_asks [unfolded triple_def, rule_format, OF refl] by (rule post_of_both)

text \<open>
  C9: One request asks the provider at most \<open>max_repair_attempts + 1\<close> times, whatever it
  answers, and all these requests are equal but for the repair context: every repair attempt
  carries the same prompt as the first.
\<close>

theorem provider_asked_boundedly:
  "\<exists>base rs. ow_requests (snd (process oc request auth exec w)) =
       ow_requests w @ map (\<lambda>r. base\<lparr> gr_repair := r \<rparr>) rs
     \<and> length rs \<le> nat (oc_max_repair oc + 1)
     \<and> (\<forall>q\<in>set (map (\<lambda>r. base\<lparr> gr_repair := r \<rparr>) rs). gr_prompt q = gr_prompt base)"
  using process_asks_at_most [of oc w request auth exec]
  by (fastforce simp: asked_at_most_def asked_since_def)

lemma provider_asked_boundedly_witness:
  "length (ow_requests (snd (process (ex_orchestrator POSTGRES [''nonsense'']) ex_request ex_auth True ex_world))) \<le> 3"
  using provider_asked_boundedly [of "ex_orchestrator POSTGRES [''nonsense'']" ex_request ex_auth True ex_world]
  by (auto simp: ex_world_def)

section \<open>The gate's decision\<close>


lemma ex_secured:
  assumes "case secure_candidate oc src SQLITE ex_schema ex_auth m ex_world of (Inl _, _) \<Rightarrow> False | (Inr s, _) \<Rightarrow> P s"
  shows "\<exists>s w. secure_candidate oc src SQLITE ex_schema ex_auth m ex_world = (Inr s, w) \<and> P s"
  using assms by (auto split: prod.splits sum.splits)

lemma ex_accepted:
  "case secure_candidate (ex_orchestrator SQLITE [''SELECT orders.total FROM orders'']) ''SELECT orders.total FROM orders''
      SQLITE ex_schema ex_auth 1 ex_world of (Inl _, _) \<Rightarrow> False | (Inr s, _) \<Rightarrow> sec_ok s"
  by code_simp


lemma ex_accepts:
  "\<exists>f. gate_accepts (ex_orchestrator SQLITE [''SELECT orders.total FROM orders'']) ''SELECT orders.total FROM orders''
     SQLITE ex_schema ex_auth 1 f"
  using ex_secured [OF ex_accepted] gate_sqlite [of "ex_orchestrator SQLITE [''SELECT orders.total FROM orders'']"
      "''SELECT orders.total FROM orders''" ex_schema ex_auth 1 ex_world]
  by auto

lemma ex_clear: "detect ex_semantic ''order totals'' = None"
  unfolding detect_None by code_simp

lemma ex_no_date: "\<exists>r. resolve_relative_date ''order totals'' ex_now = Inr r"
proof -
  have "case resolve_relative_date ''order totals'' ex_now of Inl _ \<Rightarrow> False | Inr _ \<Rightarrow> True" by code_simp
  then show ?thesis by (auto split: sum.splits)
qed

section \<open>Responses\<close>

lemma post_of_triple:
  assumes "triple (\<lambda>_. True) m (\<lambda>a _. P a) (\<lambda>_ _. True)" and "m w = (Inr a, w')"
  shows "P a"
  using assms(1) [unfolded triple_def, rule_format, OF TrueI, of w] assms(2) by simp

text \<open>
  C14: A response has the shape of its status: a success only when the request was to be
  executed, with validated SQL in the request's dialect and as many rows as it counts, at
  most the effective row cap; a preview with validated SQL and no rows; a clarification with
  the detector's question and no SQL. No other status is ever returned.
\<close>

theorem responses_well_formed:
  assumes "process oc request auth exec w = (Inr r, w')" and "0 \<le> effective_max_rows oc request"
  shows "(rs_status r = RS_SUCCESS \<and> executes request exec \<and> validated r
            \<and> rs_row_count r = Some (length (rs_rows r))
            \<and> int (length (rs_rows r)) \<le> effective_max_rows oc request
            \<and> rs_dialect r = Some (request_dialect oc (qr_dialect request)))
     \<or> (rs_status r = RS_PREVIEW \<and> \<not> executes request exec \<and> validated r \<and> rs_rows r = []
            \<and> rs_row_count r = None \<and> rs_execution r = None)
     \<or> (rs_status r = RS_CLARIFICATION_REQUIRED \<and> rs_sql r = None \<and> rs_rows r = []
            \<and> rs_clarification r \<noteq> None
            \<and> rs_clarification r = detect (oc_ambiguity oc) (qr_question request))"
  using post_of_triple [OF process_response [OF assms(2)] assms(1)]
  by (auto simp: response_ok_def split: response_status.splits)

lemma clarified:
  assumes "qr_tenant_id request \<in> {None, Some (ac_tenant_id auth)}"
    and "detect (oc_ambiguity oc) (qr_question request) = Some c"
  shows "\<exists>r w'. process oc request auth exec w = (Inr r, w')
     \<and> rs_status r = RS_CLARIFICATION_REQUIRED \<and> rs_clarification r = Some c
     \<and> w_log w' = w_log w \<and> ow_requests w' = ow_requests w \<and> cw_introspections w' = cw_introspections w"
proof -
  from assms(1) have a: "authorize_tenant request auth = give ()"
    by (auto simp: authorize_tenant_def)
  show ?thesis
    unfolding process_def a
    by (simp add: assms(2) seq_def new_correlation_def ask_def bind_correlation_id_def change_def tick_def
      perf_counter_def note_markers_def count_def clarify_def give_def Let_def inc_def)
qed

lemma ex_ambiguous:
  "expected_category ex_semantic (lower ''top users'') = Some AMB_MEASURE_UNSPECIFIED"
  by code_simp

lemma responses_well_formed_witness:
  "\<exists>r w. process (ex_orchestrator SQLITE []) (ex_request\<lparr> qr_question := ''top users'' \<rparr>) ex_auth True ex_world
       = (Inr r, w) \<and> rs_clarification r \<noteq> None \<and> rs_sql r = None"
proof -
  let ?oc = "ex_orchestrator SQLITE []" and ?req = "ex_request\<lparr> qr_question := ''top users'' \<rparr>"
  obtain c where "detect (oc_ambiguity ?oc) (qr_question ?req) = Some c"
    using ex_ambiguous detect_category [of ex_semantic "''top users''"] by auto
  moreover have "qr_tenant_id ?req \<in> {None, Some (ac_tenant_id ex_auth)}" by (simp add: ex_request_def)
  ultimately obtain r w where r: "process ?oc ?req ex_auth True ex_world = (Inr r, w)"
    "rs_status r = RS_CLARIFICATION_REQUIRED" "rs_clarification r = Some c"
    using clarified [of ?req ex_auth ?oc] by blast
  have "0 \<le> effective_max_rows ?oc ?req" by (simp add: effective_max_rows_def ex_request_def)
  from responses_well_formed [OF r(1) this] r(2) have "rs_sql r = None" by auto
  with r show ?thesis by (metis option.distinct(1))
qed

text \<open>
  A question the ambiguity rules object to is answered with the clarification alone,
  before the schema is read, the provider is asked or the database is reached; which question
  is asked is fixed by the priority of the rules: an undefined term, then an undefined
  metric, then an unspecified measure, then an unclear entity.
\<close>

lemma ambiguous_asks_nobody:
  assumes "qr_tenant_id request \<in> {None, Some (ac_tenant_id auth)}"
    and "expected_category (oc_ambiguity oc) (lower (qr_question request)) = Some k"
  shows "\<exists>r c w'. process oc request auth exec w = (Inr r, w')
     \<and> rs_status r = RS_CLARIFICATION_REQUIRED \<and> rs_clarification r = Some c \<and> cl_category c = k
     \<and> w_log w' = w_log w \<and> ow_requests w' = ow_requests w \<and> cw_introspections w' = cw_introspections w"
proof -
  from assms(2) detect_category [of "oc_ambiguity oc" "qr_question request"]
  obtain c where c: "detect (oc_ambiguity oc) (qr_question request) = Some c" "cl_category c = k" by auto
  from clarified [where oc = oc, OF assms(1) c(1)] c(2) show ?thesis by blast
qed

lemma ambiguous_asks_nobody_witness:
  "\<exists>r w. process (ex_orchestrator POSTGRES []) (ex_request\<lparr> qr_question := ''top users'' \<rparr>) ex_auth True ex_world
       = (Inr r, w) \<and> w_log w = []"
  using ambiguous_asks_nobody [of "ex_request\<lparr> qr_question := ''top users'' \<rparr>" ex_auth "ex_orchestrator POSTGRES []"
      AMB_MEASURE_UNSPECIFIED True ex_world] ex_ambiguous
  by (auto simp: ex_request_def ex_world_def)

section \<open>Progress\<close>


text \<open>The example request meets what a preview needs.\<close>

lemma ex_request_ready:
  fixes oc defines "oc \<equiv> ex_orchestrator SQLITE [''SELECT orders.total FROM orders'']"
  shows "qr_tenant_id ex_request \<in> {None, Some (ac_tenant_id ex_auth)}"
    and "detect (oc_ambiguity oc) (qr_question ex_request) = None"
    and "\<forall>n. \<exists>raw. ct_introspect (oc_catalog oc) n = Inr raw"
    and "\<forall>n. \<exists>r. resolve_relative_date (qr_question ex_request) (oc_clock oc n) = Inr r"
    and "request_dialect oc (qr_dialect ex_request) = SQLITE" and "0 \<le> oc_max_repair oc"
    and "\<forall>s. enriched_of (oc_catalog oc) s \<longrightarrow> always_replies (oc_provider oc)
      (\<lambda>src. \<exists>f. gate_accepts oc src SQLITE s ex_auth (effective_max_rows oc ex_request) f)"
    and "\<not> executes ex_request False" and "cache_ok (oc_catalog oc) ex_world"
  unfolding oc_def
  using ex_clear ex_no_date ex_accepts ex_cache_ok
  by (simp_all add: ex_enriched_of ex_max_rows always_replies_def ex_provider_def ex_response_def)
    (simp_all add: ex_request_def executes_def request_dialect_def ex_catalog_def)


end
