(* ===== verification/SchemaProperties.thy ===== *)
theory SchemaProperties
  imports ExampleWorld
begin

text \<open>
  The properties of the catalog, of the schema model and of retrieval: what a served schema
  is and when it is read again, which columns a summary shows, which tables the language
  model is shown and how many, and that the join search ends with a shortest path.
\<close>

section \<open>The catalog\<close>

text \<open>
  C27: In every state the catalog reaches, a schema it hands out, from the cache or freshly
  read, is the enrichment of something that was introspected: with a sound cache no
  unannotated schema is ever served, and a tenant column it names exists on its table.
\<close>

theorem served_schemas_enriched:
  assumes "(catalog_step cat)\<^sup>*\<^sup>* w w'" and "cache_ok cat w" and "fst (get_schema cat force w') = Inr s"
  shows "\<exists>n raw. ct_introspect cat n = Inr raw \<and> s = enrich (ct_semantic cat) raw
     \<and> (\<forall>t\<in>set (db_tables s). \<forall>col. tbl_tenant_column t = Some col \<longrightarrow> has_column t col)"
proof -
  have "enriched_of cat s"
    using serving.gives [OF catalog_reach_ok [OF assms(1,2)]] assms(3) by blast
  then obtain n raw where r: "ct_introspect cat n = Inr raw" "s = enrich (ct_semantic cat) raw"
    by (auto simp: enriched_of_def)
  moreover have "\<forall>t\<in>set (db_tables s). \<forall>col. tbl_tenant_column t = Some col \<longrightarrow> has_column t col"
    unfolding r(2) enrich_fields set_map using enrich_tenant_exists by blast
  ultimately show ?thesis by blast
qed

lemma ex_get_schema: "fst (get_schema ex_catalog False ex_world) = Inr ex_schema"
proof -
  have "ct_introspect ex_catalog n = Inr ex_schema" "ct_semantic ex_catalog = ex_semantic" for n
    by (simp_all add: ex_catalog_def)
  then show ?thesis
    by (simp add: get_schema_def try_cache_def cache_get_def ex_world_def new_cache_def load_schema_def Let_def ex_enrich)
qed

lemma served_schemas_enriched_witness:
  "\<exists>raw. ex_schema = enrich ex_semantic raw"
  using served_schemas_enriched [OF rtranclp.rtrancl_refl ex_cache_ok ex_get_schema]
  by (auto simp: ex_catalog_def)

text \<open>
  C35: Schema drift is never counted: whatever the database does between them, no sequence of
  cached accesses and refreshes raises \<open>schema_drift_total\<close>, because both drop the cached
  schema before the versions are compared. Only a forced access that keeps it would.
\<close>

theorem drift_never_counted:
  assumes "(catalog_step cat)\<^sup>*\<^sup>* w w'"
  shows "drift_count w' = drift_count w
     \<and> (\<forall>s ts raw. sch_entry (cw_cache w') = Some (s, ts) \<and> ct_introspect cat (cw_introspections w') = Inr raw
          \<and> db_version raw \<noteq> db_version s \<longrightarrow> drift_count (snd (get_schema cat True w')) = drift_count w' + 1)"
  using catalog_reach_drift [OF assms] forced_drift by blast

lemma drift_never_counted_witness:
  "drift_count (snd (refresh ex_catalog (snd (get_schema ex_catalog False ex_world)))) = 0"
proof -
  have "(catalog_step ex_catalog)\<^sup>*\<^sup>* ex_world (snd (refresh ex_catalog (snd (get_schema ex_catalog False ex_world))))"
    by (rule rtranclp.rtrancl_into_rtrancl [OF r_into_rtranclp]) (rule catalog_step.intros)+
  moreover have "drift_count ex_world = 0" by code_simp
  ultimately show ?thesis using drift_never_counted by metis
qed

text \<open>
  The cache's time to live: an access reads the database again exactly when nothing is
  cached or the entry is older than the time to live; otherwise it returns the cached schema
  and leaves the entry as it is.
\<close>

lemma cache_rereads_exactly:
  "(if (case sch_entry (cw_cache w) of None \<Rightarrow> True
        | Some (s, ts) \<Rightarrow> expired (sch_ttl (cw_cache w)) (ct_monotonic cat (cw_clock w)) ts)
    then cw_introspections (snd (get_schema cat False w)) = cw_introspections w + 1
    else cw_introspections (snd (get_schema cat False w)) = cw_introspections w
       \<and> sch_entry (cw_cache (snd (get_schema cat False w))) = sch_entry (cw_cache w)
       \<and> (\<exists>ts. Some (projr (fst (get_schema cat False w)), ts) = sch_entry (cw_cache w)))"
  by (auto simp: get_schema_def try_cache_def cache_get_def load_schema_def Let_def split: option.splits sum.splits)

text \<open>
  Without a visibility of the caller's, a schema summary never shows a column classified
  as a secret or as highly restricted, and every column it shows is one of the catalog's.
\<close>

lemma summary_hides_secrets:
  assumes "s \<in> set (ss_tables (summary schema None))" and "c \<in> set (sts_columns s)"
  shows "\<exists>t\<in>set (db_tables schema). \<exists>ci\<in>set (tbl_columns t). c = summarize_column ci
     \<and> col_classification ci \<notin> {DC_AUTH_SECRET, DC_HIGHLY_RESTRICTED}"
  using summary_hides [OF assms] by (auto simp: always_secret_def)

lemma summary_hides_secrets_witness:
  "''password_hash'' \<notin> set (map sc_name (sts_columns (hd (ss_tables (summary ex_schema None)))))"
proof
  assume "''password_hash'' \<in> set (map sc_name (sts_columns (hd (ss_tables (summary ex_schema None)))))"
  then obtain c where c: "c \<in> set (sts_columns (hd (ss_tables (summary ex_schema None))))" "sc_name c = ''password_hash''"
    by auto
  have "hd (ss_tables (summary ex_schema None)) \<in> set (ss_tables (summary ex_schema None))" by code_simp
  from summary_hides_secrets [OF this c(1)] obtain t ci where
    "t \<in> set (db_tables ex_schema)" "ci \<in> set (tbl_columns t)" "c = summarize_column ci"
    "col_classification ci \<notin> {DC_AUTH_SECRET, DC_HIGHLY_RESTRICTED}" by blast
  with c(2) show False
    by (auto simp: ex_schema_def ex_users_def ex_orders_def ex_table_def ex_column_def summarize_column_def)
qed

section \<open>The schema model\<close>

text \<open>
  C40: The neighbours of a table within \<open>hops\<close> joins are exactly the other tables reached by
  at most that many edges of the join graph, which is undirected.
\<close>

theorem neighbors_within_hops:
  "neighbors s key hops =
     {v. v \<noteq> norm_ident key \<and> (\<exists>k. int k \<le> max 0 hops \<and> (norm_ident key, v) \<in> edges (join_graph s) ^^ k)}
   \<and> sym (edges (join_graph s))"
  using neighbors_relpow sym_join_graph by blast

text \<open>
  C23: The breadth-first join search ends for every graph, raises no error, returns the empty
  path exactly when the target is unreachable, and otherwise a path of the graph from source
  to target of least length.
\<close>

theorem join_search_shortest:
  "\<exists>p. shortest_path g src dst = Some (Inr p)
     \<and> (p = [] \<longleftrightarrow> (src, dst) \<notin> (edges g)\<^sup>*)
     \<and> (p = [] \<or> hd p = src \<and> last p = dst \<and> path_in (edges g) p
          \<and> {k. (src, dst) \<in> edges g ^^ k} \<subseteq> {length p - 1..})"
proof -
  obtain p where p: "shortest_path g src dst = Some (Inr p)" "p = [] \<longleftrightarrow> (src, dst) \<notin> (edges g)\<^sup>*"
    "p \<noteq> [] \<longrightarrow> hd p = src \<and> last p = dst \<and> path_in (edges g) p
       \<and> (\<forall>k. (src, dst) \<in> edges g ^^ k \<longrightarrow> length p \<le> k + 1)"
    using shortest_path_spec by blast
  then have "p \<noteq> [] \<Longrightarrow> {k. (src, dst) \<in> edges g ^^ k} \<subseteq> {length p - 1..}" by (auto simp: le_diff_conv)
  with p show ?thesis by blast
qed

text \<open>
  The schema text put into a prompt is at most the budget plus the truncation marker, and
  a comment in it is one line of bounded length: every space character of it is a blank.
\<close>

lemma prompt_schema_bounded:
  "length (serialize_for_prompt s m) \<le> m + length truncation_marker
   \<and> length (flatten_comment t) \<le> max_comment_len + length ellipsis
   \<and> {c \<in> set (flatten_comment t). is_space c} \<subseteq> {CHR '' ''}"
  using serialize_bounded flatten_comment_bounded flatten_comment_one_line by auto

section \<open>Retrieval\<close>

text \<open>
  C26: The tables retrieved for a question are closed under joins: whenever two of the seed
  tables are connected in the catalog, all the tables of some shortest join path between them
  are in the subset the language model is shown.
\<close>

theorem retrieval_closes_joins:
  assumes "\<forall>xs. set (lr_set_order r xs) = set xs" and "keys_resolve schema"
    and "a \<in> set (retrieval_seeds r question schema)" and "b \<in> set (retrieval_seeds r question schema)"
    and "(a, b) \<in> (edges (join_graph schema))\<^sup>*"
  shows "\<exists>p. p \<noteq> [] \<and> hd p = a \<and> last p = b \<and> path_in (edges (join_graph schema)) p
     \<and> (\<forall>k. (a, b) \<in> edges (join_graph schema) ^^ k \<longrightarrow> length p \<le> k + 1)
     \<and> (\<forall>t\<in>set (db_tables schema). tbl_key t \<in> set p \<longrightarrow>
          t \<in> set (db_tables (rr_schema_subset (retrieve r question schema))))"
  using assms by (intro retrieve_joinable) simp_all

lemma retrieval_closes_joins_witness:
  "ex_orders \<in> set (db_tables (rr_schema_subset (retrieve ex_retriever ''orders'' ex_schema)))"
proof -
  have seed: "''orders'' \<in> set (retrieval_seeds ex_retriever ''orders'' ex_schema)" by code_simp
  have keys: "keys_resolve ex_schema" by code_simp
  have order: "\<forall>xs. set (lr_set_order ex_retriever xs) = set xs" by (simp add: ex_retriever_def)
  from retrieval_closes_joins [OF order keys seed seed rtrancl_refl]
  obtain p where p: "p \<noteq> []" "hd p = ''orders''"
    "\<forall>t\<in>set (db_tables ex_schema). tbl_key t \<in> set p \<longrightarrow>
       t \<in> set (db_tables (rr_schema_subset (retrieve ex_retriever ''orders'' ex_schema)))"
    by blast
  moreover have "tbl_key ex_orders = ''orders''" "ex_orders \<in> set (db_tables ex_schema)" by code_simp+
  ultimately show ?thesis by (metis list.set_sel(1))
qed

lemma set_ranked_keys [simp]: "set (ranked_keys scores) = fst ` set scores"
  by (simp add: ranked_keys_def)

lemma seeds_of_ranked:
  assumes "0 \<le> k" and "scores \<noteq> []" and "a \<in> set (fst (choose_seeds k schema (scores, reasons)))"
  shows "fst (choose_seeds k schema (scores, reasons)) = take (nat k) (ranked_keys scores)"
proof (cases "k = 0")
  case True
  then show ?thesis using assms(3) by (simp add: choose_seeds_def Let_def slice_to_def split: if_splits)
next
  case False
  then have "take (nat k) (ranked_keys scores) \<noteq> []"
    using assms(1,2) set_ranked_keys [of scores] by (auto simp del: set_ranked_keys)
  then show ?thesis using assms(1) by (simp add: choose_seeds_def slice_to_def)
qed

text \<open>
  At most \<open>top_k\<close> seed tables are chosen, and they are the best: no table that scored but
  was not chosen has a higher score than a chosen one.
\<close>

lemma seeds_are_the_best:
  assumes "0 \<le> k" and "distinct (map fst scores)"
    and "a \<in> set (fst (choose_seeds k schema (scores, reasons)))"
    and "b \<in> fst ` set scores - set (fst (choose_seeds k schema (scores, reasons)))"
  shows "dict_get 0 scores b \<le> dict_get 0 scores a
     \<and> int (length (fst (choose_seeds k schema (scores, reasons)))) \<le> k"
proof -
  let ?r = "ranked_keys scores" and ?n = "nat k"
  have s: "fst (choose_seeds k schema (scores, reasons)) = take ?n ?r"
    using assms by (intro seeds_of_ranked) auto
  from assms(3) obtain i where i: "i < length ?r" "i < ?n" "?r ! i = a"
    unfolding s in_set_conv_nth by auto
  from assms(4) obtain j where j: "j < length ?r" "?r ! j = b"
    by (metis DiffD1 in_set_conv_nth set_ranked_keys)
  have "\<not> j < ?n"
  proof
    assume "j < ?n"
    then have "b \<in> set (take ?n ?r)" using j by (metis in_set_conv_nth length_take min_less_iff_conj nth_take)
    then show False using assms(4) s by simp
  qed
  then have "dict_get 0 scores (?r ! j) \<le> dict_get 0 scores (?r ! i)"
    using ranked_sorted [OF assms(2), of i j] i j by simp
  then show ?thesis using i j seeds_bounded [OF assms(1)] by simp
qed

lemma seeds_are_the_best_witness:
  "dict_get 0 [(''users'', 1), (''orders'', 3)] ''users'' \<le> (dict_get 0 [(''users'', 1), (''orders'', 3)] ''orders'' :: rat)"
proof -
  let ?sc = "[(''users'', 1), (''orders'', 3)] :: scores"
  have "fst (choose_seeds 1 ex_schema (?sc, [])) = [''orders'']" by code_simp
  then show ?thesis
    using seeds_are_the_best [of 1 ?sc "''orders''" ex_schema "[]" "''users''"] by simp
qed

end
