(* ===== verification/DateProperties.thy ===== *)
theory DateProperties
  imports Dates
begin

text \<open>
  The properties of relative-date resolution: the windows are valid and not reversed, and the
  calendar windows are the ones their phrases name.
\<close>

definition mid_quarter :: datetime where
  "mid_quarter = (midnight 2024 5 15)\<lparr> dt_hour := 9 \<rparr>"

lemma mid_quarter_valid: "valid_datetime mid_quarter"
  by code_simp

lemma resolved:
  assumes "case resolve_relative_date q now of Inr (Some w) \<Rightarrow> P w | _ \<Rightarrow> False"
  shows "\<exists>w. resolve_relative_date q now = Inr (Some w) \<and> P w"
  using assms by (auto split: sum.splits option.splits)

text \<open>
  Whatever phrase a question holds, a resolved window has valid calendar dates at both
  ends and does not end before it starts.
\<close>

lemma windows_well_formed:
  assumes "valid_datetime now" and "resolve_relative_date question now = Inr (Some w)"
  shows "valid_datetime (rd_start w) \<and> valid_datetime (rd_end w) \<and> instant (rd_start w) \<le> instant (rd_end w)"
  using resolve_good [OF assms] by (simp add: good_window_def)

lemma windows_well_formed_witness:
  "\<exists>w. resolve_relative_date ''last month'' mid_quarter = Inr (Some w) \<and> instant (rd_start w) \<le> instant (rd_end w)"
proof -
  have "case resolve_relative_date ''last month'' mid_quarter of Inr (Some w) \<Rightarrow> True | _ \<Rightarrow> False" by code_simp
  from resolved [OF this] windows_well_formed [OF mid_quarter_valid] show ?thesis by blast
qed

lemma month_valid: "valid_datetime now \<Longrightarrow> 1 \<le> dt_month now \<and> dt_month now \<le> 12 \<and> dt_year now \<le> 9999"
  by (simp add: valid_datetime_def valid_date_def)

lemma first_of_month_valid: "1 \<le> y \<Longrightarrow> y \<le> 9999 \<Longrightarrow> 1 \<le> m \<Longrightarrow> m \<le> 12 \<Longrightarrow> valid_date y m 1"
  using days_in_month_pos [of y m] by (simp add: valid_date_def)

lemma month_before_exists:
  assumes "valid_datetime now" and "1 < dt_year now" and "1 \<le> m" and "m \<le> 12" and "0 \<le> k" and "k \<le> 3"
    and "add_month (dt_year now) m (- k) = (y', m')"
  shows "valid_date y' m' 1 \<and> valid_date (dt_year now) m 1"
  using add_month_back [OF assms(1,5,6,7,3,4)] month_valid [OF assms(1)] assms(2-4)
  by (auto intro!: first_of_month_valid)

lemma last_month_exists:
  assumes "valid_datetime now" and "1 < dt_year now"
  shows "\<exists>w. last_month_range now = Inr w"
proof -
  obtain y m where am: "add_month (dt_year now) (dt_month now) (- 1) = (y, m)" by fastforce
  from month_before_exists [OF assms _ _ _ _ am] month_valid [OF assms(1)] show ?thesis
    by (simp add: last_month_range_def am month_start_def mk_date_def)
qed

lemma last_quarter_exists:
  assumes "valid_datetime now" and "1 < dt_year now"
  shows "\<exists>w. last_quarter_range now = Inr w"
proof -
  let ?q = "quarter_of (dt_month now) * 3 + 1"
  obtain y m where am: "add_month (dt_year now) ?q (- 3) = (y, m)" by fastforce
  have "1 \<le> ?q" "?q \<le> 12" using month_valid [OF assms(1)] unfolding quarter_of_def by presburger+
  from month_before_exists [OF assms this _ _ am] am show ?thesis
    by (simp add: last_quarter_range_def mk_date_def)
qed

text \<open>
  After year 1, the last quarter exists and is the calendar quarter before the one that
  holds the reference time: three whole months from a quarter's first day, ending with the
  first day of the current quarter, across the turn of the year too. The last month is the
  calendar month before.
\<close>

lemma last_quarter_and_month:
  assumes "valid_datetime now" and "1 < dt_year now"
  shows "(\<exists>w y m m'. last_quarter_range now = Inr w
         \<and> rd_start w = midnight y m 1 \<and> rd_end w = midnight (dt_year now) m' 1
         \<and> m \<in> {1, 4, 7, 10} \<and> m' \<in> {1, 4, 7, 10} \<and> dt_year now * 12 + m' = y * 12 + m + 3
         \<and> m' \<le> dt_month now \<and> dt_month now < m' + 3)
     \<and> (\<exists>w y m. last_month_range now = Inr w
         \<and> rd_start w = midnight y m 1 \<and> rd_end w = midnight (dt_year now) (dt_month now) 1
         \<and> dt_year now * 12 + dt_month now = y * 12 + m + 1)"
proof -
  obtain w v where w: "last_quarter_range now = Inr w" "last_month_range now = Inr v"
    using last_quarter_exists last_month_exists assms by blast
  show ?thesis
    using last_quarter_window [OF assms(1) w(1)] last_month_window [OF assms(1) w(2)] w by metis
qed

lemma last_quarter_and_month_witness:
  "\<exists>w y m. last_quarter_range mid_quarter = Inr w \<and> rd_start w = midnight y m 1 \<and> y * 12 + m + 3 = 2024 * 12 + 4"
proof -
  have y: "1 < dt_year mid_quarter" "dt_year mid_quarter = 2024" "dt_month mid_quarter = 5" by code_simp+
  from last_quarter_and_month [OF mid_quarter_valid y(1)] obtain w y m m' where
    "last_quarter_range mid_quarter = Inr w" "rd_start w = midnight y m 1" "m' \<in> {1, 4, 7, 10}"
    "2024 * 12 + m' = y * 12 + m + 3" "m' \<le> 5" "5 < m' + 3"
    unfolding y by blast
  moreover from this have "m' = 4" by auto
  ultimately show ?thesis by force
qed

text \<open>
  The last week is the whole week before the current one: seven days from a Monday at
  midnight to the Monday on or before the reference date.
\<close>

lemma last_week_is_monday_to_monday:
  assumes "valid_datetime now" and "last_week_range now = Inr w"
  shows "weekday (rd_start w) = 0 \<and> weekday (rd_end w) = 0
     \<and> time_of_day (rd_start w) = 0 \<and> time_of_day (rd_end w) = 0
     \<and> ordinal (date_of (rd_end w)) = ordinal (date_of (rd_start w)) + 7
     \<and> ordinal (date_of now) - 7 < ordinal (date_of (rd_end w))
     \<and> ordinal (date_of (rd_end w)) \<le> ordinal (date_of now)"
proof -
  note l = last_week_window [OF assms]
  then have "(ordinal (date_of (rd_end w)) + 6) mod 7 = (ordinal (date_of (rd_start w)) + 6) mod 7"
    by (simp add: mod_simps) presburger
  then have "weekday (rd_end w) = weekday (rd_start w)" by (simp add: weekday_def)
  with l show ?thesis by linarith
qed

lemma last_week_is_monday_to_monday_witness:
  "\<exists>w. last_week_range mid_quarter = Inr w \<and> rd_start w = midnight 2024 5 6 \<and> weekday (rd_end w) = 0"
proof -
  have "case last_week_range mid_quarter of Inl _ \<Rightarrow> False | Inr w \<Rightarrow> rd_start w = midnight 2024 5 6" by code_simp
  then obtain w where w: "last_week_range mid_quarter = Inr w" "rd_start w = midnight 2024 5 6"
    by (auto split: sum.splits)
  with last_week_is_monday_to_monday [OF mid_quarter_valid w(1)] show ?thesis by blast
qed

end
