(* ===== verification/ServiceProperties.thy ===== *)
theory ServiceProperties
  imports ExampleWorld
begin

text \<open>
  The properties of the executor, the repair planner and the supporting services: redaction,
  correlation identifiers, prompt sanitizing, the result explainer and the metrics.
\<close>

section \<open>Execution\<close>


text \<open>
  A result holds the first \<open>max_rows\<close> rows the database returned, converted cell by cell,
  counts exactly the rows it holds, and is marked truncated exactly when there were more.
\<close>

lemma results_capped:
  assumes "fst (execute eng d t clock sql m w) = Inr r" and "0 \<le> m"
  shows "\<exists>columns result. fst (db_session eng d t sql (snd (perf_counter clock w))) = Inr (columns, result)
     \<and> er_columns r = columns \<and> er_rows r = map (map to_jsonable) (take (nat m) result)
     \<and> er_row_count r = length (er_rows r) \<and> (er_truncated r \<longleftrightarrow> int (length result) > m)"
  using execute_result [OF assms] by metis

lemma results_capped_witness:
  "\<exists>r. fst (execute ex_engine POSTGRES 5000 (\<lambda>n. of_nat n) ''q'' 1 ex_world) = Inr r \<and> er_truncated r"
proof -
  have run: "fst (execute ex_engine POSTGRES 5000 (\<lambda>n. of_nat n) ''q'' 1 ex_world) = Inr r \<Longrightarrow>
      fst (db_session ex_engine POSTGRES 5000 ''q'' (snd (perf_counter (\<lambda>n. of_nat n) ex_world)))
        = Inr ([''total''], [[DbInt 5], [DbInt 7]])" for r
    by (simp add: db_session_def ex_engine_def session_guards_def)
  have "\<exists>r. fst (execute ex_engine POSTGRES 5000 (\<lambda>n. of_nat n) ''q'' 1 ex_world) = Inr r"
    by (simp add: execute_def db_session_def ex_engine_def session_guards_def perf_counter_def Let_def)
  then obtain r where r: "fst (execute ex_engine POSTGRES 5000 (\<lambda>n. of_nat n) ''q'' 1 ex_world) = Inr r" by blast
  from results_capped [OF r] run [OF r] r show ?thesis by auto
qed

text \<open>
  C38: A database error reaches the caller only as an execution error with a fixed message and
  one of four reasons: none of the driver's text is passed on.
\<close>

theorem execution_errors_sanitized:
  assumes "fst (execute eng d t clock sql m w) = Inl (Raised err)"
  shows "ee_class err = ExecutionError \<and> ee_message err = ''The query could not be executed.''
     \<and> ee_details err \<in> {[(''reason'', JStr ''statement_timeout'')], [(''reason'', JStr ''read_only_violation'')],
          [(''reason'', JStr ''syntax_error'')], [(''reason'', JStr ''database_error'')]}"
  using execute_error [OF assms] by auto

lemma execution_errors_sanitized_witness:
  "\<exists>err. fst (execute (ex_engine\<lparr> en_connect := (\<lambda>_. Some (SQLAlchemyError ''FATAL: password of user x'')) \<rparr>)
       SQLITE 5000 (\<lambda>n. of_nat n) ''q'' 1 ex_world) = Inl (Raised err)
     \<and> ee_message err = ''The query could not be executed.''"
proof -
  let ?run = "fst (execute (ex_engine\<lparr> en_connect := (\<lambda>_. Some (SQLAlchemyError ''FATAL: password of user x'')) \<rparr>)
       SQLITE 5000 (\<lambda>n. of_nat n) ''q'' 1 ex_world)"
  have "\<exists>err. ?run = Inl (Raised err)"
    by (simp add: execute_def db_session_def perf_counter_def Let_def)
  then obtain err where e: "?run = Inl (Raised err)" by blast
  from execution_errors_sanitized [OF e] e show ?thesis by blast
qed

section \<open>Repair\<close>

text \<open>
  A rejected candidate is repaired exactly when one of its issues can be and none is a
  safety, policy or cost issue; the feedback then is not empty, repeats nothing, and consists
  of the code and message of the repairable issues.
\<close>

lemma repair_only_harmless:
  "(is_repairable issues \<longleftrightarrow> set (map vi_code issues) \<inter> set repairable_codes \<noteq> {}
        \<and> set (map vi_code issues) \<inter> set non_repairable_codes = {})
   \<and> set (sanitized_feedback issues) =
       {vi_code i @ '': '' @ vi_message i | i. i \<in> set issues \<and> vi_code i \<in> set repairable_codes}
   \<and> distinct (sanitized_feedback issues) \<and> (is_repairable issues \<longrightarrow> sanitized_feedback issues \<noteq> [])"
proof (intro conjI)
  show "is_repairable issues \<longleftrightarrow> set (map vi_code issues) \<inter> set repairable_codes \<noteq> {}
      \<and> set (map vi_code issues) \<inter> set non_repairable_codes = {}"
    by (auto simp: is_repairable_iff)
  show "set (sanitized_feedback issues) =
      {vi_code i @ '': '' @ vi_message i | i. i \<in> set issues \<and> vi_code i \<in> set repairable_codes}"
    using feedback_iff by blast
qed (use feedback_distinct repairable_feedback_not_Nil in blast)+

lemma repair_only_harmless_witness:
  "sanitized_feedback [issue ''unknown_column'' ''m'' None] \<noteq> []"
proof -
  have "is_repairable [issue ''unknown_column'' ''m'' None]" by code_simp
  then show ?thesis using repair_only_harmless by blast
qed

section \<open>Redaction and identifiers\<close>



text \<open>
  A correlation identifier is never empty, at most 128 characters long and made of
  letters, digits and \<open>_.:-\<close> only, whatever the client sent, so it can stand in a header or a
  log line.
\<close>

lemma correlation_ids_safe:
  assumes "list_all safe_id_char hex" and "length hex \<le> 123"
  shows "list_all safe_id_char (sanitize_correlation_id hex value)
     \<and> sanitize_correlation_id hex value \<noteq> [] \<and> length (sanitize_correlation_id hex value) \<le> 128"
  using sanitize_correlation_id_safe [OF assms] by (simp add: max_id_len_def)

lemma correlation_ids_safe_witness:
  "list_all safe_id_char (sanitize_correlation_id ''0a1b'' (Some (''x'' @ newline @ ''y'')))"
proof -
  have "list_all safe_id_char ''0a1b''" by code_simp
  from correlation_ids_safe [OF this] show ?thesis by simp
qed

section \<open>Prompts\<close>

text \<open>
  Untrusted text put into a prompt cannot end its code block: no fence is left in it, and
  as a single line it holds no space character but the blank, so no line break either.
\<close>

lemma untrusted_text_contained:
  "\<not> contains (sanitize_untrusted src single) fence
   \<and> {c \<in> set (sanitize_untrusted src True). is_space c} \<subseteq> {CHR '' ''}"
  using sanitize_no_fence sanitize_single_line by auto

section \<open>Explanations\<close>

text \<open>
  Formatting a number with thousands separators loses nothing: taking the commas out
  again gives the number's decimal digits and sign.
\<close>

lemma number_format_round_trip:
  "filter (\<lambda>c. c \<noteq> CHR '','') (format_int i) = show_int i"
  by (rule format_int_digits)

text \<open>
  Every rectangular result, empty ones included, is explained without an error; the
  truncation warning is given exactly when the result or the note says so, the confidence
  warning exactly below one half, and there is no other warning.
\<close>

lemma results_explained:
  assumes "rectangular r"
  shows "\<exists>src ws. explain py_str r assumptions confidence noted = Inr (src, ws)
     \<and> (truncation_warning (er_row_count r) \<in> set ws \<longleftrightarrow> noted \<or> er_truncated r)
     \<and> (confidence_warning \<in> set ws \<longleftrightarrow> confidence < 1 / 2) \<and> length ws \<le> 2"
  using explain_total [OF assms, of py_str assumptions confidence noted] explain_warnings by metis

lemma results_explained_witness:
  "\<exists>src ws. explain (\<lambda>_. []) \<lparr> er_columns = [''n''], er_rows = [], er_row_count = 0, er_truncated = True,
       er_duration_ms = 0 \<rparr> [] 1 False = Inr (src, ws) \<and> truncation_warning 0 \<in> set ws"
proof -
  let ?r = "\<lparr> er_columns = [''n''], er_rows = [], er_row_count = 0, er_truncated = True, er_duration_ms = 0 \<rparr>"
  have "rectangular ?r" by (simp add: rectangular_def)
  from results_explained [OF this, of "\<lambda>_. []" "[]" 1 False] show ?thesis by auto
qed

section \<open>Metrics\<close>

text \<open>
  The histogram refines the list of the values observed: the cumulative bucket counts
  rendered are the numbers of observations at most each bound, the last the number of all,
  and count and sum are those of the list.
\<close>

lemma histogram_counts_observations:
  assumes "sorted buckets"
  shows "let h = observe_all labels vs (new_histogram name help_text buckets) in
     rendered_buckets h (label_key labels) = map (\<lambda>b. length (filter (\<lambda>v. v \<le> b) vs)) buckets @ [length vs]
     \<and> dict_get 0 (mh_count h) (label_key labels) = length vs
     \<and> dict_get 0 (mh_sum h) (label_key labels) = sum_list vs"
  using rendered_buckets_spec [OF assms refl refl] by (simp add: Let_def)

lemma histogram_counts_observations_witness:
  "rendered_buckets (observe_all [] [3, 40] (new_histogram ''h'' [] [5, 10])) [] = [1, 1, 2]"
  using histogram_counts_observations [of "[5, 10]" "[]" "[3, 40]" "''h''" "[]"]
  by (simp add: Let_def label_key_def)

end
