(* ===== verification/HttpApi.thy ===== *)
theory HttpApi
  imports Orchestrator
begin

text \<open>
  The HTTP layer: identity from the headers (\<open>api/dependencies.py\<close>), the error envelope
  (\<open>api/errors.py\<close>), the versioned endpoints (\<open>api/routes.py\<close>), health and metrics
  (\<open>api/health.py\<close>) and the correlation middleware (\<open>api/app.py\<close>).

  An endpoint is a call that ends with a status and a body or with a failure; \<open>serve\<close> turns
  it into a reply the way the middleware and the exception handlers do. FastAPI resolves the
  identity before it validates the body, and answers an exception no handler in the
  application maps outside the middleware, so without the middleware's header.
\<close>

section \<open>Bodies and replies\<close>

record error_detail =
  ed_code :: string
  ed_message :: string
  ed_category :: string
  ed_retryable :: bool
  ed_details :: "(string \<times> json) list option"
  ed_remediation :: "string option"

record error_response =
  ep_error :: error_detail
  ep_correlation_id :: string

record health_response =
  hp_status :: string
  hp_checks :: "(string \<times> string) list"

datatype api_body =
    QueryBody query_response | ReportBody validation_report | SchemaBody schema_summary
  | ErrorBody error_response | HealthBody health_response | TextBody string

record reply =
  hr_status :: nat
  hr_body :: api_body
  hr_correlation :: "string option"

section \<open>Identity\<close>

definition get_auth_context ::
    "string option \<Rightarrow> string option \<Rightarrow> string option \<Rightarrow> engine_error + auth_context" where
  "get_auth_context x_user_id x_tenant_id x_roles =
     (case (or_opt x_user_id None, or_opt x_tenant_id None) of
        (Some user, Some tenant) \<Rightarrow> Inr \<lparr> ac_user_id = user, ac_tenant_id = tenant,
          ac_roles = map strip (filter (\<lambda>r. strip r \<noteq> [])
            (split_char (CHR '','') (case x_roles of None \<Rightarrow> [] | Some r \<Rightarrow> r))) \<rparr>
      | _ \<Rightarrow> Inl (raise_error AuthorizationError
          ''Authentication context is required (X-User-Id and X-Tenant-Id headers).''
          [(''code'', JStr ''missing_identity'')]))"

definition require_admin :: "auth_context \<Rightarrow> engine_error + auth_context" where
  "require_admin auth = (if is_admin auth then Inr auth
     else Inl (raise_error AuthorizationError ''This operation requires the 'admin' role.''
       [(''code'', JStr ''admin_required'')]))"

record http_identity =
  hi_user_id :: "string option"
  hi_tenant_id :: "string option"
  hi_roles :: "string option"

definition check :: "engine_error + 'a \<Rightarrow> ('a, 'w) call" where
  "check r = (case r of Inl e \<Rightarrow> fail (Raised e) | Inr a \<Rightarrow> give a)"

definition identify :: "http_identity \<Rightarrow> (auth_context, 'w) call" where
  "identify i = check (get_auth_context (hi_user_id i) (hi_tenant_id i) (hi_roles i))"

section \<open>Errors\<close>

definition envelope :: "engine_error \<Rightarrow> string \<Rightarrow> nat \<times> api_body" where
  "envelope e cid = (http_status (ee_class e), ErrorBody \<lparr>
     ep_error = \<lparr> ed_code = error_code (ee_class e), ed_message = ee_message e,
       ed_category = category_value (category_of (ee_class e)), ed_retryable = ee_retryable e,
       ed_details = (if ee_details e = [] then None else Some (ee_details e)),
       ed_remediation = ee_remediation e \<rparr>,
     ep_correlation_id = cid \<rparr>)"

text \<open>One of Pydantic's errors: the parts of its location as text, and its message if any.\<close>

record field_error =
  fe_loc :: "string list"
  fe_msg :: "string option"

definition safe_validation_errors :: "field_error list \<Rightarrow> json" where
  "safe_validation_errors errors = JList (map (\<lambda>e.
     JObj [(''location'', JStr (join ''.'' (fe_loc e))),
           (''message'', JStr (case fe_msg e of None \<Rightarrow> ''invalid'' | Some m \<Rightarrow> m))]) (take 20 errors))"

definition validation_error :: "field_error list \<Rightarrow> engine_error" where
  "validation_error errors = raise_error InvalidRequestError ''The request body failed validation.''
     [(''errors'', safe_validation_errors errors)]"

definition unhandled_error :: engine_error where
  "unhandled_error = raise_error EngineError ''An unexpected internal error occurred.'' []"

text \<open>A request body is what Pydantic makes of it: its errors, or an object.\<close>

definition parsed :: "field_error list + 'a \<Rightarrow> ('a, 'w) call" where
  "parsed body = (case body of Inl errors \<Rightarrow> fail (Raised (validation_error errors)) | Inr a \<Rightarrow> give a)"

section \<open>Endpoints\<close>

definition status_of :: "query_response \<Rightarrow> nat" where
  "status_of r = (if rs_status r = RS_CLARIFICATION_REQUIRED then 409 else 200)"

definition query_endpoint ::
    "('e, 'n) orchestrator \<Rightarrow> bool \<Rightarrow> http_identity \<Rightarrow> field_error list + query_request
      \<Rightarrow> (nat \<times> api_body, 'z orchestrator_world_scheme) call" where
  "query_endpoint oc exec i body =
     seq (identify i) (\<lambda>auth.
     seq (parsed body) (\<lambda>request.
     seq (process oc request auth exec) (\<lambda>r.
     give (status_of r, QueryBody r))))"

definition post_query ::
    "('e, 'n) orchestrator \<Rightarrow> http_identity \<Rightarrow> field_error list + query_request
      \<Rightarrow> (nat \<times> api_body, 'z orchestrator_world_scheme) call" where
  "post_query oc = query_endpoint oc True"

definition post_query_preview ::
    "('e, 'n) orchestrator \<Rightarrow> http_identity \<Rightarrow> field_error list + query_request
      \<Rightarrow> (nat \<times> api_body, 'z orchestrator_world_scheme) call" where
  "post_query_preview oc = query_endpoint oc False"

definition post_validate ::
    "('e, 'n) orchestrator \<Rightarrow> http_identity \<Rightarrow> field_error list + validate_sql_request
      \<Rightarrow> (nat \<times> api_body, 'z orchestrator_world_scheme) call" where
  "post_validate oc i body =
     seq (identify i) (\<lambda>auth.
     seq (parsed body) (\<lambda>request.
     seq (validate_sql oc request auth) (\<lambda>report.
     give (200, ReportBody report))))"

definition visible_to :: "auth_context \<Rightarrow> string \<Rightarrow> string \<Rightarrow> data_classification \<Rightarrow> bool" where
  "visible_to auth t c cls = can_view cls (ac_roles auth)"

definition get_schema_endpoint ::
    "('e, 'n) orchestrator \<Rightarrow> http_identity \<Rightarrow> (nat \<times> api_body, 'z orchestrator_world_scheme) call" where
  "get_schema_endpoint oc i =
     seq (identify i) (\<lambda>auth.
     seq (get_schema (oc_catalog oc) False) (\<lambda>schema.
     give (200, SchemaBody (summary schema (Some (visible_to auth))))))"

definition post_schema_refresh ::
    "('e, 'n) orchestrator \<Rightarrow> http_identity \<Rightarrow> (nat \<times> api_body, 'z orchestrator_world_scheme) call" where
  "post_schema_refresh oc i =
     seq (identify i) (\<lambda>caller.
     seq (check (require_admin caller)) (\<lambda>auth.
     seq (refresh (oc_catalog oc)) (\<lambda>schema.
     give (200, SchemaBody (summary schema (Some (visible_to auth)))))))"

definition live :: "(nat \<times> api_body, 'w) call" where
  "live = give (200, HealthBody \<lparr> hp_status = ''ok'', hp_checks = [(''process'', ''ok'')] \<rparr>)"

text \<open>The probe of \<open>infrastructure/database.py\<close>: one statement on the read-only engine.\<close>

definition check_connection ::
    "('e, 'n) orchestrator \<Rightarrow> (bool, 'z orchestrator_world_scheme) call" where
  "check_connection oc w = (case en_connect (oc_engine oc) (w_log w) of
     Some _ \<Rightarrow> (Inr False, w)
   | None \<Rightarrow> (Inr (case en_run (oc_engine oc) (w_log w) ''SELECT 1'' of Inl _ \<Rightarrow> False | Inr _ \<Rightarrow> True),
       send ''SELECT 1'' w))"

text \<open>\<open>try ... except Exception\<close>: whether the call returned.\<close>

definition succeeded :: "('a, 'w) call \<Rightarrow> (bool, 'w) call" where
  "succeeded m w = (case m w of (Inl _, w1) \<Rightarrow> (Inr False, w1) | (Inr _, w1) \<Rightarrow> (Inr True, w1))"

definition check_word :: "bool \<Rightarrow> string" where
  "check_word ok = (if ok then ''ok'' else ''unavailable'')"

definition ready ::
    "('e, 'n) orchestrator \<Rightarrow> (nat \<times> api_body, 'z orchestrator_world_scheme) call" where
  "ready oc =
     seq (check_connection oc) (\<lambda>db_ok.
     seq (succeeded (get_schema (oc_catalog oc) False)) (\<lambda>schema_ok.
     give (if db_ok \<and> schema_ok then 200 else 503, HealthBody \<lparr>
       hp_status = (if db_ok \<and> schema_ok then ''ok'' else ''not_ready''),
       hp_checks = [(''database'', check_word db_ok), (''schema'', check_word schema_ok)] \<rparr>)))"

definition metrics_endpoint ::
    "(rat \<Rightarrow> string) \<Rightarrow> (rat \<Rightarrow> string) \<Rightarrow> bool \<Rightarrow> (nat \<times> api_body, 'z orchestrator_world_scheme) call" where
  "metrics_endpoint bound num enabled w = (if \<not> enabled
     then (Inr (404, TextBody (''metrics disabled'' @ newline)), w)
     else (Inr (200, TextBody (metrics_render bound num (cw_metrics w))), w))"

section \<open>The application\<close>

definition respond ::
    "string \<Rightarrow> string \<Rightarrow> failure + nat \<times> api_body \<Rightarrow> reply" where
  "respond cid bound r = (case r of
     Inr (st, b) \<Rightarrow> \<lparr> hr_status = st, hr_body = b, hr_correlation = Some cid \<rparr>
   | Inl (Raised e) \<Rightarrow> \<lparr> hr_status = fst (envelope e bound), hr_body = snd (envelope e bound),
       hr_correlation = Some cid \<rparr>
   | Inl (Unhandled x) \<Rightarrow> \<lparr> hr_status = fst (envelope unhandled_error cid),
       hr_body = snd (envelope unhandled_error cid), hr_correlation = None \<rparr>)"

definition serve ::
    "('e, 'n) orchestrator \<Rightarrow> string option \<Rightarrow> (nat \<times> api_body, 'z orchestrator_world_scheme) call
      \<Rightarrow> 'z orchestrator_world_scheme \<Rightarrow> reply \<times> 'z orchestrator_world_scheme" where
  "serve oc header endpoint w =
     (let cid = sanitize_correlation_id (oc_hex oc (ow_ids w)) header;
          (r, w') = endpoint (w\<lparr> ow_ids := ow_ids w + 1, ow_correlation := cid \<rparr>)
      in (respond cid (ow_correlation w') r, w'))"

end
