(* ===== verification/HttpProperties.thy ===== *)
theory HttpProperties
  imports HttpApi OrchestratorProperties
begin

text \<open>
  The properties of the HTTP layer: who may ask what, what its endpoints send to the database
  and show to the caller, what an error reply holds, and which identifier a reply carries.
\<close>

section \<open>The middleware\<close>

abbreviation bound_world ::
    "('e, 'n) orchestrator \<Rightarrow> string option \<Rightarrow> 'z orchestrator_world_scheme \<Rightarrow> 'z orchestrator_world_scheme" where
  "bound_world oc header w \<equiv> w\<lparr> ow_ids := ow_ids w + 1,
     ow_correlation := sanitize_correlation_id (oc_hex oc (ow_ids w)) header \<rparr>"

lemma serve_world: "snd (serve oc header ep w) = snd (ep (bound_world oc header w))"
  by (simp add: serve_def Let_def case_prod_beta)

lemma serve_reply:
  "fst (serve oc header ep w) = respond (sanitize_correlation_id (oc_hex oc (ow_ids w)) header)
     (ow_correlation (snd (ep (bound_world oc header w)))) (fst (ep (bound_world oc header w)))"
  by (simp add: serve_def Let_def case_prod_beta)

lemma bound_world_cache_ok: "cache_ok cat (bound_world oc header w) \<longleftrightarrow> cache_ok cat w"
  by (simp add: cache_ok_def)

section \<open>Identity\<close>

definition identity_of :: "http_identity \<Rightarrow> engine_error + auth_context" where
  "identity_of i = get_auth_context (hi_user_id i) (hi_tenant_id i) (hi_roles i)"

lemma seq_identify:
  "identity_of i = Inr auth \<Longrightarrow> seq (identify i) k = k auth"
  "identity_of i = Inl e \<Longrightarrow> seq (identify i) k = fail (Raised e)"
  by (simp_all add: identify_def check_def identity_of_def)

lemma seq_parsed [simp]:
  "seq (parsed (Inr a)) k = k a" "seq (parsed (Inl errors)) k = fail (Raised (validation_error errors))"
  by (simp_all add: parsed_def)

lemma snd_seq_give: "snd (seq m (\<lambda>a. give (f a)) w) = snd (m w)"
  by (simp add: seq_def give_def split: prod.splits sum.splits)

lemma effective_max_rows_le: "effective_max_rows oc request \<le> oc_max_rows oc"
  by (simp add: effective_max_rows_def)

section \<open>What the query endpoints send\<close>

lemma query_endpoint_log:
  assumes "documented_sqlglot (oc_sqlglot oc) conds" and "oc_max_rows oc < 10 ^ 12" and "cache_ok (oc_catalog oc) w"
  shows "\<exists>ss. w_log (snd (query_endpoint oc exec i body w)) = w_log w @ ss
     \<and> (\<forall>s\<in>set ss. \<exists>auth request. identity_of i = Inr auth
          \<and> body = Inr request \<and> may_send oc conds (request_dialect oc (qr_dialect request)) auth
              (effective_max_rows oc request) exec s)"
proof (cases "identity_of i")
  case (Inl e)
  then show ?thesis by (simp add: query_endpoint_def seq_identify fail_def)
next
  case id: (Inr auth)
  show ?thesis
  proof (cases body)
    case (Inl errors)
    then show ?thesis by (simp add: query_endpoint_def seq_identify(1) [OF id] fail_def)
  next
    case (Inr request)
    have m: "effective_max_rows oc request < 10 ^ 12"
      using effective_max_rows_le [of oc request] assms(2) by linarith
    from process_log [OF assms(1) m assms(3), where exec = exec and run = exec and auth = auth]
    show ?thesis
      by (simp add: query_endpoint_def seq_identify(1) [OF id] Inr snd_seq_give id list_all_iff executes_def)
  qed
qed

lemma served_query_log:
  assumes "documented_sqlglot (oc_sqlglot oc) conds" and "oc_max_rows oc < 10 ^ 12" and "cache_ok (oc_catalog oc) w"
  shows "\<exists>ss. w_log (snd (serve oc header (query_endpoint oc exec i body) w)) = w_log w @ ss
     \<and> (\<forall>s\<in>set ss. \<exists>auth request. identity_of i = Inr auth
          \<and> body = Inr request \<and> may_send oc conds (request_dialect oc (qr_dialect request)) auth
              (effective_max_rows oc request) exec s)"
proof -
  have "cache_ok (oc_catalog oc) (bound_world oc header w)" using assms(3) by (simp only: bound_world_cache_ok)
  from query_endpoint_log [OF assms(1,2) this, of exec i body] show ?thesis by (simp add: serve_world)
qed

text \<open>
  Whatever a client sends to the query endpoints, headers and body included, everything
  that reaches the database is authorized for the tenant and roles of its identity headers;
  without an identity or a valid body nothing is sent, and the preview endpoint only explains.
\<close>

lemma endpoints_send_only_authorized:
  assumes "documented_sqlglot (oc_sqlglot oc) conds" and "oc_max_rows oc < 10 ^ 12" and "cache_ok (oc_catalog oc) w"
  shows "(\<exists>ss. w_log (snd (serve oc header (post_query oc i body) w)) = w_log w @ ss
     \<and> (\<forall>s\<in>set ss. \<exists>auth request. identity_of i = Inr auth \<and> body = Inr request
          \<and> may_send oc conds (request_dialect oc (qr_dialect request)) auth (effective_max_rows oc request) True s))
   \<and> (\<exists>ss. w_log (snd (serve oc header (post_query_preview oc i body) w)) = w_log w @ ss
     \<and> (\<forall>s\<in>set ss. \<exists>auth request. identity_of i = Inr auth \<and> body = Inr request
          \<and> may_send oc conds (request_dialect oc (qr_dialect request)) auth (effective_max_rows oc request) False s))"
  unfolding post_query_def post_query_preview_def by (intro conjI served_query_log assms)

lemma ex_log: "w_log ex_world = []"
  by (simp add: ex_world_def)

lemma endpoints_send_only_authorized_witness:
  "w_log (snd (serve (ex_orchestrator POSTGRES []) None (post_query (ex_orchestrator POSTGRES [])
     \<lparr> hi_user_id = Some ''u'', hi_tenant_id = None, hi_roles = None \<rparr> (Inr ex_request)) ex_world)) = []"
proof -
  let ?i = "\<lparr> hi_user_id = Some ''u'', hi_tenant_id = None, hi_roles = None \<rparr>"
  have "identity_of ?i \<noteq> Inr auth" for auth
    by (simp add: identity_of_def get_auth_context_def or_opt_def)
  with endpoints_send_only_authorized [of "ex_orchestrator POSTGRES []" ex_conds ex_world None ?i "Inr ex_request"]
  show ?thesis by (simp add: ex_documented ex_cache_ok ex_log)
qed

section \<open>What the schema endpoints show\<close>

definition shown_to :: "('e, 'n) orchestrator \<Rightarrow> auth_context \<Rightarrow> schema_summary \<Rightarrow> bool" where
  "shown_to oc auth s \<longleftrightarrow> (\<forall>ts\<in>set (ss_tables s). \<forall>c\<in>set (sts_columns ts).
     \<exists>schema t ci. enriched_of (oc_catalog oc) schema \<and> t \<in> set (db_tables schema) \<and> ci \<in> set (tbl_columns t)
       \<and> c = summarize_column ci \<and> can_view (col_classification ci) (ac_roles auth))"

lemma summary_shown:
  assumes "enriched_of (oc_catalog oc) schema"
  shows "shown_to oc auth (summary schema (Some (visible_to auth)))"
  unfolding shown_to_def
  using summary_hides [of _ schema "Some (visible_to auth)"] assms by (fastforce simp: visible_to_def)

lemma respond_schema:
  "hr_body (respond cid bound r) = SchemaBody s \<longleftrightarrow> (\<exists>st. r = Inr (st, SchemaBody s))"
  by (auto simp: respond_def envelope_def split: sum.splits failure.splits prod.splits)

lemma get_schema_endpoint_shows:
  assumes "cache_ok (oc_catalog oc) w" and "fst (get_schema_endpoint oc i w) = Inr (st, SchemaBody s)"
  shows "\<exists>auth. identity_of i = Inr auth \<and> shown_to oc auth s"
proof (cases "identity_of i")
  case (Inl e)
  then show ?thesis using assms(2) by (simp add: get_schema_endpoint_def seq_identify fail_def)
next
  case (Inr auth)
  obtain r w1 where g: "get_schema (oc_catalog oc) False w = (r, w1)" by fastforce
  with assms(2) Inr obtain schema where "r = Inr schema" "s = summary schema (Some (visible_to auth))"
    by (auto simp: get_schema_endpoint_def seq_identify seq_def give_def split: sum.splits)
  with g serving.gives [OF assms(1), of False schema] Inr show ?thesis by (auto intro: summary_shown)
qed

lemma post_schema_refresh_shows:
  assumes "fst (post_schema_refresh oc i w) = Inr (st, SchemaBody s)" and "cache_ok (oc_catalog oc) w"
  shows "\<exists>auth. identity_of i = Inr auth \<and> is_admin auth \<and> shown_to oc auth s"
proof (cases "identity_of i")
  case (Inl e)
  then show ?thesis using assms(1) by (simp add: post_schema_refresh_def seq_identify fail_def)
next
  case (Inr auth)
  obtain r w1 where g: "refresh (oc_catalog oc) w = (r, w1)" by fastforce
  with assms(1) Inr obtain schema where "r = Inr schema" "s = summary schema (Some (visible_to auth))" "is_admin auth"
    by (auto simp: post_schema_refresh_def seq_identify check_def require_admin_def fail_def seq_def give_def
        split: sum.splits if_splits)
  with g refreshing.gives [OF assms(2), of schema] Inr show ?thesis by (auto intro: summary_shown)
qed


definition ex_caller :: "string option \<Rightarrow> http_identity" where
  "ex_caller roles = \<lparr> hi_user_id = Some ''u1'', hi_tenant_id = Some ''42'', hi_roles = roles \<rparr>"

lemma ex_caller_identity: "\<exists>auth. identity_of (ex_caller roles) = Inr auth"
  by (simp add: identity_of_def ex_caller_def get_auth_context_def or_opt_def)


section \<open>Refusals and errors\<close>

lemma identity_error: "identity_of i = Inl e \<Longrightarrow> ee_class e = AuthorizationError"
  by (auto simp: identity_of_def get_auth_context_def split: option.splits)

lemma refused_refresh:
  assumes "\<not> (\<exists>auth. identity_of i = Inr auth \<and> is_admin auth)"
  shows "\<exists>e. post_schema_refresh oc i w = (Inl (Raised e), w) \<and> ee_class e = AuthorizationError"
proof (cases "identity_of i")
  case (Inl e)
  then show ?thesis by (simp add: post_schema_refresh_def seq_identify identity_error fail_def)
next
  case (Inr auth)
  then show ?thesis using assms
    by (simp add: post_schema_refresh_def seq_identify check_def require_admin_def fail_def)
qed

text \<open>
  Without the identity headers, or without the admin role, a refresh is refused with
  status 403 and the code of an authorization error; the cached schema stays, nothing is
  introspected and nothing is sent to the database.
\<close>

lemma refresh_needs_admin:
  assumes "\<not> (\<exists>auth. identity_of i = Inr auth \<and> is_admin auth)"
  shows "hr_status (fst (serve oc header (post_schema_refresh oc i) w)) = 403
     \<and> (\<exists>d cid. hr_body (fst (serve oc header (post_schema_refresh oc i) w)) = ErrorBody \<lparr> ep_error = d, ep_correlation_id = cid \<rparr>
          \<and> ed_code d = error_code AuthorizationError)
     \<and> cw_cache (snd (serve oc header (post_schema_refresh oc i) w)) = cw_cache w
     \<and> cw_introspections (snd (serve oc header (post_schema_refresh oc i) w)) = cw_introspections w
     \<and> w_log (snd (serve oc header (post_schema_refresh oc i) w)) = w_log w"
proof -
  obtain e where e: "post_schema_refresh oc i (bound_world oc header w) = (Inl (Raised e), bound_world oc header w)"
    "ee_class e = AuthorizationError"
    using refused_refresh [OF assms] by blast
  show ?thesis
    unfolding serve_reply serve_world e(1) by (simp add: respond_def envelope_def e(2))
qed

lemma refresh_needs_admin_witness:
  "hr_status (fst (serve (ex_orchestrator SQLITE []) None (post_schema_refresh (ex_orchestrator SQLITE []) (ex_caller (Some ''analyst, viewer'')))
     ex_world)) = 403"
proof -
  have "(case identity_of (ex_caller (Some ''analyst, viewer'')) of Inl _ \<Rightarrow> False | Inr auth \<Rightarrow> is_admin auth) = False"
    by code_simp
  then have "\<not> (\<exists>auth. identity_of (ex_caller (Some ''analyst, viewer'')) = Inr auth \<and> is_admin auth)"
    by auto
  from refresh_needs_admin [OF this] show ?thesis by blast
qed


section \<open>Identifiers\<close>

text \<open>What leaves the bound correlation id alone.\<close>

abbreviation bound_to :: "string \<Rightarrow> 'z orchestrator_world_scheme \<Rightarrow> bool" where
  "bound_to c \<equiv> (\<lambda>w. ow_correlation w = c)"

named_theorems bound_rules

declare keeps_seq [bound_rules] keeps_give [bound_rules] keeps_fail [bound_rules] keeps_lift [bound_rules]
  keeps_authorize [bound_rules]

lemma bound_tick [bound_rules]: "keeps (bound_to c) (tick oc)"
  by (simp add: tick_def keeps_ask perf_counter_def)

lemma bound_count [bound_rules]: "keeps (bound_to c) (count name labels)"
  by (simp add: count_def keeps_change inc_def)

lemma bound_observe [bound_rules]: "keeps (bound_to c) (observe name v)"
  by (simp add: observe_def keeps_change observe_metric_def)

lemma bound_markers [bound_rules]: "keeps (bound_to c) (note_markers request)"
  by (simp add: note_markers_def bound_count)

lemma bound_resolve_date [bound_rules]: "keeps (bound_to c) (resolve_date oc question)"
  unfolding resolve_date_def by (intro bound_rules) (simp add: keeps_ask)

lemma bound_raise [bound_rules]: "keeps (bound_to c) (raise_for_failure s n)"
  unfolding raise_for_failure_def by (intro bound_rules)

lemma bound_provider [bound_rules]: "keeps (bound_to c) (call_provider oc req)"
  by (simp add: keeps_iff call_provider_def)

lemma bound_run_analysis [bound_rules]: "keeps (bound_to c) (run_analysis oc e sql d)"
  by (simp add: keeps_iff run_analysis_def Let_def)

lemma ow_correlation_inc [simp]: "ow_correlation (inc name l w) = ow_correlation w"
  by (simp add: inc_def)

lemma bound_load_schema: "ow_correlation (snd (load_schema cat w)) = ow_correlation w"
  by (simp add: load_schema_def Let_def split: sum.splits)

lemma bound_get_schema [bound_rules]: "keeps (bound_to c) (get_schema cat force)"
  by (auto simp: keeps_iff get_schema_def try_cache_def bound_load_schema case_prod_beta split: option.splits)

lemma more_correlation: "world.more w' = world.more w \<Longrightarrow> ow_correlation w' = ow_correlation w"
  by (cases w; cases w') simp

lemma bound_execute [bound_rules]: "keeps (bound_to c) (execute eng d t clock sql m)"
  unfolding keeps_iff using more_correlation [OF execute_more] by metis

lemma bound_secure_rewritten [bound_rules]: "keeps (bound_to c) (secure_rewritten oc d schema applied e)"
  by (auto simp: secure_rewritten_def Let_def intro!: bound_rules)

lemma bound_secure_candidate [bound_rules]: "keeps (bound_to c) (secure_candidate oc src d schema auth m)"
  by (auto simp: secure_candidate_def Let_def intro!: bound_rules split: sum.splits prod.splits)

lemma bound_repair_attempt: "keeps (bound_to c) (repair_attempt oc auth schema base a st)"
  by (auto simp: repair_attempt_def Let_def intro!: bound_rules)

lemma bound_generate [bound_rules]: "keeps (bound_to c) (generate_with_repair oc auth schema base)"
  unfolding generate_with_repair_def
  by (intro keeps_seq keeps_attempt_loop bound_repair_attempt) (auto intro: bound_rules split: option.splits)

lemma bound_preview [bound_rules]: "keeps (bound_to c) (preview_response oc pg g st sql)"
  unfolding preview_response_def by (intro bound_rules)

lemma bound_execute_response [bound_rules]: "keeps (bound_to c) (execute_response oc request pg g st sql)"
  unfolding execute_response_def Let_def by (auto intro!: bound_rules split: prod.splits)

lemma bound_finish [bound_rules]: "keeps (bound_to c) (finish oc request exec pg g st)"
  by (auto simp: finish_def intro!: bound_rules split: option.splits)

lemma bound_answer [bound_rules]: "keeps (bound_to c) (answer oc request auth exec cid start)"
  unfolding answer_def Let_def by (auto intro!: bound_rules split: prod.splits)

lemma bound_clarify [bound_rules]: "keeps (bound_to c) (clarify oc cl cid start)"
  unfolding clarify_def by (intro bound_rules)

text \<open>The response carries the id the pipeline chose, and that id stays bound.\<close>

lemma success_id [simp]: "rs_correlation_id (success_base pg st sql g s) = pg_correlation pg"
  by (simp add: success_base_def)

definition named :: "string \<Rightarrow> (query_response, 'z orchestrator_world_scheme) call \<Rightarrow> bool" where
  "named cid m \<longleftrightarrow> triple (\<lambda>_. True) m (\<lambda>r _. rs_correlation_id r = cid) (\<lambda>_ _. True)"

lemma named_seq: "(\<And>a. named cid (k a)) \<Longrightarrow> named cid (seq m k)"
  unfolding named_def by (rule triple_seq [OF triple_any])

lemma named_give: "rs_correlation_id r = cid \<Longrightarrow> named cid (give r)"
  unfolding named_def by (rule triple_give)

lemma named_fail: "named cid (fail x)"
  unfolding named_def by (rule triple_fail) simp

lemma named_result: "named cid m \<Longrightarrow> fst (m w) = Inr r \<Longrightarrow> rs_correlation_id r = cid"
  unfolding named_def by (cases "m w") (auto dest: post_of_triple)

lemmas named_rules = named_seq named_give named_fail

lemma named_finish: "named (pg_correlation pg) (finish oc request exec pg g st)"
  unfolding finish_def raise_for_failure_def preview_response_def execute_response_def Let_def
  by (auto intro!: named_rules split: option.splits prod.splits)

lemma named_answer: "named cid (answer oc request auth exec cid start)"
  unfolding answer_def Let_def
  by (intro named_seq) (auto intro!: named_finish [of "\<lparr> pg_correlation = cid, pg_start = _, pg_retrieval = _,
      pg_timings = _, pg_dialect = _, pg_max_rows = _ \<rparr>", simplified] split: prod.splits)

lemma named_clarify: "named cid (clarify oc cl cid start)"
  unfolding clarify_def by (intro named_rules) simp

lemma bound_rest: "keeps (bound_to c) (seq (tick oc) (\<lambda>start. seq (authorize_tenant request auth) (\<lambda>_.
     seq (count name labels) (\<lambda>_. seq (note_markers request) (\<lambda>_.
     case detect l q of Some a \<Rightarrow> clarify oc a cid start | None \<Rightarrow> answer oc request auth exec cid start)))))"
  by (intro bound_rules) (auto intro: bound_rules split: option.splits)

lemma named_rest: "named cid (seq (tick oc) (\<lambda>start. seq (authorize_tenant request auth) (\<lambda>_.
     seq (count name labels) (\<lambda>_. seq (note_markers request) (\<lambda>_.
     case detect l q of Some a \<Rightarrow> clarify oc a cid start | None \<Rightarrow> answer oc request auth exec cid start)))))"
  by (intro named_seq) (auto intro: named_clarify named_answer split: option.splits)

lemma process_id:
  assumes "or_opt (qr_correlation_id request) None = None" and "ow_correlation w = cid" and "cid \<noteq> ''-''"
    and "sanitize_correlation_id (oc_hex oc (ow_ids w)) (Some cid) = cid"
  shows "ow_correlation (snd (process oc request auth exec w)) = cid
     \<and> (\<forall>r. fst (process oc request auth exec w) = Inr r \<longrightarrow> rs_correlation_id r = cid)"
proof -
  let ?rest = "seq (tick oc) (\<lambda>start. seq (authorize_tenant request auth) (\<lambda>_.
     seq (count ''t2sql_requests_total'' [(''mode'', if exec then ''execute'' else ''preview'')]) (\<lambda>_.
     seq (note_markers request) (\<lambda>_.
     case detect (oc_ambiguity oc) (qr_question request) of
       Some c \<Rightarrow> clarify oc c cid start
     | None \<Rightarrow> answer oc request auth exec cid start))))"
  have "process oc request auth exec w = ?rest (w\<lparr> ow_ids := ow_ids w + 1, ow_correlation := cid \<rparr>)"
    using assms by (simp add: process_def seq_def new_correlation_def ask_def bind_correlation_id_def change_def Let_def)
  moreover have "ow_correlation (snd (?rest (w\<lparr> ow_ids := ow_ids w + 1, ow_correlation := cid \<rparr>))) = cid"
    by (rule bound_rest [unfolded keeps_iff, rule_format]) simp
  moreover have "\<forall>r. fst (?rest (w\<lparr> ow_ids := ow_ids w + 1, ow_correlation := cid \<rparr>)) = Inr r \<longrightarrow> rs_correlation_id r = cid"
    by (intro allI impI) (erule named_result [OF named_rest])
  ultimately show ?thesis by simp
qed

lemma safe_id_kept:
  assumes "list_all safe_id_char cid" and "cid \<noteq> []" and "length cid \<le> max_id_len"
  shows "sanitize_correlation_id hex (Some cid) = cid"
  using assms by (simp add: sanitize_correlation_id_eq py_or_def list_all_iff filter_id_conv)

lemma query_endpoint_id:
  assumes "\<forall>request. body = Inr request \<longrightarrow> or_opt (qr_correlation_id request) None = None" and "ow_correlation w = cid"
    and "cid \<noteq> ''-''" and "\<And>hex. sanitize_correlation_id hex (Some cid) = cid"
  shows "ow_correlation (snd (query_endpoint oc exec i body w)) = cid
     \<and> (\<forall>st q. fst (query_endpoint oc exec i body w) = Inr (st, QueryBody q) \<longrightarrow> rs_correlation_id q = cid)
     \<and> (\<forall>st e. fst (query_endpoint oc exec i body w) \<noteq> Inr (st, ErrorBody e))"
proof (cases "identity_of i")
  case (Inl e)
  then show ?thesis using assms(2) by (simp add: query_endpoint_def seq_identify fail_def)
next
  case id: (Inr auth)
  show ?thesis
  proof (cases body)
    case (Inl errors)
    then show ?thesis using assms(2) by (simp add: query_endpoint_def seq_identify(1) [OF id] fail_def)
  next
    case (Inr rq)
    obtain r w1 where p: "process oc rq auth exec w = (r, w1)" by fastforce
    have "or_opt (qr_correlation_id rq) None = None" using assms(1) Inr by simp
    from process_id [OF this assms(2-4), where oc = oc and auth = auth and exec = exec] p
    show ?thesis
      by (cases r) (simp_all add: query_endpoint_def seq_identify(1) [OF id] Inr seq_def give_def p)
  qed
qed

text \<open>
  One identifier per request: the header of a reply is a safe identifier, and when the
  request names none of its own, the body of the query endpoints, response or error envelope,
  carries the same one. The transport's identifier must not be a bare dash, which the code
  uses for none.
\<close>

lemma replies_carry_one_id:
  assumes "list_all safe_id_char (oc_hex oc (ow_ids w))" and "length (oc_hex oc (ow_ids w)) \<le> 123"
    and "cid = sanitize_correlation_id (oc_hex oc (ow_ids w)) header" and "cid \<noteq> ''-''"
    and "\<forall>request. body = Inr request \<longrightarrow> or_opt (qr_correlation_id request) None = None"
    and "r = fst (serve oc header (query_endpoint oc exec i body) w)"
  shows "hr_correlation r \<in> {Some cid, None} \<and> list_all safe_id_char cid
     \<and> (\<forall>q. hr_body r = QueryBody q \<longrightarrow> rs_correlation_id q = cid)
     \<and> (\<forall>e. hr_body r = ErrorBody e \<longrightarrow> ep_correlation_id e = cid)"
proof -
  have safe: "list_all safe_id_char cid" "cid \<noteq> []" "length cid \<le> max_id_len"
    using sanitize_correlation_id_safe [OF assms(1,2)] assms(3) by auto
  let ?w = "w\<lparr> ow_ids := ow_ids w + 1, ow_correlation := cid \<rparr>"
  have "ow_correlation (snd (query_endpoint oc exec i body ?w)) = cid
      \<and> (\<forall>st q. fst (query_endpoint oc exec i body ?w) = Inr (st, QueryBody q) \<longrightarrow> rs_correlation_id q = cid)
      \<and> (\<forall>st e. fst (query_endpoint oc exec i body ?w) \<noteq> Inr (st, ErrorBody e))"
    by (rule query_endpoint_id) (use assms(4,5) safe in \<open>auto simp: safe_id_kept\<close>)
  then show ?thesis
    unfolding assms(6) serve_reply assms(3) [symmetric]
    using safe(1) by (auto simp: respond_def envelope_def split: sum.splits failure.splits prod.splits)
qed

lemma replies_carry_one_id_witness:
  "hr_correlation (fst (serve (ex_orchestrator SQLITE []) (Some ''web-1'') (query_endpoint (ex_orchestrator SQLITE []) True (ex_caller None)
     (Inr ex_request)) ex_world)) \<in> {Some ''web-1'', None}"
proof -
  have "sanitize_correlation_id (oc_hex (ex_orchestrator SQLITE []) (ow_ids ex_world)) (Some ''web-1'') = ''web-1''"
    "list_all safe_id_char (oc_hex (ex_orchestrator SQLITE []) (ow_ids ex_world))"
    "length (oc_hex (ex_orchestrator SQLITE []) (ow_ids ex_world)) \<le> 123"
    by code_simp+
  with replies_carry_one_id [of "ex_orchestrator SQLITE []" ex_world "''web-1''" "Some ''web-1''" "Inr ex_request",
      OF _ _ _ _ _ refl]
  show ?thesis by (simp add: ex_request_def or_opt_def)
qed

end
