(* ===== verification/OpenAIAdapter.thy ===== *)
theory OpenAIAdapter
  imports Provider Catalog
begin

text \<open>
  The adapter for OpenAI-compatible endpoints (\<open>llm/openai_adapter.py\<close>): the request payload,
  retries with linear backoff, the mapping of transport failures and statuses to the engine's
  errors, and the parsing of the reply.

  The HTTP client and \<open>json.loads\<close> are functions of the adapter; \<open>None\<close> stands for a
  \<open>JSONDecodeError\<close>. JSON numbers are rationals, so NaN and the infinities are left out. The
  state keeps the requests posted and the pauses taken.
\<close>

section \<open>The adapter and its client\<close>

record post_request =
  po_url :: string
  po_payload :: json
  po_authorization :: string
  po_timeout :: rat

datatype post_outcome =
    PostTimeout | PostFailed | PostBroken py_exception | Answered nat "json option"

record openai_adapter =
  oa_api_key :: string
  oa_model :: string
  oa_base_url :: string
  oa_max_retries :: int
  oa_temperature :: rat
  oa_provider_name :: string
  oa_post :: "post_request list \<Rightarrow> post_request \<Rightarrow> post_outcome"
  oa_loads :: "string \<Rightarrow> json option"
  oa_str :: "json \<Rightarrow> string"

record post_world =
  pw_posts :: "post_request list"
  pw_sleeps :: "rat list"

definition new_adapter :: "string option \<Rightarrow> openai_adapter \<Rightarrow> engine_error + openai_adapter" where
  "new_adapter api_key oa = (let q = [CHR 0x27] in case or_opt api_key None of
     None \<Rightarrow> Inl (mk_error ConfigurationError
       (''Provider '' @ q @ oa_provider_name oa @ q @ '' selected but no API key is configured.'')
       [] (Some ''Set the environment variable named by T2SQL_LLM_API_KEY_ENV.'') None)
   | Some k \<Rightarrow> Inr (oa\<lparr> oa_api_key := k,
       oa_base_url := rstrip_by (\<lambda>c. c = CHR ''/'') (oa_base_url oa) \<rparr>))"

section \<open>Posting\<close>

definition chat_message :: "string \<Rightarrow> string \<Rightarrow> json" where
  "chat_message role content = JObj [(''role'', JStr role), (''content'', JStr content)]"

definition chat_payload :: "openai_adapter \<Rightarrow> generation_request \<Rightarrow> json" where
  "chat_payload oa req = JObj
     [(''model'', JStr (oa_model oa)), (''temperature'', JNum (oa_temperature oa)),
      (''messages'', JList [chat_message ''system'' (pp_system (gr_prompt req)),
         chat_message ''user'' (pp_user (gr_prompt req))]),
      (''response_format'', JObj [(''type'', JStr ''json_object'')])]"

definition provider_error :: "error_class \<Rightarrow> string \<Rightarrow> bool option \<Rightarrow> failure" where
  "provider_error c msg retry = Raised (mk_error c msg [] None retry)"

definition outcome_result :: "post_outcome \<Rightarrow> failure + json" where
  "outcome_result out = (case out of
     PostTimeout \<Rightarrow> Inl (provider_error ProviderTimeoutError ''The LLM provider timed out.'' None)
   | PostFailed \<Rightarrow> Inl (provider_error ProviderError ''The LLM provider request failed.'' None)
   | PostBroken x \<Rightarrow> Inl (Unhandled x)
   | Answered status body \<Rightarrow>
       if status = 429
       then Inl (provider_error ProviderError ''The LLM provider rate-limited the request.'' (Some True))
       else if status \<ge> 500
       then Inl (provider_error ProviderError
         (''The LLM provider returned status '' @ show_nat status @ ''.'') (Some True))
       else if status \<ge> 400
       then Inl (provider_error ProviderError
         (''The LLM provider rejected the request (status '' @ show_nat status @ '').'') (Some False))
       else (case body of
           None \<Rightarrow> Inl (provider_error ProviderOutputError ''The provider returned non-JSON output.'' None)
         | Some j \<Rightarrow> Inr j))"

definition post :: "openai_adapter \<Rightarrow> json \<Rightarrow> rat \<Rightarrow> (json, 'z post_world_scheme) call" where
  "post oa payload timeout w =
     (let req = \<lparr> po_url = oa_base_url oa @ ''/chat/completions'', po_payload = payload,
            po_authorization = ''Bearer '' @ oa_api_key oa, po_timeout = timeout \<rparr>
      in (outcome_result (oa_post oa (pw_posts w) req), w\<lparr> pw_posts := pw_posts w @ [req] \<rparr>))"

definition backoff :: "openai_adapter \<Rightarrow> nat \<Rightarrow> (unit, 'z post_world_scheme) call" where
  "backoff oa attempt = (if int attempt < oa_max_retries oa
     then change (\<lambda>w. w\<lparr> pw_sleeps := pw_sleeps w @ [5 / 100 * (of_nat attempt + 1)] \<rparr>)
     else give ())"

text \<open>Whether the loop goes on after this failure.\<close>

definition retried :: "failure \<Rightarrow> bool" where
  "retried x = (case x of
     Raised e \<Rightarrow> ee_class e = ProviderTimeoutError \<or> is_provider_error (ee_class e) \<and> ee_retryable e
   | Unhandled _ \<Rightarrow> False)"

fun post_attempts ::
    "openai_adapter \<Rightarrow> json \<Rightarrow> rat \<Rightarrow> nat list \<Rightarrow> failure option \<Rightarrow> (json, 'z post_world_scheme) call" where
  "post_attempts oa payload timeout [] last_exc =
     fail (case last_exc of None \<Rightarrow> Unhandled (PyOther ''AssertionError'') | Some x \<Rightarrow> x)"
| "post_attempts oa payload timeout (a # rest) last_exc = (\<lambda>w.
     case post oa payload timeout w of
       (Inr data, w1) \<Rightarrow> (Inr data, w1)
     | (Inl x, w1) \<Rightarrow>
         if retried x
         then seq (backoff oa a) (\<lambda>_. post_attempts oa payload timeout rest (Some x)) w1
         else (Inl x, w1))"

definition post_with_retries ::
    "openai_adapter \<Rightarrow> json \<Rightarrow> rat \<Rightarrow> (json, 'z post_world_scheme) call" where
  "post_with_retries oa payload timeout =
     post_attempts oa payload timeout [0..<nat (oa_max_retries oa + 1)] None"

section \<open>Parsing the reply\<close>

text \<open>\<open>j[0]\<close>; the first character of a string, and no key \<open>0\<close> in an object of text keys.\<close>

fun first_item :: "json \<Rightarrow> py_exception + json" where
  "first_item (JList xs) = (case xs of [] \<Rightarrow> Inl PyIndexError | x # _ \<Rightarrow> Inr x)"
| "first_item (JStr s) = (case s of [] \<Rightarrow> Inl PyIndexError | c # _ \<Rightarrow> Inr (JStr [c]))"
| "first_item (JObj _) = Inl PyKeyError"
| "first_item _ = Inl PyTypeError"

definition message_content :: "json \<Rightarrow> py_exception + json" where
  "message_content data =
     and_then (get_item data ''choices'') (\<lambda>choices.
     and_then (first_item choices) (\<lambda>choice.
     and_then (get_item choice ''message'') (\<lambda>message. get_item message ''content'')))"

definition int_of_string :: "string \<Rightarrow> int option" where
  "int_of_string s = (let t = strip s; neg = (t \<noteq> [] \<and> hd t = CHR ''-'');
       ds = (if t \<noteq> [] \<and> (hd t = CHR ''-'' \<or> hd t = CHR ''+'') then tl t else t)
     in if ds = [] \<or> \<not> list_all is_decimal ds then None
        else Some ((if neg then -1 else 1) * \<lfloor>digits_value 0 ds\<rfloor>))"

text \<open>\<open>int(v or 0)\<close>.\<close>

fun int_or_0 :: "json \<Rightarrow> py_exception + int" where
  "int_or_0 JNull = Inr 0"
| "int_or_0 (JBool b) = Inr (if b then 1 else 0)"
| "int_or_0 (JNum r) = Inr (truncate_rat r)"
| "int_or_0 (JStr s) = (if s = [] then Inr 0
     else case int_of_string s of None \<Rightarrow> Inl PyValueError | Some i \<Rightarrow> Inr i)"
| "int_or_0 (JList xs) = (if xs = [] then Inr 0 else Inl PyTypeError)"
| "int_or_0 (JObj kvs) = (if kvs = [] then Inr 0 else Inl PyTypeError)"

fun usage_entry :: "json \<Rightarrow> string \<Rightarrow> py_exception + int" where
  "usage_entry (JObj kvs) k = int_or_0 (dict_get (JNum 0) kvs k)"
| "usage_entry _ _ = Inl PyAttributeError"

definition usage_of :: "json \<Rightarrow> py_exception + token_usage" where
  "usage_of data = (let raw = (case get_item data ''usage'' of Inl _ \<Rightarrow> JNull | Inr u \<Rightarrow> u);
       usage = (if truthy raw then raw else JObj [])
     in and_then (usage_entry usage ''prompt_tokens'') (\<lambda>p.
        and_then (usage_entry usage ''completion_tokens'') (\<lambda>c.
        Inr \<lparr> tu_prompt_tokens = p, tu_completion_tokens = c \<rparr>)))"

definition coerce_dialect :: "json option \<Rightarrow> sql_dialect \<Rightarrow> sql_dialect" where
  "coerce_dialect v d = (case v of
     Some (JStr s) \<Rightarrow> (case dialect_of_value (lower s) of None \<Rightarrow> d | Some x \<Rightarrow> x)
   | _ \<Rightarrow> d)"

definition coerce_confidence :: "json option \<Rightarrow> rat" where
  "coerce_confidence v = (case to_float (case v of None \<Rightarrow> JNull | Some j \<Rightarrow> j) of
     Inl _ \<Rightarrow> 1 / 2 | Inr r \<Rightarrow> max 0 (min 1 r))"

definition py_text :: "(json \<Rightarrow> string) \<Rightarrow> json \<Rightarrow> string" where
  "py_text str j = (case j of JStr s \<Rightarrow> s | _ \<Rightarrow> str j)"

text \<open>\<open>tuple(str(x) for x in obj.get(key, []) or [])\<close>.\<close>

definition text_items :: "(json \<Rightarrow> string) \<Rightarrow> json option \<Rightarrow> py_exception + string list" where
  "text_items str v = (case v of
     None \<Rightarrow> Inr []
   | Some j \<Rightarrow> if \<not> truthy j then Inr [] else case j of
       JList xs \<Rightarrow> Inr (map (py_text str) xs)
     | JStr s \<Rightarrow> Inr (map (\<lambda>c. [c]) s)
     | JObj kvs \<Rightarrow> Inr (map fst kvs)
     | _ \<Rightarrow> Inl PyTypeError)"

definition build_generation ::
    "openai_adapter \<Rightarrow> generation_request \<Rightarrow> (string \<times> json) list \<Rightarrow> string \<Rightarrow> token_usage
      \<Rightarrow> py_exception + generation_response" where
  "build_generation oa req obj sql usage = (let get = map_of obj in
     and_then (text_items (oa_str oa) (get ''referenced_tables'')) (\<lambda>tables.
     and_then (text_items (oa_str oa) (get ''referenced_columns'')) (\<lambda>columns.
     and_then (text_items (oa_str oa) (get ''assumptions'')) (\<lambda>assumptions.
     Inr \<lparr> gs_sql = strip sql, gs_dialect = coerce_dialect (get ''dialect'') (gr_dialect req),
       gs_explanation = (case get ''explanation'' of None \<Rightarrow> [] | Some j \<Rightarrow> py_text (oa_str oa) j),
       gs_referenced_tables = tables, gs_referenced_columns = columns, gs_assumptions = assumptions,
       gs_confidence = coerce_confidence (get ''confidence''),
       gs_needs_clarification = (case get ''needs_clarification'' of None \<Rightarrow> False | Some j \<Rightarrow> truthy j),
       gs_clarification = None, gs_prompt_version = pp_version (gr_prompt req),
       gs_provider = oa_provider_name oa, gs_model = oa_model oa, gs_usage = usage \<rparr>))))"

definition output_error :: "string \<Rightarrow> failure" where
  "output_error msg = provider_error ProviderOutputError msg None"

definition parse_content ::
    "openai_adapter \<Rightarrow> json \<Rightarrow> generation_request \<Rightarrow> json \<Rightarrow> failure + generation_response" where
  "parse_content oa data req content = (case content of
     JStr text_content \<Rightarrow>
       (case oa_loads oa text_content of
          None \<Rightarrow> Inl (output_error ''Provider message content was not valid JSON.'')
        | Some (JObj obj) \<Rightarrow>
            (case map_of obj ''sql'' of
               Some (JStr sql) \<Rightarrow> map_sum Unhandled id
                 (and_then (usage_of data) (\<lambda>usage. build_generation oa req obj sql usage))
             | _ \<Rightarrow> Inl (output_error ''Provider JSON did not include a 'sql' string.''))
        | Some _ \<Rightarrow> Inl (output_error ''Provider JSON did not include a 'sql' string.''))
   | _ \<Rightarrow> Inl (Unhandled PyTypeError))"

definition parse_response ::
    "openai_adapter \<Rightarrow> json \<Rightarrow> generation_request \<Rightarrow> failure + generation_response" where
  "parse_response oa data req = (case message_content data of
     Inl _ \<Rightarrow> Inl (output_error ''Provider response missing message content.'')
   | Inr content \<Rightarrow> parse_content oa data req content)"

definition generate :: "openai_adapter \<Rightarrow> generation_request \<Rightarrow> (generation_response, 'z post_world_scheme) call" where
  "generate oa req = seq (post_with_retries oa (chat_payload oa req) (gr_timeout_seconds req))
     (\<lambda>data w. (parse_response oa data req, w))"

text \<open>As a provider: the client's answers depend on what the earlier requests posted.\<close>

definition fresh_posts :: post_world where
  "fresh_posts = \<lparr> pw_posts = [], pw_sleeps = [] \<rparr>"

definition posts_after :: "openai_adapter \<Rightarrow> generation_request list \<Rightarrow> post_world" where
  "posts_after oa seen = fold (\<lambda>req w. snd (generate oa req w)) seen fresh_posts"

definition openai_provider :: "openai_adapter \<Rightarrow> llm_provider" where
  "openai_provider oa = \<lparr> lp_name = oa_provider_name oa, lp_model = oa_model oa,
     lp_generate = (\<lambda>seen req. fst (generate oa req (posts_after oa seen))) \<rparr>"

end
