(* ===== verification/AdapterProperties.thy ===== *)
theory AdapterProperties
  imports OpenAIAdapter OrchestratorProperties
begin

text \<open>
  The properties of the OpenAI adapter: how often and when it posts, what its failures are,
  and what a parsed reply holds.
\<close>

section \<open>The retry loop\<close>

definition request_for :: "openai_adapter \<Rightarrow> json \<Rightarrow> rat \<Rightarrow> post_request" where
  "request_for oa payload timeout = \<lparr> po_url = oa_base_url oa @ ''/chat/completions'', po_payload = payload,
     po_authorization = ''Bearer '' @ oa_api_key oa, po_timeout = timeout \<rparr>"

text \<open>What the i-th post of a request would end with, after the posts \<open>H\<close> before it.\<close>

definition outcome :: "openai_adapter \<Rightarrow> json \<Rightarrow> rat \<Rightarrow> post_request list \<Rightarrow> nat \<Rightarrow> failure + json" where
  "outcome oa payload timeout H i = (let req = request_for oa payload timeout in
     outcome_result (oa_post oa (H @ replicate i req) req))"

definition goes_on :: "failure + json \<Rightarrow> bool" where
  "goes_on r = (case r of Inl x \<Rightarrow> retried x | Inr _ \<Rightarrow> False)"

lemma post_eq: "post oa payload timeout w = (outcome oa payload timeout (pw_posts w) 0,
    w\<lparr> pw_posts := pw_posts w @ [request_for oa payload timeout] \<rparr>)"
  by (simp add: post_def outcome_def request_for_def Let_def)

lemma outcome_Suc: "outcome oa payload timeout (H @ [request_for oa payload timeout]) i = outcome oa payload timeout H (Suc i)"
  by (simp add: outcome_def Let_def)

definition ended :: "openai_adapter \<Rightarrow> json \<Rightarrow> rat \<Rightarrow> nat \<Rightarrow> 'z post_world_scheme
    \<Rightarrow> (failure + json) \<times> 'z post_world_scheme \<Rightarrow> bool" where
  "ended oa payload timeout n w res \<longleftrightarrow> (\<exists>i<n. fst res = outcome oa payload timeout (pw_posts w) i
     \<and> pw_posts (snd res) = pw_posts w @ replicate (Suc i) (request_for oa payload timeout)
     \<and> (\<forall>j<i. goes_on (outcome oa payload timeout (pw_posts w) j))
     \<and> (Suc i = n \<or> \<not> goes_on (outcome oa payload timeout (pw_posts w) i)))"

lemma backoff_world: "fst (backoff oa a w) = Inr () \<and> pw_posts (snd (backoff oa a w)) = pw_posts w"
  by (simp add: backoff_def change_def give_def)

lemma seq_backoff: "seq (backoff oa a) k w = k () (snd (backoff oa a w))"
  using backoff_world [of oa a w] by (cases "backoff oa a w") (simp add: seq_def)

lemma post_attempts_ended:
  "as \<noteq> [] \<Longrightarrow> ended oa payload timeout (length as) w (post_attempts oa payload timeout as last_exc w)"
proof (induction as arbitrary: w last_exc)
  case (Cons a as)
  let ?o = "outcome oa payload timeout (pw_posts w)" and ?r = "request_for oa payload timeout"
  let ?w = "w\<lparr> pw_posts := pw_posts w @ [?r] \<rparr>"
  show ?case
  proof (cases "goes_on (?o 0)")
    case False
    then have "post_attempts oa payload timeout (a # as) last_exc w = (?o 0, ?w)"
      by (auto simp: post_eq goes_on_def split: sum.splits)
    with False show ?thesis by (auto simp: ended_def intro!: exI [of _ 0])
  next
    case True
    then obtain x where x: "?o 0 = Inl x" "retried x" by (auto simp: goes_on_def split: sum.splits)
    let ?b = "snd (backoff oa a ?w)"
    have step: "post_attempts oa payload timeout (a # as) last_exc w = post_attempts oa payload timeout as (Some x) ?b"
      using x by (simp add: post_eq seq_backoff)
    have b: "pw_posts ?b = pw_posts w @ [?r]" using backoff_world [of oa a ?w] by simp
    show ?thesis
    proof (cases as)
      case Nil
      then show ?thesis unfolding step ended_def
        by (intro exI [of _ 0]) (simp add: fail_def x b)
    next
      case (Cons a' as')
      then have "ended oa payload timeout (length as) ?b (post_attempts oa payload timeout as (Some x) ?b)"
        by (intro Cons.IH) simp
      then obtain i where "i < length as" "fst (post_attempts oa payload timeout as (Some x) ?b) = ?o (Suc i)"
        "pw_posts (snd (post_attempts oa payload timeout as (Some x) ?b)) = pw_posts w @ [?r] @ replicate (Suc i) ?r"
        "\<forall>j<i. goes_on (?o (Suc j))" "Suc i = length as \<or> \<not> goes_on (?o (Suc i))"
        unfolding ended_def b outcome_Suc by auto
      with True show ?thesis
        unfolding step ended_def by (intro exI [of _ "Suc i"]) (auto simp: less_Suc_eq_0_disj)
    qed
  qed
qed simp

definition request_of :: "openai_adapter \<Rightarrow> generation_request \<Rightarrow> post_request" where
  "request_of oa req = request_for oa (chat_payload oa req) (gr_timeout_seconds req)"

lemma generate_eq:
  "pw_posts (snd (generate oa req w)) =
     pw_posts (snd (post_with_retries oa (chat_payload oa req) (gr_timeout_seconds req) w))
   \<and> fst (generate oa req w) = (case fst (post_with_retries oa (chat_payload oa req) (gr_timeout_seconds req) w) of
       Inl x \<Rightarrow> Inl x | Inr data \<Rightarrow> parse_response oa data req)"
  by (simp add: generate_def seq_def split: prod.splits sum.splits)

lemma generate_ended:
  assumes "0 \<le> oa_max_retries oa"
  shows "\<exists>i\<le>nat (oa_max_retries oa).
     pw_posts (snd (generate oa req w)) = pw_posts w @ replicate (Suc i) (request_of oa req)
     \<and> (\<forall>j<i. goes_on (outcome oa (chat_payload oa req) (gr_timeout_seconds req) (pw_posts w) j))
     \<and> (i = nat (oa_max_retries oa)
        \<or> \<not> goes_on (outcome oa (chat_payload oa req) (gr_timeout_seconds req) (pw_posts w) i))
     \<and> fst (generate oa req w) = (case outcome oa (chat_payload oa req) (gr_timeout_seconds req) (pw_posts w) i of
          Inl x \<Rightarrow> Inl x | Inr data \<Rightarrow> parse_response oa data req)"
proof -
  let ?n = "nat (oa_max_retries oa + 1)"
  have n: "?n = Suc (nat (oa_max_retries oa))" using assms by simp
  then have "[0..<?n] \<noteq> []" by simp
  from post_attempts_ended [OF this, of oa "chat_payload oa req" "gr_timeout_seconds req" w None]
  obtain i where "i < ?n" "Suc i = ?n \<or> \<not> goes_on (outcome oa (chat_payload oa req) (gr_timeout_seconds req) (pw_posts w) i)"
    "fst (post_with_retries oa (chat_payload oa req) (gr_timeout_seconds req) w) =
       outcome oa (chat_payload oa req) (gr_timeout_seconds req) (pw_posts w) i"
    "pw_posts (snd (post_with_retries oa (chat_payload oa req) (gr_timeout_seconds req) w)) =
       pw_posts w @ replicate (Suc i) (request_of oa req)"
    "\<forall>j<i. goes_on (outcome oa (chat_payload oa req) (gr_timeout_seconds req) (pw_posts w) j)"
    unfolding ended_def post_with_retries_def request_of_def by auto
  with n show ?thesis by (intro exI [of _ i]) (simp add: generate_eq)
qed

text \<open>
  C15: The adapter posts one fixed request again and again until an outcome is not to be
  retried, at most \<open>max_retries + 1\<close> times, and the last outcome is its result: a timeout, a
  rate limit, a server error or an unreadable body is retried, a reply and a rejection are
  not.
\<close>

theorem adapter_retries_exactly:
  assumes "0 \<le> oa_max_retries oa"
  shows "\<exists>i\<le>nat (oa_max_retries oa).
     pw_posts (snd (generate oa req w)) = pw_posts w @ replicate (Suc i) (request_of oa req)
     \<and> (\<forall>j<i. goes_on (outcome oa (chat_payload oa req) (gr_timeout_seconds req) (pw_posts w) j))
     \<and> (i = nat (oa_max_retries oa)
        \<or> \<not> goes_on (outcome oa (chat_payload oa req) (gr_timeout_seconds req) (pw_posts w) i))
     \<and> fst (generate oa req w) = (case outcome oa (chat_payload oa req) (gr_timeout_seconds req) (pw_posts w) i of
          Inl x \<Rightarrow> Inl x | Inr data \<Rightarrow> parse_response oa data req)"
  by (rule generate_ended [OF assms])

text \<open>A client that times out once and then answers.\<close>

definition ex_reply :: json where
  "ex_reply = JObj [(''choices'', JList [JObj [(''message'', JObj [(''content'', JStr ''reply'')])]])]"

definition ex_adapter :: openai_adapter where
  "ex_adapter = \<lparr> oa_api_key = ''k'', oa_model = ''m'', oa_base_url = ''http://llm'', oa_max_retries = 2,
     oa_temperature = 0, oa_provider_name = ''openai'',
     oa_post = (\<lambda>seen _. if seen = [] then PostTimeout else Answered 200 (Some ex_reply)),
     oa_loads = (\<lambda>s. if s = ''reply'' then Some (JObj [(''sql'', JStr '' SELECT 1 ''), (''confidence'', JNum 7)]) else None),
     oa_str = (\<lambda>_. []) \<rparr>"

definition ex_generation_request :: generation_request where
  "ex_generation_request = \<lparr> gr_question = ''q'', gr_dialect = SQLITE, gr_schema_subset = ex_schema,
     gr_semantic_layer = ex_semantic,
     gr_prompt = \<lparr> pp_system = ''s'', pp_user = ''u'', pp_version = ''v1'', pp_output_schema = JNull \<rparr>,
     gr_max_rows = 10, gr_resolved_date = None, gr_conversation = None, gr_repair = None, gr_model = ''m'',
     gr_temperature = 0, gr_timeout_seconds = 30 \<rparr>"

lemma adapter_retries_exactly_witness:
  "pw_posts (snd (generate ex_adapter ex_generation_request fresh_posts)) =
     [request_of ex_adapter ex_generation_request, request_of ex_adapter ex_generation_request]"
proof -
  have o: "goes_on (outcome ex_adapter p t [] 0)" "\<not> goes_on (outcome ex_adapter p t [] (Suc j))" for p t j
    by (simp_all add: outcome_def ex_adapter_def outcome_result_def goes_on_def retried_def provider_error_def Let_def)
  obtain i where "i \<le> 2"
    "pw_posts (snd (generate ex_adapter ex_generation_request fresh_posts)) =
      replicate (Suc i) (request_of ex_adapter ex_generation_request)"
    "\<forall>j<i. goes_on (outcome ex_adapter (chat_payload ex_adapter ex_generation_request) 30 [] j)"
    "i = 2 \<or> \<not> goes_on (outcome ex_adapter (chat_payload ex_adapter ex_generation_request) 30 [] i)"
    using adapter_retries_exactly [of ex_adapter ex_generation_request fresh_posts]
    by (auto simp: ex_adapter_def fresh_posts_def ex_generation_request_def)
  moreover from this have "i = 1"
    using o(1) o(2) [of _ _ 0] by (cases i; cases "i - 1") (force simp: less_Suc_eq_0_disj)+
  ultimately show ?thesis by simp
qed

section \<open>Failures and replies\<close>

lemma outcome_raises: "outcome_result out = Inl (Raised e) \<Longrightarrow> is_provider_error (ee_class e) \<and> ee_details e = []"
  by (auto simp: outcome_result_def provider_error_def is_provider_error_def mk_error_def
      split: post_outcome.splits if_splits option.splits)

lemma never_raised: "map_sum Unhandled id r \<noteq> Inl (Raised e)"
  by (cases r) simp_all

lemma parse_raises: "parse_response oa data req = Inl (Raised e) \<Longrightarrow> ee_class e = ProviderOutputError \<and> ee_details e = []"
  by (auto simp: parse_response_def parse_content_def output_error_def provider_error_def mk_error_def never_raised
      split: sum.splits json.splits option.splits)

lemma strip_ends: "strip s = [] \<or> \<not> is_space (hd (strip s)) \<and> \<not> is_space (last (strip s))"
proof (cases "strip s")
  case (Cons c cs)
  let ?l = "dropWhile is_space s"
  have r: "strip s = rev (dropWhile is_space (rev ?l))"
    by (simp add: strip_def strip_by_def lstrip_by_def rstrip_by_def)
  then have ne: "dropWhile is_space (rev ?l) \<noteq> []" using Cons by (metis list.discI rev.simps(1))
  then have "\<not> is_space (last (strip s))" unfolding r by (metis hd_dropWhile last_rev)
  moreover have "hd (strip s) = hd ?l"
  proof -
    have "rev ?l = takeWhile is_space (rev ?l) @ dropWhile is_space (rev ?l)" by simp
    then have "?l = strip s @ rev (takeWhile is_space (rev ?l))" unfolding r by (metis rev_append rev_rev_ident)
    then show ?thesis using Cons by (metis hd_append2 list.discI)
  qed
  moreover have "?l \<noteq> []" using ne by (metis dropWhile.simps(1) rev.simps(1))
  ultimately show ?thesis using hd_dropWhile [of is_space s] by simp
qed simp

lemma parse_gives:
  assumes "parse_response oa data req = Inr g"
  shows "0 \<le> gs_confidence g \<and> gs_confidence g \<le> 1
     \<and> (gs_sql g = [] \<or> \<not> is_space (hd (gs_sql g)) \<and> \<not> is_space (last (gs_sql g)))
     \<and> gs_provider g = oa_provider_name oa \<and> gs_model g = oa_model oa
     \<and> gs_prompt_version g = pp_version (gr_prompt req)"
proof -
  obtain obj sql usage where "build_generation oa req obj sql usage = Inr g"
    using assms by (auto simp: parse_response_def parse_content_def map_sum_def
        split: sum.splits json.splits option.splits)
  then show ?thesis
    using strip_ends [of sql] by (auto simp: build_generation_def Let_def coerce_confidence_def split: sum.splits)
qed

lemma post_attempts_raises:
  "(\<And>e. last_exc = Some (Raised e) \<Longrightarrow> is_provider_error (ee_class e) \<and> ee_details e = []) \<Longrightarrow>
   fst (post_attempts oa payload timeout as last_exc w) = Inl (Raised e) \<Longrightarrow> is_provider_error (ee_class e) \<and> ee_details e = []"
proof (induction as arbitrary: last_exc w)
  case Nil
  then show ?case by (auto simp: fail_def split: option.splits)
next
  case (Cons a as)
  show ?case
  proof (cases "outcome oa payload timeout (pw_posts w) 0")
    case (Inl x)
    then have x: "\<And>e. x = Raised e \<Longrightarrow> is_provider_error (ee_class e) \<and> ee_details e = []"
      using outcome_raises by (auto simp: outcome_def Let_def)
    then show ?thesis
      using Cons.prems(2) Cons.IH [of "Some x"] Inl
      by (cases "retried x") (simp_all add: post_eq seq_backoff)
  next
    case (Inr d)
    then show ?thesis using Cons.prems(2) by (simp add: post_eq)
  qed
qed

lemma post_with_retries_raises:
  "fst (post_with_retries oa payload timeout w) = Inl (Raised e) \<Longrightarrow> is_provider_error (ee_class e) \<and> ee_details e = []"
  unfolding post_with_retries_def by (rule post_attempts_raises) simp_all

text \<open>
  What the adapter hands on: an error it raises is a provider error without details; a
  reply it accepts has a confidence between 0 and 1, SQL text without blanks at its ends, and
  the names of the configured provider and model.
\<close>

lemma adapter_results_clean:
  "case fst (generate oa req w) of
     Inl (Raised e) \<Rightarrow> is_provider_error (ee_class e) \<and> ee_details e = []
   | Inl (Unhandled _) \<Rightarrow> True
   | Inr g \<Rightarrow> 0 \<le> gs_confidence g \<and> gs_confidence g \<le> 1
       \<and> (gs_sql g = [] \<or> \<not> is_space (hd (gs_sql g)) \<and> \<not> is_space (last (gs_sql g)))
       \<and> gs_provider g = oa_provider_name oa \<and> gs_model g = oa_model oa
       \<and> gs_prompt_version g = pp_version (gr_prompt req)"
proof -
  let ?r = "fst (post_with_retries oa (chat_payload oa req) (gr_timeout_seconds req) w)"
  have r: "\<And>e. ?r = Inl (Raised e) \<Longrightarrow> is_provider_error (ee_class e) \<and> ee_details e = []"
    by (rule post_with_retries_raises)
  show ?thesis
  proof (cases ?r)
    case (Inl x)
    then show ?thesis using r generate_eq [of oa req w] by (cases x) simp_all
  next
    case (Inr data)
    then have "fst (generate oa req w) = parse_response oa data req" using generate_eq [of oa req w] by simp
    then show ?thesis
      using parse_gives [of oa data req] parse_raises [of oa data req]
      by (auto simp: is_provider_error_def split: sum.splits failure.splits)
  qed
qed

section \<open>The adapter in the pipeline\<close>

text \<open>The repair context is not part of what is posted.\<close>

lemma request_of_repair [simp]: "request_of oa (req\<lparr> gr_repair := r \<rparr>) = request_of oa req"
  by (simp add: request_of_def request_for_def chat_payload_def)

lemma posts_after_bounded:
  assumes "0 \<le> oa_max_retries oa" and "\<forall>q\<in>set seen. request_of oa q = r"
  shows "set (pw_posts (fold (\<lambda>req w. snd (generate oa req w)) seen w)) \<subseteq> set (pw_posts w) \<union> {r}
     \<and> length (pw_posts (fold (\<lambda>req w. snd (generate oa req w)) seen w))
        \<le> length (pw_posts w) + length seen * nat (oa_max_retries oa + 1)"
  using assms(2)
proof (induction seen arbitrary: w)
  case (Cons q seen)
  obtain i where i: "i \<le> nat (oa_max_retries oa)"
    "pw_posts (snd (generate oa q w)) = pw_posts w @ replicate (Suc i) (request_of oa q)"
    using generate_ended [OF assms(1), of q w] by blast
  moreover have "request_of oa q = r" using Cons.prems by simp
  ultimately show ?case
    using Cons.IH [of "snd (generate oa q w)"] Cons.prems assms(1) by (auto simp: Suc_nat_eq_nat_zadd1)
qed auto

lemma pipeline_posts_bounded:
  assumes "0 \<le> oa_max_retries oa" and "ow_requests w = []"
  shows "\<exists>r. set (pw_posts (posts_after oa (ow_requests (snd (process oc request auth exec w))))) \<subseteq> {r}
     \<and> length (pw_posts (posts_after oa (ow_requests (snd (process oc request auth exec w)))))
        \<le> nat (oc_max_repair oc + 1) * nat (oa_max_retries oa + 1)"
proof -
  obtain base rs where q: "ow_requests (snd (process oc request auth exec w)) = map (\<lambda>r. base\<lparr> gr_repair := r \<rparr>) rs"
    "length rs \<le> nat (oc_max_repair oc + 1)"
    using process_asks_at_most [of oc w request auth exec] assms(2) by (auto simp: asked_at_most_def asked_since_def)
  have "\<forall>x\<in>set (map (\<lambda>r. base\<lparr> gr_repair := r \<rparr>) rs). request_of oa x = request_of oa base" by simp
  from posts_after_bounded [OF assms(1) this, of fresh_posts] q(2)
  have "set (pw_posts (posts_after oa (map (\<lambda>r. base\<lparr> gr_repair := r \<rparr>) rs))) \<subseteq> {request_of oa base}"
    "length (pw_posts (posts_after oa (map (\<lambda>r. base\<lparr> gr_repair := r \<rparr>) rs)))
       \<le> nat (oc_max_repair oc + 1) * nat (oa_max_retries oa + 1)"
    by (simp_all add: posts_after_def fresh_posts_def) (meson le_trans mult_le_mono1)
  with q(1) show ?thesis by metis
qed

text \<open>
  Behind the orchestrator the adapter posts at most \<open>(max_repair_attempts + 1) *
  (max_retries + 1)\<close> requests for one question, and all of them are the same: neither the
  rejected SQL nor the errors of a repair attempt reach the language model.
\<close>

lemma pipeline_posts_one_request:
  assumes "0 \<le> oa_max_retries oa" and "ow_requests w = []"
  shows "\<exists>r. set (pw_posts (posts_after oa (ow_requests (snd (process oc request auth exec w))))) \<subseteq> {r}
     \<and> length (pw_posts (posts_after oa (ow_requests (snd (process oc request auth exec w)))))
        \<le> nat (oc_max_repair oc + 1) * nat (oa_max_retries oa + 1)"
  by (rule pipeline_posts_bounded [OF assms])

lemma pipeline_posts_one_request_witness:
  "\<exists>r. set (pw_posts (posts_after ex_adapter (ow_requests (snd (process
     ((ex_orchestrator SQLITE [])\<lparr> oc_provider := openai_provider ex_adapter \<rparr>) ex_request ex_auth True ex_world))))) \<subseteq> {r}"
proof -
  have "0 \<le> oa_max_retries ex_adapter" "ow_requests ex_world = []" by (simp_all add: ex_adapter_def ex_world_def)
  from pipeline_posts_one_request [OF this] show ?thesis by blast
qed

end
