(* ===== verification/FakeProvider.thy ===== *)
theory FakeProvider
  imports Provider Dates Retriever Catalog
begin

text \<open>
  The deterministic provider (\<open>llm/fake.py\<close>): scripted candidates per question, and the rules
  that turn common questions on the reference schema into SQL. Its lemmas bound what a rule
  can produce.
\<close>

section \<open>Questions\<close>

definition number_words :: "(string \<times> nat) list" where
  "number_words = [(''one'', 1), (''two'', 2), (''three'', 3), (''four'', 4), (''five'', 5), (''six'', 6),
     (''seven'', 7), (''eight'', 8), (''nine'', 9), (''ten'', 10), (''twenty'', 20)]"

definition normalize_question :: "string \<Rightarrow> string" where
  "normalize_question question = join '' '' (split_ws (lower question))"

definition extract_limit :: "string \<Rightarrow> nat \<Rightarrow> nat" where
  "extract_limit src dflt =
     (case search (seqs [WordB, lit ''top'', plus space, Group 1 (plus digit), WordB]) src of
        Some m \<Rightarrow> nat_of_digits 0 (group m 1)
      | None \<Rightarrow> (case find (\<lambda>(word, value). search (seqs [WordB, lit ''top'', plus space, lit word, WordB]) src \<noteq> None)
            number_words of
          Some (_, value) \<Rightarrow> value
        | None \<Rightarrow> dflt))"

section \<open>Generated candidates\<close>

record generated =
  ge_sql :: string
  ge_explanation :: string
  ge_confidence :: rat
  ge_assumptions :: "string list"
  ge_tables :: "string list"

definition entity_tables :: "(string \<times> string) list" where
  "entity_tables =
     [(''product'', ''products''), (''customer'', ''customers''), (''account'', ''customers''),
      (''order'', ''orders''), (''user'', ''users''), (''region'', ''regions''), (''payment'', ''payments''),
      (''refund'', ''refunds''), (''subscription'', ''subscriptions''), (''ticket'', ''support_tickets''),
      (''organization'', ''organizations'')]"

definition status_values :: "string list" where
  "status_values = [''open'', ''pending'', ''closed'', ''paid'', ''shipped'', ''refunded'', ''cancelled'',
     ''active'', ''canceled'', ''past_due'', ''succeeded'', ''failed'']"

definition quoted :: "string \<Rightarrow> string" where
  "quoted s = [CHR 0x27] @ s @ [CHR 0x27]"

definition date_clause :: "string \<Rightarrow> resolved_date \<Rightarrow> string" where
  "date_clause col d = col @ '' >= '' @ quoted (rv_start_iso d) @ '' AND ''
     @ col @ '' < '' @ quoted (rv_end_iso d)"

definition month_expr :: "sql_dialect \<Rightarrow> string \<Rightarrow> string" where
  "month_expr dialect col = (if dialect = POSTGRES
     then ''to_char('' @ col @ '', '' @ quoted ''YYYY-MM'' @ '')''
     else ''strftime('' @ quoted ''%Y-%m'' @ '', '' @ col @ '')'')"

definition revenue_expr :: string where
  "revenue_expr = ''SUM(order_items.quantity * order_items.unit_price) AS revenue''"

definition revenue_assumption :: string where
  "revenue_assumption = ''Revenue = SUM(quantity * unit_price) over order line items.''"

definition restricted_to :: "resolved_date option \<Rightarrow> string list" where
  "restricted_to date = (case date of None \<Rightarrow> []
     | Some d \<Rightarrow> [''Restricted to '' @ rv_description d @ ''.''])"

definition where_lines :: "string list \<Rightarrow> string" where
  "where_lines conditions = (if conditions = [] then []
     else newline @ ''WHERE '' @ join '' AND '' conditions)"

definition ordered_at_clause :: "resolved_date option \<Rightarrow> string list" where
  "ordered_at_clause date = (case date of None \<Rightarrow> [] | Some d \<Rightarrow> [date_clause ''orders.ordered_at'' d])"

definition top_products_by_revenue :: "string \<Rightarrow> resolved_date option \<Rightarrow> generated" where
  "top_products_by_revenue q date = (let k = extract_limit q 5 in
     \<lparr> ge_sql = join newline
         [''SELECT products.name AS product, '' @ revenue_expr,
          ''FROM order_items'',
          ''JOIN orders ON orders.id = order_items.order_id'',
          ''JOIN products ON products.id = order_items.product_id'' @ where_lines (ordered_at_clause date),
          ''GROUP BY products.name'',
          ''ORDER BY revenue DESC'',
          ''LIMIT '' @ show_nat k],
       ge_explanation = ''Top '' @ show_nat k @ '' products ranked by line-item revenue''
         @ (case date of None \<Rightarrow> ''.'' | Some d \<Rightarrow> '' during '' @ rv_description d @ ''.''),
       ge_confidence = 9 / 10,
       ge_assumptions = revenue_assumption # restricted_to date,
       ge_tables = [''order_items'', ''orders'', ''products''] \<rparr>)"

text \<open>The joins, the expression, its alias and the tables of the dimension a question names.\<close>

definition dimension_of ::
    "sql_dialect \<Rightarrow> string \<Rightarrow> string list \<times> string \<times> string \<times> string list" where
  "dimension_of dialect q =
     (let products = ''JOIN products ON products.id = order_items.product_id'';
          customers = ''JOIN customers ON customers.id = orders.customer_id'' in
      if contains q ''region''
      then ([customers, ''JOIN regions ON regions.id = customers.region_id''], ''regions.name'', ''region'',
        [''customers'', ''regions''])
      else if contains q ''category'' then ([products], ''products.category'', ''category'', [''products''])
      else if contains q ''product'' then ([products], ''products.name'', ''product'', [''products''])
      else if contains q ''month'' then ([], month_expr dialect ''orders.ordered_at'', ''month'', [])
      else ([customers], ''customers.name'', ''customer'', [''customers'']))"

definition revenue_by_dimension :: "sql_dialect \<Rightarrow> string \<Rightarrow> resolved_date option \<Rightarrow> generated" where
  "revenue_by_dimension dialect q date =
     (let (joins, dim_expr, dim_alias, tables) = dimension_of dialect q;
          excluded = contains q ''exclud'' \<and> contains q ''refund'';
          conditions = (if excluded then [''orders.status <> '' @ quoted ''refunded''] else []) @ ordered_at_clause date
      in \<lparr> ge_sql = ''SELECT '' @ dim_expr @ '' AS '' @ dim_alias @ '', '' @ revenue_expr @ newline
             @ ''FROM order_items'' @ newline
             @ join newline (''JOIN orders ON orders.id = order_items.order_id'' # joins)
             @ where_lines conditions @ newline
             @ ''GROUP BY '' @ dim_expr @ newline @ ''ORDER BY revenue DESC'',
           ge_explanation = ''Revenue grouped by '' @ dim_alias @ ''.'',
           ge_confidence = 88 / 100,
           ge_assumptions = revenue_assumption
             # (if excluded then [''Excluded orders with status '' @ quoted ''refunded'' @ ''.''] else [])
             @ restricted_to date,
           ge_tables = [''order_items'', ''orders''] @ tables \<rparr>)"

definition scalar_revenue :: "resolved_date option \<Rightarrow> generated" where
  "scalar_revenue date =
     \<lparr> ge_sql = join newline [''SELECT '' @ revenue_expr, ''FROM order_items'',
         ''JOIN orders ON orders.id = order_items.order_id'' @ where_lines (ordered_at_clause date)],
       ge_explanation = ''Total line-item revenue.'', ge_confidence = 85 / 100,
       ge_assumptions = revenue_assumption # restricted_to date,
       ge_tables = [''order_items'', ''orders''] \<rparr>"

definition customers_without_orders :: "resolved_date \<Rightarrow> generated" where
  "customers_without_orders d =
     \<lparr> ge_sql = join newline
         [''SELECT customers.id, customers.name'', ''FROM customers'', ''WHERE NOT EXISTS ('',
          ''  SELECT 1 FROM orders'', ''  WHERE orders.customer_id = customers.id'',
          ''    AND orders.ordered_at >= '' @ quoted (rv_start_iso d), '')''],
       ge_explanation = ''Customers with no orders since the start of '' @ rv_description d @ ''.'',
       ge_confidence = 87 / 100,
       ge_assumptions = [quoted ''Recent'' @ '' means on/after '' @ rv_start_iso d @ '' ('' @ rv_description d @ '').''],
       ge_tables = [''customers'', ''orders''] \<rparr>"

definition mrr_answer :: generated where
  "mrr_answer =
     \<lparr> ge_sql = ''SELECT SUM(subscriptions.mrr) AS mrr FROM subscriptions WHERE subscriptions.status = '' @ quoted ''active'',
       ge_explanation = ''Monthly recurring revenue from active subscriptions.'', ge_confidence = 9 / 10,
       ge_assumptions = [''MRR is the sum of mrr over active subscriptions.''], ge_tables = [''subscriptions''] \<rparr>"

section \<open>Detection\<close>

definition detect_entity_table :: "database_schema \<Rightarrow> string \<Rightarrow> string option" where
  "detect_entity_table schema q = map_option snd
     (find (\<lambda>(keyword, t). search (seqs [WordB, lit keyword, opt (lit ''s''), WordB]) q \<noteq> None \<and> has_table schema t)
       entity_tables)"

text \<open>\<open>re.split(r"[^a-z_]+", q)\<close>: the runs of lower-case letters and underscores.\<close>

definition is_status_char :: "char \<Rightarrow> bool" where
  "is_status_char c \<longleftrightarrow> 97 \<le> code_point c \<and> code_point c \<le> 122 \<or> c = CHR ''_''"

definition detect_status :: "string \<Rightarrow> string option" where
  "detect_status q = find (\<lambda>token. token \<in> set status_values) (split_by (\<lambda>c. \<not> is_status_char c) [] q)"

definition safe_columns :: "database_schema \<Rightarrow> string \<Rightarrow> string list" where
  "safe_columns schema name = (case table schema name of
     None \<Rightarrow> [''id'']
   | Some t \<Rightarrow> (let cols = take 8 (map col_name (filter (\<lambda>c. \<not> is_sensitive (col_classification c)) (tbl_columns t)))
       in if cols = [] then [''id''] else cols))"

definition column_list :: "database_schema \<Rightarrow> string \<Rightarrow> string" where
  "column_list schema t = join '', '' (map (\<lambda>c. t @ ''.'' @ c) (safe_columns schema t))"

definition count_answer :: "database_schema \<Rightarrow> semantic_layer \<Rightarrow> string \<Rightarrow> resolved_date option \<Rightarrow> generated" where
  "count_answer schema semantic q date =
     (let t = (case detect_entity_table schema q of None \<Rightarrow> ''customers'' | Some t \<Rightarrow> t);
          col = t @ ''.'' @ (case or_opt (default_date_field semantic t) None of None \<Rightarrow> ''created_at'' | Some f \<Rightarrow> f)
      in \<lparr> ge_sql = ''SELECT COUNT(*) AS count'' @ newline @ ''FROM '' @ t
             @ where_lines (case date of None \<Rightarrow> [] | Some d \<Rightarrow> [date_clause col d]),
           ge_explanation = ''Count of rows in '' @ t @ ''.'', ge_confidence = 85 / 100,
           ge_assumptions = (case date of None \<Rightarrow> []
             | Some d \<Rightarrow> [''Counted rows within '' @ rv_description d @ '' using '' @ col @ ''.'']),
           ge_tables = [t] \<rparr>)"

definition select_lines :: "database_schema \<Rightarrow> string \<Rightarrow> string list \<Rightarrow> int \<Rightarrow> string" where
  "select_lines schema t conditions limit = ''SELECT '' @ column_list schema t @ newline @ ''FROM '' @ t
     @ where_lines conditions @ newline @ ''LIMIT '' @ show_int limit"

definition status_listing :: "database_schema \<Rightarrow> string \<Rightarrow> string \<Rightarrow> int \<Rightarrow> generated" where
  "status_listing schema t status limit =
     \<lparr> ge_sql = select_lines schema t [t @ ''.status = '' @ quoted status] limit,
       ge_explanation = t @ '' filtered to status '' @ quoted status @ ''.'', ge_confidence = 86 / 100,
       ge_assumptions = [], ge_tables = [t] \<rparr>"

definition listing :: "database_schema \<Rightarrow> string \<Rightarrow> int \<Rightarrow> generated" where
  "listing schema t limit =
     \<lparr> ge_sql = select_lines schema t [] limit, ge_explanation = ''Listing of '' @ t @ ''.'',
       ge_confidence = 8 / 10, ge_assumptions = [], ge_tables = [t] \<rparr>"

definition fallback :: "database_schema \<Rightarrow> string option \<Rightarrow> int \<Rightarrow> generated" where
  "fallback schema detected limit =
     (let t = (case detected of Some t \<Rightarrow> t
        | None \<Rightarrow> (case db_tables schema of [] \<Rightarrow> ''organizations'' | ti # _ \<Rightarrow> tbl_name ti))
      in \<lparr> ge_sql = select_lines schema t [] limit,
           ge_explanation = ''Best-effort listing of '' @ t @ '' (no strong pattern matched).'', ge_confidence = 4 / 10,
           ge_assumptions = [''Low confidence: the question did not match a known pattern.''], ge_tables = [t] \<rparr>)"

section \<open>The rules in order\<close>

definition listing_rules :: "generation_request \<Rightarrow> string \<Rightarrow> generated" where
  "listing_rules req q =
     (let schema = gr_schema_subset req; limit = gr_max_rows req;
          entity = detect_entity_table schema q
      in case (detect_status q, entity) of
           (Some status, Some t) \<Rightarrow> status_listing schema t status limit
         | (None, Some t) \<Rightarrow>
             if contains q ''list'' \<or> contains q ''show'' \<or> contains q ''all'' \<or> startswith q ''what''
             then listing schema t limit else fallback schema entity limit
         | (_, None) \<Rightarrow> fallback schema entity limit)"

definition heuristic :: "generation_request \<Rightarrow> generated" where
  "heuristic req =
     (let q = normalize_question (gr_question req); date = gr_resolved_date req in
      if (contains q ''top'' \<or> contains q ''best'' \<or> contains q ''highest'') \<and> contains q ''revenue'' \<and> contains q ''product''
      then top_products_by_revenue q date
      else if contains q ''revenue'' \<and> contains q '' by '' then revenue_by_dimension (gr_dialect req) q date
      else if (contains q ''not'' \<or> contains q ''haven't'' \<or> contains q ''have not'' \<or> contains q ''without'')
          \<and> contains q ''order'' \<and> date \<noteq> None
      then customers_without_orders (the date)
      else if contains q ''mrr'' \<or> contains q ''recurring revenue'' then mrr_answer
      else if contains q ''revenue'' \<or> contains q ''gross sales'' then scalar_revenue date
      else if contains q ''how many'' \<or> contains q ''number of'' \<or> startswith q ''count''
      then count_answer (gr_schema_subset req) (gr_semantic_layer req) q date
      else listing_rules req q)"

section \<open>The provider\<close>

record fake_provider =
  fp_model :: string
  fp_scripts :: "(string \<times> string list) list"

definition new_fake :: "string \<Rightarrow> (string \<times> string list) list \<Rightarrow> fake_provider" where
  "new_fake model scripts = \<lparr> fp_model = model,
     fp_scripts = fold (\<lambda>(k, v). AList.update (normalize_question k) v) scripts [] \<rparr>"

definition script :: "string \<Rightarrow> string list \<Rightarrow> fake_provider \<Rightarrow> fake_provider" where
  "script question candidates fp =
     fp\<lparr> fp_scripts := AList.update (normalize_question question) candidates (fp_scripts fp) \<rparr>"

definition fake_response ::
    "fake_provider \<Rightarrow> generation_request \<Rightarrow> string \<Rightarrow> string \<Rightarrow> rat \<Rightarrow> string list \<Rightarrow> string list \<Rightarrow> generation_response" where
  "fake_response fp req sql explanation confidence assumptions tables =
     \<lparr> gs_sql = sql, gs_dialect = gr_dialect req, gs_explanation = explanation,
       gs_referenced_tables = tables, gs_referenced_columns = [], gs_assumptions = assumptions,
       gs_confidence = confidence, gs_needs_clarification = False, gs_clarification = None,
       gs_prompt_version = pp_version (gr_prompt req), gs_provider = ''fake'', gs_model = fp_model fp,
       gs_usage = \<lparr> tu_prompt_tokens = int (length (pp_system (gr_prompt req)) + length (pp_user (gr_prompt req))) div 4,
         tu_completion_tokens = int (length sql) div 4 \<rparr> \<rparr>"

text \<open>\<open>xs[i]\<close> with Python's negative indices.\<close>

definition py_index :: "'a list \<Rightarrow> int \<Rightarrow> py_exception + 'a" where
  "py_index xs i = (let j = (if i < 0 then i + int (length xs) else i) in
     if 0 \<le> j \<and> j < int (length xs) then Inr (xs ! nat j) else Inl PyIndexError)"

definition fake_generate :: "fake_provider \<Rightarrow> generation_request \<Rightarrow> failure + generation_response" where
  "fake_generate fp req =
     (let attempt = (case gr_repair req of None \<Rightarrow> 0 | Some r \<Rightarrow> rc_attempt r) in
      case map_of (fp_scripts fp) (normalize_question (gr_question req)) of
        Some scripted \<Rightarrow>
          (case py_index scripted (min attempt (int (length scripted) - 1)) of
             Inl x \<Rightarrow> Inl (Unhandled x)
           | Inr sql \<Rightarrow> Inr (fake_response fp req sql ''Scripted deterministic response.'' (9 / 10) [] []))
      | None \<Rightarrow> (let g = heuristic req in
          Inr (fake_response fp req (ge_sql g) (ge_explanation g) (ge_confidence g) (ge_assumptions g) (ge_tables g))))"

definition deterministic_provider :: "fake_provider \<Rightarrow> llm_provider" where
  "deterministic_provider fp = \<lparr> lp_name = ''fake'', lp_model = fp_model fp,
     lp_generate = (\<lambda>_ req. fake_generate fp req) \<rparr>"

end
