(* ===== verification/FakeProperties.thy ===== *)
theory FakeProperties
  imports FakeProvider ExampleWorld
begin

text \<open>
  The properties of the deterministic provider: its rules produce one plain SELECT, listings
  name no sensitive column, and it answers every request but those with an empty script.
\<close>

section \<open>Candidates are plain\<close>

definition plain :: "string \<Rightarrow> bool" where
  "plain s \<longleftrightarrow> CHR '';'' \<notin> set s"

lemma plain_append [simp]: "plain (s @ t) \<longleftrightarrow> plain s \<and> plain t"
  by (simp add: plain_def)

lemma plain_Cons [simp]: "plain (c # s) \<longleftrightarrow> c \<noteq> CHR '';'' \<and> plain s"
  by (auto simp: plain_def)

lemma plain_Nil [simp]: "plain []"
  by (simp add: plain_def)

lemma plain_join: "plain sep \<Longrightarrow> list_all plain ws \<Longrightarrow> plain (join sep ws)"
  by (induction sep ws rule: join.induct) simp_all

lemma plain_show_nat [simp]: "plain (show_nat n)"
  using show_nat_decimal [of "CHR '';''" n] by (auto simp: plain_def is_decimal_def)

lemma plain_show_int [simp]: "plain (show_int i)"
  by (simp add: show_int_def)

lemma plain_newline [simp]: "plain newline"
  by (simp add: newline_def)

lemma plain_quoted [simp]: "plain (quoted s) \<longleftrightarrow> plain s"
  by (simp add: quoted_def)

lemma plain_where [simp]: "plain (where_lines cs) \<longleftrightarrow> list_all plain cs"
proof -
  have "plain (join '' AND '' cs) \<longleftrightarrow> list_all plain cs"
    by (induction "'' AND ''" cs rule: join.induct) simp_all
  then show ?thesis by (simp add: where_lines_def)
qed

definition plain_date :: "resolved_date option \<Rightarrow> bool" where
  "plain_date date \<longleftrightarrow> (case date of None \<Rightarrow> True | Some d \<Rightarrow> plain (rv_start_iso d) \<and> plain (rv_end_iso d))"

lemma plain_date_clause: "plain_date (Some d) \<Longrightarrow> plain c \<Longrightarrow> plain (date_clause c d)"
  by (simp add: date_clause_def plain_date_def)

lemma plain_ordered_at: "plain_date date \<Longrightarrow> list_all plain (ordered_at_clause date)"
  by (cases date) (simp_all add: ordered_at_clause_def plain_date_clause)

definition plain_schema :: "database_schema \<Rightarrow> bool" where
  "plain_schema s \<longleftrightarrow> (\<forall>t\<in>set (db_tables s). plain (tbl_name t) \<and> (\<forall>c\<in>set (tbl_columns t). plain (col_name c)))"

definition select_text :: "string \<Rightarrow> bool" where
  "select_text s \<longleftrightarrow> startswith s ''SELECT '' \<and> plain s"

lemma join_newline_Cons: "join newline (x # y # ys) = x @ newline @ join newline (y # ys)"
  by simp

text \<open>The columns of a listing, and the tables the rules name.\<close>

lemma safe_columns_sources:
  "c \<in> set (safe_columns schema name) \<Longrightarrow> c = ''id'' \<or> (\<exists>t ci. table schema name = Some t \<and> ci \<in> set (tbl_columns t)
     \<and> c = col_name ci \<and> \<not> is_sensitive (col_classification ci))"
  by (auto simp: safe_columns_def Let_def split: option.splits if_splits dest!: in_set_takeD)

lemma plain_safe_columns: "plain_schema schema \<Longrightarrow> c \<in> set (safe_columns schema name) \<Longrightarrow> plain c"
  using safe_columns_sources [of c schema name] table_member by (fastforce simp: plain_schema_def)

lemma plain_column_list:
  assumes "plain_schema schema" "plain t"
  shows "plain (column_list schema t)"
proof -
  have "list_all plain (map (\<lambda>c. t @ ''.'' @ c) (safe_columns schema t))"
    using plain_safe_columns [OF assms(1)] assms(2) by (simp add: list_all_iff)
  from plain_join [OF _ this] show ?thesis by (simp add: column_list_def)
qed

lemma select_lines_text:
  "plain_schema schema \<Longrightarrow> plain t \<Longrightarrow> list_all plain cs \<Longrightarrow> select_text (select_lines schema t cs limit)"
  by (simp add: select_text_def select_lines_def plain_column_list startswith_def)

lemma find_list_all: "find P xs = Some x \<Longrightarrow> list_all Q xs \<Longrightarrow> Q x"
  by (induction xs) (auto split: if_splits)

lemma entity_plain: "detect_entity_table schema q = Some t \<Longrightarrow> plain t"
proof -
  have tables: "list_all (\<lambda>p. plain (snd p)) entity_tables" by (simp add: entity_tables_def)
  show "detect_entity_table schema q = Some t \<Longrightarrow> plain t"
    using find_list_all [OF _ tables] by (auto simp: detect_entity_table_def)
qed

lemma status_plain: "detect_status q = Some s \<Longrightarrow> plain s"
proof -
  have "\<forall>s\<in>set status_values. plain s" by (simp add: status_values_def)
  then show "detect_status q = Some s \<Longrightarrow> plain s"
    by (auto simp: detect_status_def find_Some_iff)
qed

lemma plain_month: "plain c \<Longrightarrow> plain (month_expr d c)"
  by (simp add: month_expr_def)

lemma plain_dimension:
  "dimension_of d q = (joins, e, al, ts) \<Longrightarrow> list_all plain joins \<and> plain e \<and> plain al"
  by (auto simp: dimension_of_def Let_def plain_month split: if_splits)

lemma revenue_texts:
  assumes "plain_date date"
  shows "select_text (ge_sql (top_products_by_revenue q date))" "select_text (ge_sql (scalar_revenue date))"
    "select_text (ge_sql mrr_answer)"
  using plain_ordered_at [OF assms]
  by (simp_all add: select_text_def top_products_by_revenue_def scalar_revenue_def mrr_answer_def
      revenue_expr_def startswith_def Let_def)

lemma dimension_text:
  assumes "plain_date date"
  shows "select_text (ge_sql (revenue_by_dimension d q date))"
proof -
  obtain joins e al ts where dim: "dimension_of d q = (joins, e, al, ts)" by (metis prod_cases4)
  have "plain (join newline (''JOIN orders ON orders.id = order_items.order_id'' # joins))"
    using plain_dimension [OF dim] by (intro plain_join) simp_all
  then show ?thesis
    using plain_dimension [OF dim] plain_ordered_at [OF assms]
    by (simp add: select_text_def revenue_by_dimension_def dim revenue_expr_def startswith_def Let_def)
qed

definition plain_request :: "generation_request \<Rightarrow> bool" where
  "plain_request req \<longleftrightarrow> plain_schema (gr_schema_subset req) \<and> plain_date (gr_resolved_date req)
     \<and> list_all (\<lambda>p. plain (snd p)) (sl_default_date_fields (gr_semantic_layer req))"

lemma count_text:
  assumes "plain_date date" "list_all (\<lambda>p. plain (snd p)) (sl_default_date_fields semantic)"
  shows "select_text (ge_sql (count_answer schema semantic q date))"
proof -
  have field: "plain f" if "default_date_field semantic t = Some f" for t f
    using that find_list_all [OF _ assms(2)] by (auto simp: default_date_field_def Let_def)
  define t where "t = (case detect_entity_table schema q of None \<Rightarrow> ''customers'' | Some t \<Rightarrow> t)"
  have t: "plain t" using entity_plain by (auto simp: t_def split: option.split)
  define col where "col = t @ ''.'' @ (case or_opt (default_date_field semantic t) None of None \<Rightarrow> ''created_at'' | Some f \<Rightarrow> f)"
  have "plain col" using field t by (auto simp: col_def or_opt_def split: option.splits if_splits)
  then have "list_all plain (case date of None \<Rightarrow> [] | Some d \<Rightarrow> [date_clause col d])"
    using assms(1) by (cases date) (simp_all add: plain_date_clause)
  with t show ?thesis
    unfolding count_answer_def Let_def t_def [symmetric] col_def [symmetric]
    by (simp add: select_text_def startswith_def)
qed

lemma table_name_plain: "plain_schema schema \<Longrightarrow> db_tables schema = ti # ts \<Longrightarrow> plain (tbl_name ti)"
  by (simp add: plain_schema_def)

lemma fallback_text:
  "plain_schema schema \<Longrightarrow> (\<And>t. detected = Some t \<Longrightarrow> plain t) \<Longrightarrow> select_text (ge_sql (fallback schema detected limit))"
  by (cases detected; cases "db_tables schema")
    (simp_all add: fallback_def Let_def select_lines_text table_name_plain)

lemma listing_text:
  assumes "plain_schema (gr_schema_subset req)"
  shows "select_text (ge_sql (listing_rules req q))"
  using entity_plain [of "gr_schema_subset req" q] status_plain [of q]
  by (auto simp: listing_rules_def Let_def status_listing_def listing_def assms
      intro!: select_lines_text fallback_text split: option.splits)

lemma customers_text:
  "plain_date (Some d) \<Longrightarrow> select_text (ge_sql (customers_without_orders d))"
  by (simp add: customers_without_orders_def select_text_def startswith_def plain_date_def)

lemma heuristic_text: "plain_request req \<Longrightarrow> select_text (ge_sql (heuristic req))"
  by (auto simp: heuristic_def Let_def plain_request_def revenue_texts dimension_text count_text listing_text
      customers_text)

lemma plain_digits: "plain (pad_zeros k n)"
proof -
  have "plain (replicate j (CHR ''0''))" for j by (induction j) simp_all
  then show ?thesis by (simp add: pad_zeros_def Let_def)
qed

lemma plain_isoformat: "plain (isoformat t)"
  by (simp add: isoformat_def plain_digits)

section \<open>Answers\<close>

lemma unscripted_answer:
  assumes "map_of (fp_scripts fp) (normalize_question (gr_question req)) = None"
  shows "\<exists>resp. fake_generate fp req = Inr resp \<and> gs_sql resp = ge_sql (heuristic req)"
  using assms by (simp add: fake_generate_def Let_def fake_response_def)

lemma unscripted_ignores_repair:
  assumes "map_of (fp_scripts fp) (normalize_question (gr_question req)) = None"
  shows "fake_generate fp (req\<lparr> gr_repair := r \<rparr>) = fake_generate fp req"
proof -
  have "heuristic (req\<lparr> gr_repair := r \<rparr>) = heuristic req"
    by (cases req) (simp only: heuristic_def listing_rules_def Let_def generation_request.simps)
  with assms show ?thesis by (simp add: fake_generate_def Let_def fake_response_def)
qed

text \<open>
  C29: A question without a script is always answered, with one SELECT without a semicolon
  whatever the question, provided the schema's names, the resolved dates and the default date
  fields hold none; a repair context changes nothing of the answer.
\<close>

theorem rules_give_one_select:
  assumes "map_of (fp_scripts fp) (normalize_question (gr_question req)) = None" "plain_request req"
  shows "\<exists>resp. fake_generate fp (req\<lparr> gr_repair := r \<rparr>) = Inr resp \<and> startswith (gs_sql resp) ''SELECT ''
     \<and> CHR '';'' \<notin> set (gs_sql resp)"
  using unscripted_answer [OF assms(1)] unscripted_ignores_repair [OF assms(1)] heuristic_text [OF assms(2)]
  by (auto simp: select_text_def plain_def)

text \<open>
  A scripted question gets the script's candidate for the attempt, the last one once the
  attempts exceed the script, and the IndexError of an empty list when the script is empty.
\<close>

lemma scripts_follow_attempts:
  assumes "map_of (fp_scripts fp) (normalize_question (gr_question req)) = Some scripted"
    "gr_repair req = map_option (\<lambda>a. rc\<lparr> rc_attempt := int a \<rparr>) attempt"
  shows "case fake_generate fp req of
       Inl e \<Rightarrow> scripted = [] \<and> e = Unhandled PyIndexError
     | Inr resp \<Rightarrow> scripted \<noteq> []
         \<and> gs_sql resp = scripted ! min (case attempt of None \<Rightarrow> 0 | Some a \<Rightarrow> a) (length scripted - 1)"
proof -
  define n where "n = (case attempt of None \<Rightarrow> 0 | Some a \<Rightarrow> a)"
  have n: "(case gr_repair req of None \<Rightarrow> 0 | Some r \<Rightarrow> rc_attempt r) = int n"
    using assms(2) by (cases attempt) (simp_all add: n_def)
  show ?thesis
  proof (cases "scripted = []")
    case True
    with assms(1) show ?thesis by (simp add: fake_generate_def Let_def n py_index_def)
  next
    case False
    then have len: "int (length scripted) - 1 = int (length scripted - 1)"
      by (cases scripted) simp_all
    have "py_index scripted (min (int n) (int (length scripted) - 1)) = Inr (scripted ! min n (length scripted - 1))"
      using False unfolding len by (cases scripted) (simp_all add: py_index_def Let_def flip: of_nat_min)
    with assms(1) False show ?thesis
      by (simp add: fake_generate_def Let_def n fake_response_def flip: n_def)
  qed
qed

text \<open>
  A listing names at most eight columns and at least one: non-sensitive columns of the
  table, or \<open>id\<close> when there is none.
\<close>

lemma listings_name_safe_columns:
  "safe_columns schema name \<noteq> [] \<and> length (safe_columns schema name) \<le> 8
   \<and> set (safe_columns schema name) \<subseteq> {''id''} \<union>
       {col_name c | c t. table schema name = Some t \<and> c \<in> set (tbl_columns t) \<and> \<not> is_sensitive (col_classification c)}"
proof -
  have "safe_columns schema name \<noteq> [] \<and> length (safe_columns schema name) \<le> 8"
    by (simp add: safe_columns_def Let_def split: option.split)
  then show ?thesis using safe_columns_sources by blast
qed

definition ex_fake_request :: "int option \<Rightarrow> generation_request" where
  "ex_fake_request attempt = \<lparr> gr_question = ''Orders'', gr_dialect = SQLITE, gr_schema_subset = ex_schema,
     gr_semantic_layer = ex_semantic,
     gr_prompt = \<lparr> pp_system = ''s'', pp_user = ''u'', pp_version = ''v1'', pp_output_schema = JNull \<rparr>,
     gr_max_rows = 10, gr_resolved_date = None, gr_conversation = None,
     gr_repair = map_option (\<lambda>a. \<lparr> rc_attempt = a, rc_previous_sql = ''x'', rc_errors = [] \<rparr>) attempt,
     gr_model = ''m'', gr_temperature = 0, gr_timeout_seconds = 30 \<rparr>"

lemma ex_request_plain: "plain_request (ex_fake_request attempt)"
  by (simp add: plain_request_def ex_fake_request_def plain_schema_def plain_date_def ex_schema_def ex_semantic_def
      ex_users_def ex_orders_def ex_column_def ex_table_def)

lemma rules_give_one_select_witness:
  "\<exists>resp. fake_generate (new_fake ''m'' []) (ex_fake_request None) = Inr resp \<and> CHR '';'' \<notin> set (gs_sql resp)"
proof -
  have "map_of (fp_scripts (new_fake ''m'' [])) (normalize_question (gr_question (ex_fake_request None))) = None"
    by (simp add: new_fake_def)
  from rules_give_one_select [OF this ex_request_plain, of None] show ?thesis
    by (auto simp: ex_fake_request_def)
qed

lemma scripts_follow_attempts_witness:
  "\<exists>resp. fake_generate (new_fake ''m'' [(''Orders'', [''a'', ''b''])]) (ex_fake_request (Some 7)) = Inr resp
     \<and> gs_sql resp = ''b''"
proof -
  let ?fp = "new_fake ''m'' [(''Orders'', [''a'', ''b''])]" and ?req = "ex_fake_request (Some 7)"
  have scripted: "map_of (fp_scripts ?fp) (normalize_question (gr_question ?req)) = Some [''a'', ''b'']"
    by code_simp
  have repair: "gr_repair ?req = map_option (\<lambda>a. \<lparr> rc_attempt = 0, rc_previous_sql = ''x'', rc_errors = [] \<rparr>\<lparr> rc_attempt := int a \<rparr>)
      (Some 7)"
    by (simp add: ex_fake_request_def)
  from scripts_follow_attempts [OF scripted repair] show ?thesis
    by (cases "fake_generate ?fp ?req") simp_all
qed

end
