(* ===== verification/ReferenceLayer.thy ===== *)
theory ReferenceLayer
  imports Catalog
begin

text \<open>
  The semantic layer of the reference database (\<open>semantic/reference.py\<close>): its metrics, terms,
  classifications, samples and date fields as the code lists them, and the two builders that
  turn them into annotations.
\<close>

section \<open>Data\<close>

definition tenant_tables :: "string list" where
  "tenant_tables =
     [''users'', ''customers'', ''products'', ''orders'', ''order_items'',
      ''payments'', ''refunds'', ''subscriptions'', ''support_tickets'']"

definition reference_metrics :: "metric_definition list" where
  "reference_metrics =
     [\<lparr> md_name = ''net revenue'',
        md_description = ''Authoritative revenue: gross line-item revenue minus approved refunds. This is'' @
          '' what 'revenue' means unless a caller explicitly asks for gross.'',
        md_sql_expression = ''SUM(order_items.quantity * order_items.unit_price) - COALESCE((SELECT SUM(refunds.amount)'' @
          '' FROM refunds WHERE refunds.order_id = orders.id), 0)'',
        md_required_tables = [''order_items'', ''orders'', ''refunds''],
        md_default_filters = [''orders.status <> 'cancelled'' @ [CHR 0x27]],
        md_synonyms = [''revenue'', ''net sales''] \<rparr>,
      \<lparr> md_name = ''gross revenue'',
        md_description = ''Line-item revenue before refunds: SUM(quantity * unit_price).'',
        md_sql_expression = ''SUM(order_items.quantity * order_items.unit_price)'',
        md_required_tables = [''order_items''],
        md_default_filters = [],
        md_synonyms = [''gross sales''] \<rparr>,
      \<lparr> md_name = ''order count'',
        md_description = ''Number of distinct orders.'',
        md_sql_expression = ''COUNT(DISTINCT orders.id)'',
        md_required_tables = [''orders''],
        md_default_filters = [],
        md_synonyms = [''number of orders'', ''orders placed''] \<rparr>,
      \<lparr> md_name = ''refund total'',
        md_description = ''Total approved refund amount.'',
        md_sql_expression = ''SUM(refunds.amount)'',
        md_required_tables = [''refunds''],
        md_default_filters = [],
        md_synonyms = [''total refunds'', ''refunded amount''] \<rparr>,
      \<lparr> md_name = ''mrr'',
        md_description = ''Monthly recurring revenue from active subscriptions.'',
        md_sql_expression = ''SUM(subscriptions.mrr)'',
        md_required_tables = [''subscriptions''],
        md_default_filters = [''subscriptions.status = 'active'' @ [CHR 0x27]],
        md_synonyms = [''monthly recurring revenue'', ''recurring revenue''] \<rparr>]"

definition reference_terms :: "business_term list" where
  "reference_terms =
     [\<lparr> bt_term = ''customer'', bt_kind = TK_ENTITY,
        bt_definition = ''A customer ACCOUNT (a company that places orders). Distinct from an application 'user'.'' @
          '' Commerce measures (revenue, orders) attach to customers, never to users.'',
        bt_synonyms = [''customers'', ''account'', ''accounts'', ''client'', ''clients''],
        bt_related_tables = [''customers''], bt_related_columns = [] \<rparr>,
      \<lparr> bt_term = ''user'', bt_kind = TK_ENTITY,
        bt_definition = ''An application login belonging to an organization. Not a customer.'',
        bt_synonyms = [''users'', ''login'', ''logins'', ''app user'', ''app users''],
        bt_related_tables = [''users''], bt_related_columns = [] \<rparr>,
      \<lparr> bt_term = ''region'', bt_kind = TK_DIMENSION,
        bt_definition = ''A geographic region used to group customers and orders.'',
        bt_synonyms = [''regions'', ''geography'', ''geo''],
        bt_related_tables = [''regions'', ''customers''], bt_related_columns = [''regions.name'', ''regions.code''] \<rparr>,
      \<lparr> bt_term = ''enterprise customer'', bt_kind = TK_FILTER,
        bt_definition = ''A customer whose segment is 'enterprise'.'',
        bt_synonyms = [''enterprise customers'', ''enterprise accounts''],
        bt_related_tables = [''customers''], bt_related_columns = [''customers.segment''] \<rparr>,
      \<lparr> bt_term = ''active customer'', bt_kind = TK_FILTER,
        bt_definition = ''A customer that has not been soft-deleted (deleted_at IS NULL).'',
        bt_synonyms = [''active customers''],
        bt_related_tables = [''customers''], bt_related_columns = [''customers.deleted_at''] \<rparr>,
      \<lparr> bt_term = ''refund'', bt_kind = TK_ENTITY,
        bt_definition = ''An approved refund reducing net revenue.'',
        bt_synonyms = [''refunds'', ''refunded orders''],
        bt_related_tables = [''refunds''], bt_related_columns = [] \<rparr>,
      \<lparr> bt_term = ''subscription'', bt_kind = TK_ENTITY,
        bt_definition = ''A recurring subscription with monthly recurring revenue (MRR).'',
        bt_synonyms = [''subscriptions''],
        bt_related_tables = [''subscriptions''], bt_related_columns = [] \<rparr>]"

definition reference_classifications :: "(string \<times> string \<times> data_classification) list" where
  "reference_classifications =
     [(''users'', ''email'', DC_PII),
      (''users'', ''full_name'', DC_PII),
      (''users'', ''password_hash'', DC_AUTH_SECRET),
      (''customers'', ''contact_email'', DC_PII),
      (''customers'', ''contact_phone'', DC_PII),
      (''payments'', ''amount'', DC_FINANCIAL),
      (''payments'', ''card_last4'', DC_PII),
      (''payments'', ''payment_token'', DC_AUTH_SECRET),
      (''refunds'', ''amount'', DC_FINANCIAL),
      (''subscriptions'', ''mrr'', DC_FINANCIAL)]"

definition reference_samples :: "((string \<times> string) \<times> string list) list" where
  "reference_samples =
     [((''orders'', ''status''), [''pending'', ''paid'', ''shipped'', ''refunded'', ''cancelled'']),
      ((''customers'', ''segment''), [''smb'', ''mid_market'', ''enterprise'']),
      ((''organizations'', ''plan''), [''free'', ''pro'', ''enterprise'']),
      ((''payments'', ''method''), [''card'', ''bank'', ''paypal'']),
      ((''support_tickets'', ''status''), [''open'', ''pending'', ''closed'']),
      ((''support_tickets'', ''priority''), [''low'', ''medium'', ''high'']),
      ((''regions'', ''code''), [''NA'', ''EMEA'', ''APAC'', ''LATAM''])]"

definition reference_date_fields :: "(string \<times> string) list" where
  "reference_date_fields =
     [(''orders'', ''ordered_at''),
      (''order_items'', ''ordered_at''),
      (''payments'', ''paid_at''),
      (''refunds'', ''refunded_at''),
      (''subscriptions'', ''started_at''),
      (''support_tickets'', ''created_at''),
      (''users'', ''created_at''),
      (''customers'', ''created_at'')]"

definition default_date_policy :: string where
  "default_date_policy = ''Relative dates use the Gregorian calendar in UTC. 'Last quarter' means the most recently'' @
     '' completed calendar quarter; 'last month' the most recently completed calendar'' @
     '' month; 'this year' the current calendar year to date.''"

section \<open>Builders\<close>

definition annotated :: "string \<Rightarrow> string \<Rightarrow> data_classification \<Rightarrow> string list \<Rightarrow> column_annotation" where
  "annotated t c classification samples = \<lparr> ca_table = t, ca_column = c,
     ca_classification = classification, ca_comment = None, ca_sample_values = samples \<rparr>"

definition build_column_annotations :: "column_annotation list" where
  "build_column_annotations =
     (let classified = fold (\<lambda>(t, c, classification). AList.update (t, c)
             (annotated t c classification (dict_get [] reference_samples (t, c)))) reference_classifications []
      in map snd (fold (\<lambda>((t, c), samples). dict_setdefault (t, c) (annotated t c DC_INTERNAL samples))
           reference_samples classified))"

definition tenant_annotation :: "string \<Rightarrow> string option \<Rightarrow> table_annotation" where
  "tenant_annotation t tenant = \<lparr> ta_table = t, ta_comment = None, ta_tenant_column = tenant, ta_aliases = [] \<rparr>"

definition build_table_annotations :: "table_annotation list" where
  "build_table_annotations =
     map (\<lambda>t. tenant_annotation t (Some ''organization_id'')) tenant_tables
     @ [tenant_annotation ''regions'' None, tenant_annotation ''organizations'' (Some ''id'')]"

definition build_reference_semantic_layer :: semantic_layer where
  "build_reference_semantic_layer = \<lparr> sl_terms = reference_terms, sl_metrics = reference_metrics,
     sl_column_annotations = build_column_annotations, sl_table_annotations = build_table_annotations,
     sl_date_policy = default_date_policy, sl_default_date_fields = reference_date_fields \<rparr>"

section \<open>The lists built\<close>

text \<open>The classified columns, then the sampled ones, none of which is classified.\<close>

lemma column_annotations_built:
  "build_column_annotations = map (\<lambda>(t, c, classification). annotated t c classification []) reference_classifications
     @ map (\<lambda>((t, c), samples). annotated t c DC_INTERNAL samples) reference_samples"
  by code_simp

lemma sensitive_unsampled:
  "a \<in> set build_column_annotations \<Longrightarrow> is_sensitive (ca_classification a) \<Longrightarrow> ca_sample_values a = []"
  by (auto simp: column_annotations_built annotated_def is_sensitive_def)

end
