(* ===== verification/Deployment.thy ===== *)
theory Deployment
  imports Orchestrator OpenAIAdapter FakeProvider ReferenceLayer
begin

text \<open>
  The settings (\<open>configuration/settings.py\<close>) and the composition root
  (\<open>application/container.py\<close>, \<open>infrastructure/database.py\<close>): validation of the values the
  environment gives, the two database engines, the choice of the provider and the wiring of
  the orchestrator.

  What lies outside the repository is the record \<open>externals\<close>: environment variables, the URL
  parser, the databases behind the engines, the HTTP client, the clocks, the random source and
  SQLGlot.
\<close>

section \<open>Settings\<close>

datatype environment = DEVELOPMENT | STAGING | PRODUCTION | TEST

definition openai_default_base_url :: string where
  "openai_default_base_url = ''https://api.openai.com/v1''"

definition gemini_base_url :: string where
  "gemini_base_url = ''https://generativelanguage.googleapis.com/v1beta/openai''"

record settings =
  st_environment :: environment
  st_log_level :: string
  st_log_json :: bool
  st_api_host :: string
  st_api_port :: int
  st_database_url :: string
  st_readonly_database_url :: "string option"
  st_db_pool_size :: int
  st_db_max_overflow :: int
  st_db_pool_timeout_seconds :: rat
  st_sql_dialect :: string
  st_max_rows :: int
  st_statement_timeout_ms :: int
  st_max_joins :: int
  st_max_subquery_depth :: int
  st_max_selected_columns :: int
  st_cost_rows_high_threshold :: rat
  st_cost_rows_medium_threshold :: rat
  st_llm_provider :: string
  st_llm_model :: string
  st_llm_base_url :: string
  st_llm_api_key_env :: string
  st_llm_timeout_seconds :: rat
  st_llm_max_retries :: int
  st_llm_temperature :: rat
  st_max_repair_attempts :: int
  st_schema_cache_ttl_seconds :: rat
  st_enable_result_cache :: bool
  st_retrieval_top_k :: int
  st_disclose_model_metadata :: bool
  st_metrics_enabled :: bool
  st_tracing_enabled :: bool
  st_allowed_schemas :: "string list"
  st_tenant_column :: string

definition default_settings :: settings where
  "default_settings = \<lparr> st_environment = DEVELOPMENT, st_log_level = ''INFO'', st_log_json = True,
     st_api_host = ''0.0.0.0'', st_api_port = 8000,
     st_database_url = ''sqlite:///./data/text_to_sql.db'', st_readonly_database_url = None,
     st_db_pool_size = 5, st_db_max_overflow = 5, st_db_pool_timeout_seconds = 10,
     st_sql_dialect = ''sqlite'', st_max_rows = 1000, st_statement_timeout_ms = 5000, st_max_joins = 6,
     st_max_subquery_depth = 4, st_max_selected_columns = 60, st_cost_rows_high_threshold = 1000000,
     st_cost_rows_medium_threshold = 100000,
     st_llm_provider = ''fake'', st_llm_model = ''deterministic-fake'',
     st_llm_base_url = openai_default_base_url, st_llm_api_key_env = ''OPENAI_API_KEY'',
     st_llm_timeout_seconds = 30, st_llm_max_retries = 2, st_llm_temperature = 0,
     st_max_repair_attempts = 2, st_schema_cache_ttl_seconds = 300, st_enable_result_cache = False,
     st_retrieval_top_k = 12, st_disclose_model_metadata = True, st_metrics_enabled = True,
     st_tracing_enabled = True, st_allowed_schemas = [], st_tenant_column = ''organization_id'' \<rparr>"

section \<open>Validation\<close>

definition between :: "'a::linorder \<Rightarrow> 'a \<Rightarrow> 'a \<Rightarrow> bool" where
  "between lo hi v \<longleftrightarrow> lo \<le> v \<and> v \<le> hi"

definition validate_log_level :: "string \<Rightarrow> string option" where
  "validate_log_level level =
     (if upper level \<in> {''DEBUG'', ''INFO'', ''WARNING'', ''ERROR'', ''CRITICAL''} then Some (upper level) else None)"

text \<open>A value for \<open>allowed_schemas\<close>: a string to split at commas, or already a tuple.\<close>

datatype schemas_value = Csv string | Schemas "string list"

definition split_csv :: "schemas_value \<Rightarrow> string list" where
  "split_csv v = (case v of
     Csv s \<Rightarrow> filter (\<lambda>item. item \<noteq> []) (map strip (split_char (CHR '','') s))
   | Schemas xs \<Rightarrow> xs)"

text \<open>The fields whose value is outside the declared bounds, in the order of declaration.\<close>

definition field_errors :: "settings \<Rightarrow> string list" where
  "field_errors s = map fst (filter (\<lambda>(_, ok). \<not> ok)
     [(''log_level'', validate_log_level (st_log_level s) \<noteq> None),
      (''api_port'', between 1 65535 (st_api_port s)),
      (''db_pool_size'', between 1 100 (st_db_pool_size s)),
      (''db_max_overflow'', between 0 100 (st_db_max_overflow s)),
      (''db_pool_timeout_seconds'', st_db_pool_timeout_seconds s > 0),
      (''sql_dialect'', st_sql_dialect s \<in> {''sqlite'', ''postgres''}),
      (''max_rows'', between 1 1000000 (st_max_rows s)),
      (''statement_timeout_ms'', between 100 600000 (st_statement_timeout_ms s)),
      (''max_joins'', between 0 64 (st_max_joins s)),
      (''max_subquery_depth'', between 1 32 (st_max_subquery_depth s)),
      (''max_selected_columns'', between 1 1000 (st_max_selected_columns s)),
      (''cost_rows_high_threshold'', st_cost_rows_high_threshold s > 0),
      (''cost_rows_medium_threshold'', st_cost_rows_medium_threshold s > 0),
      (''llm_provider'', st_llm_provider s \<in> {''fake'', ''openai'', ''gemini''}),
      (''llm_timeout_seconds'', 0 < st_llm_timeout_seconds s \<and> st_llm_timeout_seconds s \<le> 600),
      (''llm_max_retries'', between 0 10 (st_llm_max_retries s)),
      (''llm_temperature'', between 0 2 (st_llm_temperature s)),
      (''max_repair_attempts'', between 0 10 (st_max_repair_attempts s)),
      (''schema_cache_ttl_seconds'', st_schema_cache_ttl_seconds s \<ge> 0),
      (''retrieval_top_k'', between 1 200 (st_retrieval_top_k s))])"

definition check_cost_thresholds :: "settings \<Rightarrow> bool" where
  "check_cost_thresholds s \<longleftrightarrow> \<not> st_cost_rows_medium_threshold s \<ge> st_cost_rows_high_threshold s"

text \<open>
  \<open>Settings(...)\<close> on values of the right types: the names of the fields in error (none for the
  check across fields), or the object with the normalised level and schemas.
\<close>

definition make_settings :: "settings \<Rightarrow> schemas_value \<Rightarrow> string list + settings" where
  "make_settings raw schemas =
     (if field_errors raw \<noteq> [] then Inl (field_errors raw)
      else if \<not> check_cost_thresholds raw then Inl []
      else Inr (raw\<lparr> st_log_level := upper (st_log_level raw), st_allowed_schemas := split_csv schemas \<rparr>))"

definition is_production :: "settings \<Rightarrow> bool" where
  "is_production s \<longleftrightarrow> st_environment s = PRODUCTION"

definition effective_readonly_url :: "settings \<Rightarrow> string" where
  "effective_readonly_url s = (case or_opt (st_readonly_database_url s) None of
     None \<Rightarrow> st_database_url s | Some url \<Rightarrow> url)"

definition effective_llm_base_url :: "settings \<Rightarrow> string" where
  "effective_llm_base_url s =
     (if st_llm_provider s = ''gemini'' \<and> st_llm_base_url s = openai_default_base_url
      then gemini_base_url else st_llm_base_url s)"

definition resolve_llm_api_key :: "(string \<Rightarrow> string option) \<Rightarrow> settings \<Rightarrow> string option" where
  "resolve_llm_api_key environ s = or_opt (environ (st_llm_api_key_env s)) None"

definition from_settings :: "settings \<Rightarrow> security_policy_config" where
  "from_settings s = default_policy_config\<lparr> sp_tenant_column := st_tenant_column s,
     sp_max_rows := st_max_rows s, sp_max_joins := st_max_joins s,
     sp_max_subquery_depth := st_max_subquery_depth s,
     sp_max_selected_columns := st_max_selected_columns s,
     sp_cost_rows_medium_threshold := st_cost_rows_medium_threshold s,
     sp_cost_rows_high_threshold := st_cost_rows_high_threshold s,
     sp_allowed_schemas := st_allowed_schemas s \<rparr>"

section \<open>Database engines\<close>

record engine_spec =
  es_url :: string
  es_any_thread :: bool
  es_pool :: "(int \<times> int \<times> rat) option"
  es_query_only :: bool

record database =
  da_engine :: engine_spec
  da_readonly :: engine_spec

record ('e, 'n) externals =
  xt_environ :: "string \<Rightarrow> string option"
  xt_backend :: "string \<Rightarrow> string option"
  xt_sqlglot :: "('e, 'n) sqlglot"
  xt_engine :: "engine_spec \<Rightarrow> sql_engine"
  xt_explain :: "engine_spec \<Rightarrow> string list \<Rightarrow> explain_fun"
  xt_introspect :: "engine_spec \<Rightarrow> nat \<Rightarrow> failure + database_schema"
  xt_post :: "post_request list \<Rightarrow> post_request \<Rightarrow> post_outcome"
  xt_loads :: "string \<Rightarrow> json option"
  xt_str :: "json \<Rightarrow> string"
  xt_perf :: "nat \<Rightarrow> rat"
  xt_clock :: "nat \<Rightarrow> datetime"
  xt_monotonic :: "nat \<Rightarrow> rat"
  xt_hex :: "nat \<Rightarrow> string"
  xt_set_order :: "string list \<Rightarrow> string list"

text \<open>\<open>xt_backend\<close> is \<open>make_url(url).get_backend_name()\<close>, \<open>None\<close> when the URL does not parse.\<close>

definition build_engine ::
    "('e, 'n) externals \<Rightarrow> string \<Rightarrow> settings \<Rightarrow> bool \<Rightarrow> failure + engine_spec" where
  "build_engine ext url s readonly = (case xt_backend ext url of
     None \<Rightarrow> Inl (Unhandled (PyOther ''ArgumentError''))
   | Some backend \<Rightarrow> (let sqlite = (backend = ''sqlite'') in
       Inr \<lparr> es_url = url, es_any_thread = sqlite,
         es_pool = (if sqlite then None
           else Some (st_db_pool_size s, st_db_max_overflow s, st_db_pool_timeout_seconds s)),
         es_query_only = (sqlite \<and> readonly) \<rparr>))"

definition make_database :: "('e, 'n) externals \<Rightarrow> settings \<Rightarrow> failure + database" where
  "make_database ext s = and_then (build_engine ext (st_database_url s) s False) (\<lambda>engine.
     and_then (build_engine ext (effective_readonly_url s) s True) (\<lambda>readonly.
     Inr \<lparr> da_engine = engine, da_readonly = readonly \<rparr>))"

section \<open>The object graph\<close>

definition build_provider :: "('e, 'n) externals \<Rightarrow> settings \<Rightarrow> failure + llm_provider" where
  "build_provider ext s =
     (if st_llm_provider s = ''fake'' then Inr (deterministic_provider (new_fake (st_llm_model s) []))
      else if st_llm_provider s \<in> {''openai'', ''gemini''}
      then (case new_adapter (resolve_llm_api_key (xt_environ ext) s)
              \<lparr> oa_api_key = [], oa_model = st_llm_model s, oa_base_url = effective_llm_base_url s,
                oa_max_retries = st_llm_max_retries s, oa_temperature = st_llm_temperature s,
                oa_provider_name = st_llm_provider s, oa_post = xt_post ext, oa_loads = xt_loads ext,
                oa_str = xt_str ext \<rparr> of
           Inl e \<Rightarrow> Inl (Raised e) | Inr oa \<Rightarrow> Inr (openai_provider oa))
      else Inl (Raised (mk_error ConfigurationError
        (''Unknown LLM provider '' @ [CHR 0x27] @ st_llm_provider s @ [CHR 0x27] @ ''.'') [] None None)))"

record ('e, 'n) app_container =
  cn_settings :: settings
  cn_database :: database
  cn_semantic :: semantic_layer
  cn_catalog :: catalog
  cn_provider :: llm_provider
  cn_security_config :: security_policy_config
  cn_orchestrator :: "('e, 'n) orchestrator"

definition wire ::
    "('e, 'n) externals \<Rightarrow> settings \<Rightarrow> database \<Rightarrow> sql_dialect \<Rightarrow> llm_provider \<Rightarrow> ('e, 'n) orchestrator" where
  "wire ext s db dialect provider =
     (let semantic = build_reference_semantic_layer; security = from_settings s in
      \<lparr> oc_default_dialect = dialect, oc_max_rows = st_max_rows s, oc_max_repair = st_max_repair_attempts s,
        oc_disclose = st_disclose_model_metadata s,
        oc_catalog = \<lparr> ct_semantic = semantic, ct_monotonic = xt_monotonic ext,
          ct_introspect = xt_introspect ext (da_engine db) \<rparr>,
        oc_semantic = semantic, oc_ambiguity = semantic,
        oc_retriever = \<lparr> lr_semantic = semantic, lr_top_k = st_retrieval_top_k s,
          lr_set_order = xt_set_order ext \<rparr>,
        oc_provider = provider, oc_sqlglot = xt_sqlglot ext,
        oc_validator = sql_validator (sp_function_denylist security) False (sp_allowed_schemas security) (xt_set_order ext),
        oc_policy = security, oc_cost = security,
        oc_engine = xt_engine ext (da_readonly db), oc_explain = xt_explain ext (da_readonly db),
        oc_timeout_ms = st_statement_timeout_ms s, oc_perf = xt_perf ext, oc_clock = xt_clock ext,
        oc_hex = xt_hex ext, oc_py_str = xt_str ext \<rparr>)"

text \<open>\<open>AppContainer.create\<close> with an injected provider and database, or those of the settings.\<close>

definition create ::
    "('e, 'n) externals \<Rightarrow> settings \<Rightarrow> llm_provider option \<Rightarrow> database option
      \<Rightarrow> failure + ('e, 'n) app_container" where
  "create ext s provider database =
     and_then (case database of None \<Rightarrow> make_database ext s | Some db \<Rightarrow> Inr db) (\<lambda>db.
     and_then (case dialect_of_value (st_sql_dialect s) of
         None \<Rightarrow> Inl (Unhandled (PyOther ''ValueError'')) | Some d \<Rightarrow> Inr d) (\<lambda>dialect.
     and_then (case provider of None \<Rightarrow> build_provider ext s | Some p \<Rightarrow> Inr p) (\<lambda>prov.
     Inr \<lparr> cn_settings = s, cn_database = db,
       cn_semantic = build_reference_semantic_layer, cn_catalog = oc_catalog (wire ext s db dialect prov),
       cn_provider = prov, cn_security_config = from_settings s, cn_orchestrator = wire ext s db dialect prov \<rparr>)))"

text \<open>The state at startup: an empty cache with the configured lifetime and no metrics.\<close>

definition start_world :: "settings \<Rightarrow> orchestrator_world" where
  "start_world s = \<lparr> w_log = [], w_ticks = 0, cw_cache = new_cache (st_schema_cache_ttl_seconds s),
     cw_metrics = empty_registry, cw_clock = 0, cw_introspections = 0, ow_correlation = ''-'', ow_ids = 0,
     ow_now = 0, ow_requests = [] \<rparr>"

end
