(* ===== verification/DeploymentProperties.thy ===== *)
theory DeploymentProperties
  imports Deployment AdapterProperties
begin

text \<open>
  Deployments built from validated settings: what they send to the database and to the language
  model, when building one fails, and which settings have no effect.
\<close>

section \<open>Validated settings\<close>

lemma make_settings_valid:
  assumes "make_settings raw schemas = Inr s"
  shows "field_errors raw = []" "1 \<le> st_max_rows s" "st_max_rows s \<le> 1000000"
    "0 \<le> st_max_repair_attempts s" "st_max_repair_attempts s \<le> 10"
    "0 \<le> st_llm_max_retries s" "st_llm_max_retries s \<le> 10"
    "dialect_of_value (st_sql_dialect s) \<noteq> None" "st_llm_provider s \<in> {''fake'', ''openai'', ''gemini''}"
    "st_cost_rows_medium_threshold s < st_cost_rows_high_threshold s"
proof -
  have raw: "field_errors raw = []" "check_cost_thresholds raw"
    "s = raw\<lparr> st_log_level := upper (st_log_level raw), st_allowed_schemas := split_csv schemas \<rparr>"
    using assms by (auto simp: make_settings_def split: if_splits)
  show "field_errors raw = []" by (rule raw(1))
  show "1 \<le> st_max_rows s" "st_max_rows s \<le> 1000000"
    "0 \<le> st_max_repair_attempts s" "st_max_repair_attempts s \<le> 10"
    "0 \<le> st_llm_max_retries s" "st_llm_max_retries s \<le> 10"
    "dialect_of_value (st_sql_dialect s) \<noteq> None" "st_llm_provider s \<in> {''fake'', ''openai'', ''gemini''}"
    "st_cost_rows_medium_threshold s < st_cost_rows_high_threshold s"
    using raw(1,2)
    by (auto simp: raw(3) field_errors_def between_def check_cost_thresholds_def dialect_of_value_def split: if_splits)
qed

lemma create_wires:
  assumes "create ext s provider database = Inr c"
  shows "\<exists>db d p. cn_orchestrator c = wire ext s db d p
     \<and> (database = None \<longrightarrow> make_database ext s = Inr db) \<and> (provider = None \<longrightarrow> build_provider ext s = Inr p)"
  using assms by (auto simp: create_def and_then_Inr split: option.splits) blast+

lemma wire_limits:
  "oc_max_rows (wire ext s db d p) = st_max_rows s" "oc_max_repair (wire ext s db d p) = st_max_repair_attempts s"
  "oc_sqlglot (wire ext s db d p) = xt_sqlglot ext" "oc_provider (wire ext s db d p) = p"
  by (simp_all add: wire_def Let_def)

lemma start_cache_ok: "cache_ok cat (start_world s)"
  by (simp add: cache_ok_def start_world_def new_cache_def)


section \<open>Building a deployment\<close>

lemma build_engine_Inr:
  "build_engine ext url s ro = Inr e \<longleftrightarrow> (\<exists>b. xt_backend ext url = Some b \<and> e = \<lparr> es_url = url, es_any_thread = (b = ''sqlite''),
     es_pool = (if b = ''sqlite'' then None else Some (st_db_pool_size s, st_db_max_overflow s, st_db_pool_timeout_seconds s)),
     es_query_only = (b = ''sqlite'' \<and> ro) \<rparr>)"
  by (auto simp: build_engine_def Let_def split: option.split)

lemma build_engine_Inl: "(\<exists>x. build_engine ext url s ro = Inl x) \<longleftrightarrow> xt_backend ext url = None"
  by (auto simp: build_engine_def Let_def split: option.split)

lemma built:
  assumes "make_database ext s = Inr db"
  shows "xt_backend ext (st_database_url s) \<noteq> None \<and> es_url (da_readonly db) = effective_readonly_url s
     \<and> es_query_only (da_readonly db) = (xt_backend ext (effective_readonly_url s) = Some ''sqlite'')
     \<and> \<not> es_query_only (da_engine db)"
  using assms by (auto simp: make_database_def and_then_Inr build_engine_Inr)

lemma build_provider_fails:
  assumes "st_llm_provider s \<in> {''fake'', ''openai'', ''gemini''}"
  shows "(\<exists>x. build_provider ext s = Inl x) \<longleftrightarrow>
     st_llm_provider s \<noteq> ''fake'' \<and> resolve_llm_api_key (xt_environ ext) s = None"
  using assms
  by (auto simp: build_provider_def new_adapter_def Let_def resolve_llm_api_key_def or_opt_def split: option.splits if_splits)

lemma sum_failed: "(\<exists>x. r = Inl x) \<longleftrightarrow> (\<nexists>a. r = Inr a)"
  by (cases r) auto


section \<open>Requests to the language model\<close>

lemma build_provider_adapter:
  assumes "build_provider ext s = Inr p" "st_llm_provider s \<noteq> ''fake''"
  shows "\<exists>oa. p = openai_provider oa \<and> oa_max_retries oa = st_llm_max_retries s \<and> oa_base_url oa =
     rstrip_by (\<lambda>c. c = CHR ''/'') (effective_llm_base_url s)"
  using assms by (auto simp: build_provider_def new_adapter_def Let_def split: if_splits option.splits)


section \<open>Settings without effect\<close>

text \<open>
  The provider's timeout, the result cache and the tracing switch of the settings reach no
  part of a deployment: with other values for them the same orchestrator is built, or the same
  error raised.
\<close>

lemma idle_settings_change_nothing:
  "map_sum id cn_orchestrator (create ext
     (s\<lparr> st_llm_timeout_seconds := t, st_enable_result_cache := b, st_tracing_enabled := b' \<rparr>) provider database)
   = map_sum id cn_orchestrator (create ext s provider database)"
proof -
  let ?s = "s\<lparr> st_llm_timeout_seconds := t, st_enable_result_cache := b, st_tracing_enabled := b' \<rparr>"
  have "make_database ext ?s = make_database ext s"
    by (cases s) (simp only: make_database_def build_engine_def effective_readonly_url_def settings.simps)
  moreover have "build_provider ext ?s = build_provider ext s"
    by (cases s) (simp only: build_provider_def resolve_llm_api_key_def effective_llm_base_url_def settings.simps)
  moreover have "wire ext ?s db d p = wire ext s db d p" for db d p
    by (cases s) (simp only: wire_def from_settings_def Let_def settings.simps)
  ultimately show ?thesis
    by (cases database; cases provider; cases "make_database ext s"; cases "build_provider ext s";
        cases "dialect_of_value (st_sql_dialect s)") (simp_all add: create_def)
qed

section \<open>An example deployment\<close>

definition ex_settings :: settings where
  "ex_settings = default_settings\<lparr> st_llm_provider := ''gemini'' \<rparr>"

definition ex_externals :: "(ex_tree, nd) externals" where
  "ex_externals = \<lparr> xt_environ = (\<lambda>_. Some ''key''), xt_backend = (\<lambda>_. Some ''sqlite''), xt_sqlglot = ex_sg,
     xt_engine = (\<lambda>_. ex_engine), xt_explain = (\<lambda>_ _ _. Inr None), xt_introspect = (\<lambda>_ _. Inr ex_schema),
     xt_post = (\<lambda>_ _. PostTimeout), xt_loads = (\<lambda>_. None), xt_str = (\<lambda>_. []), xt_perf = of_nat,
     xt_clock = (\<lambda>_. ex_now), xt_monotonic = of_nat, xt_hex = (\<lambda>_. ''0a''), xt_set_order = (\<lambda>xs. xs) \<rparr>"

lemma ex_settings_made: "make_settings ex_settings (Csv '' a ,'') = Inr (ex_settings\<lparr> st_allowed_schemas := [''a''] \<rparr>)"
  by code_simp

definition ex_made :: settings where
  "ex_made = ex_settings\<lparr> st_allowed_schemas := [''a''] \<rparr>"

lemma ex_created: "\<exists>c. create ex_externals ex_made None None = Inr c"
  by (simp add: create_def make_database_def build_engine_def ex_externals_def Let_def ex_made_def ex_settings_def
      default_settings_def dialect_of_value_def build_provider_def new_adapter_def resolve_llm_api_key_def or_opt_def)




end
