(* ===== verification/ReferenceSchema.thy ===== *)
theory ReferenceSchema
  imports ReferenceLayer Security
begin

text \<open>
  The declared reference database (\<open>infrastructure/reference_schema.py\<close>): tables, columns,
  keys, constraints and indexes as data, and how the reference semantic layer fits them.
\<close>

datatype declared_type = T_Integer | T_String nat | T_Numeric nat nat | T_DateTime

record column_def =
  cd_name :: string
  cd_type :: declared_type
  cd_primary_key :: bool
  cd_nullable :: bool
  cd_references :: "string option"
  cd_comment :: "string option"

record table_def =
  td_name :: string
  td_columns :: "column_def list"
  td_unique :: "(string list \<times> string) list"
  td_checks :: "(string \<times> string) list"
  td_indexes :: "(string \<times> string list) list"
  td_comment :: string

definition declared :: "bool \<Rightarrow> string \<Rightarrow> declared_type \<Rightarrow> string option \<Rightarrow> column_def" where
  "declared nullable name type comment = \<lparr> cd_name = name, cd_type = type, cd_primary_key = False,
     cd_nullable = nullable, cd_references = None, cd_comment = comment \<rparr>"

abbreviation required :: "string \<Rightarrow> declared_type \<Rightarrow> string option \<Rightarrow> column_def" where
  "required \<equiv> declared False"

abbreviation optional :: "string \<Rightarrow> declared_type \<Rightarrow> string option \<Rightarrow> column_def" where
  "optional \<equiv> declared True"

definition primary :: "string \<Rightarrow> declared_type \<Rightarrow> column_def" where
  "primary name type = (required name type None)\<lparr> cd_primary_key := True \<rparr>"

definition foreign_key :: "bool \<Rightarrow> string \<Rightarrow> string \<Rightarrow> column_def" where
  "foreign_key nullable name target = (declared nullable name T_Integer None)\<lparr> cd_references := Some target \<rparr>"

abbreviation required_key :: "string \<Rightarrow> string \<Rightarrow> column_def" where
  "required_key \<equiv> foreign_key False"

abbreviation optional_key :: "string \<Rightarrow> string \<Rightarrow> column_def" where
  "optional_key \<equiv> foreign_key True"

definition naming_convention :: "(string \<times> string) list" where
  "naming_convention =
     [(''ix'', ''ix_%(column_0_label)s''),
      (''uq'', ''uq_%(table_name)s_%(column_0_name)s''),
      (''ck'', ''ck_%(table_name)s_%(constraint_name)s''),
      (''fk'', ''fk_%(table_name)s_%(column_0_name)s_%(referred_table_name)s''),
      (''pk'', ''pk_%(table_name)s'')]"

definition organizations_table :: table_def where
  "organizations_table =
     \<lparr> td_name = ''organizations'',
       td_columns =
        [primary ''id'' T_Integer,
         required ''name'' (T_String 200) (Some ''Organization / tenant display name.''),
         required ''plan'' (T_String 20) (Some ''Billing plan: free|pro|enterprise.''),
         required ''created_at'' T_DateTime None,
         optional ''deleted_at'' T_DateTime (Some ''Soft-deletion timestamp; NULL if active.'')],
       td_unique = [],
       td_checks = [(''plan in ('free','pro','enterprise')'', ''plan_valid'')],
       td_indexes = [],
       td_comment = ''Tenants. Every tenant-scoped table references organizations.id.'' \<rparr>"

definition regions_table :: table_def where
  "regions_table =
     \<lparr> td_name = ''regions'',
       td_columns =
        [primary ''id'' T_Integer,
         required ''name'' (T_String 100) (Some ''Human-readable region name.''),
         required ''code'' (T_String 10) (Some ''Short region code, e.g. NA, EMEA.'')],
       td_unique = [([''code''], ''code'')],
       td_checks = [],
       td_indexes = [],
       td_comment = ''Geographic regions (shared reference data, not tenant-scoped).'' \<rparr>"

definition users_table :: table_def where
  "users_table =
     \<lparr> td_name = ''users'',
       td_columns =
        [primary ''id'' T_Integer,
         required_key ''organization_id'' ''organizations.id'',
         required ''email'' (T_String 320) (Some ''Login email address (PII).''),
         required ''full_name'' (T_String 200) (Some ''User full name (PII).''),
         required ''password_hash'' (T_String 200) (Some ''Salted password hash (authentication secret; never selectable).''),
         required ''role'' (T_String 30) (Some ''App role: admin|analyst|viewer.''),
         required ''created_at'' T_DateTime None,
         optional ''deleted_at'' T_DateTime None],
       td_unique = [([''organization_id'', ''email''], ''org_email'')],
       td_checks = [],
       td_indexes = [(''ix_users_organization_id'', [''organization_id''])],
       td_comment = ''Application users belonging to an organization.'' \<rparr>"

definition customers_table :: table_def where
  "customers_table =
     \<lparr> td_name = ''customers'',
       td_columns =
        [primary ''id'' T_Integer,
         required_key ''organization_id'' ''organizations.id'',
         optional_key ''region_id'' ''regions.id'',
         required ''name'' (T_String 200) (Some ''Customer account/company name.''),
         optional ''contact_email'' (T_String 320) (Some ''Primary contact email (PII).''),
         optional ''contact_phone'' (T_String 40) (Some ''Primary contact phone (PII).''),
         required ''segment'' (T_String 20) (Some ''Segment: smb|mid_market|enterprise.''),
         required ''created_at'' T_DateTime None,
         optional ''deleted_at'' T_DateTime None],
       td_unique = [],
       td_checks = [],
       td_indexes = [(''ix_customers_organization_id'', [''organization_id'']),
         (''ix_customers_region_id'', [''region_id''])],
       td_comment = ''Customer accounts (companies), distinct from application users.'' \<rparr>"

definition products_table :: table_def where
  "products_table =
     \<lparr> td_name = ''products'',
       td_columns =
        [primary ''id'' T_Integer,
         required_key ''organization_id'' ''organizations.id'',
         required ''sku'' (T_String 40) (Some ''Stock-keeping unit.''),
         required ''name'' (T_String 200) None,
         required ''category'' (T_String 60) (Some ''Product category.''),
         required ''unit_price'' (T_Numeric 12 2) (Some ''List unit price.''),
         required ''active'' T_Integer (Some ''1 if sellable, 0 if retired.''),
         required ''created_at'' T_DateTime None],
       td_unique = [([''organization_id'', ''sku''], ''org_sku'')],
       td_checks = [],
       td_indexes = [(''ix_products_organization_id'', [''organization_id''])],
       td_comment = ''Sellable products per organization.'' \<rparr>"

definition orders_table :: table_def where
  "orders_table =
     \<lparr> td_name = ''orders'',
       td_columns =
        [primary ''id'' T_Integer,
         required_key ''organization_id'' ''organizations.id'',
         required_key ''customer_id'' ''customers.id'',
         required ''status'' (T_String 20) (Some ''pending|paid|shipped|refunded|cancelled.''),
         required ''ordered_at'' T_DateTime (Some ''Business order timestamp.''),
         required ''created_at'' T_DateTime None,
         optional ''deleted_at'' T_DateTime None],
       td_unique = [],
       td_checks = [],
       td_indexes = [(''ix_orders_organization_id'', [''organization_id'']),
         (''ix_orders_customer_id'', [''customer_id'']),
         (''ix_orders_ordered_at'', [''ordered_at''])],
       td_comment = ''Customer orders.'' \<rparr>"

definition order_items_table :: table_def where
  "order_items_table =
     \<lparr> td_name = ''order_items'',
       td_columns =
        [primary ''id'' T_Integer,
         required_key ''organization_id'' ''organizations.id'',
         required_key ''order_id'' ''orders.id'',
         required_key ''product_id'' ''products.id'',
         required ''quantity'' T_Integer (Some ''Units ordered.''),
         required ''unit_price'' (T_Numeric 12 2) (Some ''Unit price captured at order time (revenue basis).'')],
       td_unique = [],
       td_checks = [],
       td_indexes = [(''ix_order_items_organization_id'', [''organization_id'']),
         (''ix_order_items_order_id'', [''order_id'']),
         (''ix_order_items_product_id'', [''product_id''])],
       td_comment = ''Line items. Revenue = SUM(quantity * unit_price) minus approved refunds.'' \<rparr>"

definition payments_table :: table_def where
  "payments_table =
     \<lparr> td_name = ''payments'',
       td_columns =
        [primary ''id'' T_Integer,
         required_key ''organization_id'' ''organizations.id'',
         required_key ''order_id'' ''orders.id'',
         required ''amount'' (T_Numeric 12 2) (Some ''Captured amount (financial).''),
         required ''method'' (T_String 20) (Some ''card|bank|paypal.''),
         optional ''card_last4'' (T_String 4) (Some ''Last 4 card digits (sensitive).''),
         optional ''payment_token'' (T_String 64) (Some ''Processor payment token (authentication secret; never selectable).''),
         required ''status'' (T_String 20) (Some ''succeeded|failed|pending.''),
         optional ''paid_at'' T_DateTime None],
       td_unique = [],
       td_checks = [],
       td_indexes = [(''ix_payments_organization_id'', [''organization_id'']),
         (''ix_payments_order_id'', [''order_id''])],
       td_comment = ''Payment records for orders.'' \<rparr>"

definition refunds_table :: table_def where
  "refunds_table =
     \<lparr> td_name = ''refunds'',
       td_columns =
        [primary ''id'' T_Integer,
         required_key ''organization_id'' ''organizations.id'',
         required_key ''order_id'' ''orders.id'',
         optional_key ''payment_id'' ''payments.id'',
         required ''amount'' (T_Numeric 12 2) (Some ''Refunded amount (financial).''),
         optional ''reason'' (T_String 200) None,
         required ''refunded_at'' T_DateTime None],
       td_unique = [],
       td_checks = [],
       td_indexes = [(''ix_refunds_organization_id'', [''organization_id'']),
         (''ix_refunds_order_id'', [''order_id''])],
       td_comment = ''Approved refunds; subtracted from gross revenue.'' \<rparr>"

definition subscriptions_table :: table_def where
  "subscriptions_table =
     \<lparr> td_name = ''subscriptions'',
       td_columns =
        [primary ''id'' T_Integer,
         required_key ''organization_id'' ''organizations.id'',
         required_key ''customer_id'' ''customers.id'',
         required ''plan'' (T_String 20) (Some ''free|pro|enterprise.''),
         required ''status'' (T_String 20) (Some ''active|canceled|past_due.''),
         required ''mrr'' (T_Numeric 12 2) (Some ''Monthly recurring revenue (financial).''),
         required ''started_at'' T_DateTime None,
         optional ''canceled_at'' T_DateTime None],
       td_unique = [],
       td_checks = [],
       td_indexes = [(''ix_subscriptions_organization_id'', [''organization_id'']),
         (''ix_subscriptions_customer_id'', [''customer_id''])],
       td_comment = ''Recurring subscriptions per customer.'' \<rparr>"

definition support_tickets_table :: table_def where
  "support_tickets_table =
     \<lparr> td_name = ''support_tickets'',
       td_columns =
        [primary ''id'' T_Integer,
         required_key ''organization_id'' ''organizations.id'',
         required_key ''customer_id'' ''customers.id'',
         required ''subject'' (T_String 200) None,
         required ''status'' (T_String 20) (Some ''open|pending|closed.''),
         required ''priority'' (T_String 10) (Some ''low|medium|high.''),
         required ''created_at'' T_DateTime None,
         optional ''resolved_at'' T_DateTime None],
       td_unique = [],
       td_checks = [],
       td_indexes = [(''ix_support_tickets_organization_id'', [''organization_id'']),
         (''ix_support_tickets_customer_id'', [''customer_id''])],
       td_comment = ''Customer support tickets.'' \<rparr>"

definition all_tables :: "table_def list" where
  "all_tables =
     [organizations_table, regions_table, users_table, customers_table, products_table, orders_table, order_items_table, payments_table, refunds_table, subscriptions_table, support_tickets_table]"

end
