(* ===== verification/ReferenceProperties.thy ===== *)
theory ReferenceProperties
  imports ReferenceSchema ExampleAst
begin

text \<open>
  The reference database under the reference semantic layer: what introspection and enrichment
  make of the declared tables, and how far the layer's names fit the declaration.
\<close>

section \<open>Names\<close>

definition canonical_name :: "string \<Rightarrow> bool" where
  "canonical_name s \<longleftrightarrow> lower (strip s) = s \<and> lower s = s"

lemma classified_names: "list_all (\<lambda>(t, c, _). canonical_name t \<and> canonical_name c) reference_classifications"
  by code_simp

lemma sampled_names: "list_all (\<lambda>((t, c), _). canonical_name t \<and> canonical_name c) reference_samples"
  by code_simp

lemma annotated_tables: "list_all (\<lambda>a. canonical_name (ta_table a)) build_table_annotations"
  by code_simp

lemma declared_names:
  "list_all (\<lambda>d. canonical_name (td_name d) \<and> list_all (\<lambda>c. canonical_name (cd_name c)) (td_columns d)) all_tables"
  by code_simp

section \<open>Annotations found\<close>

abbreviation reference_layer :: semantic_layer where
  "reference_layer \<equiv> build_reference_semantic_layer"

lemma find_append: "find P (xs @ ys) = (case find P xs of None \<Rightarrow> find P ys | Some x \<Rightarrow> Some x)"
  by (induction xs) simp_all

lemma find_classified:
  "find (\<lambda>a. ca_table a = t \<and> ca_column a = c) (map (\<lambda>(t, c, k). annotated t c k []) xs) =
   map_option (\<lambda>k. annotated t c k []) (map_of (map (\<lambda>(t, c, k). ((t, c), k)) xs) (t, c))"
  by (induction xs) (auto simp: annotated_def)

lemma find_sampled:
  "find (\<lambda>a. ca_table a = t \<and> ca_column a = c) (map (\<lambda>((t, c), s). annotated t c DC_INTERNAL s) xs) =
   map_option (\<lambda>s. annotated t c DC_INTERNAL s) (map_of xs (t, c))"
  by (induction xs) (auto simp: annotated_def)

definition classification_table :: "((string \<times> string) \<times> data_classification) list" where
  "classification_table = map (\<lambda>(t, c, k). ((t, c), k)) reference_classifications"

lemma annotation_names:
  "a \<in> set build_column_annotations \<Longrightarrow> lower (ca_table a) = ca_table a \<and> lower (ca_column a) = ca_column a"
  using classified_names sampled_names
  by (auto simp: column_annotations_built annotated_def canonical_name_def list_all_iff split: prod.splits)

lemma column_annotation_found:
  assumes "canonical_name t" "canonical_name c"
  shows "column_annotation_for reference_layer t c =
     (case map_of classification_table (t, c) of
        Some k \<Rightarrow> Some (annotated t c k [])
      | None \<Rightarrow> map_option (annotated t c DC_INTERNAL) (map_of reference_samples (t, c)))"
proof -
  have "column_annotation_for reference_layer t c = find (\<lambda>a. ca_table a = t \<and> ca_column a = c) build_column_annotations"
    using assms annotation_names
    by (auto simp: column_annotation_for_def build_reference_semantic_layer_def canonical_name_def Let_def
        intro!: find_cong)
  also have "\<dots> = (case map_of classification_table (t, c) of
        Some k \<Rightarrow> Some (annotated t c k [])
      | None \<Rightarrow> map_option (annotated t c DC_INTERNAL) (map_of reference_samples (t, c)))"
    unfolding column_annotations_built find_append find_classified find_sampled classification_table_def
    by (simp split: option.split)
  finally show ?thesis .
qed

definition declared_class :: "string \<Rightarrow> string \<Rightarrow> data_classification" where
  "declared_class t c = dict_get DC_INTERNAL classification_table (t, c)"

lemma enrich_column_reference:
  assumes "canonical_name t" "canonical_name (col_name c)" "col_classification c = DC_INTERNAL"
    "col_sample_values c = []"
  shows "col_name (enrich_column reference_layer t c) = col_name c"
    "col_classification (enrich_column reference_layer t c) = declared_class t (col_name c)"
    "is_sensitive (declared_class t (col_name c)) \<Longrightarrow> col_sample_values (enrich_column reference_layer t c) = []"
  using assms
  by (auto simp: enrich_column_def column_annotation_found declared_class_def dict_get_def annotated_def is_sensitive_def
      split: option.splits)

section \<open>Tenant columns\<close>

definition declared_tenant :: "string \<Rightarrow> string option" where
  "declared_tenant name = (if name = ''regions'' then None
     else Some (if name = ''organizations'' then ''id'' else ''organization_id''))"

lemma tenant_annotations:
  "list_all (\<lambda>d. map_option ta_tenant_column (table_annotation_for reference_layer (td_name d))
     = Some (declared_tenant (td_name d))) all_tables"
  by code_simp

lemma tenant_declared:
  "list_all (\<lambda>d. case declared_tenant (td_name d) of None \<Rightarrow> True
     | Some tc \<Rightarrow> tc \<noteq> [] \<and> tc \<in> set (map cd_name (td_columns d))) all_tables"
  by code_simp

lemma has_column_named: "n \<in> set (map col_name (tbl_columns t)) \<Longrightarrow> has_column t n"
  by (auto simp: has_column_def column_def col_key_def find_None_iff)

lemma enrich_tenant_reference:
  assumes "d \<in> set all_tables" "tbl_name t = td_name d" "map col_name (tbl_columns t) = map cd_name (td_columns d)"
  shows "enrich_tenant reference_layer t = declared_tenant (td_name d)"
proof -
  have ann: "map_option ta_tenant_column (table_annotation_for reference_layer (td_name d)) = Some (declared_tenant (td_name d))"
    using tenant_annotations assms(1) by (simp add: list_all_iff)
  have col: "tc \<noteq> [] \<and> has_column t tc" if "declared_tenant (td_name d) = Some tc" for tc
    using tenant_declared assms that has_column_named [of tc t] by (force simp: list_all_iff)
  from ann col assms(2) show ?thesis
    by (auto simp: enrich_tenant_def split: option.splits)
qed

section \<open>The enriched tables\<close>

definition enriched :: "inspector \<Rightarrow> string \<Rightarrow> table_def \<Rightarrow> table_info" where
  "enriched ins kind d = enrich_table reference_layer (reflect_table ins kind (td_name d))"

definition reports :: "inspector \<Rightarrow> table_def \<Rightarrow> bool" where
  "reports ins d \<longleftrightarrow> map ic_name (in_columns ins (td_name d)) = map cd_name (td_columns d)"

lemma reflected_columns:
  assumes "reports ins d"
  shows "map col_name (tbl_columns (reflect_table ins kind (td_name d))) = map cd_name (td_columns d)"
  using assms by (simp add: reports_def reflect_table_def Let_def reflect_column_def comp_def)

lemma reflected_plain:
  "c \<in> set (tbl_columns (reflect_table ins kind n)) \<Longrightarrow> col_classification c = DC_INTERNAL \<and> col_sample_values c = []"
  by (auto simp: reflect_table_def Let_def reflect_column_def)

lemma reflected_column_enriched:
  assumes "d \<in> set all_tables" "reports ins d" "c \<in> set (tbl_columns (reflect_table ins kind (td_name d)))"
  shows "col_classification (enrich_column reference_layer (td_name d) c) = declared_class (td_name d) (col_name c)"
    "col_name (enrich_column reference_layer (td_name d) c) = col_name c"
    "is_sensitive (declared_class (td_name d) (col_name c))
       \<Longrightarrow> col_sample_values (enrich_column reference_layer (td_name d) c) = []"
proof -
  have "col_name c \<in> set (map cd_name (td_columns d))"
    unfolding reflected_columns [OF assms(2), of kind, symmetric] using assms(3) by simp
  then have "canonical_name (td_name d)" "canonical_name (col_name c)"
    using declared_names assms(1) by (auto simp: list_all_iff)
  then show "col_classification (enrich_column reference_layer (td_name d) c) = declared_class (td_name d) (col_name c)"
    "col_name (enrich_column reference_layer (td_name d) c) = col_name c"
    "is_sensitive (declared_class (td_name d) (col_name c))
       \<Longrightarrow> col_sample_values (enrich_column reference_layer (td_name d) c) = []"
    using enrich_column_reference reflected_plain [OF assms(3)] by auto
qed

lemma declared_secrets:
  "declared_class ''users'' ''password_hash'' = DC_AUTH_SECRET"
  "declared_class ''payments'' ''payment_token'' = DC_AUTH_SECRET"
  by (simp_all add: declared_class_def classification_table_def reference_classifications_def dict_get_def)

lemma enriched_reference:
  assumes "d \<in> set all_tables" "reports ins d"
  shows "tbl_tenant_column (enriched ins kind d) = declared_tenant (td_name d)"
    and "map (\<lambda>c. (col_name c, col_classification c)) (tbl_columns (enriched ins kind d)) =
      map (\<lambda>c. (cd_name c, declared_class (td_name d) (cd_name c))) (td_columns d)"
    and "\<forall>c\<in>set (tbl_columns (enriched ins kind d)). is_sensitive (col_classification c) \<longrightarrow> col_sample_values c = []"
    and "\<forall>c\<in>set (tbl_columns (enriched ins kind d)).
      (td_name d, col_name c) \<in> {(''users'', ''password_hash''), (''payments'', ''payment_token'')}
      \<longrightarrow> \<not> can_view (col_classification c) roles"
proof -
  let ?t = "reflect_table ins kind (td_name d)"
  have name: "tbl_name ?t = td_name d" by (simp add: reflect_table_def Let_def)
  have cols: "tbl_columns (enriched ins kind d) = map (enrich_column reference_layer (td_name d)) (tbl_columns ?t)"
    by (simp add: enriched_def enrich_table_def name)
  note enrich = reflected_column_enriched [OF assms]
  show "tbl_tenant_column (enriched ins kind d) = declared_tenant (td_name d)"
    using enrich_tenant_reference [OF assms(1) name reflected_columns [OF assms(2)]] by (simp add: enriched_def enrich_table_def)
  have "map (\<lambda>c. (col_name c, col_classification c)) (tbl_columns (enriched ins kind d)) =
      map (\<lambda>n. (n, declared_class (td_name d) n)) (map col_name (tbl_columns ?t))"
    using enrich(1,2) by (simp add: cols)
  then show "map (\<lambda>c. (col_name c, col_classification c)) (tbl_columns (enriched ins kind d)) =
      map (\<lambda>c. (cd_name c, declared_class (td_name d) (cd_name c))) (td_columns d)"
    unfolding reflected_columns [OF assms(2)] by simp
  show "\<forall>c\<in>set (tbl_columns (enriched ins kind d)). is_sensitive (col_classification c) \<longrightarrow> col_sample_values c = []"
    using enrich(1,3) by (simp add: cols)
  show "\<forall>c\<in>set (tbl_columns (enriched ins kind d)).
      (td_name d, col_name c) \<in> {(''users'', ''password_hash''), (''payments'', ''payment_token'')}
      \<longrightarrow> \<not> can_view (col_classification c) roles"
  proof (intro ballI impI)
    fix c assume "c \<in> set (tbl_columns (enriched ins kind d))"
      "(td_name d, col_name c) \<in> {(''users'', ''password_hash''), (''payments'', ''payment_token'')}"
    then have "col_classification c = DC_AUTH_SECRET"
      using enrich(1,2) declared_secrets by (auto simp: cols)
    then show "\<not> can_view (col_classification c) roles"
      by (intro secret_never_viewed) (simp add: always_secret_def)
  qed
qed

text \<open>
  C7: Whatever the inspector reports besides the declared columns of a reference table,
  enrichment gives the table its tenant column (\<open>id\<close> for organizations, none for the shared
  regions, else \<open>organization_id\<close>), gives its columns the listed classifications, shows no
  sample of a sensitive column, and leaves the password hashes and payment tokens visible to
  no role.
\<close>

theorem reference_tables_governed:
  assumes "d \<in> set all_tables" "reports ins d"
  shows "tbl_tenant_column (enriched ins kind d) = declared_tenant (td_name d)
     \<and> map (\<lambda>c. (col_name c, col_classification c)) (tbl_columns (enriched ins kind d)) =
         map (\<lambda>c. (cd_name c, declared_class (td_name d) (cd_name c))) (td_columns d)
     \<and> (\<forall>c\<in>set (tbl_columns (enriched ins kind d)). is_sensitive (col_classification c) \<longrightarrow> col_sample_values c = [])
     \<and> (\<forall>c\<in>set (tbl_columns (enriched ins kind d)).
          (td_name d, col_name c) \<in> {(''users'', ''password_hash''), (''payments'', ''payment_token'')}
          \<longrightarrow> \<not> can_view (col_classification c) roles)"
  using enriched_reference [OF assms] by blast

definition ex_inspector :: inspector where
  "ex_inspector = \<lparr> in_table_names = [''regions''], in_view_names = [], in_pk_columns = (\<lambda>_. Some [''id'']),
     in_columns = (\<lambda>_. map (\<lambda>n. \<lparr> ic_name = n, ic_type = None, ic_nullable = None, ic_comment = None \<rparr>)
       [''id'', ''name'', ''code'']),
     in_foreign_keys = (\<lambda>_. []), in_unique_constraints = (\<lambda>_. []), in_indexes = (\<lambda>_. []),
     in_table_comment = (\<lambda>_. Inr None) \<rparr>"

lemma reference_tables_governed_witness:
  "tbl_tenant_column (enriched ex_inspector ''table'' regions_table) = None"
proof -
  have "regions_table \<in> set all_tables" by (simp add: all_tables_def)
  moreover have "reports ex_inspector regions_table"
    by (simp add: reports_def ex_inspector_def regions_table_def primary_def declared_def)
  ultimately have "tbl_tenant_column (enriched ex_inspector ''table'' regions_table) = declared_tenant (td_name regions_table)"
    using reference_tables_governed by blast
  then show ?thesis by (simp add: declared_tenant_def regions_table_def)
qed

section \<open>The layer and the declaration\<close>

definition declares :: "string \<Rightarrow> string \<Rightarrow> bool" where
  "declares t c \<longleftrightarrow> list_ex (\<lambda>d. td_name d = t \<and> c \<in> set (map cd_name (td_columns d))) all_tables"

text \<open>Every key refers to a column of a table before its own.\<close>

fun keys_resolved :: "string list \<Rightarrow> table_def list \<Rightarrow> bool" where
  "keys_resolved known [] \<longleftrightarrow> True"
| "keys_resolved known (d # ds) \<longleftrightarrow>
     list_all (\<lambda>c. case cd_references c of None \<Rightarrow> True | Some target \<Rightarrow> target \<in> set known) (td_columns d)
     \<and> keys_resolved (known @ map (\<lambda>c. td_name d @ ''.'' @ cd_name c) (td_columns d)) ds"

text \<open>
  The tables are listed so that every foreign key refers to a table before its own; every
  table but organizations and the shared regions requires an \<open>organization_id\<close> that refers to
  organizations; every annotated column, every table of a metric and every related column of a
  term is declared; of the default date fields only the one of \<open>order_items\<close> is not.
\<close>

lemma reference_layer_fits:
  "keys_resolved [] all_tables
   \<and> list_all (\<lambda>d. td_name d \<in> {''organizations'', ''regions''}
       \<or> foreign_key False ''organization_id'' ''organizations.id'' \<in> set (td_columns d)) all_tables
   \<and> list_all (\<lambda>a. declares (ca_table a) (ca_column a)) build_column_annotations
   \<and> list_all (\<lambda>m. list_all (\<lambda>t. declares t ''id'') (md_required_tables m)) reference_metrics
   \<and> list_all (\<lambda>m. list_all (\<lambda>t. declares t ''id'') (bt_related_tables m)
        \<and> list_all (\<lambda>r. case partition_char (CHR ''.'') r of (t, c) \<Rightarrow> declares t c) (bt_related_columns m)) reference_terms
   \<and> filter (\<lambda>(t, c). \<not> declares t c) reference_date_fields = [(''order_items'', ''ordered_at'')]"
  by code_simp

end
