(* ===== verification/Observability.thy ===== *)
theory Observability
  imports Provider Redaction Dates Catalog
begin

text \<open>
  Structured logging (\<open>observability/logging.py\<close>) and tracing (\<open>observability/tracing.py\<close>).

  A log line is the payload the formatter hands to \<open>json.dumps\<close>; which levels are enabled and
  the exception being handled are arguments. Spans live in a store, since the code hands the
  same object to the body and to the exporter and mutates it in both; the current span and the
  completed ones, which the exporter gets, are part of the tracer's state.
\<close>

section \<open>Log lines\<close>

datatype log_level = LV_DEBUG | LV_INFO | LV_WARNING | LV_ERROR

fun level_name :: "log_level \<Rightarrow> string" where
  "level_name LV_DEBUG = ''DEBUG''"
| "level_name LV_INFO = ''INFO''"
| "level_name LV_WARNING = ''WARNING''"
| "level_name LV_ERROR = ''ERROR''"

text \<open>\<open>lg_exc\<close> is the name of the exception's type and its text.\<close>

record log_record =
  lg_level :: log_level
  lg_logger :: string
  lg_message :: string
  lg_structured :: "(string \<times> json) list option"
  lg_correlation :: "string option"
  lg_exc :: "(string \<times> string) option"

type_synonym payload = "(string \<times> json) list"

definition merge_field :: "string \<times> json \<Rightarrow> payload \<Rightarrow> payload" where
  "merge_field = (\<lambda>(k, v) p. if map_of p k = None then p @ [(k, v)] else p)"

definition format_record :: "string \<Rightarrow> log_record \<Rightarrow> payload" where
  "format_record bound r =
     (let reserved = [(''level'', JStr (level_name (lg_level r))), (''logger'', JStr (lg_logger r)),
            (''event'', JStr (lg_message r)),
            (''correlation_id'', JStr (case lg_correlation r of None \<Rightarrow> bound | Some c \<Rightarrow> c))];
          merged = (case lg_structured r of None \<Rightarrow> reserved | Some kvs \<Rightarrow> fold merge_field kvs reserved)
      in case lg_exc r of
           None \<Rightarrow> merged
         | Some (t, m) \<Rightarrow> AList.update ''error_message'' (JStr (redact_text m))
             (AList.update ''error_type'' (JStr t) merged))"

definition redact_field :: "bool \<Rightarrow> json \<Rightarrow> json" where
  "redact_field redacting v = (case v of JStr s \<Rightarrow> if redacting then JStr (redact_text s) else v | _ \<Rightarrow> v)"

definition emit ::
    "string \<Rightarrow> (log_level \<Rightarrow> bool) \<Rightarrow> string \<Rightarrow> log_level \<Rightarrow> string \<Rightarrow> bool \<Rightarrow> (string \<times> string) option
      \<Rightarrow> (string \<times> json) list \<Rightarrow> log_record option" where
  "emit name enabled bound level event redacting exc kvs =
     (if \<not> enabled level then None
      else Some \<lparr> lg_level = level, lg_logger = name,
        lg_message = (if redacting then redact_text event else event),
        lg_structured = Some (map (\<lambda>(k, v). (k, redact_field redacting v)) kvs),
        lg_correlation = Some bound, lg_exc = exc \<rparr>)"

definition log_line ::
    "string \<Rightarrow> (log_level \<Rightarrow> bool) \<Rightarrow> string \<Rightarrow> log_level \<Rightarrow> string \<Rightarrow> bool \<Rightarrow> (string \<times> string) option
      \<Rightarrow> (string \<times> json) list \<Rightarrow> payload option" where
  "log_line name enabled bound level event redacting exc kvs =
     map_option (format_record bound) (emit name enabled bound level event redacting exc kvs)"

section \<open>Spans\<close>

record span =
  sn_name :: string
  sn_id :: string
  sn_parent :: "string option"
  sn_correlation :: string
  sn_start :: rat
  sn_attributes :: "(string \<times> json) list"
  sn_events :: "(string \<times> json) list list"
  sn_status :: string
  sn_duration :: "rat option"

definition set_attribute :: "string \<Rightarrow> json \<Rightarrow> span \<Rightarrow> span" where
  "set_attribute k v sp = sp\<lparr> sn_attributes := AList.update k v (sn_attributes sp) \<rparr>"

definition set_attributes :: "(string \<times> json) list \<Rightarrow> span \<Rightarrow> span" where
  "set_attributes kvs sp = fold (\<lambda>(k, v). set_attribute k v) kvs sp"

definition add_event :: "string \<Rightarrow> (string \<times> json) list \<Rightarrow> span \<Rightarrow> span" where
  "add_event name attrs sp = sp\<lparr> sn_events := sn_events sp
     @ [fold (\<lambda>(k, v). AList.update k v) attrs [(''name'', JStr name)]] \<rparr>"

definition set_status :: "string \<Rightarrow> span \<Rightarrow> span" where
  "set_status status sp = sp\<lparr> sn_status := status \<rparr>"

definition record_exception :: "string \<Rightarrow> span \<Rightarrow> span" where
  "record_exception exc_name sp = set_attribute ''error_type'' (JStr exc_name) (set_status ''error'' sp)"

record tracer_world =
  tr_counter :: nat
  tr_current :: "string option"
  tr_spans :: "(string \<times> span) list"
  tr_exported :: "span list"
  tr_ticks :: nat

definition span_id_of :: "nat \<Rightarrow> string" where
  "span_id_of n = ''span_'' @ pad_zeros 6 (int n)"

text \<open>Mutation of the span with this identifier.\<close>

definition on_span :: "string \<Rightarrow> (span \<Rightarrow> span) \<Rightarrow> (unit, 'z tracer_world_scheme) call" where
  "on_span sid f = change (\<lambda>w. case map_of (tr_spans w) sid of
     None \<Rightarrow> w | Some sp \<Rightarrow> w\<lparr> tr_spans := AList.update sid (f sp) (tr_spans w) \<rparr>)"

fun class_name :: "error_class \<Rightarrow> string" where
  "class_name EngineError = ''EngineError''"
| "class_name InvalidRequestError = ''InvalidRequestError''"
| "class_name AmbiguousQuestionError = ''AmbiguousQuestionError''"
| "class_name AuthorizationError = ''AuthorizationError''"
| "class_name SQLParseError = ''SQLParseError''"
| "class_name SQLValidationError = ''SQLValidationError''"
| "class_name CostRejectedError = ''CostRejectedError''"
| "class_name ProviderError = ''ProviderError''"
| "class_name ProviderTimeoutError = ''ProviderTimeoutError''"
| "class_name ProviderOutputError = ''ProviderOutputError''"
| "class_name RepairExhaustedError = ''RepairExhaustedError''"
| "class_name SchemaRetrievalError = ''SchemaRetrievalError''"
| "class_name ExecutionError = ''ExecutionError''"
| "class_name ConfigurationError = ''ConfigurationError''"
| "class_name DependencyUnavailableError = ''DependencyUnavailableError''"

definition failure_type :: "failure \<Rightarrow> string" where
  "failure_type x = (case x of
     Raised e \<Rightarrow> class_name (ee_class e)
   | Unhandled p \<Rightarrow> (case p of PyValueError \<Rightarrow> ''ValueError'' | PyIndexError \<Rightarrow> ''IndexError''
       | PyAttributeError \<Rightarrow> ''AttributeError'' | PyKeyError \<Rightarrow> ''KeyError'' | PyTypeError \<Rightarrow> ''TypeError''
       | PyOverflowError \<Rightarrow> ''OverflowError'' | PyOther n \<Rightarrow> n))"

text \<open>\<open>bound\<close> is the correlation identifier in force, \<open>hex\<close> the random text of a fresh one.\<close>

definition open_span ::
    "(nat \<Rightarrow> rat) \<Rightarrow> string \<Rightarrow> string \<Rightarrow> string \<Rightarrow> (string \<times> json) list \<Rightarrow> (string, 'z tracer_world_scheme) call" where
  "open_span perf bound hex name attributes w =
     (let sid = span_id_of (tr_counter w + 1) in
      (Inr sid, w\<lparr> tr_counter := tr_counter w + 1, tr_ticks := tr_ticks w + 1, tr_current := Some sid,
         tr_spans := AList.update sid \<lparr> sn_name = name, sn_id = sid, sn_parent = tr_current w,
             sn_correlation = py_or bound (new_correlation_id hex), sn_start = perf (tr_ticks w), sn_attributes = attributes,
             sn_events = [], sn_status = ''unset'', sn_duration = None \<rparr> (tr_spans w) \<rparr>))"

definition ended :: "failure + 'a \<Rightarrow> span \<Rightarrow> span" where
  "ended r sp = (case r of
     Inl x \<Rightarrow> record_exception (failure_type x) sp
   | Inr _ \<Rightarrow> if sn_status sp = ''unset'' then set_status ''ok'' sp else sp)"

definition close_span ::
    "(nat \<Rightarrow> rat) \<Rightarrow> string \<Rightarrow> string option \<Rightarrow> failure + 'a
      \<Rightarrow> 'z tracer_world_scheme \<Rightarrow> 'z tracer_world_scheme" where
  "close_span perf sid before r w = (case map_of (tr_spans w) sid of
     None \<Rightarrow> w
   | Some sp \<Rightarrow>
       (let finished = (ended r sp)\<lparr> sn_duration := Some ((perf (tr_ticks w) - sn_start sp) * 1000) \<rparr> in
        w\<lparr> tr_ticks := tr_ticks w + 1, tr_current := before,
          tr_spans := AList.update sid finished (tr_spans w), tr_exported := tr_exported w @ [finished] \<rparr>))"

definition start_span ::
    "(nat \<Rightarrow> rat) \<Rightarrow> string \<Rightarrow> string \<Rightarrow> string \<Rightarrow> (string \<times> json) list
      \<Rightarrow> (string \<Rightarrow> ('a, 'z tracer_world_scheme) call) \<Rightarrow> ('a, 'z tracer_world_scheme) call" where
  "start_span perf bound hex name attributes body w =
     (let before = tr_current w; sid = span_id_of (tr_counter w + 1);
          (r, w1) = seq (open_span perf bound hex name attributes) body w
      in (r, close_span perf sid before r w1))"

section \<open>The default exporter\<close>

definition exported_fields :: "(rat \<Rightarrow> rat) \<Rightarrow> span \<Rightarrow> (string \<times> json) list" where
  "exported_fields round3 sp =
     [(''span_name'', JStr (sn_name sp)), (''span_id'', JStr (sn_id sp)),
      (''parent_id'', case sn_parent sp of None \<Rightarrow> JNull | Some p \<Rightarrow> JStr p),
      (''status'', JStr (sn_status sp)),
      (''duration_ms'', JNum (round3 (case sn_duration sp of None \<Rightarrow> 0 | Some d \<Rightarrow> d)))]
     @ map (\<lambda>(k, v). (''attr_'' @ k, v)) (sn_attributes sp)"

definition default_exporter ::
    "(rat \<Rightarrow> rat) \<Rightarrow> (log_level \<Rightarrow> bool) \<Rightarrow> string \<Rightarrow> span \<Rightarrow> payload option" where
  "default_exporter round3 enabled bound sp =
     log_line ''trace'' enabled bound LV_DEBUG ''span'' True None (exported_fields round3 sp)"

end
