(* ===== verification/LogOutput.thy ===== *)
theory LogOutput
  imports Observability
begin

text \<open>
  What reaches the log stream: the root logger as \<open>configure_logging\<close> sets it up, the text
  \<open>json.dumps\<close> makes of a payload, and the lines a sequence of log calls writes. How Python prints
  a number and the console formatter are arguments.
\<close>

section \<open>The root logger\<close>

datatype formatter = JsonFormatter | TextFormatter string

record handler =
  hd_stream :: string
  hd_formatter :: formatter

record logging_state =
  lo_level :: nat
  lo_handlers :: "handler list"
  lo_configured :: bool

definition level_numbers :: "(string \<times> nat) list" where
  "level_numbers = [(''CRITICAL'', 50), (''FATAL'', 50), (''ERROR'', 40), (''WARN'', 30), (''WARNING'', 30),
     (''INFO'', 20), (''DEBUG'', 10), (''NOTSET'', 0)]"

definition console_format :: string where
  "console_format = ''%(asctime)s %(levelname)s %(name)s :: %(message)s''"

definition remove_handler :: "handler \<Rightarrow> handler list \<Rightarrow> handler list" where
  "remove_handler h hs = remove1 h hs"

definition configure_logging :: "string \<Rightarrow> bool \<Rightarrow> logging_state \<Rightarrow> py_exception + logging_state" where
  "configure_logging level json_output st = (case map_of level_numbers (upper level) of
     None \<Rightarrow> Inl PyValueError
   | Some n \<Rightarrow> Inr (st\<lparr> lo_level := n,
       lo_handlers := fold remove_handler (lo_handlers st) (lo_handlers st)
         @ [\<lparr> hd_stream = ''stdout'',
              hd_formatter = (if json_output then JsonFormatter else TextFormatter console_format) \<rparr>],
       lo_configured := True \<rparr>))"

definition level_number :: "log_level \<Rightarrow> nat" where
  "level_number lv = the (map_of level_numbers (level_name lv))"

text \<open>\<open>isEnabledFor\<close> of a logger that inherits the level of the root.\<close>

definition enabled_for :: "logging_state \<Rightarrow> log_level \<Rightarrow> bool" where
  "enabled_for st lv \<longleftrightarrow> lo_level st \<le> level_number lv"

section \<open>\<open>json.dumps(payload, ensure_ascii=False)\<close>\<close>

definition hex_lower :: "nat \<Rightarrow> char" where
  "hex_lower n = (if n < 10 then char_of (48 + n) else char_of (87 + n))"

definition escape_char :: "char \<Rightarrow> string" where
  "escape_char c = (let n = code_point c in
     if c = CHR 0x22 then [CHR 0x5C, CHR 0x22]
     else if c = CHR 0x5C then [CHR 0x5C, CHR 0x5C]
     else if n = 10 then [CHR 0x5C, CHR ''n'']
     else if n = 13 then [CHR 0x5C, CHR ''r'']
     else if n = 9 then [CHR 0x5C, CHR ''t'']
     else if n = 12 then [CHR 0x5C, CHR ''f'']
     else if n = 8 then [CHR 0x5C, CHR ''b'']
     else if n < 32 then [CHR 0x5C, CHR ''u'', CHR ''0'', CHR ''0'', hex_lower (n div 16), hex_lower (n mod 16)]
     else [c])"

definition dumps_string :: "string \<Rightarrow> string" where
  "dumps_string s = [CHR 0x22] @ concat (map escape_char s) @ [CHR 0x22]"

fun dumps :: "(rat \<Rightarrow> string) \<Rightarrow> json \<Rightarrow> string" where
  "dumps num JNull = ''null''"
| "dumps num (JBool b) = (if b then ''true'' else ''false'')"
| "dumps num (JNum q) = num q"
| "dumps num (JStr s) = dumps_string s"
| "dumps num (JList js) = ''['' @ join '', '' (map (dumps num) js) @ '']''"
| "dumps num (JObj kvs) = ''{'' @ join '', '' (map (\<lambda>(k, v). dumps_string k @ '': '' @ dumps num v) kvs) @ ''}''"

section \<open>The stream\<close>

definition render_record ::
    "(rat \<Rightarrow> string) \<Rightarrow> (string \<Rightarrow> log_record \<Rightarrow> string) \<Rightarrow> string \<Rightarrow> formatter \<Rightarrow> log_record \<Rightarrow> string" where
  "render_record num console bound f r = (case f of
     JsonFormatter \<Rightarrow> dumps num (JObj (format_record bound r))
   | TextFormatter fmt \<Rightarrow> console fmt r)"

definition written ::
    "(rat \<Rightarrow> string) \<Rightarrow> (string \<Rightarrow> log_record \<Rightarrow> string) \<Rightarrow> logging_state \<Rightarrow> string \<Rightarrow> log_record \<Rightarrow> string" where
  "written num console st bound r =
     concat (map (\<lambda>h. render_record num console bound (hd_formatter h) r @ newline) (lo_handlers st))"

text \<open>A call of a structured logger: its name, level, event, whether it redacts, the exception, the fields.\<close>

record log_call =
  lc_logger :: string
  lc_bound :: string
  lc_level :: log_level
  lc_event :: string
  lc_redact :: bool
  lc_exc :: "(string \<times> string) option"
  lc_fields :: "(string \<times> json) list"

definition log_output ::
    "(rat \<Rightarrow> string) \<Rightarrow> (string \<Rightarrow> log_record \<Rightarrow> string) \<Rightarrow> logging_state \<Rightarrow> log_call \<Rightarrow> string" where
  "log_output num console st c =
     (case emit (lc_logger c) (enabled_for st) (lc_bound c) (lc_level c) (lc_event c) (lc_redact c) (lc_exc c)
         (lc_fields c) of
        None \<Rightarrow> [] | Some r \<Rightarrow> written num console st (lc_bound c) r)"

definition log_stream ::
    "(rat \<Rightarrow> string) \<Rightarrow> (string \<Rightarrow> log_record \<Rightarrow> string) \<Rightarrow> logging_state \<Rightarrow> log_call list \<Rightarrow> string" where
  "log_stream num console st calls = concat (map (log_output num console st) calls)"

section \<open>One line per call\<close>

lemma fold_remove_all: "fold remove_handler hs (hs @ gs) = gs"
  by (induction hs) (simp_all add: remove_handler_def)

lemma configured_handlers:
  assumes "configure_logging level json_output st = Inr st'"
  shows "lo_handlers st' = [\<lparr> hd_stream = ''stdout'',
    hd_formatter = (if json_output then JsonFormatter else TextFormatter console_format) \<rparr>]"
  using assms fold_remove_all [of "lo_handlers st" "[]"]
  by (auto simp: configure_logging_def split: option.splits)

lemma configure_idempotent:
  assumes "configure_logging level json_output st = Inr st'"
  shows "configure_logging level json_output st' = Inr st'"
  using assms configured_handlers [OF assms]
  by (auto simp: configure_logging_def remove_handler_def split: option.splits)

lemma hex_lower_printable: "n < 16 \<Longrightarrow> hex_lower n \<noteq> CHR 0x0A"
  by (cases "n < 10") (auto simp: hex_lower_def dest: arg_cong [of _ _ code_point])

lemma high_digit: "code_point c div 16 < 16"
  by (rule less_mult_imp_div_less) (use code_point_bound [of c] in simp)

lemma escape_char_one_line: "CHR 0x0A \<notin> set (escape_char c)"
proof -
  have "code_point c = 10" if "c = CHR 0x0A" using that by simp
  then show ?thesis
    using hex_lower_printable [OF high_digit [of c]] hex_lower_printable [of "code_point c mod 16"]
    by (auto simp: escape_char_def Let_def)
qed

lemma dumps_string_one_line: "CHR 0x0A \<notin> set (dumps_string s)"
  using escape_char_one_line by (auto simp: dumps_string_def)

lemma join_one_line: "CHR 0x0A \<notin> set sep \<Longrightarrow> (\<And>x. x \<in> set xs \<Longrightarrow> CHR 0x0A \<notin> set x) \<Longrightarrow> CHR 0x0A \<notin> set (join sep xs)"
  by (induction sep xs rule: join.induct) auto

lemma dumps_one_line:
  assumes num: "\<And>q. CHR 0x0A \<notin> set (num q)"
  shows "CHR 0x0A \<notin> set (dumps num j)"
  using assms
proof (induction num j rule: dumps.induct)
  case (5 num js)
  then have "CHR 0x0A \<notin> set (join '', '' (map (dumps num) js))" by (intro join_one_line) auto
  then show ?case by simp
next
  case (6 num kvs)
  then have "CHR 0x0A \<notin> set (join '', '' (map (\<lambda>(k, v). dumps_string k @ '': '' @ dumps num v) kvs))"
    by (intro join_one_line) (auto simp: dumps_string_one_line)
  then show ?case by simp
qed (simp_all add: dumps_string_one_line)

text \<open>A reader of the escapes, to say that none is ambiguous.\<close>

definition hex_value :: "char \<Rightarrow> nat" where
  "hex_value c = (if code_point c < 58 then code_point c - 48 else code_point c - 87)"

definition plain_escapes :: "(char \<times> nat) list" where
  "plain_escapes = [(CHR 0x22, 34), (CHR 0x5C, 92), (CHR ''n'', 10), (CHR ''r'', 13), (CHR ''t'', 9),
     (CHR ''f'', 12), (CHR ''b'', 8)]"

fun unescape :: "string \<Rightarrow> string" where
  "unescape [] = []"
| "unescape (c # cs) = (if c \<noteq> CHR 0x5C then c # unescape cs else
     (case cs of
        [] \<Rightarrow> []
      | e # es \<Rightarrow> (if e = CHR ''u''
          then char_of (16 * hex_value (es ! 2) + hex_value (es ! 3)) # unescape (drop 4 es)
          else char_of (the (map_of plain_escapes e)) # unescape es)))"

lemma hex_value_lower: "n < 16 \<Longrightarrow> hex_value (hex_lower n) = n"
  by (simp add: hex_value_def hex_lower_def of_char_of)

lemma quote_chars: "char_of (34 :: nat) = CHR 0x22" "char_of (92 :: nat) = CHR 0x5C"
  by code_simp+

lemma unescape_char: "unescape (escape_char c @ cs) = c # unescape cs"
proof -
  note n = high_digit [of c]
  have same: "char_of (code_point c) = c" by simp
  have e: "code_point c = k \<Longrightarrow> c = char_of k" for k using same by metis
  show ?thesis
    using n by (auto simp: escape_char_def Let_def plain_escapes_def hex_value_lower quote_chars dest!: e)
qed

lemma unescape_escape: "unescape (concat (map escape_char s)) = s"
  by (induction s) (simp_all add: unescape_char)

lemma written_json:
  assumes "lo_handlers st = [\<lparr> hd_stream = s, hd_formatter = JsonFormatter \<rparr>]"
  shows "log_output num console st c = (case log_line (lc_logger c) (enabled_for st) (lc_bound c) (lc_level c)
      (lc_event c) (lc_redact c) (lc_exc c) (lc_fields c) of
    None \<Rightarrow> [] | Some p \<Rightarrow> dumps num (JObj p) @ newline)"
  by (simp add: log_output_def log_line_def written_def render_record_def assms split: option.split)

lemma call_newlines:
  assumes "\<forall>q. CHR 0x0A \<notin> set (num q)" and "lo_handlers st = [\<lparr> hd_stream = s, hd_formatter = JsonFormatter \<rparr>]"
  shows "count_list (log_output num console st c) (CHR 0x0A) = (if enabled_for st (lc_level c) then 1 else 0)"
proof -
  have "CHR 0x0A \<notin> set (dumps num (JObj p))" for p by (rule dumps_one_line) (use assms(1) in blast)
  moreover have "count_list (xs @ ys) x = count_list xs x + count_list ys x" for xs ys :: string and x by (induction xs) auto
  ultimately show ?thesis
    by (simp add: written_json [OF assms(2)] log_line_def emit_def newline_def del: dumps.simps)
qed

end
