(* ===== verification/ObservabilityProperties.thy ===== *)
theory ObservabilityProperties
  imports LogOutput
begin

text \<open>
  Log lines keep their reserved fields and carry texts only redacted; spans nest.
\<close>

section \<open>Log lines\<close>

lemma merge_field_lookup:
  "map_of (merge_field (k', v) p) k =
     (case map_of p k of None \<Rightarrow> if k = k' then Some v else None | Some x \<Rightarrow> Some x)"
  by (simp add: merge_field_def map_add_def split: option.split)

lemma merged_lookup:
  "map_of (fold merge_field kvs p) k = (case map_of p k of None \<Rightarrow> map_of kvs k | Some v \<Rightarrow> Some v)"
proof (induction kvs arbitrary: p)
  case (Cons kv kvs)
  then show ?case by (cases kv) (simp add: merge_field_lookup split: option.split)
qed (simp split: option.split)

lemma merge_field_keys: "map fst (merge_field kv p) = (if map_of p (fst kv) = None then map fst p @ [fst kv] else map fst p)"
  by (cases kv) (simp add: merge_field_def)

lemma merged_distinct: "distinct (map fst p) \<Longrightarrow> distinct (map fst (fold merge_field kvs p))"
  by (induction kvs arbitrary: p) (simp_all add: merge_field_keys map_of_eq_None_iff)

definition reserved_keys :: "string set" where
  "reserved_keys = {''level'', ''logger'', ''event'', ''correlation_id''}"

definition reserved_fields :: "string \<Rightarrow> log_level \<Rightarrow> string \<Rightarrow> string \<Rightarrow> payload" where
  "reserved_fields name level event bound = [(''level'', JStr (level_name level)), (''logger'', JStr name),
     (''event'', JStr event), (''correlation_id'', JStr bound)]"

lemma reserved_lookup:
  "map_of (reserved_fields name level event bound) k = None \<longleftrightarrow> k \<notin> reserved_keys"
  by (simp add: reserved_fields_def reserved_keys_def)

definition with_exception :: "(string \<times> string) option \<Rightarrow> payload \<Rightarrow> payload" where
  "with_exception exc p = (case exc of None \<Rightarrow> p
     | Some (t, m) \<Rightarrow> AList.update ''error_message'' (JStr (redact_text m)) (AList.update ''error_type'' (JStr t) p))"

definition given_fields :: "(string \<times> json) list \<Rightarrow> payload" where
  "given_fields kvs = map (\<lambda>(k, v). (k, redact_field True v)) kvs"

lemma line_eq:
  assumes "log_line name enabled bound level event True exc kvs = Some p"
  shows "p = with_exception exc (fold merge_field (given_fields kvs) (reserved_fields name level (redact_text event) bound))"
  using assms
  by (cases exc) (auto simp: log_line_def emit_def format_record_def Let_def with_exception_def given_fields_def
      reserved_fields_def split: if_splits)

lemma given_lookup: "map_of (given_fields kvs) k = map_option (redact_field True) (map_of kvs k)"
  by (simp add: given_fields_def map_of_map)

lemma with_exception_lookup:
  "map_of (with_exception exc p) k =
     (case exc of None \<Rightarrow> map_of p k
      | Some (t, m) \<Rightarrow> if k = ''error_message'' then Some (JStr (redact_text m))
          else if k = ''error_type'' then Some (JStr t) else map_of p k)"
  by (simp add: with_exception_def split: option.split)

lemma with_exception_distinct: "distinct (map fst p) \<Longrightarrow> distinct (map fst (with_exception exc p))"
  by (simp add: with_exception_def distinct_update split: option.split)

lemma line_lookup:
  assumes "log_line name enabled bound level event True exc kvs = Some p"
  shows "k \<in> reserved_keys \<Longrightarrow> map_of p k = map_of (reserved_fields name level (redact_text event) bound) k"
    and "k \<notin> reserved_keys \<Longrightarrow> k \<notin> {''error_type'', ''error_message''} \<Longrightarrow>
      map_of p k = map_option (redact_field True) (map_of kvs k)"
    and "k \<notin> reserved_keys \<Longrightarrow> k = ''error_message'' \<Longrightarrow> map_of p k =
      (case exc of None \<Rightarrow> map_option (redact_field True) (map_of kvs k) | Some (_, m) \<Rightarrow> Some (JStr (redact_text m)))"
proof -
  have other: "k \<in> reserved_keys \<Longrightarrow> k \<noteq> ''error_message'' \<and> k \<noteq> ''error_type''"
    by (auto simp: reserved_keys_def)
  note eq = line_eq [OF assms] with_exception_lookup merged_lookup given_lookup
  show "k \<in> reserved_keys \<Longrightarrow> map_of p k = map_of (reserved_fields name level (redact_text event) bound) k"
    using other reserved_lookup [of name level "redact_text event" bound k] by (auto simp: eq split: option.split)
  show "k \<notin> reserved_keys \<Longrightarrow> k \<notin> {''error_type'', ''error_message''} \<Longrightarrow>
      map_of p k = map_option (redact_field True) (map_of kvs k)"
    using reserved_lookup [of name level "redact_text event" bound k] by (simp add: eq split: option.split)
  show "k \<notin> reserved_keys \<Longrightarrow> k = ''error_message'' \<Longrightarrow> map_of p k =
      (case exc of None \<Rightarrow> map_option (redact_field True) (map_of kvs k) | Some (_, m) \<Rightarrow> Some (JStr (redact_text m)))"
    using reserved_lookup [of name level "redact_text event" bound k] by (simp add: eq split: option.split)
qed

lemma line_distinct:
  assumes "log_line name enabled bound level event True exc kvs = Some p"
  shows "distinct (map fst p)"
  unfolding line_eq [OF assms]
  by (intro with_exception_distinct merged_distinct) (simp add: reserved_fields_def)

lemma redact_field_text: "redact_field True v = JStr s \<Longrightarrow> \<exists>raw. v = JStr raw \<and> s = redact_text raw"
  by (cases v) (auto simp: redact_field_def)

lemma line_texts:
  assumes "log_line name enabled bound level event True exc kvs = Some p" and "map_of p k = Some (JStr s)"
    and "k \<notin> {''level'', ''logger'', ''correlation_id'', ''error_type''}"
  shows "\<exists>raw. s = redact_text raw \<and> (k = ''event'' \<and> raw = event \<or> map_of kvs k = Some (JStr raw)
     \<or> (\<exists>t. exc = Some (t, raw)))"
proof -
  note look = line_lookup [OF assms(1), of k]
  have field: ?thesis if eq: "map_of p k = map_option (redact_field True) (map_of kvs k)"
  proof -
    obtain v where "map_of kvs k = Some v" "redact_field True v = JStr s"
      using eq assms(2) by (cases "map_of kvs k") simp_all
    with redact_field_text show ?thesis by blast
  qed
  show ?thesis
  proof (cases "k \<in> reserved_keys")
    case True
    then have "k = ''event''" using assms(3) by (simp add: reserved_keys_def)
    moreover from this have "s = redact_text event" using look(1) [OF True] assms(2) by (simp add: reserved_fields_def)
    ultimately show ?thesis by blast
  next
    case False
    show ?thesis
    proof (cases "k = ''error_message'' \<and> exc \<noteq> None")
      case True
      then show ?thesis using look(3) [OF False] assms(2) by (cases exc) auto
    next
      case message: False
      have "map_of p k = map_option (redact_field True) (map_of kvs k)"
        using look(2,3) [OF False] message assms(3) by (cases exc) auto
      then show ?thesis by (rule field)
    qed
  qed
qed

text \<open>
  C30: The fields of a call never replace the level, the logger, the event or the correlation
  identifier of its line, keys are distinct, and every text in the line besides those three
  names and the exception's type went through redaction; what is not a text, such as a list of
  texts, is logged as it is.
\<close>

theorem log_lines_redacted:
  assumes "log_line name enabled bound level event True exc kvs = Some p"
  shows "distinct (map fst p)
     \<and> map_of p ''level'' = Some (JStr (level_name level)) \<and> map_of p ''logger'' = Some (JStr name)
     \<and> map_of p ''correlation_id'' = Some (JStr bound) \<and> map_of p ''event'' = Some (JStr (redact_text event))
     \<and> (\<forall>k s. map_of p k = Some (JStr s) \<longrightarrow> k \<in> {''level'', ''logger'', ''correlation_id'', ''error_type''}
          \<or> (\<exists>raw. s = redact_text raw \<and> (k = ''event'' \<and> raw = event \<or> map_of kvs k = Some (JStr raw)
               \<or> (\<exists>t. exc = Some (t, raw)))))
     \<and> (\<forall>k items. map_of kvs k = Some (JList items) \<longrightarrow> k \<notin> reserved_keys \<union> {''error_type'', ''error_message''}
          \<longrightarrow> map_of p k = Some (JList items))"
proof -
  note look = line_lookup [OF assms]
  have "map_of p k = Some (JList items)"
    if "map_of kvs k = Some (JList items)" "k \<notin> reserved_keys \<union> {''error_type'', ''error_message''}" for k items
    using that look(2) [of k] by (simp add: redact_field_def)
  moreover have "map_of p ''level'' = Some (JStr (level_name level))"
    using look(1) [of "''level''"] by (simp add: reserved_keys_def reserved_fields_def)
  moreover have "map_of p ''logger'' = Some (JStr name)"
    using look(1) [of "''logger''"] by (simp add: reserved_keys_def reserved_fields_def)
  moreover have "map_of p ''correlation_id'' = Some (JStr bound)"
    using look(1) [of "''correlation_id''"] by (simp add: reserved_keys_def reserved_fields_def)
  moreover have "map_of p ''event'' = Some (JStr (redact_text event))"
    using look(1) [of "''event''"] by (simp add: reserved_keys_def reserved_fields_def)
  moreover have "k \<in> {''level'', ''logger'', ''correlation_id'', ''error_type''}
      \<or> (\<exists>raw. s = redact_text raw \<and> (k = ''event'' \<and> raw = event \<or> map_of kvs k = Some (JStr raw)
         \<or> (\<exists>t. exc = Some (t, raw))))" if "map_of p k = Some (JStr s)" for k s
    using line_texts [OF assms that] by blast
  ultimately show ?thesis using line_distinct [OF assms] by (intro conjI allI impI)
qed

lemma log_lines_redacted_witness:
  "\<exists>p. log_line ''t'' (\<lambda>_. True) ''c'' LV_INFO ''e'' True None [(''level'', JStr ''x''), (''sql'', JList [JStr ''y''])] = Some p
     \<and> map_of p ''level'' = Some (JStr ''INFO'') \<and> map_of p ''sql'' = Some (JList [JStr ''y''])"
proof -
  let ?kvs = "[(''level'', JStr ''x''), (''sql'', JList [JStr ''y''])]"
  obtain p where p: "log_line ''t'' (\<lambda>_. True) ''c'' LV_INFO ''e'' True None ?kvs = Some p"
    by (simp add: log_line_def emit_def)
  have "map_of ?kvs ''sql'' = Some (JList [JStr ''y''])" "''sql'' \<notin> reserved_keys \<union> {''error_type'', ''error_message''}"
    by (simp_all add: reserved_keys_def)
  with log_lines_redacted [OF p] have "map_of p ''sql'' = Some (JList [JStr ''y''])" by blast
  moreover have "map_of p ''level'' = Some (JStr ''INFO'')" using log_lines_redacted [OF p] by simp
  ultimately show ?thesis using p by blast
qed

section \<open>Span identifiers\<close>

lemma digits_append: "nat_of_digits acc (s @ t) = nat_of_digits (nat_of_digits acc s) t"
  by (induction s arbitrary: acc) simp_all

lemma digits_show_nat: "nat_of_digits 0 (show_nat n) = n"
proof (induction n rule: show_nat.induct)
  case (1 n)
  then show ?case
    by (cases "n < 10"; subst show_nat.simps) (simp_all add: digits_append of_char_of)
qed

lemma digits_zeros: "nat_of_digits 0 (replicate k (CHR ''0'')) = 0"
  by (induction k) simp_all

lemma digits_padded: "nat_of_digits 0 (pad_zeros k (int n)) = n"
  by (simp add: pad_zeros_def Let_def digits_append digits_zeros show_int_def digits_show_nat)

lemma span_id_inject [simp]: "span_id_of m = span_id_of n \<longleftrightarrow> m = n"
  by (metis append_same_eq digits_padded same_append_eq span_id_of_def)

section \<open>Nesting\<close>

definition tracer_ok :: "'z tracer_world_scheme \<Rightarrow> bool" where
  "tracer_ok w \<longleftrightarrow> (\<forall>sid. map_of (tr_spans w) sid \<noteq> None \<longrightarrow> (\<exists>n\<le>tr_counter w. sid = span_id_of n))"

definition spans_kept :: "'z tracer_world_scheme \<Rightarrow> 'z tracer_world_scheme \<Rightarrow> bool" where
  "spans_kept w w' \<longleftrightarrow> (\<forall>sid sp. map_of (tr_spans w) sid = Some sp \<longrightarrow> (\<exists>sp'. map_of (tr_spans w') sid = Some sp'
     \<and> sn_id sp' = sn_id sp \<and> sn_parent sp' = sn_parent sp \<and> sn_name sp' = sn_name sp))"

text \<open>The spans exported between two states: one for each identifier drawn, each below another or at the top.\<close>

definition exports :: "'z tracer_world_scheme \<Rightarrow> 'z tracer_world_scheme \<Rightarrow> span list \<Rightarrow> bool" where
  "exports w w' es \<longleftrightarrow> tr_exported w' = tr_exported w @ es
     \<and> mset (map sn_id es) = image_mset span_id_of (mset [Suc (tr_counter w)..<Suc (tr_counter w')])
     \<and> (\<forall>e\<in>set es. sn_parent e = tr_current w \<or> sn_parent e \<in> Some ` sn_id ` set es)"

definition well_traced :: "('a, 'z tracer_world_scheme) call \<Rightarrow> bool" where
  "well_traced m \<longleftrightarrow> (\<forall>w. tracer_ok w \<longrightarrow> tracer_ok (snd (m w)) \<and> tr_current (snd (m w)) = tr_current w
     \<and> tr_counter w \<le> tr_counter (snd (m w)) \<and> spans_kept w (snd (m w)) \<and> (\<exists>es. exports w (snd (m w)) es))"

lemma spans_kept_refl [simp]: "spans_kept w w"
  by (simp add: spans_kept_def)

lemma spans_kept_trans: "spans_kept w1 w2 \<Longrightarrow> spans_kept w2 w3 \<Longrightarrow> spans_kept w1 w3"
  unfolding spans_kept_def by metis

lemma exports_Nil: "exports w w []"
  by (simp add: exports_def)

lemma exports_append:
  assumes "exports w1 w2 es" "exports w2 w3 fs" "tr_current w2 = tr_current w1"
    "tr_counter w1 \<le> tr_counter w2" "tr_counter w2 \<le> tr_counter w3"
  shows "exports w1 w3 (es @ fs)"
proof -
  have "[Suc (tr_counter w1)..<Suc (tr_counter w3)] = [Suc (tr_counter w1)..<Suc (tr_counter w2)] @ [Suc (tr_counter w2)..<Suc (tr_counter w3)]"
    using assms(4,5) upt_add_eq_append [of "Suc (tr_counter w1)" "Suc (tr_counter w2)" "tr_counter w3 - tr_counter w2"] by simp
  with assms(1-3) show ?thesis by (fastforce simp: exports_def)
qed

lemma well_traced_give: "well_traced (give a)"
  by (auto simp: well_traced_def give_def intro!: exI [of _ "[]"] exports_Nil)

lemma well_traced_fail: "well_traced (fail x)"
  by (auto simp: well_traced_def fail_def intro!: exI [of _ "[]"] exports_Nil)

lemma well_traced_seq:
  fixes m :: "('a, 'z tracer_world_scheme) call"
  assumes m: "well_traced m" and k: "\<And>a. well_traced (k a)"
  shows "well_traced (seq m k)"
  unfolding well_traced_def
proof (intro allI impI)
  fix w :: "'z tracer_world_scheme" assume ok: "tracer_ok w"
  obtain r w1 where mw: "m w = (r, w1)" by (cases "m w")
  have w1: "tracer_ok w1" "tr_current w1 = tr_current w" "tr_counter w \<le> tr_counter w1" "spans_kept w w1"
    "\<exists>es. exports w w1 es"
    using m ok mw by (force simp: well_traced_def)+
  show "tracer_ok (snd (seq m k w)) \<and> tr_current (snd (seq m k w)) = tr_current w
     \<and> tr_counter w \<le> tr_counter (snd (seq m k w)) \<and> spans_kept w (snd (seq m k w))
     \<and> (\<exists>es. exports w (snd (seq m k w)) es)"
  proof (cases r)
    case (Inl x)
    with w1 mw show ?thesis by (simp add: seq_def)
  next
    case (Inr a)
    obtain w2 where w2: "snd (k a w1) = w2" by blast
    have rest: "tracer_ok w2" "tr_current w2 = tr_current w1" "tr_counter w1 \<le> tr_counter w2" "spans_kept w1 w2"
      "\<exists>fs. exports w1 w2 fs"
      using k [of a] w1(1) w2 by (auto simp: well_traced_def)
    have "snd (seq m k w) = w2" using Inr mw w2 by (simp add: seq_def)
    moreover have "\<exists>es. exports w w2 es" using w1 rest exports_append by blast
    ultimately show ?thesis using w1 rest spans_kept_trans by (metis le_trans)
  qed
qed

lemma well_traced_on_span:
  assumes "\<And>sp. sn_id (f sp) = sn_id sp \<and> sn_parent (f sp) = sn_parent sp \<and> sn_name (f sp) = sn_name sp"
  shows "well_traced (on_span sid f)"
proof -
  have "exports w (snd (on_span sid f w)) []" for w
    by (simp add: exports_def on_span_def change_def split: option.split)
  moreover have "tracer_ok w \<Longrightarrow> tracer_ok (snd (on_span sid f w))" for w
    by (auto simp: tracer_ok_def on_span_def change_def split: option.split)
  moreover have "spans_kept w (snd (on_span sid f w))" for w
    using assms by (auto simp: spans_kept_def on_span_def change_def split: option.split)
  ultimately show ?thesis
    by (auto simp: well_traced_def) (auto simp: on_span_def change_def split: option.split)
qed

lemma setters_keep:
  "sn_id (set_attribute k v sp) = sn_id sp" "sn_parent (set_attribute k v sp) = sn_parent sp" "sn_name (set_attribute k v sp) = sn_name sp"
  "sn_id (set_status s sp) = sn_id sp" "sn_parent (set_status s sp) = sn_parent sp" "sn_name (set_status s sp) = sn_name sp"
  "sn_id (record_exception e sp) = sn_id sp" "sn_parent (record_exception e sp) = sn_parent sp" "sn_name (record_exception e sp) = sn_name sp"
  "sn_id (ended r sp) = sn_id sp" "sn_parent (ended r sp) = sn_parent sp" "sn_name (ended r sp) = sn_name sp"
  by (simp_all add: set_attribute_def set_status_def record_exception_def ended_def split: sum.split)

lemma ended_status: "case r of Inl _ \<Rightarrow> sn_status (ended r sp) = ''error'' | Inr _ \<Rightarrow> sn_status (ended r sp) \<noteq> ''unset''"
  by (simp add: ended_def record_exception_def set_attribute_def set_status_def split: sum.split)

lemma opened:
  assumes "tracer_ok w"
  shows "tracer_ok (snd (open_span perf c hex name attrs w)) \<and> spans_kept w (snd (open_span perf c hex name attrs w))
     \<and> map_of (tr_spans w) (span_id_of (Suc (tr_counter w))) = None"
proof -
  have fresh: "map_of (tr_spans w) (span_id_of (Suc (tr_counter w))) = None"
    using assms by (force simp: tracer_ok_def)
  moreover have "tracer_ok (snd (open_span perf c hex name attrs w))"
    using assms by (auto simp: tracer_ok_def open_span_def Let_def)
  moreover have "spans_kept w (snd (open_span perf c hex name attrs w))"
    using fresh by (auto simp: spans_kept_def open_span_def Let_def)
  ultimately show ?thesis by blast
qed

lemma start_span_traced:
  assumes body: "\<forall>sid. well_traced (body sid)" and ok: "tracer_ok w"
  shows "tracer_ok (snd (start_span perf c hex name attrs body w))
     \<and> tr_current (snd (start_span perf c hex name attrs body w)) = tr_current w
     \<and> tr_counter w \<le> tr_counter (snd (start_span perf c hex name attrs body w))
     \<and> spans_kept w (snd (start_span perf c hex name attrs body w))
     \<and> (\<exists>es sp. exports w (snd (start_span perf c hex name attrs body w)) (es @ [sp])
          \<and> sn_name sp = name \<and> sn_parent sp = tr_current w
          \<and> (case fst (start_span perf c hex name attrs body w) of
               Inl _ \<Rightarrow> sn_status sp = ''error'' | Inr _ \<Rightarrow> sn_status sp \<noteq> ''unset''))"
proof -
  define sid where "sid = span_id_of (Suc (tr_counter w))"
  define w1 where "w1 = snd (open_span perf c hex name attrs w)"
  obtain r w2 where bw: "body sid w1 = (r, w2)" by (cases "body sid w1")
  obtain sp1 where sp1: "map_of (tr_spans w1) sid = Some sp1" "sn_id sp1 = sid" "sn_parent sp1 = tr_current w" "sn_name sp1 = name"
    by (simp add: w1_def open_span_def Let_def sid_def)
  have w1: "tracer_ok w1" "spans_kept w w1" "tr_current w1 = Some sid" "tr_counter w1 = Suc (tr_counter w)"
    "tr_exported w1 = tr_exported w"
    using opened [OF ok, of perf c hex name attrs] by (simp_all add: w1_def) (simp_all add: open_span_def Let_def sid_def)
  have w2: "tracer_ok w2" "tr_current w2 = Some sid" "tr_counter w1 \<le> tr_counter w2" "spans_kept w1 w2" "\<exists>es. exports w1 w2 es"
    using body [rule_format, of sid] w1(1,3) bw by (force simp: well_traced_def)+
  obtain es where es: "exports w1 w2 es" using w2(5) by blast
  obtain sp2 where sp2: "map_of (tr_spans w2) sid = Some sp2" "sn_id sp2 = sid" "sn_parent sp2 = tr_current w" "sn_name sp2 = name"
    using w2(4) sp1 by (force simp: spans_kept_def)
  define finished where "finished = (ended r sp2)\<lparr> sn_duration := Some ((perf (tr_ticks w2) - sn_start sp2) * 1000) \<rparr>"
  define w3 where "w3 = close_span perf sid (tr_current w) r w2"
  have run: "start_span perf c hex name attrs body w = (r, w3)"
    using bw by (simp add: start_span_def Let_def seq_def w3_def w1_def sid_def open_span_def)
  have w3: "tr_current w3 = tr_current w" "tr_counter w3 = tr_counter w2" "tr_exported w3 = tr_exported w2 @ [finished]"
    "tr_spans w3 = AList.update sid finished (tr_spans w2)"
    by (simp_all add: w3_def close_span_def sp2 finished_def Let_def)
  have fin: "sn_id finished = sid" "sn_parent finished = tr_current w" "sn_name finished = name"
    by (simp_all add: finished_def setters_keep sp2)
  have "tracer_ok w3" using w2(1) sp2(1) by (auto simp: tracer_ok_def w3)
  moreover have "spans_kept w2 w3" using sp2 fin by (auto simp: spans_kept_def w3)
  then have "spans_kept w w3" using w1(2) w2(4) spans_kept_trans by blast
  moreover have "exports w w3 (es @ [finished])"
  proof -
    have "[Suc (tr_counter w)..<Suc (tr_counter w2)] = Suc (tr_counter w) # [Suc (Suc (tr_counter w))..<Suc (tr_counter w2)]"
      using w2(3) w1(4) by (simp add: upt_conv_Cons del: upt_Suc)
    with es w1 w3 fin show ?thesis by (auto simp: exports_def sid_def simp del: upt_Suc)
  qed
  moreover have "case r of Inl _ \<Rightarrow> sn_status finished = ''error'' | Inr _ \<Rightarrow> sn_status finished \<noteq> ''unset''"
    using ended_status [of r sp2] by (simp add: finished_def split: sum.splits)
  moreover have "tr_counter w \<le> tr_counter w3" using w1 w2 w3 by simp
  ultimately show ?thesis using run w3 fin by (auto split: sum.splits)
qed

lemma well_traced_start:
  assumes "\<forall>sid. well_traced (body sid)"
  shows "well_traced (start_span perf c hex name attrs body)"
  unfolding well_traced_def
  using start_span_traced [OF assms, of _ perf c hex name attrs] by blast

definition assertion_failure :: failure where
  "assertion_failure = Unhandled (PyOther ''AssertionError'')"

text \<open>
  C31: Around a body that traces well, a span traces well: the span current before is current
  again whether the body returns or raises, each identifier drawn is exported once, and every
  span exported inside lies below another one of them or below the span current before. The
  span itself is exported last, with its name and parent, with status error when the body
  raised, and the result is the body's.
\<close>

theorem spans_nest:
  assumes body: "\<forall>sid. well_traced (body sid)" and ok: "tracer_ok w"
  shows "tracer_ok (snd (start_span perf c hex name attrs body w))
     \<and> tr_current (snd (start_span perf c hex name attrs body w)) = tr_current w
     \<and> tr_counter w \<le> tr_counter (snd (start_span perf c hex name attrs body w))
     \<and> spans_kept w (snd (start_span perf c hex name attrs body w))
     \<and> (\<exists>es sp. exports w (snd (start_span perf c hex name attrs body w)) (es @ [sp])
          \<and> sn_name sp = name \<and> sn_parent sp = tr_current w
          \<and> (case fst (start_span perf c hex name attrs body w) of
               Inl _ \<Rightarrow> sn_status sp = ''error'' | Inr _ \<Rightarrow> sn_status sp \<noteq> ''unset''))"
  by (rule start_span_traced [OF assms])

definition ex_tracer_world :: tracer_world where
  "ex_tracer_world = \<lparr> tr_counter = 0, tr_current = None, tr_spans = [], tr_exported = [], tr_ticks = 0 \<rparr>"

definition ex_body :: "string \<Rightarrow> (unit, 'z tracer_world_scheme) call" where
  "ex_body sid = seq (start_span of_nat ''c'' ''0'' ''inner'' [] (\<lambda>_. fail assertion_failure :: (unit, 'z tracer_world_scheme) call))
     (\<lambda>_. on_span sid (set_status ''late''))"

lemma ex_body_traced: "\<forall>sid. well_traced (ex_body sid)"
  by (auto simp: ex_body_def setters_keep
      intro!: well_traced_seq well_traced_start well_traced_fail well_traced_on_span)

lemma spans_nest_witness:
  "\<exists>es sp. exports ex_tracer_world (snd (start_span of_nat ''c'' ''0'' ''outer'' [] ex_body ex_tracer_world)) (es @ [sp])
     \<and> sn_name sp = ''outer''"
proof -
  have "tracer_ok ex_tracer_world" by (simp add: tracer_ok_def ex_tracer_world_def)
  from spans_nest [OF ex_body_traced this, of of_nat "''c''" "''0''" "''outer''" "[]"] show ?thesis by blast
qed

section \<open>The log stream\<close>

lemma count_newline: "CHR 0x0A \<notin> set s \<Longrightarrow> count_list s (CHR 0x0A) = 0"
  by simp

lemma stream_newlines:
  assumes "\<forall>q. CHR 0x0A \<notin> set (num q)" and "lo_handlers st = [\<lparr> hd_stream = s, hd_formatter = JsonFormatter \<rparr>]"
  shows "count_list (log_stream num console st calls) (CHR 0x0A)
      = length (filter (\<lambda>c. enabled_for st (lc_level c)) calls)"
proof (induction calls)
  case (Cons c calls)
  then show ?case using call_newlines [OF assms, of console c] by (simp add: log_stream_def count_list_append)
qed (simp add: log_stream_def)


definition example_logging :: logging_state where
  "example_logging = \<lparr> lo_level = 30,
     lo_handlers = [\<lparr> hd_stream = ''stderr'', hd_formatter = TextFormatter ''x'' \<rparr>], lo_configured = False \<rparr>"

definition example_call :: log_call where
  "example_call = \<lparr> lc_logger = ''engine'', lc_bound = ''c1'', lc_level = LV_INFO,
     lc_event = ''first'' @ newline @ ''second'', lc_redact = False, lc_exc = None, lc_fields = [] \<rparr>"


end
