(* ===== verification/OrchestratorErrors.thy ===== *)
theory OrchestratorErrors
  imports OrchestratorProps AdapterProperties FakeProvider ExampleWorld
begin

text \<open>
  Where the failures of a request come from: each part of the pipeline fails only in its own way,
  and the contract \<open>llm_contract\<close> says what a provider may raise.
\<close>

section \<open>Calls and their failures\<close>

definition fails_only :: "(failure \<Rightarrow> bool) \<Rightarrow> ('a, 'w) call \<Rightarrow> bool" where
  "fails_only F m \<longleftrightarrow> triple (\<lambda>_. True) m (\<lambda>_ _. True) (\<lambda>f _. F f)"

lemma fails_onlyD: "fails_only F m \<Longrightarrow> m w = (Inl f, w') \<Longrightarrow> F f"
  unfolding fails_only_def triple_def by (drule spec [of _ w]) simp

lemma fails_onlyI: "(\<And>w f w'. m w = (Inl f, w') \<Longrightarrow> F f) \<Longrightarrow> fails_only F m"
  unfolding fails_only_def by (rule tripleI) simp_all

lemma fails_only_seq: "fails_only F m \<Longrightarrow> (\<And>a. fails_only F (k a)) \<Longrightarrow> fails_only F (seq m k)"
  unfolding fails_only_def by (rule triple_seq)

text \<open>Continue knowing what the call gives.\<close>

lemma fails_only_gives:
  assumes m: "fails_only F m" "triple (\<lambda>_. True) m (\<lambda>a _. Q a) (\<lambda>_ _. True)"
    and k: "\<And>a. Q a \<Longrightarrow> fails_only F (k a)"
  shows "fails_only F (seq m k)"
proof (rule fails_onlyI)
  fix w f w' assume "seq m k w = (Inl f, w')"
  then consider "m w = (Inl f, w')" | a w1 where "m w = (Inr a, w1)" "k a w1 = (Inl f, w')"
    by (auto simp: seq_def split: sum.splits prod.splits)
  then show "F f"
  proof cases
    case 1
    then show ?thesis by (rule fails_onlyD [OF m(1)])
  next
    case 2
    then show ?thesis using fails_onlyD [OF k] triple_Inr [OF m(2)] by blast
  qed
qed

lemma fails_only_mono: "fails_only F m \<Longrightarrow> (\<And>f. F f \<Longrightarrow> G f) \<Longrightarrow> fails_only G m"
  by (rule fails_onlyI) (blast dest: fails_onlyD)

named_theorems fails_rules \<open>what the operations fail with\<close>

lemma fails_give [fails_rules]: "fails_only F (give a)"
  by (rule fails_onlyI) (simp add: give_def)

lemma fails_change [fails_rules]: "fails_only F (change g)"
  by (rule fails_onlyI) (simp add: change_def)

lemma fails_ask [fails_rules]: "fails_only F (ask g)"
  by (rule fails_onlyI) (simp add: ask_def split: prod.splits)

lemma fails_fail: "F f \<Longrightarrow> fails_only F (fail f)"
  by (rule fails_onlyI) (simp add: fail_def)

lemma fails_lift: "(\<And>x. r = Inl x \<Longrightarrow> F (Unhandled x)) \<Longrightarrow> fails_only F (lift_result r)"
  by (rule fails_onlyI) (auto simp: lift_result_def split: sum.splits)

lemma fails_small [fails_rules]:
  "fails_only F (tick oc)" "fails_only F (count name labels)" "fails_only F (observe name v)"
  "fails_only F (bind_correlation_id cid)" "fails_only F (new_correlation oc given)"
  "fails_only F (note_markers request)" "fails_only F (clarify oc c cid start)"
  "fails_only F (preview_response oc pg g st sql)"
  by (auto simp: tick_def count_def observe_def bind_correlation_id_def new_correlation_def note_markers_def
      clarify_def preview_response_def intro!: fails_rules fails_only_seq)

section \<open>What providers raise\<close>

lemma fails_call_provider:
  "\<forall>seen req f. lp_generate (oc_provider oc) seen req = Inl f \<longrightarrow> ok f \<Longrightarrow> fails_only ok (call_provider oc req)"
  by (rule fails_onlyI) (auto simp: call_provider_def)

text \<open>The calls of a provider fail only as \<open>ok\<close> allows.\<close>

locale llm_contract =
  fixes provider :: llm_provider and ok :: "failure \<Rightarrow> bool"
  assumes generate_fails: "lp_generate provider seen req = Inl f \<Longrightarrow> ok f"

text \<open>
  The rules of the deterministic provider never fail; the adapter raises provider errors without
  details, or an exception of Python on a reply whose parts have unexpected types.
\<close>

definition adapter_failure :: "failure \<Rightarrow> bool" where
  "adapter_failure f \<longleftrightarrow> (case f of Raised e \<Rightarrow> is_provider_error (ee_class e) \<and> ee_details e = [] | Unhandled _ \<Rightarrow> True)"

lemma adapter_raises: "fst (generate oa req w) = Inl (Raised e) \<Longrightarrow> is_provider_error (ee_class e) \<and> ee_details e = []"
proof -
  let ?r = "fst (post_with_retries oa (chat_payload oa req) (gr_timeout_seconds req) w)"
  assume "fst (generate oa req w) = Inl (Raised e)"
  then consider "?r = Inl (Raised e)" | data where "parse_response oa data req = Inl (Raised e)"
    using generate_eq [of oa req w] by (auto split: sum.splits)
  then show ?thesis
    by cases (use post_with_retries_raises [of oa "chat_payload oa req" "gr_timeout_seconds req" w] parse_raises in
      \<open>auto simp: is_provider_error_def\<close>)
qed

interpretation unscripted: llm_contract "deterministic_provider (new_fake m [])" "\<lambda>_. False" for m
  by unfold_locales (simp add: deterministic_provider_def fake_generate_def new_fake_def Let_def)

interpretation hosted: llm_contract "openai_provider oa" adapter_failure for oa
proof unfold_locales
  fix seen req f assume "lp_generate (openai_provider oa) seen req = Inl f"
  then have "fst (generate oa req (posts_after oa seen)) = Inl f" by (simp add: openai_provider_def)
  then show "adapter_failure f"
    using adapter_raises [of oa req "posts_after oa seen"] by (simp add: adapter_failure_def split: failure.splits)
qed

section \<open>The origin of a failure\<close>

definition request_errors :: "error_class set" where
  "request_errors = {AuthorizationError, CostRejectedError, SQLValidationError, RepairExhaustedError}"

definition schema_failure :: "('e, 'n) orchestrator \<Rightarrow> failure \<Rightarrow> bool" where
  "schema_failure oc f \<longleftrightarrow> (\<exists>n. ct_introspect (oc_catalog oc) n = Inl f)"

definition date_failure :: "('e, 'n) orchestrator \<Rightarrow> string \<Rightarrow> failure \<Rightarrow> bool" where
  "date_failure oc question f \<longleftrightarrow>
     (\<exists>n x. resolve_relative_date question (oc_clock oc n) = Inl x \<and> f = Unhandled x)"

definition refusal :: "failure \<Rightarrow> bool" where
  "refusal f \<longleftrightarrow> (\<exists>e. f = Raised e \<and> ee_class e \<in> request_errors)"

definition execution_failure :: "('e, 'n) orchestrator \<Rightarrow> query_request \<Rightarrow> failure \<Rightarrow> bool" where
  "execution_failure oc request f \<longleftrightarrow> (\<exists>e. f = Raised e \<and> ee_class e = ExecutionError)
     \<or> (\<exists>x. f = Unhandled x \<and> ((\<exists>h. en_connect (oc_engine oc) h = Some (OtherException x))
          \<or> (\<exists>h s. en_run (oc_engine oc) h s = Inl (OtherException x))
          \<or> (\<exists>g r. explained oc request g r = Inl x)))"

lemma refusalI: "ee_class e \<in> request_errors \<Longrightarrow> refusal (Raised e)"
  by (auto simp: refusal_def)

lemma fails_authorize: "fails_only refusal (authorize_tenant request auth)"
  by (auto simp: authorize_tenant_def request_errors_def intro!: fails_give fails_fail refusalI)

lemma fails_get_schema: "fails_only (schema_failure oc) (get_schema (oc_catalog oc) force)"
  by (rule fails_onlyI)
    (auto simp: get_schema_def load_schema_def schema_failure_def Let_def
      split: if_splits sum.splits prod.splits option.splits)

lemma fails_resolve_date: "fails_only (date_failure oc question) (resolve_date oc question)"
proof (rule fails_onlyI)
  fix w f w' assume "resolve_date oc question w = (Inl f, w')"
  then show "date_failure oc question f"
    by (auto simp: resolve_date_def seq_def ask_def lift_result_def give_def date_failure_def
        split: sum.splits prod.splits)
qed

lemma validate_raises: "validate sg vc src d schema = Inl err \<Longrightarrow> ee_class err = SQLParseError"
  by (auto simp: validate_def Let_def split: sum.splits if_splits dest: parse_error_class)

text \<open>A plan that is not what the analysis expects.\<close>

definition planner_failure :: "('e, 'n) orchestrator \<Rightarrow> failure \<Rightarrow> bool" where
  "planner_failure oc f \<longleftrightarrow> (\<exists>h sql row r. oc_explain oc h (explain_sql sql) = Inr (Some row) \<and> read_plan row r = Inl f)"

lemma fails_run_analysis: "fails_only (planner_failure oc) (run_analysis oc e sql d)"
  by (rule fails_onlyI)
    (auto simp: run_analysis_def analyze_def estimate_with_explain_def planner_failure_def Let_def
      split: sum.splits option.splits if_splits)

lemma fails_secure_rewritten: "fails_only (planner_failure oc) (secure_rewritten oc d schema applied e)"
  unfolding secure_rewritten_def Let_def
  by (auto intro!: fails_only_seq fails_run_analysis fails_give)

lemma fails_secure_candidate: "fails_only (planner_failure oc) (secure_candidate oc src d schema auth m)"
proof (cases "validate (oc_sqlglot oc) (oc_validator oc) src d schema")
  case (Inl err)
  then show ?thesis using validate_raises [OF Inl] by (simp add: secure_candidate_def fails_give)
next
  case (Inr out)
  then show ?thesis
    by (auto simp: secure_candidate_def Let_def fails_give fails_secure_rewritten split: prod.splits)
qed

lemma fails_attempt_loop: "(\<And>a st. fails_only F (body a st)) \<Longrightarrow> fails_only F (attempt_loop body as st)"
  by (induction body as st rule: attempt_loop.induct)
    (auto intro!: fails_only_seq fails_give split: prod.splits)

lemma fails_repair_attempt:
  assumes "\<forall>seen req f. lp_generate (oc_provider oc) seen req = Inl f \<longrightarrow> ok f"
  shows "fails_only (\<lambda>f. ok f \<or> planner_failure oc f) (repair_attempt oc auth schema base a st)"
  unfolding repair_attempt_def Let_def
  by (intro fails_only_seq fails_rules fails_only_mono [OF fails_secure_candidate])
    (auto intro!: fails_only_seq fails_rules intro: fails_only_mono [OF fails_call_provider [OF assms]])

text \<open>The loop runs at least once, so the candidate of the last attempt is there.\<close>

lemma attempt_loop_first:
  assumes body: "\<And>a st. triple (\<lambda>_. True) (body a st) (\<lambda>r _. Q (snd r)) (\<lambda>_ _. True)" and "as \<noteq> []"
  shows "triple (\<lambda>_. True) (attempt_loop body as st) (\<lambda>st' _. Q st') (\<lambda>_ _. True)"
proof -
  obtain a rest where as: "as = a # rest" using assms(2) by (cases as) auto
  have "triple (\<lambda>_. Q (snd r)) (case r of (again, st') \<Rightarrow> if again then attempt_loop body rest st' else give st')
      (\<lambda>st' _. Q st') (\<lambda>_ _. True)" for r
  proof (rule triple_pre)
    assume "Q (snd r)"
    then show "triple (\<lambda>_. Q (snd r)) (case r of (again, st') \<Rightarrow> if again then attempt_loop body rest st' else give st')
        (\<lambda>st' _. Q st') (\<lambda>_ _. True)"
      using attempt_loop_gives [of body Q "snd r" rest, OF body]
      by (cases r) (auto intro: triple_give elim: triple_conseq)
  qed
  then show ?thesis unfolding as attempt_loop.simps by (intro triple_seq [OF body])
qed

lemma repair_attempt_last:
  "triple (\<lambda>_. True) (repair_attempt oc auth schema base a st) (\<lambda>r _. ls_last (snd r) \<noteq> None) (\<lambda>_ _. True)"
  by (rule tripleI) (auto simp: repair_attempt_def seq_def Let_def give_def count_def change_def
      split: sum.splits prod.splits if_splits)

lemma fails_generate:
  assumes ok: "\<forall>seen req f. lp_generate (oc_provider oc) seen req = Inl f \<longrightarrow> ok f" and n: "0 \<le> oc_max_repair oc"
  shows "fails_only (\<lambda>f. ok f \<or> planner_failure oc f) (generate_with_repair oc auth schema base)"
  unfolding generate_with_repair_def
proof (rule fails_only_gives)
  show "fails_only (\<lambda>f. ok f \<or> planner_failure oc f)
      (attempt_loop (repair_attempt oc auth schema base) [0..<nat (oc_max_repair oc + 1)] initial_loop)"
    by (rule fails_attempt_loop) (rule fails_repair_attempt [OF ok])
  show "triple (\<lambda>_. True) (attempt_loop (repair_attempt oc auth schema base) [0..<nat (oc_max_repair oc + 1)] initial_loop)
      (\<lambda>st _. ls_last st \<noteq> None) (\<lambda>_ _. True)"
    by (rule attempt_loop_first [where Q = "\<lambda>st. ls_last st \<noteq> None", OF repair_attempt_last]) (use n in simp)
qed (auto intro: fails_give)

lemma failure_error_classes: "ee_class (failure_error s n) \<in> request_errors"
  by (simp add: failure_error_def Let_def request_errors_def)

lemma fails_raise: "fails_only refusal (raise_for_failure s n)"
  unfolding raise_for_failure_def
  by (intro fails_only_seq fails_rules fails_fail refusalI failure_error_classes)

lemma db_session_fails:
  assumes "db_session eng d t sql w = (Inl (OtherException x), w')"
  shows "(\<exists>h. en_connect eng h = Some (OtherException x)) \<or> (\<exists>h s. en_run eng h s = Inl (OtherException x))"
proof -
  have guards: "run_guards eng gs v = (Some (OtherException x), v') \<Longrightarrow> \<exists>h s. en_run eng h s = Inl (OtherException x)"
    for gs v v' by (induction gs arbitrary: v) (auto split: sum.splits)
  show ?thesis using assms guards by (auto simp: db_session_def split: option.splits prod.splits)
qed

lemma fails_execute:
  "fails_only (execution_failure oc request) (execute (oc_engine oc) d t clock sql m)"
proof (rule fails_onlyI)
  fix w :: "'z world_scheme" and f w'
  assume e: "execute (oc_engine oc) d t clock sql m w = (Inl f, w')"
  obtain r w1 where r: "db_session (oc_engine oc) d t sql (snd (perf_counter clock w)) = (r, w1)" by fastforce
  show "execution_failure oc request f"
  proof (cases r)
    case (Inl x)
    then show ?thesis
      using e r db_session_fails [of "oc_engine oc" d t sql "snd (perf_counter clock w)"]
      by (cases x) (auto simp: execute_def execution_failure_def Let_def split: prod.splits)
  next
    case (Inr a)
    then show ?thesis using e r by (auto simp: execute_def Let_def split: prod.splits)
  qed
qed

lemma fails_execute_response: "fails_only (execution_failure oc request) (execute_response oc request pg g st sql)"
  unfolding execute_response_def Let_def
  by (intro fails_only_seq fails_rules fails_execute fails_lift)
    (auto simp: execution_failure_def split: prod.splits intro!: fails_only_seq fails_rules)

lemma secure_candidate_final:
  "triple (\<lambda>_. True) (secure_candidate oc src d schema auth m)
     (\<lambda>s _. sec_ok s \<longrightarrow> sec_final_sql s \<noteq> None) (\<lambda>_ _. True)"
proof -
  have rw: "triple (\<lambda>_. True) (secure_rewritten oc d schema applied e)
      (\<lambda>s _. sec_ok s \<longrightarrow> sec_final_sql s \<noteq> None) (\<lambda>_ _. True)" for applied e
    by (rule tripleI) (auto simp: secure_rewritten_def seq_def give_def not_secured_def Let_def
        split: sum.splits prod.splits if_splits)
  show ?thesis
  proof (cases "validate (oc_sqlglot oc) (oc_validator oc) src d schema")
    case (Inl err)
    then show ?thesis using validate_raises [OF Inl]
      by (auto simp: secure_candidate_def not_secured_def intro!: triple_give)
  next
    case (Inr out)
    then show ?thesis using rw
      by (auto simp: secure_candidate_def Let_def not_secured_def not_secured_after_def
          intro!: triple_give split: prod.splits)
  qed
qed

definition complete :: "loop_state \<Rightarrow> bool" where
  "complete st \<longleftrightarrow> (sec_ok (ls_secured st) \<longrightarrow> sec_final_sql (ls_secured st) \<noteq> None)"

lemma repair_attempt_complete:
  "triple (\<lambda>_. True) (repair_attempt oc auth schema base a st) (\<lambda>r _. complete (snd r)) (\<lambda>_ _. True)"
  unfolding repair_attempt_def Let_def
proof (rule triple_seq [OF triple_any], rule triple_seq [OF triple_any], rule triple_seq [OF triple_any],
    rule triple_seq [OF triple_any], rule triple_seq [OF secure_candidate_final], goal_cases)
  case (1 t0 g t1 _ s)
  show ?case
    by (rule triple_pre) (auto intro!: triple_give triple_seq [OF triple_any] simp: complete_def)
qed

lemma generate_complete:
  "triple (\<lambda>_. True) (generate_with_repair oc auth schema base) (\<lambda>r _. complete (snd r)) (\<lambda>_ _. True)"
  unfolding generate_with_repair_def
proof (rule triple_seq)
  show "triple (\<lambda>_. True) (attempt_loop (repair_attempt oc auth schema base) [0..<nat (oc_max_repair oc + 1)]
      initial_loop) (\<lambda>st _. complete st) (\<lambda>_ _. True)"
    by (rule attempt_loop_gives [OF repair_attempt_complete]) (simp add: complete_def initial_loop_def not_secured_def)
  show "triple (\<lambda>_. complete st) (case ls_last st of None \<Rightarrow> fail assertion_error | Some g \<Rightarrow> give (g, st))
      (\<lambda>r _. complete (snd r)) (\<lambda>_ _. True)" for st
    by (cases "ls_last st") (auto intro: triple_fail triple_give)
qed

lemma fails_finish:
  assumes "complete st"
  shows "fails_only (\<lambda>f. refusal f \<or> execution_failure oc request f) (finish oc request exec pg g st)"
proof (cases "sec_ok (ls_secured st)")
  case False
  then show ?thesis
    unfolding finish_def
    by (auto intro!: fails_only_seq fails_rules fails_only_mono [OF fails_raise])
next
  case True
  then obtain sql where "sec_final_sql (ls_secured st) = Some sql" using assms by (auto simp: complete_def)
  with True show ?thesis
    unfolding finish_def
    by (auto intro: fails_rules fails_only_mono [OF fails_execute_response])
qed

text \<open>Where a request can fail, given what its provider may raise.\<close>

definition failure_origin :: "('e, 'n) orchestrator \<Rightarrow> (failure \<Rightarrow> bool) \<Rightarrow> query_request \<Rightarrow> failure \<Rightarrow> bool" where
  "failure_origin oc ok request f \<longleftrightarrow> refusal f \<or> ok f \<or> schema_failure oc f
     \<or> date_failure oc (qr_question request) f \<or> planner_failure oc f \<or> execution_failure oc request f"

lemma fails_answer:
  assumes ok: "\<forall>seen req f. lp_generate (oc_provider oc) seen req = Inl f \<longrightarrow> ok f" and n: "0 \<le> oc_max_repair oc"
  shows "fails_only (failure_origin oc ok request) (answer oc request auth exec cid start)"
  unfolding answer_def Let_def
proof (rule fails_only_seq [OF fails_only_mono [OF fails_get_schema]], simp add: failure_origin_def,
    rule fails_only_seq [OF fails_small(1)], rule fails_only_seq [OF fails_small(1)],
    rule fails_only_seq [OF fails_only_mono [OF fails_resolve_date]], simp add: failure_origin_def)
  fix schema t0 t1 date
  let ?base = "base_request oc request (request_dialect oc (qr_dialect request)) (effective_max_rows oc request)
    (retrieve (oc_retriever oc) (qr_question request) schema) date"
  show "fails_only (failure_origin oc ok request) (seq (generate_with_repair oc auth schema ?base) (\<lambda>(g, st).
      finish oc request exec
        \<lparr> pg_correlation = cid, pg_start = start,
          pg_retrieval = retrieve (oc_retriever oc) (qr_question request) schema,
          pg_timings = no_timings\<lparr> st_retrieval_ms := (t1 - t0) * 1000,
            st_generation_ms := ls_generation_ms st \<rparr>,
          pg_dialect = request_dialect oc (qr_dialect request), pg_max_rows = effective_max_rows oc request \<rparr> g st))"
  proof (rule fails_only_gives [OF _ generate_complete])
    show "fails_only (failure_origin oc ok request) (generate_with_repair oc auth schema ?base)"
      by (rule fails_only_mono [OF fails_generate [OF ok n]]) (auto simp: failure_origin_def)
  qed (auto intro!: fails_only_mono [OF fails_finish] simp: failure_origin_def split: prod.splits)
qed

lemma fails_process:
  assumes ok: "\<forall>seen req f. lp_generate (oc_provider oc) seen req = Inl f \<longrightarrow> ok f" and n: "0 \<le> oc_max_repair oc"
  shows "fails_only (failure_origin oc ok request) (process oc request auth exec)"
  unfolding process_def
proof (intro fails_only_seq fails_rules)
  show "fails_only (failure_origin oc ok request) (authorize_tenant request auth)"
    by (rule fails_only_mono [OF fails_authorize]) (simp add: failure_origin_def)
  show "fails_only (failure_origin oc ok request) (case detect (oc_ambiguity oc) (qr_question request) of
       Some c \<Rightarrow> clarify oc c cid start | None \<Rightarrow> answer oc request auth exec cid start)" for cid start
    using fails_answer [OF ok n] by (auto intro: fails_rules split: option.split)
qed

context llm_contract
begin

lemma request_fails:
  assumes "oc_provider oc = provider" and "0 \<le> oc_max_repair oc"
    and "process oc request auth exec w = (Inl f, w')"
  shows "failure_origin oc ok request f"
  using fails_onlyD [OF fails_process [OF _ assms(2)] assms(3)] generate_fails assms(1) by blast

end

section \<open>Property\<close>

definition provider_failure :: "('e, 'n) orchestrator \<Rightarrow> failure \<Rightarrow> bool" where
  "provider_failure oc f \<longleftrightarrow> (\<exists>seen req. lp_generate (oc_provider oc) seen req = Inl f)"

text \<open>
  C17: A request fails only by a refusal (authorization, cost, validation or exhausted repair), or
  by what its provider, the introspection, the date of the question, a malformed plan or the
  execution of an accepted statement raised; the assertions of the code never fail. With the
  rules of the deterministic provider the provider is no origin, and with the adapter it raises
  provider errors without details or an exception of Python on a malformed reply.
\<close>

theorem request_failures_classified:
  assumes "0 \<le> oc_max_repair oc" and "process oc request auth exec w = (Inl f, w')"
  shows "failure_origin oc (provider_failure oc) request f
    \<and> (oc_provider oc = deterministic_provider (new_fake m []) \<longrightarrow> failure_origin oc (\<lambda>_. False) request f)
    \<and> (oc_provider oc = openai_provider oa \<longrightarrow> failure_origin oc adapter_failure request f)"
proof (intro conjI impI)
  have "fails_only (failure_origin oc (provider_failure oc) request) (process oc request auth exec)"
    by (rule fails_process [OF _ assms(1)]) (auto simp: provider_failure_def)
  then show "failure_origin oc (provider_failure oc) request f" using assms(2) by (rule fails_onlyD)
qed (use assms unscripted.request_fails hosted.request_fails in blast)+

lemma request_failures_classified_witness:
  "\<exists>f. fst (process (ex_orchestrator SQLITE [''nonsense'']) (ex_request\<lparr> qr_tenant_id := Some ''7'' \<rparr>) ex_auth True ex_world) = Inl f
     \<and> failure_origin (ex_orchestrator SQLITE [''nonsense'']) (\<lambda>_. False) (ex_request\<lparr> qr_tenant_id := Some ''7'' \<rparr>) f"
proof -
  let ?oc = "ex_orchestrator SQLITE [''nonsense'']" and ?r = "ex_request\<lparr> qr_tenant_id := Some ''7'' \<rparr>"
  have n: "0 \<le> oc_max_repair ?oc" by (simp add: ex_orchestrator_def)
  have t: "qr_tenant_id ?r = Some ''7''" "''7'' \<noteq> ac_tenant_id ex_auth" by (simp_all add: ex_auth_def)
  obtain f w' where f: "process ?oc ?r ex_auth True ex_world = (Inl f, w')"
    using tenant_mismatch_refused(1) [OF t, of ?oc True ex_world] by (metis prod.collapse)
  have "\<not> provider_failure ?oc f" by (simp add: provider_failure_def ex_orchestrator_def ex_provider_def)
  with f request_failures_classified [OF n f] show ?thesis by (auto simp: failure_origin_def)
qed

end
