(* ===== verification/Answers.thy ===== *)
theory Answers
  imports OrchestratorProperties
begin

text \<open>
  Where the SQL of an answer comes from: on SQLite a successful response or a preview carries the
  rendering of what the gate made of a candidate the provider proposed for this question.
\<close>

section \<open>From the provider to the response\<close>

definition proposes :: "('e, 'n) orchestrator \<Rightarrow> string \<Rightarrow> generation_response \<Rightarrow> bool" where
  "proposes oc question g \<longleftrightarrow> (\<exists>seen req. gr_question req = question \<and> lp_generate (oc_provider oc) seen req = Inr g)"

text \<open>\<open>sql\<close> renders what the gate makes of a proposed candidate.\<close>

definition accepted_rendering ::
    "('e, 'n) orchestrator \<Rightarrow> database_schema \<Rightarrow> auth_context \<Rightarrow> int \<Rightarrow> string \<Rightarrow> string \<Rightarrow> bool" where
  "accepted_rendering oc schema auth m question sql \<longleftrightarrow>
     (\<exists>g. proposes oc question g \<and> accepted_sql oc schema auth m (gs_sql g) sql)"

definition holds_accepted ::
    "('e, 'n) orchestrator \<Rightarrow> database_schema \<Rightarrow> auth_context \<Rightarrow> int \<Rightarrow> string \<Rightarrow> secured \<Rightarrow> bool" where
  "holds_accepted oc schema auth m question s \<longleftrightarrow>
     (sec_ok s \<longrightarrow> (\<exists>sql. sec_final_sql s = Some sql \<and> accepted_rendering oc schema auth m question sql))"

lemma call_provider_proposes:
  "triple (\<lambda>_. True) (call_provider oc req) (\<lambda>g _. proposes oc (gr_question req) g) (\<lambda>_ _. True)"
  by (rule tripleI) (auto simp: call_provider_def proposes_def)

lemma secure_candidate_accepted:
  assumes "proposes oc question g"
  shows "triple (\<lambda>_. True) (secure_candidate oc (gs_sql g) SQLITE schema auth m)
    (\<lambda>s _. holds_accepted oc schema auth m question s) (\<lambda>_ _. True)"
proof (rule tripleI)
  fix w :: "'z orchestrator_world_scheme" and s w'
  assume "secure_candidate oc (gs_sql g) SQLITE schema auth m w = (Inr s, w')"
  then show "holds_accepted oc schema auth m question s"
    using gate_sqlite [of oc "gs_sql g" schema auth m w] assms
    by (auto simp: holds_accepted_def accepted_rendering_def accepted_sql_def)
qed simp

lemma repair_attempt_accepted:
  assumes "gr_dialect base = SQLITE"
  shows "triple (\<lambda>_. True) (repair_attempt oc auth schema base a st)
    (\<lambda>r _. holds_accepted oc schema auth (gr_max_rows base) (gr_question base) (ls_secured (snd r))) (\<lambda>_ _. True)"
  unfolding repair_attempt_def Let_def assms
proof (rule triple_seq [OF triple_any], rule triple_seq [OF call_provider_proposes], rule triple_pre, assumption,
    goal_cases)
  case (1 t0 g)
  then have "proposes oc (gr_question base) g" by simp
  note gate = secure_candidate_accepted [OF this]
  have final: "triple (\<lambda>_. holds_accepted oc schema auth (gr_max_rows base) (gr_question base) s)
      (if sec_ok s then give (False, st1) else
        if c then seq (count n l) (\<lambda>_. give (True, st2)) else give (False, st1))
      (\<lambda>r _. holds_accepted oc schema auth (gr_max_rows base) (gr_question base) (ls_secured (snd r))) (\<lambda>_ _. True)"
    if "ls_secured st1 = s" "ls_secured st2 = s" for s st1 st2 c n l
    by (rule triple_pre, assumption) (use that in \<open>auto intro!: triple_give triple_seq [OF triple_any]\<close>)
  show ?case
    by (rule triple_conseq [where P = "\<lambda>_. True", OF triple_seq [OF triple_any]],
        rule triple_seq [OF triple_any], rule triple_seq [OF gate], rule final) simp_all
qed

lemma generate_accepted:
  assumes "gr_dialect base = SQLITE"
  shows "triple (\<lambda>_. True) (generate_with_repair oc auth schema base)
    (\<lambda>r _. holds_accepted oc schema auth (gr_max_rows base) (gr_question base) (ls_secured (snd r))) (\<lambda>_ _. True)"
  unfolding generate_with_repair_def
proof (rule triple_seq)
  show "triple (\<lambda>_. True) (attempt_loop (repair_attempt oc auth schema base) [0..<nat (oc_max_repair oc + 1)] initial_loop)
      (\<lambda>st _. holds_accepted oc schema auth (gr_max_rows base) (gr_question base) (ls_secured st)) (\<lambda>_ _. True)"
    by (rule attempt_loop_gives [OF repair_attempt_accepted [OF assms]])
      (simp add: holds_accepted_def initial_loop_def not_secured_def)
  show "triple (\<lambda>_. holds_accepted oc schema auth (gr_max_rows base) (gr_question base) (ls_secured st))
      (case ls_last st of None \<Rightarrow> fail assertion_error | Some g \<Rightarrow> give (g, st))
      (\<lambda>r _. holds_accepted oc schema auth (gr_max_rows base) (gr_question base) (ls_secured (snd r))) (\<lambda>_ _. True)" for st
    by (cases "ls_last st") (auto intro: triple_fail triple_give)
qed

section \<open>Responses\<close>

definition answers_from ::
    "('e, 'n) orchestrator \<Rightarrow> auth_context \<Rightarrow> int \<Rightarrow> string \<Rightarrow> query_response \<Rightarrow> bool" where
  "answers_from oc auth m question r \<longleftrightarrow>
     (rs_status r = RS_CLARIFICATION_REQUIRED \<and> detect (oc_ambiguity oc) question \<noteq> None)
     \<or> (rs_status r \<in> {RS_SUCCESS, RS_PREVIEW}
        \<and> (\<exists>schema sql. enriched_of (oc_catalog oc) schema \<and> rs_sql r = Some sql
             \<and> accepted_rendering oc schema auth m question sql))"

lemma finish_answers:
  assumes "holds_accepted oc schema auth m question (ls_secured st)" and "enriched_of (oc_catalog oc) schema"
  shows "triple (\<lambda>_. True) (finish oc request exec pg g st) (\<lambda>r _. answers_from oc auth m question r) (\<lambda>_ _. True)"
proof (cases "sec_ok (ls_secured st)")
  case False
  then show ?thesis
    by (auto simp: finish_def raise_for_failure_def intro!: triple_seq [OF triple_any] triple_fail)
next
  case True
  then obtain sql where sql: "sec_final_sql (ls_secured st) = Some sql" "accepted_rendering oc schema auth m question sql"
    using assms(1) by (auto simp: holds_accepted_def)
  have base: "answers_from oc auth m question r" if "rs_status r \<in> {RS_SUCCESS, RS_PREVIEW}" "rs_sql r = Some sql" for r
    using that sql(2) assms(2) by (auto simp: answers_from_def)
  show ?thesis
    using True sql(1)
    by (auto simp: finish_def preview_response_def execute_response_def success_base_def Let_def
        intro!: triple_seq [OF triple_any] triple_give base split: prod.splits)
qed

lemma answer_answers:
  assumes "request_dialect oc (qr_dialect request) = SQLITE"
  shows "triple (sent_only (oc_catalog oc) (\<lambda>_. True) L) (answer oc request auth exec cid start)
    (\<lambda>r _. answers_from oc auth (effective_max_rows oc request) (qr_question request) r) (\<lambda>_ _. True)"
  unfolding answer_def Let_def assms
proof (rule triple_seq [OF triple_conseq [OF get_schema_gives]], assumption, assumption, simp)
  fix schema
  let ?E = "enriched_of (oc_catalog oc) schema" and ?m = "effective_max_rows oc request"
  have gen: "triple (\<lambda>_. True) (generate_with_repair oc auth schema (base_request oc request SQLITE ?m retrieval date))
      (\<lambda>r _. holds_accepted oc schema auth ?m (qr_question request) (ls_secured (snd r))) (\<lambda>_ _. True)"
    for retrieval date
    using generate_accepted [of "base_request oc request SQLITE ?m retrieval date"]
    by (simp add: base_request_def)
  have rest: "triple (\<lambda>_. True) (seq (generate_with_repair oc auth schema (base_request oc request SQLITE ?m retrieval date))
        (\<lambda>(g, st). finish oc request exec (pg st) g st))
      (\<lambda>r _. answers_from oc auth ?m (qr_question request) r) (\<lambda>_ _. True)" if ?E for retrieval date pg
    by (rule triple_seq [OF gen], rule triple_pre, assumption)
      (use finish_answers [OF _ that] in \<open>auto split: prod.splits elim: triple_conseq\<close>)
  show "triple (\<lambda>w. sent_only (oc_catalog oc) (\<lambda>_. True) L w \<and> ?E) (seq (tick oc) (\<lambda>t0. seq (tick oc) (\<lambda>t1.
        seq (resolve_date oc (qr_question request)) (\<lambda>date.
        seq (generate_with_repair oc auth schema (base_request oc request SQLITE ?m
            (retrieve (oc_retriever oc) (qr_question request) schema) date)) (\<lambda>(g, st).
          finish oc request exec
            \<lparr> pg_correlation = cid, pg_start = start,
              pg_retrieval = retrieve (oc_retriever oc) (qr_question request) schema,
              pg_timings = no_timings\<lparr> st_retrieval_ms := (t1 - t0) * 1000,
                st_generation_ms := ls_generation_ms st \<rparr>,
              pg_dialect = SQLITE, pg_max_rows = ?m \<rparr> g st)))))
      (\<lambda>r _. answers_from oc auth ?m (qr_question request) r) (\<lambda>_ _. True)"
    by (rule triple_pre [where A = ?E], simp, rule triple_conseq [where P = "\<lambda>_. True"],
        rule triple_seq [OF triple_any], rule triple_seq [OF triple_any], rule triple_seq [OF triple_any], rule rest)
      simp_all
qed

lemma clarify_answers:
  "detect (oc_ambiguity oc) question = Some c \<Longrightarrow>
   triple P (clarify oc c cid start) (\<lambda>r _. answers_from oc auth m question r) (\<lambda>_ _. True)"
  unfolding clarify_def
  by (rule triple_conseq [where P = "\<lambda>_. True"], rule triple_seq [OF triple_any], rule triple_seq [OF triple_any])
    (auto intro!: triple_give simp: answers_from_def)

lemma process_answers:
  assumes "request_dialect oc (qr_dialect request) = SQLITE" and "cache_ok (oc_catalog oc) w"
    and "process oc request auth exec w = (Inr r, w')"
  shows "answers_from oc auth (effective_max_rows oc request) (qr_question request) r"
proof -
  let ?P = "sent_only (oc_catalog oc) (\<lambda>_. True) (w_log w)"
  have weak: "keeps ?P m \<Longrightarrow> triple ?P m (\<lambda>_. ?P) (\<lambda>_ _. True)" for m :: "('val, _) call"
    by (erule keeps_weaken) simp
  have "triple ?P (process oc request auth exec)
      (\<lambda>r _. answers_from oc auth (effective_max_rows oc request) (qr_question request) r) (\<lambda>_ _. True)"
    unfolding process_def
    by (intro triple_seq [OF weak] keeps_rules stable_sent_only)
      (auto intro: answer_answers [OF assms(1)] clarify_answers split: option.splits)
  from triple_Inr [OF this sent_only_start [OF assms(2)] assms(3)] show ?thesis .
qed

section \<open>Property\<close>



end
