(* ===== verification/SeedData.thy ===== *)
theory SeedData
  imports ReferenceSchema Provider Explainer Dates "HOL-Library.Stream"
begin

text \<open>
  The sample data (\<open>infrastructure/bootstrap.py\<close>): schema creation, the ten kinds of rows, and
  the loops of \<open>seed_database\<close> in the order of the code. The generator \<open>random.Random(seed)\<close> is
  an arbitrary stream of numbers that each draw reduces to its range, so what holds for every
  stream holds for the generator of the code. A connection answers each insert from the inserts
  before it; \<open>engine.begin()\<close> commits at the end and rolls back when anything is raised. The
  amounts are multiples of a quarter far below 2 to the 53, which a double holds exactly: they
  are rationals here.
\<close>

section \<open>Rows and the connection\<close>

datatype sql_cell = C_Null | C_Int int | C_Text string | C_Num rat | C_Time datetime

type_synonym cells = "(string \<times> sql_cell) list"

type_synonym inserts = "(string \<times> cells list) list"

type_synonym connection = "inserts \<Rightarrow> string \<Rightarrow> cells list \<Rightarrow> failure option"

record seed_world =
  sw_draws :: "nat stream"
  sw_inserts :: inserts

definition insert_rows :: "connection \<Rightarrow> table_def \<Rightarrow> cells list \<Rightarrow> (unit, seed_world) call" where
  "insert_rows conn td rows w = (case conn (sw_inserts w) (td_name td) rows of
     Some x \<Rightarrow> (Inl x, w)
   | None \<Rightarrow> (Inr (), w\<lparr> sw_inserts := sw_inserts w @ [(td_name td, rows)] \<rparr>))"

text \<open>\<open>with engine.begin() as conn\<close>.\<close>

definition in_transaction :: "('a, seed_world) call \<Rightarrow> ('a, seed_world) call" where
  "in_transaction m w = (case m w of
     (Inl x, w1) \<Rightarrow> (Inl x, w1\<lparr> sw_inserts := sw_inserts w \<rparr>)
   | (Inr a, w1) \<Rightarrow> (Inr a, w1))"

text \<open>\<open>create_schema\<close> on an engine that holds tables: what is created and dropped.\<close>

record database_state =
  ds_tables :: "string list"
  ds_rows :: inserts

definition create_all :: "table_def list \<Rightarrow> database_state \<Rightarrow> database_state" where
  "create_all ts db = db\<lparr> ds_tables := ds_tables db
     @ filter (\<lambda>n. n \<notin> set (ds_tables db)) (map td_name ts) \<rparr>"

definition drop_all :: "table_def list \<Rightarrow> database_state \<Rightarrow> database_state" where
  "drop_all ts db = db\<lparr> ds_tables := filter (\<lambda>n. n \<notin> td_name ` set ts) (ds_tables db),
     ds_rows := filter (\<lambda>(n, rows). n \<notin> td_name ` set ts) (ds_rows db) \<rparr>"

definition create_schema :: "bool \<Rightarrow> database_state \<Rightarrow> database_state" where
  "create_schema drop_first db =
     create_all all_tables (if drop_first then drop_all all_tables db else db)"

section \<open>Draws\<close>

definition next_draw :: "(nat, seed_world) call" where
  "next_draw = ask (\<lambda>w. (shd (sw_draws w), w\<lparr> sw_draws := stl (sw_draws w) \<rparr>))"

definition randint :: "nat \<Rightarrow> nat \<Rightarrow> (nat, seed_world) call" where
  "randint a b = (if b < a then fail (Unhandled PyValueError)
     else seq next_draw (\<lambda>n. give (a + n mod (b - a + 1))))"

definition randrange :: "nat \<Rightarrow> (nat, seed_world) call" where
  "randrange b = (if b = 0 then fail (Unhandled PyValueError)
     else seq next_draw (\<lambda>n. give (n mod b)))"

definition choice :: "'a list \<Rightarrow> ('a, seed_world) call" where
  "choice xs = (if xs = [] then fail (Unhandled PyIndexError)
     else seq next_draw (\<lambda>n. give (xs ! (n mod length xs))))"

definition random_unit :: "(rat, seed_world) call" where
  "random_unit = seq next_draw (\<lambda>n. give (of_nat (n mod 2 ^ 53) / 2 ^ 53))"

fun each :: "('x \<Rightarrow> 's \<Rightarrow> ('s, 'w) call) \<Rightarrow> 'x list \<Rightarrow> 's \<Rightarrow> ('s, 'w) call" where
  "each f [] s = give s"
| "each f (x # xs) s = seq (f x s) (each f xs)"

section \<open>Arithmetic of the rows\<close>

text \<open>\<open>t + timedelta(days=n)\<close>.\<close>

definition plus_days :: "datetime \<Rightarrow> nat \<Rightarrow> py_exception + datetime" where
  "plus_days t n = (let r = set_date ((next_day ^^ n) (date_of t)) t in
     if dt_year r \<le> 9999 then Inr r else Inl PyOverflowError)"

definition later :: "datetime \<Rightarrow> nat \<Rightarrow> (datetime, seed_world) call" where
  "later t n = lift_result (plus_days t n)"

definition earlier :: "datetime \<Rightarrow> nat \<Rightarrow> (datetime, seed_world) call" where
  "earlier t n = lift_result (minus_days t n)"

text \<open>\<open>round(x, 2)\<close>, ties to even, and \<open>x % m\<close> for floats.\<close>

definition round2 :: "rat \<Rightarrow> rat" where
  "round2 x = of_int (round_half_even (x * 100)) / 100"

definition rat_mod :: "rat \<Rightarrow> rat \<Rightarrow> rat" where
  "rat_mod x m = x - m * of_int \<lfloor>x / m\<rfloor>"

definition hex_digit :: "nat \<Rightarrow> char" where
  "hex_digit n = (if n < 10 then char_of (48 + n) else char_of (87 + n))"

text \<open>The last \<open>k\<close> hexadecimal digits, which is \<open>{n:016x}\<close> for numbers below 16 to the 16.\<close>

fun hex_digits :: "nat \<Rightarrow> nat \<Rightarrow> string" where
  "hex_digits 0 n = []"
| "hex_digits (Suc k) n = hex_digits k (n div 16) @ [hex_digit (n mod 16)]"

section \<open>Organizations, regions and users\<close>

record organization_row =
  og_id :: int
  og_name :: string
  og_plan :: string
  og_created_at :: datetime
  og_deleted_at :: "datetime option"

record region_row =
  rg_id :: int
  rg_name :: string
  rg_code :: string

record user_row =
  us_id :: int
  us_organization_id :: int
  us_email :: string
  us_full_name :: string
  us_password_hash :: string
  us_role :: string
  us_created_at :: datetime
  us_deleted_at :: "datetime option"

definition time_cell :: "datetime option \<Rightarrow> sql_cell" where
  "time_cell t = (case t of None \<Rightarrow> C_Null | Some d \<Rightarrow> C_Time d)"

definition text_cell :: "string option \<Rightarrow> sql_cell" where
  "text_cell t = (case t of None \<Rightarrow> C_Null | Some s \<Rightarrow> C_Text s)"

definition organization_cells :: "organization_row \<Rightarrow> cells" where
  "organization_cells r = [(''id'', C_Int (og_id r)), (''name'', C_Text (og_name r)),
     (''plan'', C_Text (og_plan r)), (''created_at'', C_Time (og_created_at r)),
     (''deleted_at'', time_cell (og_deleted_at r))]"

definition region_cells :: "region_row \<Rightarrow> cells" where
  "region_cells r = [(''id'', C_Int (rg_id r)), (''name'', C_Text (rg_name r)),
     (''code'', C_Text (rg_code r))]"

definition user_cells :: "user_row \<Rightarrow> cells" where
  "user_cells r = [(''id'', C_Int (us_id r)), (''organization_id'', C_Int (us_organization_id r)),
     (''email'', C_Text (us_email r)), (''full_name'', C_Text (us_full_name r)),
     (''password_hash'', C_Text (us_password_hash r)), (''role'', C_Text (us_role r)),
     (''created_at'', C_Time (us_created_at r)), (''deleted_at'', time_cell (us_deleted_at r))]"

definition seed_organizations :: "datetime \<Rightarrow> (organization_row list, seed_world) call" where
  "seed_organizations base = seq (earlier base 900) (\<lambda>t1. seq (earlier base 800) (\<lambda>t2. give
     [\<lparr> og_id = 1, og_name = ''Acme Corp'', og_plan = ''pro'', og_created_at = t1,
        og_deleted_at = None \<rparr>,
      \<lparr> og_id = 2, og_name = ''Globex Inc'', og_plan = ''enterprise'', og_created_at = t2,
        og_deleted_at = None \<rparr>]))"

definition seed_regions :: "region_row list" where
  "seed_regions =
     [\<lparr> rg_id = 1, rg_name = ''North America'', rg_code = ''NA'' \<rparr>,
      \<lparr> rg_id = 2, rg_name = ''Europe, Middle East & Africa'', rg_code = ''EMEA'' \<rparr>,
      \<lparr> rg_id = 3, rg_name = ''Asia Pacific'', rg_code = ''APAC'' \<rparr>,
      \<lparr> rg_id = 4, rg_name = ''Latin America'', rg_code = ''LATAM'' \<rparr>]"

definition first_word :: "string \<Rightarrow> (string, seed_world) call" where
  "first_word s = (case split_ws s of [] \<Rightarrow> fail (Unhandled PyIndexError) | w # _ \<Rightarrow> give w)"

definition seed_user :: "organization_row \<Rightarrow> nat \<Rightarrow> user_row list \<Rightarrow> (user_row list, seed_world) call" where
  "seed_user org i users = (let uid = length users + 1 in
     seq (first_word (og_name org)) (\<lambda>w. seq (later (og_created_at org) (10 + i)) (\<lambda>created.
       give (users @ [\<lparr> us_id = int uid, us_organization_id = og_id org,
         us_email = ''user'' @ show_nat i @ ''@'' @ lower w @ ''.example'',
         us_full_name = ''User '' @ show_nat i @ '' of '' @ og_name org,
         us_password_hash = ''$2b$12$deadbeefhash'' @ pad_zeros 4 (int uid),
         us_role = [''admin'', ''analyst'', ''viewer''] ! (i mod 3),
         us_created_at = created, us_deleted_at = None \<rparr>]))))"

definition seed_users :: "organization_row list \<Rightarrow> (user_row list, seed_world) call" where
  "seed_users orgs = each (\<lambda>org. each (seed_user org) [0..<3]) orgs []"

section \<open>Customers and products\<close>

record customer_row =
  cu_id :: int
  cu_organization_id :: int
  cu_region_id :: "int option"
  cu_name :: string
  cu_contact_email :: "string option"
  cu_contact_phone :: "string option"
  cu_segment :: string
  cu_created_at :: datetime
  cu_deleted_at :: "datetime option"

record product_row =
  pr_id :: int
  pr_organization_id :: int
  pr_sku :: string
  pr_name :: string
  pr_category :: string
  pr_unit_price :: rat
  pr_active :: int
  pr_created_at :: datetime

definition customer_cells :: "customer_row \<Rightarrow> cells" where
  "customer_cells r = [(''id'', C_Int (cu_id r)), (''organization_id'', C_Int (cu_organization_id r)),
     (''region_id'', (case cu_region_id r of None \<Rightarrow> C_Null | Some i \<Rightarrow> C_Int i)),
     (''name'', C_Text (cu_name r)), (''contact_email'', text_cell (cu_contact_email r)),
     (''contact_phone'', text_cell (cu_contact_phone r)), (''segment'', C_Text (cu_segment r)),
     (''created_at'', C_Time (cu_created_at r)), (''deleted_at'', time_cell (cu_deleted_at r))]"

definition product_cells :: "product_row \<Rightarrow> cells" where
  "product_cells r = [(''id'', C_Int (pr_id r)), (''organization_id'', C_Int (pr_organization_id r)),
     (''sku'', C_Text (pr_sku r)), (''name'', C_Text (pr_name r)),
     (''category'', C_Text (pr_category r)), (''unit_price'', C_Num (pr_unit_price r)),
     (''active'', C_Int (pr_active r)), (''created_at'', C_Time (pr_created_at r))]"

text \<open>\<open>d[k]\<close>.\<close>

definition dict_at :: "('k \<times> 'v) list \<Rightarrow> 'k \<Rightarrow> ('v, seed_world) call" where
  "dict_at d k = (case map_of d k of None \<Rightarrow> fail (Unhandled PyKeyError) | Some v \<Rightarrow> give v)"

definition customers_per_org :: "(int \<times> nat) list" where
  "customers_per_org = [(1, 8), (2, 5)]"

definition products_per_org :: "(int \<times> nat) list" where
  "products_per_org = [(1, 6), (2, 4)]"

definition customer_region :: "bool \<Rightarrow> (int option, seed_world) call" where
  "customer_region has_region =
     (if has_region then seq (randint 1 4) (\<lambda>r. give (Some (int r))) else give None)"

definition seed_customer ::
    "organization_row \<Rightarrow> nat \<Rightarrow> customer_row list \<Rightarrow> (customer_row list, seed_world) call" where
  "seed_customer org i customers = (let cid = length customers + 1; has_region = i \<noteq> 0 in
     seq (customer_region has_region) (\<lambda>region.
       seq (later (og_created_at org) (30 + i * 5)) (\<lambda>created.
         give (customers @ [\<lparr> cu_id = int cid, cu_organization_id = og_id org, cu_region_id = region,
           cu_name = ''Customer '' @ show_nat cid,
           cu_contact_email = (if i mod 2 = 0 then Some (''contact'' @ show_nat cid @ ''@customer''
              @ show_nat cid @ ''.example'') else None),
           cu_contact_phone = (if has_region then Some (''+1-555-01'' @ pad_zeros 2 (int cid)) else None),
           cu_segment = [''smb'', ''mid_market'', ''enterprise''] ! (i mod 3),
           cu_created_at = created, cu_deleted_at = None \<rparr>]))))"

definition seed_customers :: "organization_row list \<Rightarrow> (customer_row list, seed_world) call" where
  "seed_customers orgs = each (\<lambda>org customers. seq (dict_at customers_per_org (og_id org)) (\<lambda>n.
     each (seed_customer org) [0..<n] customers)) orgs []"

definition list_price :: "nat \<Rightarrow> rat" where
  "list_price pid = round2 (20 + rat_mod (of_nat pid * (15 / 2)) 480)"

definition seed_product ::
    "organization_row \<Rightarrow> nat \<Rightarrow> product_row list \<Rightarrow> (product_row list, seed_world) call" where
  "seed_product org i products = (let pid = length products + 1 in
     seq (later (og_created_at org) 20) (\<lambda>created.
       give (products @ [\<lparr> pr_id = int pid, pr_organization_id = og_id org,
         pr_sku = ''SKU-'' @ show_int (og_id org) @ ''-'' @ pad_zeros 3 (int i),
         pr_name = ''Product '' @ show_nat pid,
         pr_category = [''hardware'', ''software'', ''services'', ''accessories''] ! (i mod 4),
         pr_unit_price = list_price pid, pr_active = (if i mod 5 \<noteq> 4 then 1 else 0),
         pr_created_at = created \<rparr>])))"

definition seed_products :: "organization_row list \<Rightarrow> (product_row list, seed_world) call" where
  "seed_products orgs = each (\<lambda>org products. seq (dict_at products_per_org (og_id org)) (\<lambda>n.
     each (seed_product org) [0..<n] products)) orgs []"

definition org_customers :: "customer_row list \<Rightarrow> organization_row \<Rightarrow> customer_row list" where
  "org_customers customers org = filter (\<lambda>c. cu_organization_id c = og_id org) customers"

definition org_products :: "product_row list \<Rightarrow> organization_row \<Rightarrow> product_row list" where
  "org_products products org = filter (\<lambda>p. pr_organization_id p = og_id org) products"

section \<open>Orders, items, payments and refunds\<close>

record order_row =
  or_id :: int
  or_organization_id :: int
  or_customer_id :: int
  or_status :: string
  or_ordered_at :: datetime
  or_created_at :: datetime
  or_deleted_at :: "datetime option"

record item_row =
  it_id :: int
  it_organization_id :: int
  it_order_id :: int
  it_product_id :: int
  it_quantity :: int
  it_unit_price :: rat

record payment_row =
  pm_id :: int
  pm_organization_id :: int
  pm_order_id :: int
  pm_amount :: rat
  pm_method :: string
  pm_card_last4 :: "string option"
  pm_payment_token :: "string option"
  pm_status :: string
  pm_paid_at :: datetime

record refund_row =
  rf_id :: int
  rf_organization_id :: int
  rf_order_id :: int
  rf_payment_id :: int
  rf_amount :: rat
  rf_reason :: string
  rf_refunded_at :: datetime

definition order_cells :: "order_row \<Rightarrow> cells" where
  "order_cells r = [(''id'', C_Int (or_id r)), (''organization_id'', C_Int (or_organization_id r)),
     (''customer_id'', C_Int (or_customer_id r)), (''status'', C_Text (or_status r)),
     (''ordered_at'', C_Time (or_ordered_at r)), (''created_at'', C_Time (or_created_at r)),
     (''deleted_at'', time_cell (or_deleted_at r))]"

definition item_cells :: "item_row \<Rightarrow> cells" where
  "item_cells r = [(''id'', C_Int (it_id r)), (''organization_id'', C_Int (it_organization_id r)),
     (''order_id'', C_Int (it_order_id r)), (''product_id'', C_Int (it_product_id r)),
     (''quantity'', C_Int (it_quantity r)), (''unit_price'', C_Num (it_unit_price r))]"

definition payment_cells :: "payment_row \<Rightarrow> cells" where
  "payment_cells r = [(''id'', C_Int (pm_id r)), (''organization_id'', C_Int (pm_organization_id r)),
     (''order_id'', C_Int (pm_order_id r)), (''amount'', C_Num (pm_amount r)),
     (''method'', C_Text (pm_method r)), (''card_last4'', text_cell (pm_card_last4 r)),
     (''payment_token'', text_cell (pm_payment_token r)), (''status'', C_Text (pm_status r)),
     (''paid_at'', C_Time (pm_paid_at r))]"

definition refund_cells :: "refund_row \<Rightarrow> cells" where
  "refund_cells r = [(''id'', C_Int (rf_id r)), (''organization_id'', C_Int (rf_organization_id r)),
     (''order_id'', C_Int (rf_order_id r)), (''payment_id'', C_Int (rf_payment_id r)),
     (''amount'', C_Num (rf_amount r)), (''reason'', C_Text (rf_reason r)),
     (''refunded_at'', C_Time (rf_refunded_at r))]"

text \<open>The four lists an order may add to; the counters of the code are their lengths.\<close>

record ledger =
  lg_orders :: "order_row list"
  lg_items :: "item_row list"
  lg_payments :: "payment_row list"
  lg_refunds :: "refund_row list"

definition empty_ledger :: ledger where
  "empty_ledger = \<lparr> lg_orders = [], lg_items = [], lg_payments = [], lg_refunds = [] \<rparr>"

definition order_statuses :: "string list" where
  "order_statuses = [''paid'', ''shipped'', ''paid'', ''pending'', ''refunded'', ''cancelled'']"

definition is_paid :: "string \<Rightarrow> bool" where
  "is_paid status \<longleftrightarrow> status \<in> {''paid'', ''shipped'', ''refunded''}"

definition month_anchor ::
    "datetime \<Rightarrow> int \<Rightarrow> int \<Rightarrow> datetime list \<Rightarrow> (datetime list, seed_world) call" where
  "month_anchor base y m anchors = seq (lift_result (mk_date y m 15)) (\<lambda>dt.
     give (if instant dt < instant base then anchors @ [dt] else anchors))"

definition month_anchors :: "datetime \<Rightarrow> (datetime list, seed_world) call" where
  "month_anchors base =
     each (\<lambda>y. each (month_anchor base y) [1..12]) [dt_year base - 1, dt_year base] []"

definition add_item :: "product_row list \<Rightarrow> organization_row \<Rightarrow> int \<Rightarrow> nat \<Rightarrow> rat \<times> item_row list \<Rightarrow>
    (rat \<times> item_row list, seed_world) call" where
  "add_item prods org oid _ = (\<lambda>(order_total, items). let iid = length items + 1 in
     seq (choice prods) (\<lambda>prod. seq (randint 1 5) (\<lambda>qty. let unit_price = pr_unit_price prod in
       give (order_total + of_nat qty * unit_price,
         items @ [\<lparr> it_id = int iid, it_organization_id = og_id org, it_order_id = oid,
           it_product_id = pr_id prod, it_quantity = int qty,
           it_unit_price = round2 unit_price \<rparr>]))))"

definition card_fields :: "string \<Rightarrow> (string option \<times> string option, seed_world) call" where
  "card_fields payment_method = (if payment_method = ''card''
     then seq (randint 0 9999) (\<lambda>n. seq (randrange (16 ^ 16)) (\<lambda>t.
       give (Some (pad_zeros 4 (int n)), Some (''tok_'' @ hex_digits 16 t))))
     else give (None, None))"

definition add_payment ::
    "organization_row \<Rightarrow> int \<Rightarrow> rat \<Rightarrow> datetime \<Rightarrow> ledger \<Rightarrow> (ledger, seed_world) call" where
  "add_payment org oid order_total ordered_at lg = (let pay_id = length (lg_payments lg) + 1 in
     seq (choice [''card'', ''bank'', ''paypal'']) (\<lambda>payment_method.
       seq (card_fields payment_method) (\<lambda>(last4, token).
         seq (later ordered_at 1) (\<lambda>paid_at.
           give (lg\<lparr> lg_payments := lg_payments lg @
             [\<lparr> pm_id = int pay_id, pm_organization_id = og_id org, pm_order_id = oid,
                pm_amount = round2 order_total, pm_method = payment_method, pm_card_last4 = last4,
                pm_payment_token = token, pm_status = ''succeeded'', pm_paid_at = paid_at \<rparr>] \<rparr>)))))"

definition add_refund ::
    "organization_row \<Rightarrow> int \<Rightarrow> rat \<Rightarrow> datetime \<Rightarrow> ledger \<Rightarrow> (ledger, seed_world) call" where
  "add_refund org oid order_total ordered_at lg = (let ref_id = length (lg_refunds lg) + 1 in
     seq (choice [1 / 2, 1]) (\<lambda>share. seq (choice [''defective'', ''customer_request'', ''duplicate'']) (\<lambda>reason.
       seq (randint 2 20) (\<lambda>days. seq (later ordered_at days) (\<lambda>refunded_at.
         give (lg\<lparr> lg_refunds := lg_refunds lg @
           [\<lparr> rf_id = int ref_id, rf_organization_id = og_id org, rf_order_id = oid,
              rf_payment_id = int (length (lg_payments lg)), rf_amount = round2 (order_total * share),
              rf_reason = reason, rf_refunded_at = refunded_at \<rparr>] \<rparr>))))))"

definition settle :: "organization_row \<Rightarrow> int \<Rightarrow> string \<Rightarrow> rat \<Rightarrow> datetime \<Rightarrow> ledger \<Rightarrow>
    (ledger, seed_world) call" where
  "settle org oid status order_total ordered_at lg = (if is_paid status
     then seq (add_payment org oid order_total ordered_at lg) (\<lambda>lg'.
       if status = ''refunded'' then add_refund org oid order_total ordered_at lg' else give lg')
     else give lg)"

definition place_order :: "customer_row list \<Rightarrow> product_row list \<Rightarrow> datetime list \<Rightarrow>
    organization_row \<Rightarrow> nat \<Rightarrow> ledger \<Rightarrow> (ledger, seed_world) call" where
  "place_order custs prods anchors org _ lg = (let oid = int (length (lg_orders lg) + 1) in
     seq (choice custs) (\<lambda>cust. seq (choice anchors) (\<lambda>anchor. seq (randint 0 25) (\<lambda>days.
       seq (later anchor days) (\<lambda>ordered_at. seq (choice order_statuses) (\<lambda>status.
         seq (randint 1 3) (\<lambda>n_items.
           seq (each (add_item prods org oid) [0..<n_items] (0, lg_items lg)) (\<lambda>(order_total, items).
             settle org oid status order_total ordered_at (lg\<lparr> lg_orders := lg_orders lg @
               [\<lparr> or_id = oid, or_organization_id = og_id org, or_customer_id = cu_id cust,
                  or_status = status, or_ordered_at = ordered_at, or_created_at = ordered_at,
                  or_deleted_at = None \<rparr>], lg_items := items \<rparr>)))))))))"

definition org_orders :: "customer_row list \<Rightarrow> product_row list \<Rightarrow> datetime list \<Rightarrow>
    organization_row \<Rightarrow> ledger \<Rightarrow> (ledger, seed_world) call" where
  "org_orders customers products anchors org =
     each (place_order (org_customers customers org) (org_products products org) anchors org)
       [0..<if og_id org = 1 then 60 else 25]"

definition seed_orders :: "organization_row list \<Rightarrow> customer_row list \<Rightarrow> product_row list \<Rightarrow>
    datetime \<Rightarrow> (ledger, seed_world) call" where
  "seed_orders orgs customers products base = seq (month_anchors base) (\<lambda>anchors.
     each (org_orders customers products anchors) orgs empty_ledger)"

section \<open>Subscriptions and support tickets\<close>

record subscription_row =
  sb_id :: int
  sb_organization_id :: int
  sb_customer_id :: int
  sb_plan :: string
  sb_status :: string
  sb_mrr :: rat
  sb_started_at :: datetime
  sb_canceled_at :: "datetime option"

record ticket_row =
  tk_id :: int
  tk_organization_id :: int
  tk_customer_id :: int
  tk_subject :: string
  tk_status :: string
  tk_priority :: string
  tk_created_at :: datetime
  tk_resolved_at :: "datetime option"

definition subscription_cells :: "subscription_row \<Rightarrow> cells" where
  "subscription_cells r = [(''id'', C_Int (sb_id r)), (''organization_id'', C_Int (sb_organization_id r)),
     (''customer_id'', C_Int (sb_customer_id r)), (''plan'', C_Text (sb_plan r)),
     (''status'', C_Text (sb_status r)), (''mrr'', C_Num (sb_mrr r)),
     (''started_at'', C_Time (sb_started_at r)), (''canceled_at'', time_cell (sb_canceled_at r))]"

definition ticket_cells :: "ticket_row \<Rightarrow> cells" where
  "ticket_cells r = [(''id'', C_Int (tk_id r)), (''organization_id'', C_Int (tk_organization_id r)),
     (''customer_id'', C_Int (tk_customer_id r)), (''subject'', C_Text (tk_subject r)),
     (''status'', C_Text (tk_status r)), (''priority'', C_Text (tk_priority r)),
     (''created_at'', C_Time (tk_created_at r)), (''resolved_at'', time_cell (tk_resolved_at r))]"

definition when_some :: "bool \<Rightarrow> ('a, seed_world) call \<Rightarrow> ('a option, seed_world) call" where
  "when_some b m = (if b then seq m (\<lambda>a. give (Some a)) else give None)"

text \<open>The double nearest to 0.6, against which \<open>random()\<close> is compared.\<close>

definition point_six :: rat where
  "point_six = 5404319552844595 / 2 ^ 53"

definition seed_subscription :: "organization_row \<Rightarrow> customer_row \<Rightarrow> subscription_row list \<Rightarrow>
    (subscription_row list, seed_world) call" where
  "seed_subscription org cust subscriptions = seq random_unit (\<lambda>u. if u < point_six
     then let sub_id = length subscriptions + 1 in
       seq (choice [''active'', ''active'', ''canceled'', ''past_due'']) (\<lambda>status.
         seq (later (cu_created_at cust) 5) (\<lambda>started.
           seq (choice [''pro'', ''enterprise'', ''free'']) (\<lambda>plan.
             seq (choice [49, 99, 199, 499]) (\<lambda>mrr.
               seq (when_some (status = ''canceled'') (later started 200)) (\<lambda>canceled.
                 give (subscriptions @ [\<lparr> sb_id = int sub_id, sb_organization_id = og_id org,
                   sb_customer_id = cu_id cust, sb_plan = plan, sb_status = status,
                   sb_mrr = round2 mrr, sb_started_at = started, sb_canceled_at = canceled \<rparr>]))))))
     else give subscriptions)"

definition seed_subscriptions :: "organization_row list \<Rightarrow> customer_row list \<Rightarrow>
    (subscription_row list, seed_world) call" where
  "seed_subscriptions orgs customers =
     each (\<lambda>org. each (seed_subscription org) (org_customers customers org)) orgs []"

definition seed_ticket :: "datetime \<Rightarrow> customer_row list \<Rightarrow> organization_row \<Rightarrow> nat \<Rightarrow>
    ticket_row list \<Rightarrow> (ticket_row list, seed_world) call" where
  "seed_ticket base custs org _ tickets = (let tid = length tickets + 1 in
     seq (choice custs) (\<lambda>cust. seq (randint 1 200) (\<lambda>days. seq (earlier base days) (\<lambda>created.
       seq (choice [''open'', ''pending'', ''closed'', ''closed'']) (\<lambda>status.
         seq (choice [''low'', ''medium'', ''high'']) (\<lambda>priority.
           seq (when_some (status = ''closed'') (seq (randint 1 10) (later created))) (\<lambda>resolved.
             give (tickets @ [\<lparr> tk_id = int tid, tk_organization_id = og_id org,
               tk_customer_id = cu_id cust, tk_subject = ''Issue #'' @ show_nat tid,
               tk_status = status, tk_priority = priority, tk_created_at = created,
               tk_resolved_at = resolved \<rparr>]))))))))"

definition seed_tickets :: "organization_row list \<Rightarrow> customer_row list \<Rightarrow> datetime \<Rightarrow>
    (ticket_row list, seed_world) call" where
  "seed_tickets orgs customers base =
     each (\<lambda>org. each (seed_ticket base (org_customers customers org) org)
       [0..<if og_id org = 1 then 15 else 8]) orgs []"

section \<open>The whole\<close>

definition seed_base_date :: datetime where
  "seed_base_date = midnight 2026 7 24"

definition rng_seed :: int where
  "rng_seed = 42"

definition insert_unless_empty :: "connection \<Rightarrow> table_def \<Rightarrow> cells list \<Rightarrow> (unit, seed_world) call" where
  "insert_unless_empty conn td rows = (if rows = [] then give () else insert_rows conn td rows)"

text \<open>The rows that do not move, then the activity of the customers, in the order of the code.\<close>

definition seed_master :: "connection \<Rightarrow> datetime \<Rightarrow>
    (organization_row list \<times> user_row list \<times> customer_row list \<times> product_row list, seed_world) call" where
  "seed_master conn base =
     seq (seed_organizations base) (\<lambda>orgs.
     seq (insert_rows conn organizations_table (map organization_cells orgs)) (\<lambda>_.
     seq (insert_rows conn regions_table (map region_cells seed_regions)) (\<lambda>_.
     seq (seed_users orgs) (\<lambda>users.
     seq (insert_rows conn users_table (map user_cells users)) (\<lambda>_.
     seq (seed_customers orgs) (\<lambda>customers.
     seq (insert_rows conn customers_table (map customer_cells customers)) (\<lambda>_.
     seq (seed_products orgs) (\<lambda>products.
     seq (insert_rows conn products_table (map product_cells products)) (\<lambda>_.
       give (orgs, users, customers, products))))))))))"

definition seed_activity :: "connection \<Rightarrow> datetime \<Rightarrow> organization_row list \<Rightarrow> customer_row list \<Rightarrow>
    product_row list \<Rightarrow> (ledger \<times> subscription_row list \<times> ticket_row list, seed_world) call" where
  "seed_activity conn base orgs customers products =
     seq (seed_orders orgs customers products base) (\<lambda>lg.
     seq (insert_rows conn orders_table (map order_cells (lg_orders lg))) (\<lambda>_.
     seq (insert_rows conn order_items_table (map item_cells (lg_items lg))) (\<lambda>_.
     seq (insert_unless_empty conn payments_table (map payment_cells (lg_payments lg))) (\<lambda>_.
     seq (insert_unless_empty conn refunds_table (map refund_cells (lg_refunds lg))) (\<lambda>_.
     seq (seed_subscriptions orgs customers) (\<lambda>subscriptions.
     seq (insert_unless_empty conn subscriptions_table (map subscription_cells subscriptions)) (\<lambda>_.
     seq (seed_tickets orgs customers base) (\<lambda>tickets.
     seq (insert_rows conn support_tickets_table (map ticket_cells tickets)) (\<lambda>_.
       give (lg, subscriptions, tickets))))))))))"

definition seed_rows :: "connection \<Rightarrow> datetime \<Rightarrow> ((string \<times> nat) list, seed_world) call" where
  "seed_rows conn base =
     seq (seed_master conn base) (\<lambda>(orgs, users, customers, products).
     seq (seed_activity conn base orgs customers products) (\<lambda>(lg, subscriptions, tickets).
       give [(''organizations'', length orgs), (''regions'', length seed_regions),
         (''users'', length users), (''customers'', length customers),
         (''products'', length products), (''orders'', length (lg_orders lg)),
         (''order_items'', length (lg_items lg)), (''payments'', length (lg_payments lg)),
         (''refunds'', length (lg_refunds lg)), (''subscriptions'', length subscriptions),
         (''support_tickets'', length tickets)]))"

definition seed_database ::
    "(int \<Rightarrow> nat stream) \<Rightarrow> connection \<Rightarrow> datetime \<Rightarrow> ((string \<times> nat) list, seed_world) call" where
  "seed_database rng conn base = seq (change (\<lambda>w. w\<lparr> sw_draws := rng rng_seed \<rparr>)) (\<lambda>_.
     in_transaction (seed_rows conn base))"

end
