(* ===== verification/SeedProps.thy ===== *)
theory SeedProps
  imports SeedData
begin

text \<open>
  How the sample data comes out: a Hoare-style rule set for the draws and loops of
  \<open>bootstrap.py\<close>, day arithmetic inside the calendar, and the invariants of each phase.
\<close>

section \<open>Phases that only draw\<close>

text \<open>The phase ends with a value that satisfies \<open>Q\<close>, and no insert is made.\<close>

definition makes :: "('a, seed_world) call \<Rightarrow> ('a \<Rightarrow> bool) \<Rightarrow> bool" where
  "makes m Q \<longleftrightarrow> (\<forall>w. \<exists>a w'. m w = (Inr a, w') \<and> sw_inserts w' = sw_inserts w \<and> Q a)"

lemma makesD:
  assumes "makes m Q"
  obtains a w' where "m w = (Inr a, w')" "sw_inserts w' = sw_inserts w" "Q a"
  using assms unfolding makes_def by blast

lemma makes_give [simp]: "makes (give a) Q \<longleftrightarrow> Q a"
  by (simp add: makes_def give_def)

lemma makes_seq:
  assumes "makes m Q" and "\<And>a. Q a \<Longrightarrow> makes (k a) R"
  shows "makes (seq m k) R"
  unfolding makes_def
proof
  fix w
  obtain a w1 where a: "m w = (Inr a, w1)" "sw_inserts w1 = sw_inserts w" "Q a"
    using makesD [OF assms(1)] by blast
  obtain b w2 where "k a w1 = (Inr b, w2)" "sw_inserts w2 = sw_inserts w1" "R b"
    using makesD [OF assms(2) [OF a(3)]] by blast
  with a show "\<exists>b w2. seq m k w = (Inr b, w2) \<and> sw_inserts w2 = sw_inserts w \<and> R b"
    by (simp add: seq_def)
qed

lemma seq_give_id [simp]: "seq m give = m"
  by (rule ext) (simp add: seq_def give_def split: sum.splits prod.splits)

lemma makes_conseq: "makes m Q \<Longrightarrow> (\<And>a. Q a \<Longrightarrow> R a) \<Longrightarrow> makes m R"
  unfolding makes_def by blast

lemma makes_lift: "r = Inr a \<Longrightarrow> Q a \<Longrightarrow> makes (lift_result r) Q"
  by (simp add: makes_def lift_result_def)

lemma makes_draw: "(\<And>n. makes (k n) Q) \<Longrightarrow> makes (seq next_draw k) Q"
  by (rule makes_seq [where Q = "\<lambda>_. True"]) (simp_all add: makes_def next_draw_def ask_def)

lemma makes_choice: "xs \<noteq> [] \<Longrightarrow> (\<And>x. x \<in> set xs \<Longrightarrow> Q x) \<Longrightarrow> makes (choice xs) Q"
  by (simp add: choice_def makes_draw)

lemma makes_randint: "a \<le> b \<Longrightarrow> (\<And>n. a \<le> n \<Longrightarrow> n \<le> b \<Longrightarrow> Q n) \<Longrightarrow> makes (randint a b) Q"
proof -
  assume ab: "a \<le> b" and Q: "\<And>n. a \<le> n \<Longrightarrow> n \<le> b \<Longrightarrow> Q n"
  have "Q (a + n mod (b - a + 1))" for n
  proof (rule Q)
    have "n mod (b - a + 1) < b - a + 1" by (rule mod_less_divisor) simp
    then show "a + n mod (b - a + 1) \<le> b" using ab by linarith
  qed simp
  then show ?thesis using ab by (simp add: randint_def makes_draw)
qed

lemma makes_randrange: "0 < b \<Longrightarrow> (\<And>n. n < b \<Longrightarrow> Q n) \<Longrightarrow> makes (randrange b) Q"
  by (simp add: randrange_def makes_draw)

lemma makes_random_unit: "(\<And>u. Q u) \<Longrightarrow> makes random_unit Q"
  by (simp add: random_unit_def makes_draw)

lemma makes_dict_at: "map_of d k = Some v \<Longrightarrow> Q v \<Longrightarrow> makes (dict_at d k) Q"
  by (simp add: dict_at_def)

lemma makes_when_some: "(b \<Longrightarrow> makes m (\<lambda>a. Q (Some a))) \<Longrightarrow> (\<not> b \<Longrightarrow> Q None) \<Longrightarrow> makes (when_some b m) Q"
  by (cases b) (auto simp: when_some_def intro: makes_seq)

text \<open>A loop keeps an invariant of what it has gone through.\<close>

lemma makes_each:
  assumes start: "I [] s"
    and step: "\<And>pre x suf s. xs = pre @ x # suf \<Longrightarrow> I pre s \<Longrightarrow> makes (f x s) (I (pre @ [x]))"
  shows "makes (each f xs s) (I xs)"
proof -
  have "makes (each f suf s) (I xs)" if "xs = pre @ suf" "I pre s" for pre suf s
    using that
  proof (induction suf arbitrary: pre s)
    case Nil
    then show ?case by simp
  next
    case (Cons x suf)
    then show ?case
      using step [OF Cons.prems] Cons.IH [of "pre @ [x]"] by (auto intro: makes_seq)
  qed
  from this [of "[]" xs s] start show ?thesis by simp
qed

lemma makes_each_inv:
  "I s \<Longrightarrow> (\<And>x s. x \<in> set xs \<Longrightarrow> I s \<Longrightarrow> makes (f x s) I) \<Longrightarrow> makes (each f xs s) I"
  by (rule makes_each [where I = "\<lambda>_. I"]) auto

lemma makes_upto:
  assumes start: "I 0 s" and step: "\<And>i s. i < n \<Longrightarrow> I i s \<Longrightarrow> makes (f i s) (I (Suc i))"
  shows "makes (each f [0..<n] s) (I n)"
proof -
  have "makes (each f [0..<n] s) (\<lambda>s. I (length [0..<n]) s)"
  proof (rule makes_each [where I = "\<lambda>pre. I (length pre)"])
    fix pre x suf s assume xs: "[0..<n] = pre @ x # suf" and "I (length pre) s"
    then have "x = length pre" "x < n"
      by (metis add_cancel_left_left length_append length_upt list.size(4) nth_append_length nth_upt diff_zero
          less_add_Suc1 add_Suc_right)+
    with \<open>I (length pre) s\<close> step show "makes (f x s) (I (length (pre @ [x])))" by simp
  qed (simp add: start)
  then show ?thesis by simp
qed

section \<open>Day arithmetic inside the calendar\<close>

definition dated :: "int \<Rightarrow> datetime \<Rightarrow> bool" where
  "dated y t \<longleftrightarrow> valid_datetime t \<and> dt_year t \<le> y"

lemma dated_mono: "dated y t \<Longrightarrow> y \<le> y' \<Longrightarrow> dated y' t"
  by (simp add: dated_def)

lemma next_days_ordinal:
  "valid_cal x \<Longrightarrow> valid_cal ((next_day ^^ n) x) \<and> ordinal ((next_day ^^ n) x) = ordinal x + int n
     \<and> fst x \<le> fst ((next_day ^^ n) x)"
proof (induction n)
  case (Suc n)
  then show ?case
    using next_day_ordinal [of "(next_day ^^ n) x"]
    by (cases "(next_day ^^ n) x") (auto simp: next_day_def)
qed simp

lemma ordinal_in_year:
  assumes "valid_cal (y, m, d)"
  shows "days_before_year y < ordinal (y, m, d)" "ordinal (y, m, d) \<le> days_before_year (y + 1)"
proof -
  have m: "1 \<le> m" "m \<le> 12" "1 \<le> d" "d \<le> days_in_month y m" using assms by (auto simp: valid_cal_def)
  have "days_before_month y m + days_in_month y m \<le> days_before_month y 12 + 31"
    using month_cases [OF m(1,2)]
    by (elim disjE) (simp_all add: days_before_month_def days_in_month_def upto.simps)
  then show "ordinal (y, m, d) \<le> days_before_year (y + 1)"
    using m days_before_december [of y] days_before_year_Suc [of y] by (simp add: ordinal_def split: if_splits)
  show "days_before_year y < ordinal (y, m, d)"
    using m days_before_month_nonneg [of y m] by (simp add: ordinal_def)
qed

lemma days_before_year_add: "days_before_year y + 365 * int n \<le> days_before_year (y + int n)"
proof (induction n)
  case (Suc n)
  then show ?case using days_before_year_Suc [of "y + int n"] by (simp add: algebra_simps split: if_splits)
qed simp

lemma year_from_ordinal:
  assumes "valid_cal (y, m, d)" and "valid_cal (y', m', d')"
    and "ordinal (y, m, d) \<le> ordinal (y', m', d')"
  shows "y \<le> y'"
proof (rule ccontr)
  assume "\<not> y \<le> y'"
  then obtain n where n: "y = y' + 1 + int n" using zle_iff_zadd [of "y' + 1" y] by auto
  have "days_before_year (y' + 1) \<le> days_before_year y"
    using days_before_year_add [of "y' + 1" n] n by simp
  then show False using ordinal_in_year(1) [OF assms(1)] ordinal_in_year(2) [OF assms(2)] assms(3) by simp
qed

lemma later_within_a_year:
  assumes "valid_cal (y, m, d)" and "valid_cal (y', m', d')"
    and "ordinal (y', m', d') \<le> ordinal (y, m, d) + 365"
  shows "y' \<le> y + 1"
proof (rule ccontr)
  assume "\<not> y' \<le> y + 1"
  then obtain n where n: "y' = (y + 1) + 1 + int n" using zle_iff_zadd [of "y + 2" y'] by auto
  have "days_before_year (y + 1) + 365 \<le> days_before_year y'"
    using days_before_year_add [of "y + 1" "Suc n"] n by (simp add: algebra_simps)
  then show False using ordinal_in_year(1) [OF assms(2)] ordinal_in_year(2) [OF assms(1)] assms(3) by simp
qed

lemma plus_days_total:
  assumes "dated y t" and "n \<le> 365" and "y < 9999"
  shows "\<exists>r. plus_days t n = Inr r \<and> dated (y + 1) r"
proof -
  obtain yy m d where p: "(next_day ^^ n) (date_of t) = (yy, m, d)" by (cases "(next_day ^^ n) (date_of t)")
  have v: "valid_datetime t" "dt_year t \<le> y" using assms(1) by (auto simp: dated_def)
  have c: "valid_cal (yy, m, d)" "ordinal (yy, m, d) = ordinal (date_of t) + int n" "dt_year t \<le> yy"
    using next_days_ordinal [OF valid_datetime_cal [OF v(1)], of n] p by (simp_all add: date_of_def)
  have "yy \<le> dt_year t + 1"
    using later_within_a_year [of "dt_year t" "dt_month t" "dt_day t" yy m d] c assms(2)
      valid_datetime_cal [OF v(1)] by (simp add: date_of_def)
  then show ?thesis
    using p c v assms(3)
    by (auto simp: plus_days_def dated_def set_date_def valid_datetime_def valid_date_def valid_cal_def)
qed

lemma makes_later: "dated y t \<Longrightarrow> n \<le> 365 \<Longrightarrow> y < 9999 \<Longrightarrow> makes (later t n) (dated (y + 1))"
  using plus_days_total [of y t n] unfolding later_def by (auto intro: makes_lift)

lemma makes_earlier:
  assumes "dated y t" and "n \<le> 1000" and "4 \<le> dt_year t"
  shows "makes (earlier t n) (dated y)"
proof -
  have v: "valid_datetime t" "dt_year t \<le> y" using assms(1) by (auto simp: dated_def)
  have c: "valid_cal (date_of t)" by (rule valid_datetime_cal [OF v(1)])
  have "days_before_year 4 \<le> days_before_year (dt_year t)"
    using days_before_year_add [of 4 "nat (dt_year t - 4)"] assms(3) by simp
  then have "1095 \<le> days_before_year (dt_year t)" by (simp add: days_before_year_def)
  then have "int n < ordinal (date_of t)"
    using ordinal_in_year(1) [of "dt_year t" "dt_month t" "dt_day t"] c assms(2) by (simp add: date_of_def)
  then obtain r where r: "minus_days t n = Inr r" using minus_days_total [OF v(1)] by blast
  with minus_days_Inr [OF r v(1)] have v': "valid_datetime r"
    "ordinal (date_of r) \<le> ordinal (date_of t)" by auto
  have "dt_year r \<le> dt_year t"
    using year_from_ordinal [of "dt_year r" "dt_month r" "dt_day r" "dt_year t" "dt_month t" "dt_day t"]
      valid_datetime_cal [OF v'(1)] c v'(2) by (simp add: date_of_def)
  then show ?thesis using r v v' unfolding earlier_def by (auto intro!: makes_lift simp: dated_def)
qed

end
