(* ===== verification/SeedPhases.thy ===== *)
theory SeedPhases
  imports SeedProps
begin

text \<open>
  The invariants of the phases of \<open>seed_database\<close>: identifiers count from 1, every reference
  names a row of the same organization, and the ledger of orders balances.
\<close>

section \<open>Identifiers and amounts\<close>

definition numbered :: "('a \<Rightarrow> int) \<Rightarrow> 'a list \<Rightarrow> bool" where
  "numbered f xs \<longleftrightarrow> map f xs = map int [1..<Suc (length xs)]"

lemma numbered_Nil [simp]: "numbered f []"
  by (simp add: numbered_def)

lemma numbered_snoc [simp]: "numbered f (xs @ [x]) \<longleftrightarrow> numbered f xs \<and> f x = int (Suc (length xs))"
  by (auto simp: numbered_def)

lemma numbered_distinct: "numbered f xs \<Longrightarrow> distinct (map f xs)"
  by (simp add: numbered_def distinct_map)

lemma numbered_range: "numbered f xs \<Longrightarrow> x \<in> set xs \<Longrightarrow> 1 \<le> f x \<and> f x \<le> int (length xs)"
proof -
  assume n: "numbered f xs" and "x \<in> set xs"
  then have "f x \<in> set (map int [1..<Suc (length xs)])" unfolding numbered_def by (metis image_eqI set_map)
  then show ?thesis by auto
qed

lemma numbered_ex: "numbered f xs \<Longrightarrow> xs \<noteq> [] \<Longrightarrow> f (last xs) = int (length xs)"
  by (cases xs rule: rev_cases) simp_all

text \<open>Amounts: a whole number of \<open>d\<close>-th parts up to a bound.\<close>

definition parts :: "int \<Rightarrow> int \<Rightarrow> rat \<Rightarrow> bool" where
  "parts d n q \<longleftrightarrow> (\<exists>k. 0 \<le> k \<and> k \<le> n \<and> q = of_int k / of_int d)"

lemma parts_mono: "parts d n q \<Longrightarrow> n \<le> m \<Longrightarrow> parts d m q"
  by (auto simp: parts_def)

lemma parts_add: "parts d n p \<Longrightarrow> parts d m q \<Longrightarrow> parts d (n + m) (p + q)"
proof -
  assume "parts d n p" "parts d m q"
  then obtain k l where "0 \<le> k" "k \<le> n" "p = of_int k / of_int d" "0 \<le> l" "l \<le> m" "q = of_int l / of_int d"
    by (auto simp: parts_def)
  then show ?thesis
    unfolding parts_def by (intro exI [of _ "k + l"]) (simp add: add_divide_distrib)
qed

lemma parts_times: "parts d n q \<Longrightarrow> i \<le> m \<Longrightarrow> parts d (int m * n) (of_nat i * q)"
proof -
  assume "parts d n q" "i \<le> m"
  then obtain k where "0 \<le> k" "k \<le> n" "q = of_int k / of_int d" by (auto simp: parts_def)
  with \<open>i \<le> m\<close> show ?thesis
    unfolding parts_def by (intro exI [of _ "int i * k"]) (simp add: mult_mono)
qed

lemma halves_are_quarters: "parts 2 n q \<Longrightarrow> parts 4 (2 * n) q"
proof -
  assume "parts 2 n q"
  then obtain k where "0 \<le> k" "k \<le> n" "q = of_int k / 2" by (auto simp: parts_def)
  then show ?thesis unfolding parts_def by (intro exI [of _ "2 * k"]) simp
qed

lemma half_of_halves: "parts 2 n q \<Longrightarrow> parts 4 n (q / 2)"
  by (auto simp: parts_def)

lemma round2_whole: "x * 100 = of_int i \<Longrightarrow> round2 x = x"
  by (simp add: round2_def round_half_even_def eq_divide_eq)

lemma round2_parts:
  assumes "parts d n q" and "d = 1 \<or> d = 2 \<or> d = 4"
  shows "round2 q = q"
proof -
  obtain k where k: "q = of_int k / of_int d" using assms(1) by (auto simp: parts_def)
  from assms(2) have "q * 100 = of_int (100 div d * k)" unfolding k by auto
  then show ?thesis by (rule round2_whole)
qed

section \<open>The rows of each organization\<close>

text \<open>What the orders, subscriptions and tickets use of the rows made before them.\<close>

definition good_orgs :: "int \<Rightarrow> organization_row list \<Rightarrow> bool" where
  "good_orgs y orgs \<longleftrightarrow> map og_id orgs = [1, 2] \<and> map og_name orgs = [''Acme Corp'', ''Globex Inc'']
     \<and> map og_plan orgs = [''pro'', ''enterprise''] \<and> map og_deleted_at orgs = [None, None]
     \<and> (\<forall>g\<in>set orgs. dated y (og_created_at g))"

definition good_base :: "datetime \<Rightarrow> bool" where
  "good_base base \<longleftrightarrow> valid_datetime base \<and> 4 \<le> dt_year base \<and> dt_year base \<le> 9990"

lemma makes_organizations:
  assumes "good_base base"
  shows "makes (seed_organizations base) (good_orgs (dt_year base))"
proof -
  have "makes (earlier base n) (dated (dt_year base))" if "n \<le> 1000" for n
    using assms that by (intro makes_earlier) (simp_all add: dated_def good_base_def)
  then show ?thesis
    unfolding seed_organizations_def
    by (intro makes_seq [of _ "dated (dt_year base)"]) (simp_all add: good_orgs_def)
qed

lemma good_orgs_cases:
  assumes "good_orgs y orgs"
  obtains a b where "orgs = [a, b]" "og_id a = 1" "og_id b = 2"
    "og_name a = ''Acme Corp''" "og_name b = ''Globex Inc''"
    "dated y (og_created_at a)" "dated y (og_created_at b)"
  using assms by (auto simp: good_orgs_def map_eq_Cons_conv)

text \<open>The users and products but for their dates.\<close>

definition user_core :: "user_row \<Rightarrow> user_row" where
  "user_core u = u\<lparr> us_created_at := seed_base_date \<rparr>"

definition product_core :: "product_row \<Rightarrow> product_row" where
  "product_core p = p\<lparr> pr_created_at := seed_base_date \<rparr>"

definition expected_user :: "int \<Rightarrow> int \<Rightarrow> string \<Rightarrow> string \<Rightarrow> string \<Rightarrow> string \<Rightarrow> user_row" where
  "expected_user uid org email full_name password_hash role = \<lparr> us_id = uid, us_organization_id = org,
     us_email = email, us_full_name = full_name, us_password_hash = password_hash, us_role = role,
     us_created_at = seed_base_date, us_deleted_at = None \<rparr>"

definition expected_users :: "user_row list" where
  "expected_users =
     [expected_user 1 1 ''user0@acme.example'' ''User 0 of Acme Corp'' ''$2b$12$deadbeefhash0001'' ''admin'',
      expected_user 2 1 ''user1@acme.example'' ''User 1 of Acme Corp'' ''$2b$12$deadbeefhash0002'' ''analyst'',
      expected_user 3 1 ''user2@acme.example'' ''User 2 of Acme Corp'' ''$2b$12$deadbeefhash0003'' ''viewer'',
      expected_user 4 2 ''user0@globex.example'' ''User 0 of Globex Inc'' ''$2b$12$deadbeefhash0004'' ''admin'',
      expected_user 5 2 ''user1@globex.example'' ''User 1 of Globex Inc'' ''$2b$12$deadbeefhash0005'' ''analyst'',
      expected_user 6 2 ''user2@globex.example'' ''User 2 of Globex Inc'' ''$2b$12$deadbeefhash0006'' ''viewer'']"

definition expected_product :: "nat \<Rightarrow> int \<Rightarrow> nat \<Rightarrow> product_row" where
  "expected_product pid org i = \<lparr> pr_id = int pid, pr_organization_id = org,
     pr_sku = ''SKU-'' @ show_int org @ ''-'' @ pad_zeros 3 (int i), pr_name = ''Product '' @ show_nat pid,
     pr_category = [''hardware'', ''software'', ''services'', ''accessories''] ! (i mod 4),
     pr_unit_price = list_price pid, pr_active = (if i mod 5 \<noteq> 4 then 1 else 0),
     pr_created_at = seed_base_date \<rparr>"

definition expected_products :: "product_row list" where
  "expected_products = map (\<lambda>i. expected_product (Suc i) 1 i) [0..<6]
     @ map (\<lambda>i. expected_product (Suc (6 + i)) 2 i) [0..<4]"

lemma row_text:
  "show_nat (Suc 0) = ''1''" "pad_zeros 3 (int (Suc 0)) = ''001''"
  "show_nat 0 = ''0''" "show_nat 1 = ''1''" "show_nat 2 = ''2''" "show_nat 3 = ''3''"
  "show_nat 4 = ''4''" "show_nat 5 = ''5''" "show_nat 6 = ''6''" "show_nat 7 = ''7''"
  "show_nat 8 = ''8''" "show_nat 9 = ''9''" "show_nat 10 = ''10''" "pad_zeros 4 1 = ''0001''"
  "pad_zeros 4 2 = ''0002''" "pad_zeros 4 3 = ''0003''" "pad_zeros 4 4 = ''0004''"
  "pad_zeros 4 5 = ''0005''" "pad_zeros 4 6 = ''0006''" "pad_zeros 3 0 = ''000''"
  "pad_zeros 3 1 = ''001''" "pad_zeros 3 2 = ''002''" "pad_zeros 3 3 = ''003''"
  "pad_zeros 3 4 = ''004''" "pad_zeros 3 5 = ''005''" "show_int 1 = ''1''" "show_int 2 = ''2''"
  by code_simp+

lemma take_snoc: "ys = take n zs \<Longrightarrow> n < length zs \<Longrightarrow> ys @ [zs ! n] = take (Suc n) zs"
  by (simp add: take_Suc_conv_app_nth)

lemma makes_user:
  assumes "dated y (og_created_at org)" and "y < 9999" and "i < 3"
    and w: "split_ws (og_name org) = w # ws"
    and users: "map user_core users = take n expected_users" and n: "n < 6"
    and core: "expected_user (int (Suc n)) (og_id org) (''user'' @ show_nat i @ ''@'' @ lower w @ ''.example'')
         (''User '' @ show_nat i @ '' of '' @ og_name org) (''$2b$12$deadbeefhash'' @ pad_zeros 4 (int (Suc n)))
         ([''admin'', ''analyst'', ''viewer''] ! (i mod 3)) = expected_users ! n"
  shows "makes (seed_user org i users) (\<lambda>us. map user_core us = take (Suc n) expected_users)"
proof -
  have l: "length users = n"
    using arg_cong [OF users, of length] n by (simp add: expected_users_def)
  have "take n expected_users @ [expected_users ! n] = take (Suc n) expected_users"
    using n by (intro take_snoc) (simp_all add: expected_users_def)
  then show ?thesis
    unfolding seed_user_def Let_def first_word_def w list.case seq_give
    by (intro makes_seq [OF makes_later [OF assms(1)]])
      (use assms(2,3) in \<open>simp_all add: users l user_core_def core [symmetric] expected_user_def\<close>)
qed

lemma first_words:
  "split_ws ''Acme Corp'' = [''Acme'', ''Corp'']" "split_ws ''Globex Inc'' = [''Globex'', ''Inc'']"
  "lower ''Acme'' = ''acme''" "lower ''Globex'' = ''globex''"
  by code_simp+

lemma less_3: "i < 3 \<Longrightarrow> i = 0 \<or> i = 1 \<or> i = (2::nat)" by auto

lemma makes_org_users:
  assumes "dated y (og_created_at org)" and "y < 9999"
    and org: "og_id org = 1 \<and> og_name org = ''Acme Corp'' \<and> n = 0
      \<or> og_id org = 2 \<and> og_name org = ''Globex Inc'' \<and> n = 3"
    and users: "map user_core users = take n expected_users"
  shows "makes (each (seed_user org) [0..<3] users) (\<lambda>us. map user_core us = take (n + 3) expected_users)"
proof (rule makes_upto [where I = "\<lambda>i us. map user_core us = take (n + i) expected_users"])
  fix i us assume i: "i < 3" and us: "map user_core us = take (n + i) expected_users"
  obtain w ws where w: "split_ws (og_name org) = w # ws" "lower w = (if n = 0 then ''acme'' else ''globex'')"
    using org first_words by auto
  show "makes (seed_user org i us) (\<lambda>us. map user_core us = take (n + Suc i) expected_users)"
    unfolding add_Suc_right
    by (rule makes_user [OF assms(1,2) i w(1) us])
      (use org i in fastforce, use org less_3 [OF i] in \<open>elim disjE conjE, simp_all add: w(2) row_text expected_users_def\<close>)
qed (simp add: users)

lemma makes_users:
  assumes "good_orgs y orgs" and "y < 9999"
  shows "makes (seed_users orgs) (\<lambda>us. map user_core us = expected_users)"
proof -
  obtain a b where o: "orgs = [a, b]" "og_id a = 1" "og_id b = 2" "og_name a = ''Acme Corp''"
    "og_name b = ''Globex Inc''" "dated y (og_created_at a)" "dated y (og_created_at b)"
    by (rule good_orgs_cases [OF assms(1)])
  have six: "expected_users = take (3 + 3) expected_users" by (simp add: expected_users_def)
  show ?thesis
    unfolding seed_users_def o(1) each.simps
    by (rule makes_seq [OF makes_org_users [OF o(6) assms(2), of 0]], simp_all add: o)
      (subst six, rule makes_org_users [OF o(7) assms(2), of 3], simp_all add: o)
qed

lemma makes_product:
  assumes "dated y (og_created_at org)" and "y < 9999"
    and products: "map product_core products = take n expected_products" and n: "n < 10"
    and core: "expected_product (Suc n) (og_id org) i = expected_products ! n"
  shows "makes (seed_product org i products) (\<lambda>ps. map product_core ps = take (Suc n) expected_products)"
proof -
  have l: "length products = n"
    using arg_cong [OF products, of length] n by (simp add: expected_products_def)
  have "take n expected_products @ [expected_products ! n] = take (Suc n) expected_products"
    using n by (intro take_snoc) (simp_all add: expected_products_def)
  then show ?thesis
    unfolding seed_product_def Let_def
    by (intro makes_seq [OF makes_later [OF assms(1)]])
      (use assms(2) in \<open>simp_all add: products l product_core_def core [symmetric] expected_product_def\<close>)
qed

lemma makes_org_products:
  assumes "dated y (og_created_at org)" and "y < 9999"
    and org: "og_id org = 1 \<and> k = 6 \<and> n = 0 \<or> og_id org = 2 \<and> k = 4 \<and> n = 6"
    and products: "map product_core products = take n expected_products"
  shows "makes (each (seed_product org) [0..<k] products)
    (\<lambda>ps. map product_core ps = take (n + k) expected_products)"
proof (rule makes_upto [where I = "\<lambda>i ps. map product_core ps = take (n + i) expected_products"])
  fix i ps assume i: "i < k" and ps: "map product_core ps = take (n + i) expected_products"
  have "expected_product (Suc (n + i)) (og_id org) i = expected_products ! (n + i)"
    using org i unfolding expected_products_def by (elim disjE conjE) (simp_all add: nth_append)
  moreover have "n + i < 10" using org i by auto
  ultimately show "makes (seed_product org i ps) (\<lambda>ps. map product_core ps = take (n + Suc i) expected_products)"
    unfolding add_Suc_right by (intro makes_product [OF assms(1,2) ps])
qed (simp add: products)

lemma makes_products:
  assumes "good_orgs y orgs" and "y < 9999"
  shows "makes (seed_products orgs) (\<lambda>ps. map product_core ps = expected_products)"
proof -
  obtain a b where o: "orgs = [a, b]" "og_id a = 1" "og_id b = 2" "og_name a = ''Acme Corp''"
    "og_name b = ''Globex Inc''" "dated y (og_created_at a)" "dated y (og_created_at b)"
    by (rule good_orgs_cases [OF assms(1)])
  have ten: "expected_products = take (6 + 4) expected_products" by (simp add: expected_products_def)
  show ?thesis
    unfolding seed_products_def o(1) each.simps dict_at_def o(2,3) products_per_org_def
    by (simp, rule makes_seq [OF makes_org_products [OF o(6) assms(2), of 6 0]], simp_all add: o)
      (subst ten, rule makes_org_products [OF o(7) assms(2), of 4 6], simp_all add: o)
qed

section \<open>Customers\<close>

definition good_customer :: "int \<Rightarrow> customer_row \<Rightarrow> bool" where
  "good_customer y c \<longleftrightarrow> dated y (cu_created_at c)
     \<and> (\<forall>r. cu_region_id c = Some r \<longrightarrow> 1 \<le> r \<and> r \<le> 4)
     \<and> length (cu_name c) \<le> 20 \<and> length (cu_segment c) \<le> 20
     \<and> (\<forall>s. cu_contact_email c = Some s \<longrightarrow> length s \<le> 40)
     \<and> (\<forall>s. cu_contact_phone c = Some s \<longrightarrow> length s \<le> 20)"

definition good_customers :: "int \<Rightarrow> nat \<Rightarrow> nat \<Rightarrow> customer_row list \<Rightarrow> bool" where
  "good_customers y n m cs \<longleftrightarrow> numbered cu_id cs \<and> (\<forall>c\<in>set cs. good_customer y c)
     \<and> map cu_organization_id cs = replicate n 1 @ replicate m 2"

lemma length_show_nat: "n < 10 ^ k \<Longrightarrow> length (show_nat n) \<le> max 1 k"
proof (induction n arbitrary: k rule: show_nat.induct)
  case (1 n)
  show ?case
  proof (cases "n < 10")
    case False
    with 1(2) obtain j where k: "k = Suc j" by (cases k) auto
    have "n div 10 < 10 ^ j" using 1(2) k by (simp add: less_mult_imp_div_less mult.commute)
    moreover have "1 \<le> j" using False 1(2) k by (cases j) auto
    ultimately show ?thesis using 1(1) [OF False, of j] False k
      by (subst show_nat.simps) simp
  qed (subst show_nat.simps, simp)
qed

lemma length_pad_zeros: "0 \<le> i \<Longrightarrow> i < 10 ^ n \<Longrightarrow> 0 < n \<Longrightarrow> length (pad_zeros n i) = n"
  using length_show_nat [of "nat i" n]
  by (simp add: pad_zeros_def show_int_def nat_less_iff Let_def)

lemma makes_customer_region:
  "makes (customer_region b) (\<lambda>r. \<forall>i. r = Some i \<longrightarrow> 1 \<le> i \<and> i \<le> 4)"
  unfolding customer_region_def by (auto intro!: makes_seq [OF makes_randint [where Q = "\<lambda>r. 1 \<le> r \<and> r \<le> 4"]])

lemma makes_customer:
  assumes "dated y (og_created_at org)" and "y < 9998" and "i < 8" and "length cs < 20"
    and cs: "numbered cu_id cs" "\<forall>c\<in>set cs. good_customer (y + 1) c"
  shows "makes (seed_customer org i cs) (\<lambda>cs'. numbered cu_id cs' \<and> (\<forall>c\<in>set cs'. good_customer (y + 1) c)
    \<and> map cu_organization_id cs' = map cu_organization_id cs @ [og_id org])"
proof -
  have l: "length (show_nat (Suc (length cs))) \<le> 2"
    using length_show_nat [of "Suc (length cs)" 2] assms(4) by simp
  have p: "length (pad_zeros 2 (int (Suc (length cs)))) = 2"
    using assms(4) by (intro length_pad_zeros) simp_all
  have s: "length ([''smb'', ''mid_market'', ''enterprise''] ! (i mod 3)) \<le> 20"
    by (rule allI [THEN spec [of "\<lambda>j. length ([''smb'', ''mid_market'', ''enterprise''] ! (j mod 3)) \<le> 20"]])
      (use less_3 [of "i mod 3" for i] in \<open>auto simp: nth_Cons split: nat.splits\<close>)
  show ?thesis
    unfolding seed_customer_def Let_def
    by (rule makes_seq [OF makes_customer_region makes_seq [OF makes_later [OF assms(1)]]])
      (use assms cs l p s in \<open>auto simp: good_customer_def\<close>)
qed

lemma makes_org_customers:
  assumes "dated y (og_created_at org)" and "y < 9998" and "k \<le> 8"
    and cs: "numbered cu_id cs" "\<forall>c\<in>set cs. good_customer (y + 1) c"
      "map cu_organization_id cs = pre" "length pre \<le> 8"
  shows "makes (each (seed_customer org) [0..<k] cs) (\<lambda>cs'. numbered cu_id cs'
    \<and> (\<forall>c\<in>set cs'. good_customer (y + 1) c) \<and> map cu_organization_id cs' = pre @ replicate k (og_id org))"
    (is "makes _ (?I k)")
proof (rule makes_upto [where I = ?I])
  fix i s assume "i < k" and I: "?I i s"
  then have "length s = length pre + i" by (metis length_append length_map length_replicate)
  then have "length s < 20" using \<open>i < k\<close> assms(3) cs(4) by simp
  then show "makes (seed_customer org i s) (?I (Suc i))"
    using makes_customer [OF assms(1,2), of i s] I \<open>i < k\<close> assms(3)
    by (auto elim!: makes_conseq simp: replicate_append_same)
qed (use cs in simp)

lemma makes_customers:
  assumes "good_orgs y orgs" and "y < 9998"
  shows "makes (seed_customers orgs) (good_customers (y + 1) 8 5)"
proof -
  obtain a b where o: "orgs = [a, b]" "og_id a = 1" "og_id b = 2" "og_name a = ''Acme Corp''"
    "og_name b = ''Globex Inc''" "dated y (og_created_at a)" "dated y (og_created_at b)"
    by (rule good_orgs_cases [OF assms(1)])
  show ?thesis
    unfolding seed_customers_def o(1) each.simps dict_at_def o(2,3) customers_per_org_def
    by (simp, rule makes_seq [OF makes_org_customers [OF o(6) assms(2), of 8 "[]" "[]"]], simp_all add: o(2))
      (rule makes_conseq [OF makes_org_customers [OF o(7) assms(2)]], simp_all add: o(3) good_customers_def)
qed

end
