(* ===== verification/SeedLedger.thy ===== *)
theory SeedLedger
  imports SeedPhases
begin

text \<open>
  The orders of the sample data with their items, payments and refunds: what one order adds, and
  that the ledger stays linked within the organizations and balanced. Then the subscriptions and
  the support tickets.
\<close>

section \<open>What an order adds\<close>

definition item_sum :: "item_row list \<Rightarrow> rat" where
  "item_sum items = (\<Sum>i\<leftarrow>items. of_int (it_quantity i) * it_unit_price i)"

definition has_customer :: "customer_row list \<Rightarrow> int \<Rightarrow> int \<Rightarrow> bool" where
  "has_customer cs cid org \<longleftrightarrow> (\<exists>c\<in>set cs. cu_id c = cid \<and> cu_organization_id c = org)"

definition has_product :: "product_row list \<Rightarrow> int \<Rightarrow> int \<Rightarrow> bool" where
  "has_product ps pid org \<longleftrightarrow> (\<exists>p\<in>set ps. pr_id p = pid \<and> pr_organization_id p = org)"

definition has_order :: "order_row list \<Rightarrow> int \<Rightarrow> int \<Rightarrow> bool" where
  "has_order os oid org \<longleftrightarrow> (\<exists>r\<in>set os. or_id r = oid \<and> or_organization_id r = org)"

definition has_payment :: "payment_row list \<Rightarrow> int \<Rightarrow> int \<Rightarrow> bool" where
  "has_payment ps pid org \<longleftrightarrow> (\<exists>p\<in>set ps. pm_id p = pid \<and> pm_organization_id p = org)"

definition good_item :: "product_row list \<Rightarrow> item_row \<Rightarrow> bool" where
  "good_item ps i \<longleftrightarrow> 1 \<le> it_quantity i \<and> it_quantity i \<le> 5 \<and> parts 2 1000 (it_unit_price i)
     \<and> has_product ps (it_product_id i) (it_organization_id i)"

definition short_text :: "string option \<Rightarrow> nat \<Rightarrow> bool" where
  "short_text t n \<longleftrightarrow> (\<forall>s. t = Some s \<longrightarrow> length s \<le> n)"

definition good_payment :: "payment_row \<Rightarrow> bool" where
  "good_payment p \<longleftrightarrow> parts 2 15000 (pm_amount p) \<and> length (pm_method p) \<le> 20
     \<and> length (pm_status p) \<le> 20 \<and> short_text (pm_card_last4 p) 4 \<and> short_text (pm_payment_token p) 64"

definition good_refund :: "refund_row \<Rightarrow> bool" where
  "good_refund r \<longleftrightarrow> parts 4 30000 (rf_amount r) \<and> length (rf_reason r) \<le> 200"

definition adds_items :: "product_row list \<Rightarrow> int \<Rightarrow> int \<Rightarrow> item_row list \<Rightarrow> item_row list \<Rightarrow> bool" where
  "adds_items ps org oid old new \<longleftrightarrow> numbered it_id (old @ new) \<and> (\<forall>i\<in>set new. good_item ps i
     \<and> it_organization_id i = org \<and> it_order_id i = oid)"

definition adds_payment :: "order_row \<Rightarrow> rat \<Rightarrow> payment_row list \<Rightarrow> payment_row list \<Rightarrow> bool" where
  "adds_payment r amount old new \<longleftrightarrow> (if is_paid (or_status r)
     then \<exists>p. new = [p] \<and> pm_id p = int (Suc (length old)) \<and> pm_order_id p = or_id r
       \<and> pm_organization_id p = or_organization_id r \<and> pm_amount p = amount \<and> good_payment p
     else new = [])"

definition adds_refund :: "order_row \<Rightarrow> rat \<Rightarrow> payment_row list \<Rightarrow> refund_row list \<Rightarrow> refund_row list \<Rightarrow> bool" where
  "adds_refund r amount payments old new \<longleftrightarrow> (if or_status r = ''refunded''
     then \<exists>f. new = [f] \<and> rf_id f = int (Suc (length old)) \<and> rf_order_id f = or_id r
       \<and> rf_organization_id f = or_organization_id r \<and> rf_payment_id f = int (length payments)
       \<and> (rf_amount f = amount \<or> rf_amount f = amount / 2) \<and> good_refund f
     else new = [])"

definition adds_order :: "customer_row list \<Rightarrow> product_row list \<Rightarrow> int \<Rightarrow> ledger \<Rightarrow> ledger \<Rightarrow> bool" where
  "adds_order cs ps org lg lg' \<longleftrightarrow> (\<exists>r new pay ref.
     lg' = lg\<lparr> lg_orders := lg_orders lg @ [r], lg_items := lg_items lg @ new,
       lg_payments := lg_payments lg @ pay, lg_refunds := lg_refunds lg @ ref \<rparr>
     \<and> or_id r = int (Suc (length (lg_orders lg))) \<and> or_organization_id r = org
     \<and> or_status r \<in> set order_statuses \<and> has_customer cs (or_customer_id r) org
     \<and> adds_items ps org (or_id r) (lg_items lg) new
     \<and> adds_payment r (item_sum new) (lg_payments lg) pay
     \<and> adds_refund r (item_sum new) (lg_payments lg @ pay) (lg_refunds lg) ref)"

section \<open>The steps of an order\<close>

definition good_products :: "product_row list \<Rightarrow> bool" where
  "good_products ps \<longleftrightarrow> (\<forall>p\<in>set ps. parts 2 1000 (pr_unit_price p))"

definition items_so_far :: "product_row list \<Rightarrow> int \<Rightarrow> int \<Rightarrow> item_row list \<Rightarrow> nat \<Rightarrow> rat \<times> item_row list \<Rightarrow> bool" where
  "items_so_far ps org oid old n s \<longleftrightarrow> (\<exists>new. snd s = old @ new \<and> adds_items ps org oid old new
     \<and> fst s = item_sum new \<and> parts 2 (5000 * int n) (item_sum new))"

lemma makes_item:
  assumes ps: "org_products ps org \<noteq> []" "good_products ps"
    and s: "items_so_far ps (og_id org) oid old n s"
  shows "makes (add_item (org_products ps org) org oid i s) (items_so_far ps (og_id org) oid old (Suc n))"
proof -
  obtain new where new: "s = (item_sum new, old @ new)" "adds_items ps (og_id org) oid old new"
    "parts 2 (5000 * int n) (item_sum new)"
    using s unfolding items_so_far_def by (cases s) auto
  show ?thesis
    unfolding new(1) add_item_def Let_def split_conv
  proof (rule makes_seq [OF makes_choice [OF ps(1)]])
    fix p :: product_row assume "p \<in> set (org_products ps org)"
    then have p: "p \<in> set ps" "pr_organization_id p = og_id org" by (auto simp: org_products_def)
    then have price: "parts 2 1000 (pr_unit_price p)" using ps(2) by (simp add: good_products_def)
    have r: "round2 (pr_unit_price p) = pr_unit_price p" by (rule round2_parts [OF price]) simp
    show "makes (seq (randint 1 5) (\<lambda>qty. give (item_sum new + of_nat qty * pr_unit_price p,
        (old @ new) @ [\<lparr> it_id = int (length (old @ new) + 1), it_organization_id = og_id org,
           it_order_id = oid, it_product_id = pr_id p, it_quantity = int qty,
           it_unit_price = round2 (pr_unit_price p) \<rparr>])))
        (items_so_far ps (og_id org) oid old (Suc n))"
    proof (rule makes_seq [OF makes_randint [where Q = "\<lambda>q. 1 \<le> q \<and> q \<le> 5"]])
      fix q :: nat assume q: "1 \<le> q \<and> q \<le> 5"
      define it where "it = \<lparr> it_id = int (length (old @ new) + 1), it_organization_id = og_id org,
           it_order_id = oid, it_product_id = pr_id p, it_quantity = int q,
           it_unit_price = round2 (pr_unit_price p) \<rparr>"
      have f: "it_id it = int (length (old @ new) + 1)" "it_organization_id it = og_id org"
        "it_order_id it = oid" "it_product_id it = pr_id p" "it_quantity it = int q"
        "it_unit_price it = pr_unit_price p"
        by (simp_all add: it_def r)
      have it: "good_item ps it"
        using p q price f unfolding good_item_def has_product_def by auto
      have "adds_items ps (og_id org) oid old (new @ [it])"
        using new(2) it f unfolding adds_items_def by (auto simp flip: append_assoc)
      moreover have "item_sum (new @ [it]) = item_sum new + of_nat q * pr_unit_price p"
        by (simp add: item_sum_def f)
      moreover have "parts 2 (5000 * int (Suc n)) (item_sum new + of_nat q * pr_unit_price p)"
        using parts_add [OF new(3) parts_times [OF price, of q 5]] q by (simp add: algebra_simps)
      ultimately show "makes (give (item_sum new + of_nat q * pr_unit_price p, (old @ new) @ [it]))
          (items_so_far ps (og_id org) oid old (Suc n))"
        unfolding makes_give items_so_far_def by (intro exI [of _ "new @ [it]"]) simp
    qed simp_all
  qed
qed

lemma makes_items:
  assumes "org_products ps org \<noteq> []" "good_products ps" "numbered it_id old" and n: "n \<le> 3"
  shows "makes (each (add_item (org_products ps org) org oid) [0..<n] (0, old))
    (\<lambda>s. \<exists>new. snd s = old @ new \<and> adds_items ps (og_id org) oid old new \<and> fst s = item_sum new
       \<and> parts 2 15000 (item_sum new))"
proof (rule makes_conseq)
  show "makes (each (add_item (org_products ps org) org oid) [0..<n] (0, old))
      (items_so_far ps (og_id org) oid old n)"
  proof (rule makes_upto)
    show "items_so_far ps (og_id org) oid old 0 (0, old)"
      using assms(3) by (simp add: items_so_far_def adds_items_def item_sum_def parts_def)
  qed (rule makes_item [OF assms(1,2)])
  fix s assume "items_so_far ps (og_id org) oid old n s"
  moreover have "5000 * int n \<le> 15000" using n by simp
  ultimately show "\<exists>new. snd s = old @ new \<and> adds_items ps (og_id org) oid old new \<and> fst s = item_sum new
       \<and> parts 2 15000 (item_sum new)"
    unfolding items_so_far_def using parts_mono by blast
qed

lemma length_hex_digits [simp]: "length (hex_digits k n) = k"
  by (induction k n rule: hex_digits.induct) simp_all

lemma makes_card_fields:
  "makes (card_fields payment_method) (\<lambda>s. short_text (fst s) 4 \<and> short_text (snd s) 64)"
proof -
  have "length (pad_zeros 4 (int n)) = 4" if "n \<le> 9999" for n
    using that by (intro length_pad_zeros) simp_all
  then show ?thesis
    unfolding card_fields_def
    by (auto simp: short_text_def intro!: makes_seq [OF makes_randint [where Q = "\<lambda>n. n \<le> 9999"]]
        makes_seq [OF makes_randrange [where Q = "\<lambda>_. True"]])
qed

lemma makes_payment:
  assumes at: "dated y day" "y < 9999" and amount: "parts 2 15000 amount" and status: "is_paid (or_status r)"
    and r: "or_organization_id r = og_id org"
  shows "makes (add_payment org (or_id r) amount day lg) (\<lambda>lg'. \<exists>pay.
    lg' = lg\<lparr> lg_payments := lg_payments lg @ pay \<rparr> \<and> adds_payment r amount (lg_payments lg) pay)"
proof -
  have round: "round2 amount = amount" by (rule round2_parts [OF amount]) simp
  show ?thesis
    unfolding add_payment_def Let_def round
    by (rule makes_seq [OF makes_choice [where Q = "\<lambda>m. length m \<le> 20"]],
        simp, force, rule makes_seq [OF makes_card_fields], simp only: split_beta,
        rule makes_seq [OF makes_later [OF at(1) _ at(2)]], simp, simp only: makes_give,
        rule exI [of _ "[p]" for p], rule conjI, rule refl)
      (use amount r status in \<open>simp add: adds_payment_def good_payment_def\<close>)
qed

lemma makes_refund:
  assumes at: "dated y day" "y < 9999" and amount: "parts 2 15000 amount"
    and status: "or_status r = ''refunded''" and r: "or_organization_id r = og_id org"
  shows "makes (add_refund org (or_id r) amount day lg) (\<lambda>lg'. \<exists>ref.
    lg' = lg\<lparr> lg_refunds := lg_refunds lg @ ref \<rparr>
    \<and> adds_refund r amount (lg_payments lg) (lg_refunds lg) ref)"
proof -
  have q: "parts 4 30000 amount" "parts 4 30000 (amount / 2)"
    using halves_are_quarters [OF amount] parts_mono [OF half_of_halves [OF amount], of 30000] by simp_all
  show ?thesis
    unfolding add_refund_def Let_def
  proof (rule makes_seq [OF makes_choice [where Q = "\<lambda>s. s = 1 / 2 \<or> s = 1"]])
    fix share :: rat assume s: "share = 1 / 2 \<or> share = 1"
    then have either: "amount * share = amount \<or> amount * share = amount / 2" by auto
    then have "parts 4 30000 (amount * share)" using q by metis
    with either have round: "round2 (amount * share) = amount * share"
      "amount * share = amount \<or> amount * share = amount / 2" "parts 4 30000 (amount * share)"
      using round2_parts [of 4 30000 "amount * share"] by simp_all
    show "makes (seq (choice [''defective'', ''customer_request'', ''duplicate'']) (\<lambda>reason.
       seq (randint 2 20) (\<lambda>days. seq (later day days) (\<lambda>refunded_at.
         give (lg\<lparr> lg_refunds := lg_refunds lg @
           [\<lparr> rf_id = int (length (lg_refunds lg) + 1), rf_organization_id = og_id org, rf_order_id = or_id r,
              rf_payment_id = int (length (lg_payments lg)), rf_amount = round2 (amount * share),
              rf_reason = reason, rf_refunded_at = refunded_at \<rparr>] \<rparr>)))))
      (\<lambda>lg'. \<exists>ref. lg' = lg\<lparr> lg_refunds := lg_refunds lg @ ref \<rparr>
        \<and> adds_refund r amount (lg_payments lg) (lg_refunds lg) ref)"
      unfolding round(1)
      by (rule makes_seq [OF makes_choice [where Q = "\<lambda>s. length s \<le> 200"]], simp, force,
          rule makes_seq [OF makes_randint [where Q = "\<lambda>n. n \<le> 20"]], simp, simp,
          rule makes_seq [OF makes_later [OF at(1) _ at(2)]], simp, simp only: makes_give,
          rule exI [of _ "[p]" for p], rule conjI, rule refl)
        (use round(2,3) r status in \<open>simp add: adds_refund_def good_refund_def\<close>)
  qed auto
qed

lemma makes_settle:
  assumes at: "dated y day" "y < 9999" and amount: "parts 2 15000 amount"
    and r: "or_organization_id r = og_id org"
  shows "makes (settle org (or_id r) (or_status r) amount day lg) (\<lambda>lg'. \<exists>pay ref.
    lg' = lg\<lparr> lg_payments := lg_payments lg @ pay, lg_refunds := lg_refunds lg @ ref \<rparr>
    \<and> adds_payment r amount (lg_payments lg) pay
    \<and> adds_refund r amount (lg_payments lg @ pay) (lg_refunds lg) ref)"
proof (cases "is_paid (or_status r)")
  case False
  then have "or_status r \<noteq> ''refunded''" by (auto simp: is_paid_def)
  with False show ?thesis by (simp add: settle_def adds_payment_def adds_refund_def)
next
  case True
  show ?thesis
  proof (cases "or_status r = ''refunded''")
    case False
    with True show ?thesis unfolding settle_def
      by (auto intro!: makes_conseq [OF makes_payment [OF at amount True r]] simp: adds_refund_def)
  next
    case ref: True
    show ?thesis
      unfolding settle_def if_P [OF True] if_P [OF ref]
    proof (rule makes_seq [OF makes_payment [OF at amount True r]], elim exE conjE)
      fix lg1 pay assume 1: "lg1 = lg\<lparr> lg_payments := lg_payments lg @ pay \<rparr>"
        "adds_payment r amount (lg_payments lg) pay"
      show "makes (add_refund org (or_id r) amount day lg1) (\<lambda>lg'. \<exists>pay ref.
          lg' = lg\<lparr> lg_payments := lg_payments lg @ pay, lg_refunds := lg_refunds lg @ ref \<rparr>
          \<and> adds_payment r amount (lg_payments lg) pay
          \<and> adds_refund r amount (lg_payments lg @ pay) (lg_refunds lg) ref)"
        by (rule makes_conseq [OF makes_refund [OF at amount ref r]]) (use 1 in auto)
    qed
  qed
qed

lemma makes_place_order:
  assumes custs: "org_customers cs org \<noteq> []" and ps: "org_products ps org \<noteq> []" "good_products ps"
    and anchors: "anchors \<noteq> []" "\<forall>t\<in>set anchors. dated y t" and y: "y < 9998"
    and lg: "numbered it_id (lg_items lg)"
  shows "makes (place_order (org_customers cs org) (org_products ps org) anchors org i lg)
    (adds_order cs ps (og_id org) lg)"
  unfolding place_order_def Let_def
proof (rule makes_seq [OF makes_choice [OF custs, where Q = "\<lambda>c. c \<in> set (org_customers cs org)"]], assumption,
    rule makes_seq [OF makes_choice [OF anchors(1), where Q = "\<lambda>t. t \<in> set anchors"]], assumption, rule makes_seq [OF makes_randint [where Q = "\<lambda>n. n \<le> 365"]], simp, simp)
  fix cust day n
  assume cust: "cust \<in> set (org_customers cs org)" and day: "day \<in> set anchors" and n: "n \<le> (365::nat)"
  have c: "has_customer cs (cu_id cust) (og_id org)"
    using cust by (auto simp: org_customers_def has_customer_def)
  have day: "dated y day" using anchors(2) day by blast
  let ?oid = "int (length (lg_orders lg) + 1)"
  show "makes (seq (later day n) (\<lambda>ordered_at. seq (choice order_statuses) (\<lambda>status.
         seq (randint 1 3) (\<lambda>n_items.
           seq (each (add_item (org_products ps org) org ?oid) [0..<n_items] (0, lg_items lg))
             (\<lambda>(order_total, items).
             settle org ?oid status order_total ordered_at (lg\<lparr> lg_orders := lg_orders lg @
               [\<lparr> or_id = ?oid, or_organization_id = og_id org, or_customer_id = cu_id cust,
                  or_status = status, or_ordered_at = ordered_at, or_created_at = ordered_at,
                  or_deleted_at = None \<rparr>], lg_items := items \<rparr>))))))
      (adds_order cs ps (og_id org) lg)"
  proof (rule makes_seq [OF makes_later [OF day n]], use y in simp,
      rule makes_seq [OF makes_choice [where Q = "\<lambda>s. s \<in> set order_statuses"]], simp add: order_statuses_def,
      assumption, rule makes_seq [OF makes_randint [where Q = "\<lambda>n. n \<le> 3"]], simp, simp,
      rule makes_seq [OF makes_items [OF ps lg]], assumption, elim exE conjE)
    fix ordered status s new and k :: nat
    assume o: "dated (y + 1) ordered" "status \<in> set order_statuses"
      and s: "snd s = lg_items lg @ new" "adds_items ps (og_id org) ?oid (lg_items lg) new"
        "fst s = item_sum new" "parts 2 15000 (item_sum new)"
    define r where "r = \<lparr> or_id = ?oid, or_organization_id = og_id org, or_customer_id = cu_id cust,
      or_status = status, or_ordered_at = ordered, or_created_at = ordered, or_deleted_at = None \<rparr>"
    have f: "or_id r = ?oid" "or_organization_id r = og_id org" "or_customer_id r = cu_id cust" "or_status r = status"
      by (simp_all add: r_def)
    have y1: "y + 1 < 9999" using y by simp
    have "makes (settle org (or_id r) (or_status r) (item_sum new) ordered
        (lg\<lparr> lg_orders := lg_orders lg @ [r], lg_items := lg_items lg @ new \<rparr>)) (adds_order cs ps (og_id org) lg)"
    proof (rule makes_conseq [OF makes_settle [OF o(1) y1 s(4) f(2)]], elim exE conjE)
      fix lg' pay ref
      assume "lg' = lg\<lparr> lg_orders := lg_orders lg @ [r], lg_items := lg_items lg @ new \<rparr>
          \<lparr> lg_payments := lg_payments (lg\<lparr> lg_orders := lg_orders lg @ [r], lg_items := lg_items lg @ new \<rparr>) @ pay,
            lg_refunds := lg_refunds (lg\<lparr> lg_orders := lg_orders lg @ [r], lg_items := lg_items lg @ new \<rparr>) @ ref \<rparr>"
      moreover assume "adds_payment r (item_sum new)
          (lg_payments (lg\<lparr> lg_orders := lg_orders lg @ [r], lg_items := lg_items lg @ new \<rparr>)) pay"
        "adds_refund r (item_sum new)
          (lg_payments (lg\<lparr> lg_orders := lg_orders lg @ [r], lg_items := lg_items lg @ new \<rparr>) @ pay)
          (lg_refunds (lg\<lparr> lg_orders := lg_orders lg @ [r], lg_items := lg_items lg @ new \<rparr>)) ref"
      ultimately show "adds_order cs ps (og_id org) lg lg'"
        unfolding adds_order_def
        by (intro exI [of _ r] exI [of _ new] exI [of _ pay] exI [of _ ref]) (use o(2) s(2) c f in simp)
    qed
    then show "makes (case s of (order_total, items) \<Rightarrow>
        settle org ?oid status order_total ordered (lg\<lparr> lg_orders := lg_orders lg @
               [\<lparr> or_id = ?oid, or_organization_id = og_id org, or_customer_id = cu_id cust,
                  or_status = status, or_ordered_at = ordered, or_created_at = ordered,
                  or_deleted_at = None \<rparr>], lg_items := items \<rparr>)) (adds_order cs ps (og_id org) lg)"
      unfolding f(1,4) r_def [symmetric] split_beta s(1,3) .
  qed
qed

section \<open>The ledger\<close>

definition items_total :: "item_row list \<Rightarrow> int \<Rightarrow> rat" where
  "items_total items oid = item_sum (filter (\<lambda>i. it_order_id i = oid) items)"

definition refunds_payment :: "refund_row \<Rightarrow> payment_row \<Rightarrow> bool" where
  "refunds_payment f p \<longleftrightarrow> pm_id p = rf_payment_id f \<and> pm_order_id p = rf_order_id f
     \<and> pm_organization_id p = rf_organization_id f
     \<and> (rf_amount f = pm_amount p \<or> rf_amount f = pm_amount p / 2)"

text \<open>
  Exactly the paid, shipped and refunded orders have a payment, of the order's total; exactly the
  refunded ones a refund, of all or half of their payment.
\<close>

definition balanced :: "ledger \<Rightarrow> bool" where
  "balanced lg \<longleftrightarrow>
     map pm_order_id (lg_payments lg) = map or_id (filter (\<lambda>r. is_paid (or_status r)) (lg_orders lg))
     \<and> (\<forall>p\<in>set (lg_payments lg). pm_amount p = items_total (lg_items lg) (pm_order_id p))
     \<and> map rf_order_id (lg_refunds lg) = map or_id (filter (\<lambda>r. or_status r = ''refunded'') (lg_orders lg))
     \<and> (\<forall>f\<in>set (lg_refunds lg). \<exists>p\<in>set (lg_payments lg). refunds_payment f p)"

definition linked :: "customer_row list \<Rightarrow> ledger \<Rightarrow> bool" where
  "linked cs lg \<longleftrightarrow>
     (\<forall>r\<in>set (lg_orders lg). has_customer cs (or_customer_id r) (or_organization_id r))
     \<and> (\<forall>i\<in>set (lg_items lg). has_order (lg_orders lg) (it_order_id i) (it_organization_id i))
     \<and> (\<forall>p\<in>set (lg_payments lg). has_order (lg_orders lg) (pm_order_id p) (pm_organization_id p))
     \<and> (\<forall>f\<in>set (lg_refunds lg). has_order (lg_orders lg) (rf_order_id f) (rf_organization_id f))"

definition well_shaped :: "product_row list \<Rightarrow> ledger \<Rightarrow> bool" where
  "well_shaped ps lg \<longleftrightarrow> numbered or_id (lg_orders lg) \<and> numbered it_id (lg_items lg)
     \<and> numbered pm_id (lg_payments lg) \<and> numbered rf_id (lg_refunds lg)
     \<and> (\<forall>r\<in>set (lg_orders lg). or_status r \<in> set order_statuses \<and> or_organization_id r \<in> {1, 2})
     \<and> (\<forall>i\<in>set (lg_items lg). good_item ps i \<and> it_organization_id i \<in> {1, 2})
     \<and> (\<forall>p\<in>set (lg_payments lg). good_payment p \<and> pm_organization_id p \<in> {1, 2})
     \<and> (\<forall>f\<in>set (lg_refunds lg). good_refund f \<and> rf_organization_id f \<in> {1, 2})"

lemma well_shaped_step:
  assumes "adds_order cs ps org lg lg'" and "well_shaped ps lg" and "org \<in> {1, 2}"
  shows "well_shaped ps lg'"
  using assms unfolding adds_order_def
  by (elim exE conjE)
    (auto simp: well_shaped_def adds_items_def adds_payment_def adds_refund_def split: if_splits)

lemma linked_step:
  assumes "adds_order cs ps org lg lg'" and "linked cs lg"
  shows "linked cs lg'"
  using assms unfolding adds_order_def
  by (elim exE conjE)
    (auto simp: linked_def has_order_def adds_items_def adds_payment_def adds_refund_def split: if_splits)

lemma balanced_step:
  assumes step: "adds_order cs ps org lg lg'" and lg: "balanced lg" "linked cs lg" "well_shaped ps lg"
  shows "balanced lg'"
proof -
  obtain r new pay ref where lg': "lg' = lg\<lparr> lg_orders := lg_orders lg @ [r], lg_items := lg_items lg @ new,
       lg_payments := lg_payments lg @ pay, lg_refunds := lg_refunds lg @ ref \<rparr>"
    and r: "or_id r = int (Suc (length (lg_orders lg)))"
    and new: "adds_items ps org (or_id r) (lg_items lg) new"
    and pay: "adds_payment r (item_sum new) (lg_payments lg) pay"
    and ref: "adds_refund r (item_sum new) (lg_payments lg @ pay) (lg_refunds lg) ref"
    using step unfolding adds_order_def by blast
  have ids: "has_order (lg_orders lg) oid g \<Longrightarrow> oid \<noteq> or_id r" for oid g
    using lg(3) r numbered_range [of or_id "lg_orders lg"] unfolding well_shaped_def has_order_def by fastforce
  have other: "oid \<noteq> or_id r \<Longrightarrow> items_total (lg_items lg @ new) oid = items_total (lg_items lg) oid" for oid
    using new by (auto simp: items_total_def adds_items_def filter_empty_conv)
  have mine: "items_total (lg_items lg @ new) (or_id r) = item_sum new"
  proof -
    have "filter (\<lambda>i. it_order_id i = or_id r) (lg_items lg) = []"
      using lg(2) ids unfolding linked_def by (fastforce simp: filter_empty_conv)
    moreover have "filter (\<lambda>i. it_order_id i = or_id r) new = new"
      using new by (auto simp: adds_items_def filter_id_conv)
    ultimately show ?thesis by (simp add: items_total_def)
  qed
  have pm: "\<forall>p\<in>set (lg_payments lg). pm_amount p = items_total (lg_items lg @ new) (pm_order_id p)"
    using lg(1,2) ids other unfolding balanced_def linked_def by metis
  show ?thesis
  proof (cases "is_paid (or_status r)")
    case False
    then have "or_status r \<noteq> ''refunded''" by (auto simp: is_paid_def)
    with False pm pay ref lg(1) show ?thesis
      unfolding lg' by (simp add: balanced_def adds_payment_def adds_refund_def)
  next
    case True
    with pm pay mine ref lg(1) show ?thesis
      unfolding lg' by (auto simp: balanced_def adds_payment_def adds_refund_def refunds_payment_def split: if_splits)
  qed
qed

end
