(* ===== verification/SeedRows.thy ===== *)
theory SeedRows
  imports SeedLedger
begin

text \<open>
  The remaining phases of \<open>seed_database\<close> over the rows made before them: the whole ledger, the
  subscriptions and the support tickets.
\<close>

section \<open>All orders\<close>

lemma year_before_base:
  assumes "good_base base" and "1 \<le> m" and "m \<le> 12"
  shows "instant (midnight (dt_year base - 1) m 15) < instant base"
proof -
  have v: "valid_datetime base" using assms(1) by (simp add: good_base_def)
  have "valid_cal (dt_year base - 1, m, 15)"
    using assms(2,3) days_in_month_pos(1) [of "dt_year base - 1" m] by (simp add: valid_cal_def)
  moreover have "valid_cal (dt_year base, dt_month base, dt_day base)"
    using valid_datetime_cal [OF v] by (simp add: date_of_def)
  ultimately have "ordinal (dt_year base - 1, m, 15) < ordinal (date_of base)"
    using ordinal_in_year(2) [of "dt_year base - 1" m 15]
      ordinal_in_year(1) [of "dt_year base" "dt_month base" "dt_day base"] by (simp add: date_of_def)
  then show ?thesis using time_of_day_range [OF v] by (simp add: instant_midnight instant_def)
qed

lemma makes_month_anchor:
  assumes "1 \<le> y" "y \<le> 9999" "1 \<le> m" "m \<le> 12"
  shows "makes (month_anchor base y m anchors) (\<lambda>as. as =
    (if instant (midnight y m 15) < instant base then anchors @ [midnight y m 15] else anchors))"
proof -
  have "mk_date y m 15 = Inr (midnight y m 15)"
    using assms days_in_month_pos(1) [of y m] by (simp add: mk_date_def valid_date_def)
  then show ?thesis
    unfolding month_anchor_def
    by (intro makes_seq [OF makes_lift [where Q = "\<lambda>t. t = midnight y m 15"]]) auto
qed

lemma makes_month_anchors:
  assumes base: "good_base base"
  shows "makes (month_anchors base) (\<lambda>as. as \<noteq> [] \<and> (\<forall>t\<in>set as. dated (dt_year base) t))"
proof -
  let ?y = "dt_year base"
  have y: "4 \<le> ?y" "?y \<le> 9990" using base by (auto simp: good_base_def)
  have d: "dated ?y (midnight y m 15)" if "1 \<le> y" "y \<le> ?y" "1 \<le> m" "m \<le> 12" for y m
    using that y days_in_month_pos(1) [of y m] by (simp add: dated_def valid_date_def)
  have months: "makes (each (month_anchor base z) [1..12] as)
      (\<lambda>as'. (as \<noteq> [] \<or> z = ?y - 1 \<longrightarrow> as' \<noteq> []) \<and> (\<forall>t\<in>set as'. dated ?y t))"
    if z: "1 \<le> z" "z \<le> ?y" and as: "\<forall>t\<in>set as. dated ?y t" for z as
  proof (rule makes_conseq [OF makes_each [where I = "\<lambda>pre as'. (as \<noteq> [] \<or> z = ?y - 1 \<and> pre \<noteq> [] \<longrightarrow> as' \<noteq> [])
      \<and> (\<forall>t\<in>set as'. dated ?y t)"]])
    fix pre m suf s assume "[1..12] = pre @ m # suf"
      and I: "(as \<noteq> [] \<or> z = ?y - 1 \<and> pre \<noteq> [] \<longrightarrow> s \<noteq> []) \<and> (\<forall>t\<in>set s. dated ?y t)"
    then have m: "1 \<le> m" "m \<le> 12" by (metis atLeastAtMost_iff in_set_conv_decomp set_upto)+
    show "makes (month_anchor base z m s) (\<lambda>as'. (as \<noteq> [] \<or> z = ?y - 1 \<and> pre @ [m] \<noteq> [] \<longrightarrow> as' \<noteq> [])
        \<and> (\<forall>t\<in>set as'. dated ?y t))"
      by (rule makes_conseq [OF makes_month_anchor [OF z(1) _ m]])
        (use z y I d [OF z m] year_before_base [OF base m] in auto)
  qed (use as in auto)
  show ?thesis
    unfolding month_anchors_def each.simps
  proof (rule makes_seq [OF months])
    fix as assume "(([] :: datetime list) \<noteq> [] \<or> ?y - 1 = ?y - 1 \<longrightarrow> as \<noteq> []) \<and> (\<forall>t\<in>set as. dated ?y t)"
    then show "makes (seq (each (month_anchor base ?y) [1..12] as) give)
        (\<lambda>as. as \<noteq> [] \<and> (\<forall>t\<in>set as. dated ?y t))"
      unfolding seq_give_id using y by (intro makes_conseq [OF months]) auto
  qed (use y in auto)
qed

definition good_ledger :: "customer_row list \<Rightarrow> product_row list \<Rightarrow> nat \<Rightarrow> ledger \<Rightarrow> bool" where
  "good_ledger cs ps n lg \<longleftrightarrow> well_shaped ps lg \<and> linked cs lg \<and> balanced lg \<and> length (lg_orders lg) = n"

lemma good_ledger_step:
  "adds_order cs ps org lg lg' \<Longrightarrow> org \<in> {1, 2} \<Longrightarrow> good_ledger cs ps n lg \<Longrightarrow> good_ledger cs ps (Suc n) lg'"
  unfolding good_ledger_def
  by (auto intro: well_shaped_step linked_step balanced_step) (auto simp: adds_order_def)

lemma org_rows:
  assumes "good_customers y 8 5 cs" and "map product_core ps = expected_products" and "og_id org \<in> {1, 2}"
  shows "org_customers cs org \<noteq> []" "org_products ps org \<noteq> []"
proof -
  have "og_id org \<in> set (map cu_organization_id cs)" using assms(1,3) by (auto simp: good_customers_def)
  then show "org_customers cs org \<noteq> []" by (auto simp: org_customers_def filter_empty_conv)
  have "map pr_organization_id ps = map pr_organization_id (map product_core ps)"
    by (simp add: product_core_def)
  also have "\<dots> = [1, 1, 1, 1, 1, 1, 2, 2, 2, 2]"
    unfolding assms(2) by (simp add: expected_products_def expected_product_def upt_rec)
  finally have "og_id org \<in> set (map pr_organization_id ps)" using assms(3) by auto
  then show "org_products ps org \<noteq> []" by (auto simp: org_products_def filter_empty_conv)
qed

lemma expected_prices: "\<forall>p\<in>set expected_products. parts 2 1000 (pr_unit_price p)"
proof -
  have "list_all (\<lambda>p. let k = \<lfloor>pr_unit_price p * 2\<rfloor> in 0 \<le> k \<and> k \<le> 1000 \<and> pr_unit_price p = of_int k / 2)
      expected_products" by code_simp
  then show ?thesis unfolding list_all_iff parts_def Let_def of_int_numeral by blast
qed

lemma expected_good_products:
  assumes "map product_core ps = expected_products"
  shows "good_products ps"
  unfolding good_products_def
proof
  fix p assume "p \<in> set ps"
  then have "product_core p \<in> set expected_products" unfolding assms [symmetric] by simp
  then show "parts 2 1000 (pr_unit_price p)" using expected_prices by (auto simp: product_core_def)
qed

lemma makes_orders:
  assumes base: "good_base base" and orgs: "good_orgs (dt_year base) orgs"
    and cs: "good_customers y 8 5 cs" and ps: "map product_core ps = expected_products"
  shows "makes (seed_orders orgs cs ps base) (good_ledger cs ps 85)"
  unfolding seed_orders_def
proof (rule makes_seq [OF makes_month_anchors [OF base]])
  fix as assume as: "as \<noteq> [] \<and> (\<forall>t\<in>set as. dated (dt_year base) t)"
  have y: "dt_year base < 9998" using base by (simp add: good_base_def)
  have org: "makes (org_orders cs ps as org lg) (good_ledger cs ps (n + (if og_id org = 1 then 60 else 25)))"
    if "og_id org \<in> {1, 2}" and lg: "good_ledger cs ps n lg" for org lg n
    unfolding org_orders_def
  proof (rule makes_upto [where I = "\<lambda>i. good_ledger cs ps (n + i)"])
    fix i s assume s: "good_ledger cs ps (n + i) s"
    then have "numbered it_id (lg_items s)" by (simp add: good_ledger_def well_shaped_def)
    then have "makes (place_order (org_customers cs org) (org_products ps org) as org i s)
        (adds_order cs ps (og_id org) s)"
      using as by (intro makes_place_order [OF org_rows [OF cs ps that(1)] expected_good_products [OF ps] _ _ y])
        auto
    then show "makes (place_order (org_customers cs org) (org_products ps org) as org i s)
        (good_ledger cs ps (n + Suc i))"
      unfolding add_Suc_right by (rule makes_conseq) (rule good_ledger_step [OF _ that(1) s])
  qed (simp add: lg)
  obtain a b where o: "orgs = [a, b]" "og_id a = 1" "og_id b = 2"
    by (rule good_orgs_cases [OF orgs])
  have "good_ledger cs ps 0 empty_ledger"
    by (simp add: good_ledger_def empty_ledger_def well_shaped_def linked_def balanced_def)
  from org [OF _ this, of a] o(2)
  show "makes (each (org_orders cs ps as) orgs empty_ledger) (good_ledger cs ps 85)"
    unfolding o(1) each.simps using org [of b 60] o(3) by (auto intro: makes_seq)
qed

section \<open>Subscriptions and tickets\<close>

definition good_subscription :: "customer_row list \<Rightarrow> subscription_row \<Rightarrow> bool" where
  "good_subscription cs s \<longleftrightarrow> sb_organization_id s \<in> {1, 2}
     \<and> has_customer cs (sb_customer_id s) (sb_organization_id s)
     \<and> length (sb_plan s) \<le> 20 \<and> length (sb_status s) \<le> 20 \<and> parts 1 499 (sb_mrr s)"

definition good_ticket :: "customer_row list \<Rightarrow> ticket_row \<Rightarrow> bool" where
  "good_ticket cs t \<longleftrightarrow> tk_organization_id t \<in> {1, 2}
     \<and> has_customer cs (tk_customer_id t) (tk_organization_id t)
     \<and> length (tk_subject t) \<le> 100 \<and> length (tk_status t) \<le> 20 \<and> length (tk_priority t) \<le> 10"

lemma makes_subscription:
  assumes c: "c \<in> set (org_customers cs org)" "dated y (cu_created_at c)" and y: "y < 9998"
    and org: "og_id org \<in> {1, 2}"
    and s: "numbered sb_id s \<and> (\<forall>x\<in>set s. good_subscription cs x)"
  shows "makes (seed_subscription org c s) (\<lambda>s. numbered sb_id s \<and> (\<forall>x\<in>set s. good_subscription cs x))"
proof -
  have h: "has_customer cs (cu_id c) (og_id org)" using c(1) by (auto simp: org_customers_def has_customer_def)
  have mrr: "parts 1 499 m" if "m \<in> set [49, 99, 199, 499]" for m :: rat
    using that unfolding parts_def by (auto intro: exI [of _ 49] exI [of _ 99] exI [of _ 199] exI [of _ 499])
  have y1: "y + 1 < 9999" using y by simp
  show ?thesis
    unfolding seed_subscription_def Let_def
  proof (rule makes_seq [OF makes_random_unit [where Q = "\<lambda>_. True"]], simp, split if_split,
      intro conjI impI)
    show "makes (seq (choice [''active'', ''active'', ''canceled'', ''past_due'']) (\<lambda>status.
         seq (later (cu_created_at c) 5) (\<lambda>started.
           seq (choice [''pro'', ''enterprise'', ''free'']) (\<lambda>plan.
             seq (choice [49, 99, 199, 499]) (\<lambda>mrr.
               seq (when_some (status = ''canceled'') (later started 200)) (\<lambda>canceled.
                 give (s @ [\<lparr> sb_id = int (length s + 1), sb_organization_id = og_id org,
                   sb_customer_id = cu_id c, sb_plan = plan, sb_status = status,
                   sb_mrr = round2 mrr, sb_started_at = started, sb_canceled_at = canceled \<rparr>]))))))
       ) (\<lambda>s. numbered sb_id s \<and> (\<forall>x\<in>set s. good_subscription cs x))"
    proof (rule makes_seq [OF makes_choice [where Q = "\<lambda>x. length x \<le> 20"]], simp, force,
        rule makes_seq [OF makes_later [OF c(2)]], simp, use y in simp,
        rule makes_seq [OF makes_choice [where Q = "\<lambda>x. length x \<le> 20"]], simp, force,
        rule makes_seq [OF makes_choice [where Q = "parts 1 499"]], simp, rule mrr, assumption)
      fix status plan :: string and started and mrr :: rat
      assume a: "length status \<le> 20" "dated (y + 1) started" "length plan \<le> 20" "parts 1 499 mrr"
      show "makes (seq (when_some (status = ''canceled'') (later started 200)) (\<lambda>canceled.
                 give (s @ [\<lparr> sb_id = int (length s + 1), sb_organization_id = og_id org,
                   sb_customer_id = cu_id c, sb_plan = plan, sb_status = status,
                   sb_mrr = round2 mrr, sb_started_at = started, sb_canceled_at = canceled \<rparr>])))
          (\<lambda>s. numbered sb_id s \<and> (\<forall>x\<in>set s. good_subscription cs x))"
        by (rule makes_seq [OF makes_when_some [where Q = "\<lambda>_. True"]],
            rule makes_conseq [OF makes_later [OF a(2) _ y1]], simp, simp, simp)
          (use a s h org round2_parts [OF a(4)] in \<open>simp add: good_subscription_def\<close>)
    qed
  qed (use s in simp)
qed

lemma good_orgs_ids: "good_orgs y orgs \<Longrightarrow> g \<in> set orgs \<Longrightarrow> og_id g \<in> {1, 2}"
proof -
  assume "good_orgs y orgs" "g \<in> set orgs"
  then have "og_id g \<in> set (map og_id orgs)" "map og_id orgs = [1, 2]" by (auto simp: good_orgs_def)
  then show ?thesis by simp
qed

lemma makes_subscriptions:
  assumes orgs: "good_orgs z orgs" and cs: "good_customers y 8 5 cs" and y: "y < 9998"
  shows "makes (seed_subscriptions orgs cs) (\<lambda>s. numbered sb_id s \<and> (\<forall>x\<in>set s. good_subscription cs x))"
  unfolding seed_subscriptions_def
proof (intro makes_each_inv)
  fix org c s assume o: "org \<in> set orgs" and c: "c \<in> set (org_customers cs org)"
    and s: "numbered sb_id s \<and> (\<forall>x\<in>set s. good_subscription cs x)"
  have "dated y (cu_created_at c)"
    using c cs by (auto simp: org_customers_def good_customers_def good_customer_def)
  moreover have "og_id org \<in> {1, 2}" by (rule good_orgs_ids [OF orgs o])
  ultimately show "makes (seed_subscription org c s)
      (\<lambda>s. numbered sb_id s \<and> (\<forall>x\<in>set s. good_subscription cs x))"
    by (intro makes_subscription [OF c _ y _ s])
qed simp_all

definition good_tickets :: "customer_row list \<Rightarrow> nat \<Rightarrow> ticket_row list \<Rightarrow> bool" where
  "good_tickets cs n ts \<longleftrightarrow> numbered tk_id ts \<and> (\<forall>t\<in>set ts. good_ticket cs t) \<and> length ts = n"

lemma makes_ticket:
  assumes base: "good_base base" and custs: "org_customers cs org \<noteq> []" and org: "og_id org \<in> {1, 2}"
    and ts: "good_tickets cs n ts" "n < 90"
  shows "makes (seed_ticket base (org_customers cs org) org i ts) (good_tickets cs (Suc n))"
proof -
  let ?y = "dt_year base"
  have y: "?y + 1 < 9999" "?y < 9999" and b: "dated ?y base" "4 \<le> ?y"
    using base by (auto simp: good_base_def dated_def)
  have l: "length (show_nat (length ts + 1)) \<le> 3"
    using length_show_nat [of "length ts + 1" 3] ts by (simp add: good_tickets_def)
  show ?thesis
    unfolding seed_ticket_def Let_def
  proof (rule makes_seq [OF makes_choice [OF custs, where Q = "\<lambda>c. c \<in> set (org_customers cs org)"]],
      assumption, rule makes_seq [OF makes_randint [where Q = "\<lambda>n. n \<le> 200"]], simp, simp,
      rule makes_seq [OF makes_earlier [OF b(1) _ b(2)]], simp,
      rule makes_seq [OF makes_choice [where Q = "\<lambda>x. length x \<le> 20"]], simp, force,
      rule makes_seq [OF makes_choice [where Q = "\<lambda>x. length x \<le> 10"]], simp, force)
    fix c created and status priority :: string
    assume a: "c \<in> set (org_customers cs org)" "length status \<le> 20" "length priority \<le> 10"
      and d: "dated ?y created"
    have h: "has_customer cs (cu_id c) (og_id org)"
      using a(1) by (auto simp: org_customers_def has_customer_def)
    show "makes (seq (when_some (status = ''closed'') (seq (randint 1 10) (later created))) (\<lambda>resolved.
             give (ts @ [\<lparr> tk_id = int (length ts + 1), tk_organization_id = og_id org,
               tk_customer_id = cu_id c, tk_subject = ''Issue #'' @ show_nat (length ts + 1),
               tk_status = status, tk_priority = priority, tk_created_at = created,
               tk_resolved_at = resolved \<rparr>]))) (good_tickets cs (Suc n))"
      by (rule makes_seq [OF makes_when_some [where Q = "\<lambda>_. True"]],
          rule makes_seq [OF makes_randint [where Q = "\<lambda>n. n \<le> 10"]], simp, simp,
          rule makes_conseq [OF makes_later [OF d _ y(2)]], simp, simp, simp)
        (use a h org ts l in \<open>simp add: good_tickets_def good_ticket_def\<close>)
  qed
qed

lemma makes_tickets:
  assumes base: "good_base base" and orgs: "good_orgs z orgs" and cs: "good_customers y 8 5 cs"
    and ps: "map product_core ps = expected_products"
  shows "makes (seed_tickets orgs cs base) (good_tickets cs 23)"
proof -
  have org: "makes (each (seed_ticket base (org_customers cs org) org) [0..<k] ts) (good_tickets cs (n + k))"
    if "og_id org \<in> {1, 2}" "good_tickets cs n ts" "n + k \<le> 90" for org n k ts
  proof (rule makes_upto [where I = "\<lambda>i. good_tickets cs (n + i)"])
    fix i s assume "i < k" "good_tickets cs (n + i) s"
    then show "makes (seed_ticket base (org_customers cs org) org i s) (good_tickets cs (n + Suc i))"
      unfolding add_Suc_right using that(3)
      by (intro makes_ticket [OF base org_rows(1) [OF cs ps that(1)] that(1)]) simp_all
  qed (simp add: that(2))
  obtain a b where o: "orgs = [a, b]" "og_id a = 1" "og_id b = 2"
    by (rule good_orgs_cases [OF orgs])
  have "good_tickets cs 0 []" by (simp add: good_tickets_def)
  from org [OF _ this, of a 15] o(2,3) org [of b 15 _ 8]
  show ?thesis
    unfolding seed_tickets_def o(1) each.simps by (auto intro: makes_seq)
qed

end
