(* ===== verification/SeedChecks.thy ===== *)
theory SeedChecks
  imports SeedRows
begin

text \<open>
  What the declared tables ask of the rows inserted into them: the columns in order, their types,
  sizes and NOT NULL, the CHECK conditions, primary and unique keys, and foreign keys to rows
  inserted before; and that no reference leaves its organization. The rows of every phase meet it.
\<close>

section \<open>The declared constraints\<close>

definition cell_of :: "cells \<Rightarrow> string \<Rightarrow> sql_cell" where
  "cell_of r c = (case map_of r c of None \<Rightarrow> C_Null | Some v \<Rightarrow> v)"

definition numeric_fits :: "nat \<Rightarrow> nat \<Rightarrow> rat \<Rightarrow> bool" where
  "numeric_fits p s q \<longleftrightarrow> (let x = q * 10 ^ s in of_int \<lfloor>x\<rfloor> = x \<and> \<bar>x\<bar> < 10 ^ p)"

definition fits :: "column_def \<Rightarrow> sql_cell \<Rightarrow> bool" where
  "fits c v = (case v of
     C_Null \<Rightarrow> cd_nullable c
   | C_Int _ \<Rightarrow> cd_type c = T_Integer
   | C_Text s \<Rightarrow> (case cd_type c of T_String n \<Rightarrow> length s \<le> n | _ \<Rightarrow> False)
   | C_Num q \<Rightarrow> (case cd_type c of T_Numeric p s \<Rightarrow> numeric_fits p s q | _ \<Rightarrow> False)
   | C_Time _ \<Rightarrow> cd_type c = T_DateTime)"

text \<open>A condition \<open>column in ('a','b')\<close>: the quoted parts are the values.\<close>

fun quoted_parts :: "string list \<Rightarrow> string list" where
  "quoted_parts (_ # v # rest) = v # quoted_parts rest"
| "quoted_parts _ = []"

definition check_holds :: "string \<Rightarrow> cells \<Rightarrow> bool" where
  "check_holds condition r = (case cell_of r (fst (partition_char (CHR '' '') condition)) of
     C_Null \<Rightarrow> True
   | C_Text v \<Rightarrow> v \<in> set (quoted_parts (split_char (CHR 0x27) condition))
   | _ \<Rightarrow> False)"

definition row_fits :: "table_def \<Rightarrow> cells \<Rightarrow> bool" where
  "row_fits td r \<longleftrightarrow> map fst r = map cd_name (td_columns td)
     \<and> list_all (\<lambda>c. fits c (cell_of r (cd_name c))) (td_columns td)
     \<and> list_all (\<lambda>(condition, _). check_holds condition r) (td_checks td)"

definition rows_of :: "inserts \<Rightarrow> string \<Rightarrow> cells list" where
  "rows_of h t = concat (map snd (filter (\<lambda>(n, _). n = t) h))"

definition key_columns :: "table_def \<Rightarrow> string list list" where
  "key_columns td = map cd_name (filter cd_primary_key (td_columns td)) # map fst (td_unique td)"

definition key_distinct :: "cells list \<Rightarrow> string list \<Rightarrow> bool" where
  "key_distinct rows k \<longleftrightarrow> distinct (map (\<lambda>r. map (cell_of r) k) rows)"

definition target_of :: "string \<Rightarrow> string \<times> string" where
  "target_of reference = partition_char (CHR ''.'') reference"

definition foreign_keys :: "table_def \<Rightarrow> (string \<times> string \<times> string) list" where
  "foreign_keys td = List.map_filter
     (\<lambda>c. map_option (\<lambda>t. (cd_name c, target_of t)) (cd_references c)) (td_columns td)"

definition refers :: "inserts \<Rightarrow> cells \<Rightarrow> string \<times> string \<times> string \<Rightarrow> bool" where
  "refers h r = (\<lambda>(c, t, k). cell_of r c = C_Null \<or> (\<exists>s\<in>set (rows_of h t). cell_of s k = cell_of r c))"

definition satisfies_schema :: "inserts \<Rightarrow> table_def \<Rightarrow> cells list \<Rightarrow> bool" where
  "satisfies_schema h td rows \<longleftrightarrow> list_all (row_fits td) rows
     \<and> list_all (key_distinct (rows_of h (td_name td) @ rows)) (key_columns td)
     \<and> list_all (\<lambda>r. list_all (refers h r) (foreign_keys td)) rows"

text \<open>A database that rejects what violates a declared constraint, and nothing else.\<close>

definition declared_connection :: connection where
  "declared_connection h name rows = (case find (\<lambda>td. td_name td = name) all_tables of
     None \<Rightarrow> Some (Unhandled (PyOther ''OperationalError''))
   | Some td \<Rightarrow> if satisfies_schema h td rows then None else Some (Unhandled (PyOther ''IntegrityError'')))"

text \<open>A reference from a row of an organization to a row that has one stays within it.\<close>

definition stays_home :: "inserts \<Rightarrow> cells \<Rightarrow> string \<times> string \<times> string \<Rightarrow> bool" where
  "stays_home h r = (\<lambda>(c, t, k). cell_of r c = C_Null \<or> (\<exists>s\<in>set (rows_of h t). cell_of s k = cell_of r c
     \<and> (''organization_id'' \<in> set (map fst s) \<longrightarrow>
          cell_of s ''organization_id'' = cell_of r ''organization_id'')))"

definition tenants_apart :: "inserts \<Rightarrow> table_def \<Rightarrow> cells list \<Rightarrow> bool" where
  "tenants_apart h td rows \<longleftrightarrow> list_all (\<lambda>r. list_all (stays_home h r) (foreign_keys td)) rows"

section \<open>The declared keys\<close>

lemma stays_home_refers: "stays_home h r x \<Longrightarrow> refers h r x"
  by (auto simp: stays_home_def refers_def split: prod.splits)

lemma rows_of_simps [simp]:
  "rows_of [] t = []"
  "rows_of (h @ h') t = rows_of h t @ rows_of h' t"
  "rows_of ((n, rows) # h) t = (if n = t then rows @ rows_of h t else rows_of h t)"
  by (simp_all add: rows_of_def)

lemma parts_fit: "parts d n q \<Longrightarrow> d = 1 \<or> d = 2 \<or> d = 4 \<Longrightarrow> n \<le> 100000 \<Longrightarrow> numeric_fits 12 2 q"
proof -
  assume "parts d n q" and d: "d = 1 \<or> d = 2 \<or> d = 4" and n: "n \<le> 100000"
  then obtain k where k: "0 \<le> k" "k \<le> n" "q = of_int k / of_int d" by (auto simp: parts_def)
  define i where "i = 100 div d * k"
  have "q * 10\<^sup>2 = of_int i" using d unfolding k i_def by auto
  moreover have "\<bar>i\<bar> < 10 ^ 12" using d k n unfolding i_def by auto
  then have "\<bar>of_int i\<bar> < (10 ^ 12 :: rat)" by (simp flip: of_int_abs)
  ultimately show ?thesis unfolding numeric_fits_def by simp
qed

lemma declared_keys:
  "key_columns organizations_table = [[''id'']]"
  "key_columns regions_table = [[''id''], [''code'']]"
  "key_columns users_table = [[''id''], [''organization_id'', ''email'']]"
  "key_columns customers_table = [[''id'']]"
  "key_columns products_table = [[''id''], [''organization_id'', ''sku'']]"
  "key_columns orders_table = [[''id'']]"
  "key_columns order_items_table = [[''id'']]"
  "key_columns payments_table = [[''id'']]"
  "key_columns refunds_table = [[''id'']]"
  "key_columns subscriptions_table = [[''id'']]"
  "key_columns support_tickets_table = [[''id'']]"
  by code_simp+

abbreviation to_org :: "string \<times> string \<times> string" where
  "to_org \<equiv> (''organization_id'', ''organizations'', ''id'')"

lemma declared_references:
  "foreign_keys organizations_table = []"
  "foreign_keys regions_table = []"
  "foreign_keys users_table = [to_org]"
  "foreign_keys customers_table = [to_org, (''region_id'', ''regions'', ''id'')]"
  "foreign_keys products_table = [to_org]"
  "foreign_keys orders_table = [to_org, (''customer_id'', ''customers'', ''id'')]"
  "foreign_keys order_items_table =
     [to_org, (''order_id'', ''orders'', ''id''), (''product_id'', ''products'', ''id'')]"
  "foreign_keys payments_table = [to_org, (''order_id'', ''orders'', ''id'')]"
  "foreign_keys refunds_table =
     [to_org, (''order_id'', ''orders'', ''id''), (''payment_id'', ''payments'', ''id'')]"
  "foreign_keys subscriptions_table = [to_org, (''customer_id'', ''customers'', ''id'')]"
  "foreign_keys support_tickets_table = [to_org, (''customer_id'', ''customers'', ''id'')]"
  by code_simp+

lemma table_names:
  "td_name organizations_table = ''organizations''" "td_name regions_table = ''regions''"
  "td_name users_table = ''users''" "td_name customers_table = ''customers''"
  "td_name products_table = ''products''" "td_name orders_table = ''orders''"
  "td_name order_items_table = ''order_items''" "td_name payments_table = ''payments''"
  "td_name refunds_table = ''refunds''" "td_name subscriptions_table = ''subscriptions''"
  "td_name support_tickets_table = ''support_tickets''"
  by code_simp+

section \<open>The rows of each table\<close>

lemma key_distinct_id:
  assumes "numbered f xs" and "\<And>x. cell_of (g x) ''id'' = C_Int (f x)"
  shows "key_distinct (map g xs) [''id'']"
  using numbered_distinct [OF assms(1)] by (simp add: key_distinct_def assms(2) distinct_map inj_on_def)

lemmas column_defs = primary_def declared_def foreign_key_def

lemma to_org_stays:
  assumes "rows_of h ''organizations'' = map organization_cells orgs" and "good_orgs y orgs"
    and "cell_of r ''organization_id'' = C_Int g" and "g \<in> {1, 2}"
  shows "stays_home h r to_org"
proof -
  have "g \<in> set (map og_id orgs)" using assms(2,4) by (simp add: good_orgs_def)
  then show ?thesis using assms(1,3)
    by (auto simp: stays_home_def organization_cells_def cell_of_def intro!: bexI)
qed

text \<open>A reference to a numbered table of the same organization.\<close>

lemma reference_stays:
  assumes "rows_of h t = map g xs" and "\<exists>x\<in>set xs. f x = i \<and> org x = o'"
    and "\<And>x. cell_of (g x) k = C_Int (f x)" and "\<And>x. cell_of (g x) ''organization_id'' = C_Int (org x)"
    and "cell_of r c = C_Int i" and "cell_of r ''organization_id'' = C_Int o'"
  shows "stays_home h r (c, t, k)"
  using assms by (fastforce simp: stays_home_def)

lemma rows_meet:
  assumes "\<And>x. x \<in> set xs \<Longrightarrow> row_fits td (g x)"
    and "list_all (key_distinct (map g xs)) (key_columns td)" and "rows_of h (td_name td) = []"
    and "\<And>x. x \<in> set xs \<Longrightarrow> list_all (stays_home h (g x)) (foreign_keys td)"
  shows "satisfies_schema h td (map g xs) \<and> tenants_apart h td (map g xs)"
  using assms stays_home_refers
  by (auto simp: satisfies_schema_def tenants_apart_def list_all_iff)

lemma organizations_meet:
  assumes "good_orgs y orgs" and "rows_of h ''organizations'' = []"
  shows "satisfies_schema h organizations_table (map organization_cells orgs)
    \<and> tenants_apart h organizations_table (map organization_cells orgs)"
proof (rule rows_meet)
  fix g assume "g \<in> set orgs"
  then have "og_plan g \<in> {''pro'', ''enterprise''} \<and> og_name g \<in> {''Acme Corp'', ''Globex Inc''} \<and> og_deleted_at g = None"
  proof -
    have "og_plan g \<in> set (map og_plan orgs)" "og_name g \<in> set (map og_name orgs)"
      "og_deleted_at g \<in> set (map og_deleted_at orgs)" using \<open>g \<in> set orgs\<close> by simp_all
    then show ?thesis using assms(1) unfolding good_orgs_def by simp
  qed
  moreover have "set (quoted_parts (split_char (CHR 0x27) ''plan in ('free','pro','enterprise')''))
      = {''free'', ''pro'', ''enterprise''}"
    "fst (partition_char (CHR '' '') ''plan in ('free','pro','enterprise')'') = ''plan''"
    by code_simp+
  ultimately show "row_fits organizations_table (organization_cells g)"
    by (auto simp: row_fits_def organizations_table_def organization_cells_def column_defs fits_def cell_of_def
        check_holds_def time_cell_def)
next
  have "map og_id orgs = [1, 2]" using assms(1) by (simp add: good_orgs_def)
  then show "list_all (key_distinct (map organization_cells orgs)) (key_columns organizations_table)"
    by (auto simp: declared_keys key_distinct_def organization_cells_def cell_of_def map_eq_Cons_conv)
qed (simp_all add: assms(2) table_names declared_references)

lemma regions_meet:
  assumes "rows_of h ''regions'' = []"
  shows "satisfies_schema h regions_table (map region_cells seed_regions)
    \<and> tenants_apart h regions_table (map region_cells seed_regions)"
proof (rule rows_meet)
  have "list_all (\<lambda>r. row_fits regions_table (region_cells r)) seed_regions" by code_simp
  then show "r \<in> set seed_regions \<Longrightarrow> row_fits regions_table (region_cells r)" for r
    by (simp add: list_all_iff)
  show "list_all (key_distinct (map region_cells seed_regions)) (key_columns regions_table)" by code_simp
qed (simp_all add: assms table_names declared_references)

end
