(* ===== verification/SeedTables.thy ===== *)
theory SeedTables
  imports SeedChecks
begin

text \<open>
  The rows of the tenant tables meet the declared constraints and stay within their organization.
\<close>

definition has_orgs :: "int \<Rightarrow> inserts \<Rightarrow> bool" where
  "has_orgs y h \<longleftrightarrow> (\<exists>orgs. good_orgs y orgs \<and> rows_of h ''organizations'' = map organization_cells orgs)"

lemma org_stays:
  "has_orgs y h \<Longrightarrow> cell_of r ''organization_id'' = C_Int g \<Longrightarrow> g \<in> {1, 2} \<Longrightarrow> stays_home h r to_org"
  unfolding has_orgs_def using to_org_stays by blast

named_theorems row_cells \<open>the cells of the rows by their column\<close>

lemma base_row_cells [row_cells]:
  "cell_of (user_cells u) ''id'' = C_Int (us_id u)"
  "cell_of (user_cells u) ''organization_id'' = C_Int (us_organization_id u)"
  "cell_of (user_cells u) ''email'' = C_Text (us_email u)"
  "cell_of (customer_cells c) ''id'' = C_Int (cu_id c)"
  "cell_of (customer_cells c) ''organization_id'' = C_Int (cu_organization_id c)"
  "cell_of (customer_cells c) ''region_id'' = (case cu_region_id c of None \<Rightarrow> C_Null | Some i \<Rightarrow> C_Int i)"
  "cell_of (region_cells g) ''id'' = C_Int (rg_id g)"
  "cell_of (product_cells p) ''id'' = C_Int (pr_id p)"
  "cell_of (product_cells p) ''organization_id'' = C_Int (pr_organization_id p)"
  "cell_of (product_cells p) ''sku'' = C_Text (pr_sku p)"
  by (simp_all add: cell_of_def user_cells_def customer_cells_def region_cells_def
      product_cells_def)

lemma order_row_cells [row_cells]:
  "cell_of (order_cells r) ''id'' = C_Int (or_id r)"
  "cell_of (order_cells r) ''organization_id'' = C_Int (or_organization_id r)"
  "cell_of (order_cells r) ''customer_id'' = C_Int (or_customer_id r)"
  "cell_of (item_cells i) ''id'' = C_Int (it_id i)"
  "cell_of (item_cells i) ''organization_id'' = C_Int (it_organization_id i)"
  "cell_of (item_cells i) ''order_id'' = C_Int (it_order_id i)"
  "cell_of (item_cells i) ''product_id'' = C_Int (it_product_id i)"
  "cell_of (payment_cells p) ''id'' = C_Int (pm_id p)"
  "cell_of (payment_cells p) ''organization_id'' = C_Int (pm_organization_id p)"
  "cell_of (payment_cells p) ''order_id'' = C_Int (pm_order_id p)"
  "cell_of (refund_cells f) ''id'' = C_Int (rf_id f)"
  "cell_of (refund_cells f) ''organization_id'' = C_Int (rf_organization_id f)"
  "cell_of (refund_cells f) ''order_id'' = C_Int (rf_order_id f)"
  "cell_of (refund_cells f) ''payment_id'' = C_Int (rf_payment_id f)"
  by (simp_all add: cell_of_def order_cells_def item_cells_def payment_cells_def refund_cells_def)

lemma service_row_cells [row_cells]:
  "cell_of (subscription_cells s) ''id'' = C_Int (sb_id s)"
  "cell_of (subscription_cells s) ''organization_id'' = C_Int (sb_organization_id s)"
  "cell_of (subscription_cells s) ''customer_id'' = C_Int (sb_customer_id s)"
  "cell_of (ticket_cells t) ''id'' = C_Int (tk_id t)"
  "cell_of (ticket_cells t) ''organization_id'' = C_Int (tk_organization_id t)"
  "cell_of (ticket_cells t) ''customer_id'' = C_Int (tk_customer_id t)"
  by (simp_all add: cell_of_def subscription_cells_def ticket_cells_def)

lemma region_columns: "(''organization_id'', b) \<notin> set (region_cells g)"
  by (simp add: region_cells_def)

section \<open>Users, customers and products\<close>

lemma core_map: "map core xs = ys \<Longrightarrow> (\<And>x. f (core x) = f x) \<Longrightarrow> map f xs = map f ys"
  by auto

lemma users_meet:
  assumes us: "map user_core us = expected_users" and orgs: "has_orgs y h"
    and h: "rows_of h ''users'' = []"
  shows "satisfies_schema h users_table (map user_cells us)
    \<and> tenants_apart h users_table (map user_cells us)"
proof (rule rows_meet)
  have "list_all (\<lambda>u. row_fits users_table (user_cells u) \<and> us_organization_id u \<in> {1, 2}) expected_users"
    by code_simp
  moreover have "row_fits users_table (user_cells (user_core u)) = row_fits users_table (user_cells u)" for u
    by (simp add: row_fits_def users_table_def column_defs user_cells_def user_core_def cell_of_def fits_def)
  moreover have "us_organization_id (user_core u) = us_organization_id u" for u by (simp add: user_core_def)
  ultimately have all: "\<forall>u\<in>set us. row_fits users_table (user_cells u) \<and> us_organization_id u \<in> {1, 2}"
    unfolding us [symmetric] by (simp add: list_all_iff)
  then show "u \<in> set us \<Longrightarrow> row_fits users_table (user_cells u)" for u by blast
  show "u \<in> set us \<Longrightarrow> list_all (stays_home h (user_cells u)) (foreign_keys users_table)" for u
    using all org_stays [OF orgs, of "user_cells u"] by (auto simp: declared_references row_cells)
  have "distinct (map (\<lambda>u. [C_Int (us_id u)]) expected_users)"
    "distinct (map (\<lambda>u. [C_Int (us_organization_id u), C_Text (us_email u)]) expected_users)"
    by code_simp+
  moreover have "map (\<lambda>u. [C_Int (us_id u)]) us = map (\<lambda>u. [C_Int (us_id u)]) expected_users"
    "map (\<lambda>u. [C_Int (us_organization_id u), C_Text (us_email u)]) us
       = map (\<lambda>u. [C_Int (us_organization_id u), C_Text (us_email u)]) expected_users"
    by (rule core_map [OF us], simp add: user_core_def)+
  ultimately show "list_all (key_distinct (map user_cells us)) (key_columns users_table)"
    by (simp only: declared_keys key_distinct_def map_map comp_def list.map row_cells list.pred_inject simp_thms)
qed (simp add: h table_names)

lemma products_meet:
  assumes ps: "map product_core ps = expected_products" and orgs: "has_orgs y h"
    and h: "rows_of h ''products'' = []"
  shows "satisfies_schema h products_table (map product_cells ps)
    \<and> tenants_apart h products_table (map product_cells ps)"
proof (rule rows_meet)
  have "list_all (\<lambda>p. row_fits products_table (product_cells p) \<and> pr_organization_id p \<in> {1, 2}) expected_products"
    by code_simp
  moreover have "row_fits products_table (product_cells (product_core p))
      = row_fits products_table (product_cells p)" for p
    by (simp add: row_fits_def products_table_def column_defs product_cells_def product_core_def cell_of_def
        fits_def)
  moreover have "pr_organization_id (product_core p) = pr_organization_id p" for p by (simp add: product_core_def)
  ultimately have all: "\<forall>p\<in>set ps. row_fits products_table (product_cells p) \<and> pr_organization_id p \<in> {1, 2}"
    unfolding ps [symmetric] by (simp add: list_all_iff)
  then show "p \<in> set ps \<Longrightarrow> row_fits products_table (product_cells p)" for p by blast
  show "p \<in> set ps \<Longrightarrow> list_all (stays_home h (product_cells p)) (foreign_keys products_table)" for p
    using all org_stays [OF orgs, of "product_cells p"] by (auto simp: declared_references row_cells)
  have "distinct (map (\<lambda>p. [C_Int (pr_id p)]) expected_products)"
    "distinct (map (\<lambda>p. [C_Int (pr_organization_id p), C_Text (pr_sku p)]) expected_products)"
    by code_simp+
  moreover have "map (\<lambda>p. [C_Int (pr_id p)]) ps = map (\<lambda>p. [C_Int (pr_id p)]) expected_products"
    "map (\<lambda>p. [C_Int (pr_organization_id p), C_Text (pr_sku p)]) ps
       = map (\<lambda>p. [C_Int (pr_organization_id p), C_Text (pr_sku p)]) expected_products"
    by (rule core_map [OF ps], simp add: product_core_def)+
  ultimately show "list_all (key_distinct (map product_cells ps)) (key_columns products_table)"
    by (simp only: declared_keys key_distinct_def map_map comp_def list.map row_cells list.pred_inject simp_thms)
qed (simp add: h table_names)

lemma customers_meet:
  assumes cs: "good_customers y 8 5 cs" and orgs: "has_orgs z h"
    and regions: "rows_of h ''regions'' = map region_cells seed_regions"
    and h: "rows_of h ''customers'' = []"
  shows "satisfies_schema h customers_table (map customer_cells cs)
    \<and> tenants_apart h customers_table (map customer_cells cs)"
proof (rule rows_meet)
  fix c assume c: "c \<in> set cs"
  then have g: "good_customer y c" using cs by (simp add: good_customers_def)
  have "cu_organization_id c \<in> set (map cu_organization_id cs)" using c by simp
  then have "cu_organization_id c \<in> set (replicate 8 1 @ replicate 5 2)"
    using cs by (simp only: good_customers_def)
  then have o: "cu_organization_id c \<in> {1, 2}" by auto
  show "row_fits customers_table (customer_cells c)"
    using g by (auto simp: row_fits_def customers_table_def customer_cells_def column_defs fits_def cell_of_def
        good_customer_def time_cell_def text_cell_def split: option.splits)
  have "stays_home h (customer_cells c) (''region_id'', ''regions'', ''id'')"
  proof (cases "cu_region_id c")
    case (Some r)
    then have "r = 1 \<or> r = 2 \<or> r = 3 \<or> r = 4" using g by (auto simp: good_customer_def)
    then have "\<exists>g\<in>set seed_regions. rg_id g = r" by (auto simp: seed_regions_def)
    then show ?thesis using Some
      by (auto simp: stays_home_def row_cells regions region_columns intro!: bexI)
  qed (simp add: stays_home_def row_cells)
  then show "list_all (stays_home h (customer_cells c)) (foreign_keys customers_table)"
    using org_stays [OF orgs _ o, of "customer_cells c"] by (simp add: declared_references row_cells)
next
  show "list_all (key_distinct (map customer_cells cs)) (key_columns customers_table)"
    using cs by (simp add: declared_keys good_customers_def key_distinct_id [of cu_id] row_cells)
qed (simp add: h table_names)

section \<open>The ledger\<close>

lemma statuses_short: "s \<in> set order_statuses \<Longrightarrow> length s \<le> 20"
  by (auto simp: order_statuses_def)

lemma orders_meet:
  assumes lg: "good_ledger cs ps n lg" and orgs: "has_orgs z h"
    and cs: "rows_of h ''customers'' = map customer_cells cs" and h: "rows_of h ''orders'' = []"
  shows "satisfies_schema h orders_table (map order_cells (lg_orders lg))
    \<and> tenants_apart h orders_table (map order_cells (lg_orders lg))"
proof (rule rows_meet)
  have ws: "well_shaped ps lg" and li: "linked cs lg" using lg by (simp_all add: good_ledger_def)
  then show "list_all (key_distinct (map order_cells (lg_orders lg))) (key_columns orders_table)"
    by (simp add: declared_keys well_shaped_def key_distinct_id [of or_id] row_cells)
  fix r assume r: "r \<in> set (lg_orders lg)"
  then have s: "or_status r \<in> set order_statuses" "or_organization_id r \<in> {1, 2}"
    using ws unfolding well_shaped_def by blast+
  show "row_fits orders_table (order_cells r)"
    using statuses_short [OF s(1)] by (auto simp: row_fits_def orders_table_def order_cells_def column_defs
        fits_def cell_of_def time_cell_def split: option.splits)
  have "has_customer cs (or_customer_id r) (or_organization_id r)"
    using li r by (simp add: linked_def)
  then have "stays_home h (order_cells r) (''customer_id'', ''customers'', ''id'')"
    unfolding has_customer_def by (intro reference_stays [OF cs, of cu_id _ cu_organization_id]) (auto simp: row_cells)
  then show "list_all (stays_home h (order_cells r)) (foreign_keys orders_table)"
    using org_stays [OF orgs _ s(2), of "order_cells r"] by (simp add: declared_references row_cells)
qed (simp add: h table_names)

lemma order_reference:
  assumes "rows_of h ''orders'' = map order_cells os" and "has_order os i g"
    and "cell_of r ''order_id'' = C_Int i" and "cell_of r ''organization_id'' = C_Int g"
  shows "stays_home h r (''order_id'', ''orders'', ''id'')"
  using assms(2) unfolding has_order_def
  by (intro reference_stays [OF assms(1), of or_id _ or_organization_id]) (auto simp: row_cells assms(3,4))

lemma items_meet:
  assumes lg: "good_ledger cs ps n lg" and orgs: "has_orgs z h"
    and os: "rows_of h ''orders'' = map order_cells (lg_orders lg)"
    and ps: "rows_of h ''products'' = map product_cells ps" and h: "rows_of h ''order_items'' = []"
  shows "satisfies_schema h order_items_table (map item_cells (lg_items lg))
    \<and> tenants_apart h order_items_table (map item_cells (lg_items lg))"
proof (rule rows_meet)
  have ws: "well_shaped ps lg" and li: "linked cs lg" using lg by (simp_all add: good_ledger_def)
  then show "list_all (key_distinct (map item_cells (lg_items lg))) (key_columns order_items_table)"
    by (simp add: declared_keys well_shaped_def key_distinct_id [of it_id] row_cells)
  fix i assume i: "i \<in> set (lg_items lg)"
  then have s: "good_item ps i" "it_organization_id i \<in> {1, 2}"
    using ws unfolding well_shaped_def by blast+
  then have "numeric_fits 12 2 (it_unit_price i)" unfolding good_item_def by (intro parts_fit) auto
  then show "row_fits order_items_table (item_cells i)"
    by (simp add: row_fits_def order_items_table_def item_cells_def column_defs fits_def cell_of_def)
  have "has_product ps (it_product_id i) (it_organization_id i)" using s(1) by (simp add: good_item_def)
  then have "stays_home h (item_cells i) (''product_id'', ''products'', ''id'')"
    unfolding has_product_def by (intro reference_stays [OF ps, of pr_id _ pr_organization_id]) (auto simp: row_cells)
  moreover have "stays_home h (item_cells i) (''order_id'', ''orders'', ''id'')"
    using li i by (intro order_reference [OF os]) (auto simp: linked_def row_cells)
  ultimately show "list_all (stays_home h (item_cells i)) (foreign_keys order_items_table)"
    using org_stays [OF orgs _ s(2), of "item_cells i"] by (simp add: declared_references row_cells)
qed (simp add: h table_names)

lemma payments_meet:
  assumes lg: "good_ledger cs ps n lg" and orgs: "has_orgs z h"
    and os: "rows_of h ''orders'' = map order_cells (lg_orders lg)" and h: "rows_of h ''payments'' = []"
  shows "satisfies_schema h payments_table (map payment_cells (lg_payments lg))
    \<and> tenants_apart h payments_table (map payment_cells (lg_payments lg))"
proof (rule rows_meet)
  have ws: "well_shaped ps lg" and li: "linked cs lg" using lg by (simp_all add: good_ledger_def)
  then show "list_all (key_distinct (map payment_cells (lg_payments lg))) (key_columns payments_table)"
    by (simp add: declared_keys well_shaped_def key_distinct_id [of pm_id] row_cells)
  fix p assume p: "p \<in> set (lg_payments lg)"
  then have s: "good_payment p" "pm_organization_id p \<in> {1, 2}"
    using ws unfolding well_shaped_def by blast+
  then have "numeric_fits 12 2 (pm_amount p)" unfolding good_payment_def by (intro parts_fit) auto
  then show "row_fits payments_table (payment_cells p)" using s(1)
    by (auto simp: row_fits_def payments_table_def payment_cells_def column_defs fits_def cell_of_def
        good_payment_def short_text_def text_cell_def split: option.splits)
  have "stays_home h (payment_cells p) (''order_id'', ''orders'', ''id'')"
    using li p by (intro order_reference [OF os]) (auto simp: linked_def row_cells)
  then show "list_all (stays_home h (payment_cells p)) (foreign_keys payments_table)"
    using org_stays [OF orgs _ s(2), of "payment_cells p"] by (simp add: declared_references row_cells)
qed (simp add: h table_names)

lemma refunds_meet:
  assumes lg: "good_ledger cs ps n lg" and orgs: "has_orgs z h"
    and os: "rows_of h ''orders'' = map order_cells (lg_orders lg)"
    and pms: "rows_of h ''payments'' = map payment_cells (lg_payments lg)" and h: "rows_of h ''refunds'' = []"
  shows "satisfies_schema h refunds_table (map refund_cells (lg_refunds lg))
    \<and> tenants_apart h refunds_table (map refund_cells (lg_refunds lg))"
proof (rule rows_meet)
  have ws: "well_shaped ps lg" and li: "linked cs lg" and ba: "balanced lg"
    using lg by (simp_all add: good_ledger_def)
  then show "list_all (key_distinct (map refund_cells (lg_refunds lg))) (key_columns refunds_table)"
    by (simp add: declared_keys well_shaped_def key_distinct_id [of rf_id] row_cells)
  fix f assume f: "f \<in> set (lg_refunds lg)"
  then have s: "good_refund f" "rf_organization_id f \<in> {1, 2}"
    using ws unfolding well_shaped_def by blast+
  then have "numeric_fits 12 2 (rf_amount f)" unfolding good_refund_def by (intro parts_fit) auto
  then show "row_fits refunds_table (refund_cells f)" using s(1)
    by (auto simp: row_fits_def refunds_table_def refund_cells_def column_defs fits_def cell_of_def good_refund_def)
  have "stays_home h (refund_cells f) (''order_id'', ''orders'', ''id'')"
    using li f by (intro order_reference [OF os]) (auto simp: linked_def row_cells)
  moreover have "\<exists>p\<in>set (lg_payments lg). pm_id p = rf_payment_id f \<and> pm_organization_id p = rf_organization_id f"
    using ba f by (auto simp: balanced_def refunds_payment_def)
  then have "stays_home h (refund_cells f) (''payment_id'', ''payments'', ''id'')"
    by (intro reference_stays [OF pms, of pm_id _ pm_organization_id]) (auto simp: row_cells)
  ultimately show "list_all (stays_home h (refund_cells f)) (foreign_keys refunds_table)"
    using org_stays [OF orgs _ s(2), of "refund_cells f"] by (simp add: declared_references row_cells)
qed (simp add: h table_names)

lemma customer_reference:
  assumes "rows_of h ''customers'' = map customer_cells cs" and "has_customer cs i g"
    and "cell_of r ''customer_id'' = C_Int i" and "cell_of r ''organization_id'' = C_Int g"
  shows "stays_home h r (''customer_id'', ''customers'', ''id'')"
  using assms(2) unfolding has_customer_def
  by (intro reference_stays [OF assms(1), of cu_id _ cu_organization_id]) (auto simp: row_cells assms(3,4))

lemma subscriptions_meet:
  assumes sb: "numbered sb_id ss" "\<forall>s\<in>set ss. good_subscription cs s" and orgs: "has_orgs z h"
    and cs: "rows_of h ''customers'' = map customer_cells cs" and h: "rows_of h ''subscriptions'' = []"
  shows "satisfies_schema h subscriptions_table (map subscription_cells ss)
    \<and> tenants_apart h subscriptions_table (map subscription_cells ss)"
proof (rule rows_meet)
  show "list_all (key_distinct (map subscription_cells ss)) (key_columns subscriptions_table)"
    by (simp add: declared_keys key_distinct_id [of sb_id] row_cells sb)
  fix s assume "s \<in> set ss"
  then have s: "good_subscription cs s" "sb_organization_id s \<in> {1, 2}"
    using sb(2) by (auto simp: good_subscription_def)
  then have "numeric_fits 12 2 (sb_mrr s)" unfolding good_subscription_def by (intro parts_fit) auto
  then show "row_fits subscriptions_table (subscription_cells s)" using s(1)
    by (auto simp: row_fits_def subscriptions_table_def subscription_cells_def column_defs fits_def cell_of_def
        good_subscription_def time_cell_def split: option.splits)
  have "stays_home h (subscription_cells s) (''customer_id'', ''customers'', ''id'')"
    using s(1) by (intro customer_reference [OF cs]) (auto simp: good_subscription_def row_cells)
  then show "list_all (stays_home h (subscription_cells s)) (foreign_keys subscriptions_table)"
    using org_stays [OF orgs _ s(2), of "subscription_cells s"] by (simp add: declared_references row_cells)
qed (simp add: h table_names)

lemma tickets_meet:
  assumes tk: "good_tickets cs n ts" and orgs: "has_orgs z h"
    and cs: "rows_of h ''customers'' = map customer_cells cs" and h: "rows_of h ''support_tickets'' = []"
  shows "satisfies_schema h support_tickets_table (map ticket_cells ts)
    \<and> tenants_apart h support_tickets_table (map ticket_cells ts)"
proof (rule rows_meet)
  show "list_all (key_distinct (map ticket_cells ts)) (key_columns support_tickets_table)"
    using tk by (simp add: declared_keys good_tickets_def key_distinct_id [of tk_id] row_cells)
  fix t assume "t \<in> set ts"
  then have t: "good_ticket cs t" "tk_organization_id t \<in> {1, 2}"
    using tk by (auto simp: good_tickets_def good_ticket_def)
  then show "row_fits support_tickets_table (ticket_cells t)"
    by (auto simp: row_fits_def support_tickets_table_def ticket_cells_def column_defs fits_def cell_of_def
        good_ticket_def time_cell_def split: option.splits)
  have "stays_home h (ticket_cells t) (''customer_id'', ''customers'', ''id'')"
    using t(1) by (intro customer_reference [OF cs]) (auto simp: good_ticket_def row_cells)
  then show "list_all (stays_home h (ticket_cells t)) (foreign_keys support_tickets_table)"
    using org_stays [OF orgs _ t(2), of "ticket_cells t"] by (simp add: declared_references row_cells)
qed (simp add: h table_names)

end
