(* ===== verification/SeedProperties.thy ===== *)
theory SeedProperties
  imports SeedTables
begin

text \<open>
  The sample data as a whole: seeding is all or nothing and its rows meet every declared
  constraint without crossing organizations; the ledger balances.
\<close>

section \<open>Calls that insert\<close>

text \<open>
  The inserts a database may hold: first none into the declared tables, and each later one met the
  constraints when it was made.
\<close>

definition no_declared_rows :: "inserts \<Rightarrow> bool" where
  "no_declared_rows h \<longleftrightarrow> list_all (\<lambda>td. rows_of h (td_name td) = []) all_tables"

inductive valid_inserts :: "inserts \<Rightarrow> bool" where
  valid_none: "no_declared_rows h \<Longrightarrow> valid_inserts h"
| valid_more: "valid_inserts h \<Longrightarrow> td \<in> set all_tables \<Longrightarrow> satisfies_schema h td rows \<Longrightarrow>
    tenants_apart h td rows \<Longrightarrow> valid_inserts (h @ [(td_name td, rows)])"

definition seed_accepts :: "connection \<Rightarrow> bool" where
  "seed_accepts conn \<longleftrightarrow> (\<forall>h td rows. td \<in> set all_tables \<longrightarrow> satisfies_schema h td rows
     \<longrightarrow> conn h (td_name td) rows = None)"

text \<open>From inserts \<open>h\<close> the call ends as \<open>Q\<close> says, and fails only where \<open>ok\<close> does not hold.\<close>

definition runs :: "bool \<Rightarrow> inserts \<Rightarrow> ('a, seed_world) call \<Rightarrow> ('a \<Rightarrow> inserts \<Rightarrow> bool) \<Rightarrow> bool" where
  "runs ok h m Q \<longleftrightarrow> (\<forall>w. sw_inserts w = h \<longrightarrow>
     (case m w of (Inr a, w') \<Rightarrow> Q a (sw_inserts w') | (Inl _, _) \<Rightarrow> \<not> ok))"

lemma runs_makes:
  assumes "makes m Q" and "\<And>a. Q a \<Longrightarrow> runs ok h (k a) R"
  shows "runs ok h (seq m k) R"
  unfolding runs_def
proof (intro allI impI)
  fix w :: seed_world assume w: "sw_inserts w = h"
  obtain a w1 where a: "m w = (Inr a, w1)" "sw_inserts w1 = sw_inserts w" "Q a"
    by (rule makesD [OF assms(1)])
  with assms(2) [OF a(3)] w
  show "case seq m k w of (Inr a, w') \<Rightarrow> R a (sw_inserts w') | (Inl _, _) \<Rightarrow> \<not> ok"
    by (simp add: seq_def runs_def)
qed

lemma runs_insert:
  assumes accepted: "td \<in> set all_tables" "satisfies_schema h td rows \<and> tenants_apart h td rows"
    and h: "valid_inserts h"
    and k: "valid_inserts (h @ [(td_name td, rows)]) \<Longrightarrow>
      runs (seed_accepts conn) (h @ [(td_name td, rows)]) k R"
  shows "runs (seed_accepts conn) h (seq (insert_rows conn td rows) (\<lambda>_. k)) R"
proof -
  have v: "valid_inserts (h @ [(td_name td, rows)])"
    using accepted h by (blast intro: valid_more)
  have "seed_accepts conn \<Longrightarrow> conn h (td_name td) rows = None"
    using accepted by (simp add: seed_accepts_def)
  then show ?thesis
    using k [OF v] by (auto simp: runs_def insert_rows_def seq_def split: option.splits)
qed

lemma runs_insert_unless_empty:
  assumes accepted: "td \<in> set all_tables" "satisfies_schema h td rows \<and> tenants_apart h td rows"
    and h: "valid_inserts h"
    and k: "\<And>h'. valid_inserts h' \<Longrightarrow> (\<And>t. rows_of h' t = (if t = td_name td then rows_of h t @ rows else rows_of h t)) \<Longrightarrow>
      runs (seed_accepts conn) h' k R"
  shows "runs (seed_accepts conn) h (seq (insert_unless_empty conn td rows) (\<lambda>_. k)) R"
proof (cases "rows = []")
  case True
  then have "runs (seed_accepts conn) h k R" using k [OF h] by simp
  then show ?thesis using True by (simp add: insert_unless_empty_def)
next
  case False
  show ?thesis
    unfolding insert_unless_empty_def if_not_P [OF False]
    by (rule runs_insert [OF accepted h], rule k) simp_all
qed

lemma runs_give: "Q a h \<Longrightarrow> runs ok h (give a) Q"
  by (simp add: runs_def give_def)

section \<open>The seeded database\<close>

definition counts_match :: "(string \<times> nat) list \<Rightarrow> inserts \<Rightarrow> bool" where
  "counts_match counts h \<longleftrightarrow> map fst counts = map td_name all_tables
     \<and> list_all (\<lambda>(t, n). n = length (rows_of h t)) counts
     \<and> map_of counts ''customers'' = Some 13 \<and> map_of counts ''orders'' = Some 85
     \<and> map_of counts ''support_tickets'' = Some 23"

definition holds_ledger :: "inserts \<Rightarrow> ledger \<Rightarrow> bool" where
  "holds_ledger h lg \<longleftrightarrow> rows_of h ''orders'' = map order_cells (lg_orders lg)
     \<and> rows_of h ''order_items'' = map item_cells (lg_items lg)
     \<and> rows_of h ''payments'' = map payment_cells (lg_payments lg)
     \<and> rows_of h ''refunds'' = map refund_cells (lg_refunds lg)"

lemma all_tables_simps:
  "organizations_table \<in> set all_tables" "regions_table \<in> set all_tables"
  "users_table \<in> set all_tables" "customers_table \<in> set all_tables" "products_table \<in> set all_tables"
  "orders_table \<in> set all_tables" "order_items_table \<in> set all_tables" "payments_table \<in> set all_tables"
  "refunds_table \<in> set all_tables" "subscriptions_table \<in> set all_tables"
  "support_tickets_table \<in> set all_tables"
  by (simp_all add: all_tables_def)

lemma runs_seq:
  assumes "runs ok h m Q" and "\<And>a h'. Q a h' \<Longrightarrow> runs ok h' (k a) R"
  shows "runs ok h (seq m k) R"
  using assms unfolding runs_def seq_def by (fastforce split: sum.splits prod.splits)

definition seeded_master :: "datetime \<Rightarrow> inserts \<Rightarrow> organization_row list \<times> user_row list \<times> customer_row list
    \<times> product_row list \<Rightarrow> inserts \<Rightarrow> bool" where
  "seeded_master base h0 = (\<lambda>(orgs, us, cs, ps) h. valid_inserts h \<and> good_orgs (dt_year base) orgs
     \<and> good_customers (dt_year base + 1) 8 5 cs \<and> map product_core ps = expected_products
     \<and> h = h0 @ [(''organizations'', map organization_cells orgs), (''regions'', map region_cells seed_regions),
         (''users'', map user_cells us), (''customers'', map customer_cells cs),
         (''products'', map product_cells ps)])"

lemma no_declared_rows_simps:
  assumes "no_declared_rows h"
  shows "rows_of h ''organizations'' = []" "rows_of h ''regions'' = []" "rows_of h ''users'' = []"
    "rows_of h ''customers'' = []" "rows_of h ''products'' = []" "rows_of h ''orders'' = []"
    "rows_of h ''order_items'' = []" "rows_of h ''payments'' = []" "rows_of h ''refunds'' = []"
    "rows_of h ''subscriptions'' = []" "rows_of h ''support_tickets'' = []"
  using assms by (simp_all add: no_declared_rows_def all_tables_def table_names)

lemma seed_master_run:
  assumes base: "good_base base" and h0: "no_declared_rows h0"
  shows "runs (seed_accepts conn) h0 (seed_master conn base) (seeded_master base h0)"
  unfolding seed_master_def
proof (rule runs_makes [OF makes_organizations [OF base]])
  let ?y = "dt_year base" and ?ok = "seed_accepts conn"
  have y: "?y < 9998" "?y < 9999" using base by (auto simp: good_base_def)
  fix orgs assume orgs: "good_orgs ?y orgs"
  note none = no_declared_rows_simps [OF h0]
  have ho: "has_orgs ?y (h0 @ (''organizations'', map organization_cells orgs) # h')"
    if "rows_of h' ''organizations'' = []" for h'
    using orgs that none by (auto simp: has_orgs_def intro!: exI [of _ orgs])
  show "runs ?ok h0 (seq (insert_rows conn organizations_table (map organization_cells orgs)) (\<lambda>_.
     seq (insert_rows conn regions_table (map region_cells seed_regions)) (\<lambda>_.
     seq (seed_users orgs) (\<lambda>users.
     seq (insert_rows conn users_table (map user_cells users)) (\<lambda>_.
     seq (seed_customers orgs) (\<lambda>customers.
     seq (insert_rows conn customers_table (map customer_cells customers)) (\<lambda>_.
     seq (seed_products orgs) (\<lambda>products.
     seq (insert_rows conn products_table (map product_cells products)) (\<lambda>_.
       give (orgs, users, customers, products)))))))))) (seeded_master base h0)"
    by (rule runs_insert [OF all_tables_simps(1) organizations_meet [OF orgs] valid_none [OF h0]], rule none,
        rule runs_insert [OF all_tables_simps(2) regions_meet], simp add: table_names none, assumption,
        rule runs_makes [OF makes_users [OF orgs y(2)]],
        rule runs_insert [OF all_tables_simps(3) users_meet], assumption,
        simp add: table_names none, rule ho, simp, simp add: table_names none, assumption,
        rule runs_makes [OF makes_customers [OF orgs y(1)]],
        rule runs_insert [OF all_tables_simps(4) customers_meet], assumption,
        simp add: table_names none, rule ho, simp, simp add: table_names none, simp add: table_names none, assumption,
        rule runs_makes [OF makes_products [OF orgs y(2)]],
        rule runs_insert [OF all_tables_simps(5) products_meet], assumption,
        simp add: table_names none, rule ho, simp, simp add: table_names none, assumption,
        rule runs_give)
      (simp add: seeded_master_def orgs table_names)
qed

definition activity_tables :: "string list" where
  "activity_tables = [''orders'', ''order_items'', ''payments'', ''refunds'', ''subscriptions'', ''support_tickets'']"

definition seeded_activity :: "inserts \<Rightarrow> customer_row list \<Rightarrow> ledger \<times> subscription_row list \<times> ticket_row list
    \<Rightarrow> inserts \<Rightarrow> bool" where
  "seeded_activity h cs = (\<lambda>(lg, ss, ts) h'. valid_inserts h' \<and> holds_ledger h' lg \<and> balanced lg
     \<and> (\<forall>p\<in>set (lg_payments lg). 0 \<le> pm_amount p) \<and> length (lg_orders lg) = 85 \<and> length ts = 23
     \<and> rows_of h' ''subscriptions'' = map subscription_cells ss
     \<and> rows_of h' ''support_tickets'' = map ticket_cells ts
     \<and> (\<forall>t. t \<notin> set activity_tables \<longrightarrow> rows_of h' t = rows_of h t))"

lemma seed_activity_run:
  assumes base: "good_base base" and orgs: "good_orgs (dt_year base) orgs" and cs: "good_customers y 8 5 cs"
    and y: "y < 9998" and ps: "map product_core ps = expected_products" and v: "valid_inserts h"
    and h: "rows_of h ''organizations'' = map organization_cells orgs"
      "rows_of h ''customers'' = map customer_cells cs" "rows_of h ''products'' = map product_cells ps"
      "\<And>t. t \<in> set activity_tables \<Longrightarrow> rows_of h t = []"
  shows "runs (seed_accepts conn) h (seed_activity conn base orgs cs ps) (seeded_activity h cs)"
  unfolding seed_activity_def
proof (rule runs_makes [OF makes_orders [OF base orgs cs ps]])
  let ?ok = "seed_accepts conn" and ?z = "dt_year base"
  have none: "rows_of h ''orders'' = []" "rows_of h ''order_items'' = []" "rows_of h ''payments'' = []"
    "rows_of h ''refunds'' = []" "rows_of h ''subscriptions'' = []" "rows_of h ''support_tickets'' = []"
    by (rule h(4), simp add: activity_tables_def)+
  fix lg assume lg: "good_ledger cs ps 85 lg"
  have nonneg: "\<forall>p\<in>set (lg_payments lg). 0 \<le> pm_amount p"
    using lg by (auto simp: good_ledger_def well_shaped_def good_payment_def parts_def)
  let ?o = "[(td_name orders_table, map order_cells (lg_orders lg))]"
    and ?i = "[(td_name order_items_table, map item_cells (lg_items lg))]"
  have ho: "has_orgs ?z h'" if "rows_of h' ''organizations'' = rows_of h ''organizations''" for h'
    using orgs h(1) that by (auto simp: has_orgs_def intro!: exI [of _ orgs])
  show "runs ?ok h (seq (insert_rows conn orders_table (map order_cells (lg_orders lg))) (\<lambda>_.
     seq (insert_rows conn order_items_table (map item_cells (lg_items lg))) (\<lambda>_.
     seq (insert_unless_empty conn payments_table (map payment_cells (lg_payments lg))) (\<lambda>_.
     seq (insert_unless_empty conn refunds_table (map refund_cells (lg_refunds lg))) (\<lambda>_.
     seq (seed_subscriptions orgs cs) (\<lambda>subscriptions.
     seq (insert_unless_empty conn subscriptions_table (map subscription_cells subscriptions)) (\<lambda>_.
     seq (seed_tickets orgs cs base) (\<lambda>tickets.
     seq (insert_rows conn support_tickets_table (map ticket_cells tickets)) (\<lambda>_.
       give (lg, subscriptions, tickets)))))))))) (seeded_activity h cs)"
  proof (rule runs_insert [OF all_tables_simps(6) orders_meet [OF lg ho h(2) none(1)] v], simp,
      rule runs_insert [OF all_tables_simps(7) items_meet [OF lg ho _ _ _]],
      simp add: table_names, simp add: table_names none, simp add: table_names h, simp add: table_names none,
      assumption, rule runs_insert_unless_empty [OF all_tables_simps(8) payments_meet [OF lg ho _ _]],
      simp add: table_names, simp add: table_names none, simp add: table_names none, assumption)
    fix h1 assume 1: "valid_inserts h1" "\<And>t. rows_of h1 t = (if t = td_name payments_table
        then rows_of ((h @ ?o) @ ?i) t @ map payment_cells (lg_payments lg) else rows_of ((h @ ?o) @ ?i) t)"
    show "runs ?ok h1 (seq (insert_unless_empty conn refunds_table (map refund_cells (lg_refunds lg))) (\<lambda>_.
     seq (seed_subscriptions orgs cs) (\<lambda>subscriptions.
     seq (insert_unless_empty conn subscriptions_table (map subscription_cells subscriptions)) (\<lambda>_.
     seq (seed_tickets orgs cs base) (\<lambda>tickets.
     seq (insert_rows conn support_tickets_table (map ticket_cells tickets)) (\<lambda>_.
       give (lg, subscriptions, tickets))))))) (seeded_activity h cs)"
    proof (rule runs_insert_unless_empty [OF all_tables_simps(9) refunds_meet [OF lg ho _ _ _] 1(1)],
        simp add: 1 table_names, simp add: 1 table_names none, simp add: 1 table_names none,
        simp add: 1 table_names none, rule runs_makes [OF makes_subscriptions [OF orgs cs y]])
      fix h2 ss
      assume 2: "valid_inserts h2" "\<And>t. rows_of h2 t = (if t = td_name refunds_table
        then rows_of h1 t @ map refund_cells (lg_refunds lg) else rows_of h1 t)"
        and ss: "numbered sb_id ss \<and> (\<forall>x\<in>set ss. good_subscription cs x)"
      show "runs ?ok h2 (seq (insert_unless_empty conn subscriptions_table (map subscription_cells ss)) (\<lambda>_.
     seq (seed_tickets orgs cs base) (\<lambda>tickets.
     seq (insert_rows conn support_tickets_table (map ticket_cells tickets)) (\<lambda>_.
       give (lg, ss, tickets))))) (seeded_activity h cs)"
      proof (rule runs_insert_unless_empty [OF all_tables_simps(10)
            subscriptions_meet [OF conjunct1 [OF ss] conjunct2 [OF ss] ho _ _] 2(1)],
          simp add: 1 2 table_names, simp add: 1 2 table_names h, simp add: 1 2 table_names none,
          rule runs_makes [OF makes_tickets [OF base orgs cs ps]])
        fix h3 ts
        assume 3: "valid_inserts h3" "\<And>t. rows_of h3 t = (if t = td_name subscriptions_table
          then rows_of h2 t @ map subscription_cells ss else rows_of h2 t)"
          and ts: "good_tickets cs 23 ts"
        show "runs ?ok h3 (seq (insert_rows conn support_tickets_table (map ticket_cells ts)) (\<lambda>_.
            give (lg, ss, ts))) (seeded_activity h cs)"
          by (rule runs_insert [OF all_tables_simps(11) tickets_meet [OF ts ho _ _] 3(1)],
              simp add: 1 2 3 table_names, simp add: 1 2 3 table_names h, simp add: 1 2 3 table_names none,
              rule runs_give)
            (use lg ts nonneg in \<open>simp add: seeded_activity_def holds_ledger_def good_ledger_def good_tickets_def
              1 2 3 table_names none activity_tables_def\<close>)
      qed
    qed
  qed
qed

definition seeded :: "(string \<times> nat) list \<Rightarrow> inserts \<Rightarrow> bool" where
  "seeded counts h \<longleftrightarrow> valid_inserts h \<and> counts_match counts h \<and> (\<exists>lg. holds_ledger h lg \<and> balanced lg
     \<and> (\<forall>p\<in>set (lg_payments lg). 0 \<le> pm_amount p))"

lemma all_table_names: "map td_name all_tables = [''organizations'', ''regions'', ''users'', ''customers'',
    ''products'', ''orders'', ''order_items'', ''payments'', ''refunds'', ''subscriptions'', ''support_tickets'']"
  by code_simp

lemma seed_rows_run:
  assumes base: "good_base base" and h0: "no_declared_rows h0"
  shows "runs (seed_accepts conn) h0 (seed_rows conn base) seeded"
  unfolding seed_rows_def
proof (rule runs_seq [OF seed_master_run [OF base h0]])
  fix m h
  note none = no_declared_rows_simps [OF h0]
  assume "seeded_master base h0 m h"
  then obtain orgs us cs ps where m: "m = (orgs, us, cs, ps)" "valid_inserts h"
    "good_orgs (dt_year base) orgs" "good_customers (dt_year base + 1) 8 5 cs"
    "map product_core ps = expected_products"
    "h = h0 @ [(''organizations'', map organization_cells orgs), (''regions'', map region_cells seed_regions),
         (''users'', map user_cells us), (''customers'', map customer_cells cs),
         (''products'', map product_cells ps)]"
    by (cases m) (auto simp: seeded_master_def)
  have y: "dt_year base + 1 < 9998" using base by (simp add: good_base_def)
  have "map cu_organization_id cs = replicate 8 1 @ replicate 5 2"
    using m(4) unfolding good_customers_def by blast
  from arg_cong [OF this, of length] have cs: "length cs = 13" by simp
  show "runs (seed_accepts conn) h (case m of (orgs, users, customers, products) \<Rightarrow>
     seq (seed_activity conn base orgs customers products) (\<lambda>(lg, subscriptions, tickets).
       give [(''organizations'', length orgs), (''regions'', length seed_regions),
         (''users'', length users), (''customers'', length customers),
         (''products'', length products), (''orders'', length (lg_orders lg)),
         (''order_items'', length (lg_items lg)), (''payments'', length (lg_payments lg)),
         (''refunds'', length (lg_refunds lg)), (''subscriptions'', length subscriptions),
         (''support_tickets'', length tickets)])) seeded"
    unfolding m(1) split_conv
  proof (rule runs_seq [OF seed_activity_run [OF base m(3,4) y m(5,2)]])
    fix a h' assume "seeded_activity h cs a h'"
    then obtain lg ss ts where a: "a = (lg, ss, ts)" "valid_inserts h'" "holds_ledger h' lg" "balanced lg"
      "\<forall>p\<in>set (lg_payments lg). 0 \<le> pm_amount p"
      "length (lg_orders lg) = 85" "length ts = 23" "rows_of h' ''subscriptions'' = map subscription_cells ss"
      "rows_of h' ''support_tickets'' = map ticket_cells ts"
      "\<forall>t. t \<notin> set activity_tables \<longrightarrow> rows_of h' t = rows_of h t"
      by (cases a) (auto simp: seeded_activity_def)
    have same: "rows_of h' ''organizations'' = rows_of h ''organizations''"
      "rows_of h' ''regions'' = rows_of h ''regions''" "rows_of h' ''users'' = rows_of h ''users''"
      "rows_of h' ''customers'' = rows_of h ''customers''" "rows_of h' ''products'' = rows_of h ''products''"
      by (rule a(10) [rule_format], simp add: activity_tables_def)+
    have lgs: "rows_of h' ''orders'' = map order_cells (lg_orders lg)"
      "rows_of h' ''order_items'' = map item_cells (lg_items lg)"
      "rows_of h' ''payments'' = map payment_cells (lg_payments lg)"
      "rows_of h' ''refunds'' = map refund_cells (lg_refunds lg)"
      using a(3) by (simp_all add: holds_ledger_def)
    show "runs (seed_accepts conn) h' (case a of (lg, subscriptions, tickets) \<Rightarrow>
       give [(''organizations'', length orgs), (''regions'', length seed_regions),
         (''users'', length us), (''customers'', length cs),
         (''products'', length ps), (''orders'', length (lg_orders lg)),
         (''order_items'', length (lg_items lg)), (''payments'', length (lg_payments lg)),
         (''refunds'', length (lg_refunds lg)), (''subscriptions'', length subscriptions),
         (''support_tickets'', length tickets)]) seeded"
      unfolding a(1) split_conv
    proof (rule runs_give, unfold seeded_def, intro conjI exI [of _ lg] a(2-5), unfold counts_match_def all_table_names,
        intro conjI)
    qed (simp_all add: lgs a(6-9) same m(6) none cs)
  next
    fix t assume "t \<in> set activity_tables"
    then show "rows_of h t = []"
      unfolding activity_tables_def list.set insert_iff empty_iff
      by (elim disjE FalseE; simp only: m(6) rows_of_simps none; simp)
  qed (simp_all add: m(6) none)
qed

lemma seed_database_run:
  assumes "good_base base" and "no_declared_rows (sw_inserts w)"
  shows "case seed_database rng conn base w of
      (Inr counts, w') \<Rightarrow> seeded counts (sw_inserts w')
    | (Inl _, w') \<Rightarrow> sw_inserts w' = sw_inserts w \<and> \<not> seed_accepts conn"
proof -
  let ?w = "w\<lparr> sw_draws := rng rng_seed \<rparr>"
  have w: "sw_inserts ?w = sw_inserts w" by simp
  have r: "case seed_rows conn base ?w of (Inr a, w') \<Rightarrow> seeded a (sw_inserts w')
      | (Inl _, _) \<Rightarrow> \<not> seed_accepts conn"
    by (rule seed_rows_run [OF assms, unfolded runs_def, THEN spec, THEN mp, OF w])
  have s: "seed_database rng conn base w = in_transaction (seed_rows conn base) ?w"
    by (simp add: seed_database_def seq_def change_def)
  show ?thesis
  proof (cases "seed_rows conn base ?w")
    case (Pair x w')
    with r w show ?thesis unfolding s in_transaction_def by (cases x) simp_all
  qed
qed

lemma declared_connection_accepts: "seed_accepts declared_connection"
proof -
  have "list_all (\<lambda>td. find (\<lambda>t. td_name t = td_name td) all_tables = Some td) all_tables" by code_simp
  then show ?thesis by (simp add: seed_accepts_def declared_connection_def list_all_iff)
qed

section \<open>Properties\<close>

text \<open>
  C16: Whatever numbers the generator draws, seeding empty tables is all or nothing: either
  every row inserted met every declared constraint when it was inserted, no reference leaves its
  organization and the counts returned are those of the tables; or nothing is kept, which happens
  only where the database refuses rows that meet the constraints.
\<close>

theorem seeding_all_or_nothing:
  assumes "good_base base" and "no_declared_rows (sw_inserts w)"
  shows "case seed_database rng conn base w of
      (Inr counts, w') \<Rightarrow> valid_inserts (sw_inserts w') \<and> counts_match counts (sw_inserts w')
    | (Inl _, w') \<Rightarrow> sw_inserts w' = sw_inserts w \<and> \<not> seed_accepts conn"
  using seed_database_run [OF assms, where rng = rng and conn = conn] by (simp add: seeded_def split: prod.splits sum.splits)

lemma good_seed_base: "good_base seed_base_date"
  by (simp add: good_base_def seed_base_date_def valid_date_def days_in_month_def)

definition example_seed_world :: seed_world where
  "example_seed_world = \<lparr> sw_draws = sconst 0, sw_inserts = [] \<rparr>"

lemma seeding_all_or_nothing_witness:
  "\<exists>counts w'. seed_database (\<lambda>_. sconst 0) declared_connection seed_base_date example_seed_world
     = (Inr counts, w') \<and> valid_inserts (sw_inserts w') \<and> counts_match counts (sw_inserts w')"
  using seeding_all_or_nothing [OF good_seed_base, where w = example_seed_world and rng = "\<lambda>_. sconst 0"
      and conn = declared_connection]
    declared_connection_accepts
  by (auto simp: example_seed_world_def no_declared_rows_def list_all_iff split: prod.splits sum.splits)

text \<open>
  C19: The ledger of the sample data balances: exactly the paid, shipped and refunded orders have a
  payment, each of exactly what the items of its order cost; exactly the refunded orders have a
  refund, of all or half of their payment; and no refund exceeds its payment.
\<close>

theorem seeded_ledger_balances:
  assumes "good_base base" and "no_declared_rows (sw_inserts w)"
    and "seed_database rng conn base w = (Inr counts, w')"
  shows "\<exists>lg. holds_ledger (sw_inserts w') lg \<and> balanced lg
    \<and> list_all (\<lambda>f. list_ex (\<lambda>p. pm_id p = rf_payment_id f \<and> rf_amount f \<le> pm_amount p) (lg_payments lg))
        (lg_refunds lg)"
proof -
  obtain lg where lg: "holds_ledger (sw_inserts w') lg" "balanced lg"
      "\<forall>p\<in>set (lg_payments lg). 0 \<le> pm_amount p"
    using seed_database_run [OF assms(1,2), where rng = rng and conn = conn] assms(3) by (auto simp: seeded_def)
  have "\<exists>p\<in>set (lg_payments lg). pm_id p = rf_payment_id f \<and> rf_amount f \<le> pm_amount p"
    if f: "f \<in> set (lg_refunds lg)" for f
  proof -
    obtain p where p: "p \<in> set (lg_payments lg)" "refunds_payment f p"
      using lg(2) f unfolding balanced_def by blast
    then show ?thesis using lg(3) by (intro bexI [of _ p]) (auto simp: refunds_payment_def)
  qed
  with lg(1,2) show ?thesis by (intro exI [of _ lg]) (simp add: list_all_iff list_ex_iff)
qed

lemma seeded_ledger_balances_witness:
  "\<exists>counts w' lg. seed_database (\<lambda>_. sconst 0) declared_connection seed_base_date example_seed_world
     = (Inr counts, w') \<and> holds_ledger (sw_inserts w') lg \<and> balanced lg"
proof -
  have w: "no_declared_rows (sw_inserts example_seed_world)"
    by (simp add: example_seed_world_def no_declared_rows_def list_all_iff)
  obtain counts w' where r: "seed_database (\<lambda>_. sconst 0) declared_connection seed_base_date example_seed_world
      = (Inr counts, w')"
    using seed_database_run [OF good_seed_base w, where rng = "\<lambda>_. sconst 0" and conn = declared_connection]
      declared_connection_accepts by (auto split: prod.splits sum.splits)
  then show ?thesis using seeded_ledger_balances [OF good_seed_base w r] by blast
qed

end
