(* ===== verification/Administration.thy ===== *)
theory Administration
  imports SeedData Deployment
begin

text \<open>
  Creating and filling the reference database: the migration
  (\<open>migrations/versions/0001_initial_schema.py\<close>) and the scripts \<open>init_db.py\<close> and \<open>seed.py\<close>.
  The database of the configured engine is its tables and inserts; disposing of the connection
  pool at the end changes neither.
\<close>

section \<open>The initial migration\<close>

definition revision :: string where
  "revision = ''0001_initial''"

definition down_revision :: "string option" where
  "down_revision = None"

definition upgrade :: "database_state \<Rightarrow> database_state" where
  "upgrade db = create_all all_tables db"

definition downgrade :: "database_state \<Rightarrow> database_state" where
  "downgrade db = drop_all all_tables db"

section \<open>The scripts\<close>

text \<open>\<open>seed_database(database.engine)\<close> on the database of the engine.\<close>

definition run_seed :: "(int \<Rightarrow> nat stream) \<Rightarrow> connection \<Rightarrow> database_state \<Rightarrow>
    (failure + (string \<times> nat) list) \<times> database_state" where
  "run_seed rng conn db =
     (case seed_database rng conn seed_base_date \<lparr> sw_draws = rng rng_seed, sw_inserts = ds_rows db \<rparr> of
        (r, w) \<Rightarrow> (r, db\<lparr> ds_rows := sw_inserts w \<rparr>))"

text \<open>What \<open>init_db.py\<close> prints after seeding: the total and the counts.\<close>

definition init_db_main :: "('e, 'n) externals \<Rightarrow> settings \<Rightarrow> bool \<Rightarrow> bool \<Rightarrow> (int \<Rightarrow> nat stream) \<Rightarrow>
    connection \<Rightarrow> database_state \<Rightarrow> (failure + (nat \<times> (string \<times> nat) list) option) \<times> database_state" where
  "init_db_main ext s drop_first seed rng conn db = (case make_database ext s of
     Inl x \<Rightarrow> (Inl x, db)
   | Inr _ \<Rightarrow> (let db1 = create_schema drop_first db in
       if seed then (case run_seed rng conn db1 of
           (Inl x, db2) \<Rightarrow> (Inl x, db2)
         | (Inr counts, db2) \<Rightarrow> (Inr (Some (sum_list (map snd counts), counts)), db2))
       else (Inr None, db1)))"

definition seed_main :: "('e, 'n) externals \<Rightarrow> settings \<Rightarrow> bool \<Rightarrow> (int \<Rightarrow> nat stream) \<Rightarrow>
    connection \<Rightarrow> database_state \<Rightarrow> (failure + (string \<times> nat) list) \<times> database_state" where
  "seed_main ext s reset rng conn db = (case make_database ext s of
     Inl x \<Rightarrow> (Inl x, db)
   | Inr _ \<Rightarrow> run_seed rng conn (if reset then create_schema True db else db))"

end
