(* ===== verification/Startup.thy ===== *)
theory Startup
  imports LogOutput DeploymentProperties
begin

text \<open>
  Starting the service: \<open>create_app\<close> of \<open>api/app.py\<close>, which configures logging, builds or takes
  the container and logs the start, its shutdown handler, and \<open>run\<close> of \<open>main.py\<close>, which serves on
  the configured host and port. \<open>HttpApi\<close> models the endpoints and \<open>Service\<close> the routes.
\<close>

section \<open>The application\<close>

fun environment_value :: "environment \<Rightarrow> string" where
  "environment_value DEVELOPMENT = ''development''"
| "environment_value STAGING = ''staging''"
| "environment_value PRODUCTION = ''production''"
| "environment_value TEST = ''test''"

record ('e, 'n) application =
  ap_container :: "('e, 'n) app_container"
  ap_settings :: settings
  ap_owns_container :: bool

definition started_call :: "settings \<Rightarrow> log_call" where
  "started_call s = \<lparr> lc_logger = ''text_to_sql.api.app'', lc_bound = ''-'', lc_level = LV_INFO,
     lc_event = ''application_started'', lc_redact = True, lc_exc = None,
     lc_fields = [(''environment'', JStr (environment_value (st_environment s))),
       (''provider'', JStr (st_llm_provider s)), (''dialect'', JStr (st_sql_dialect s))] \<rparr>"

text \<open>The application or what start-up raises, the logging set up, and what was written to the log.\<close>

definition create_app ::
    "('e, 'n) externals \<Rightarrow> (rat \<Rightarrow> string) \<Rightarrow> (string \<Rightarrow> log_record \<Rightarrow> string) \<Rightarrow> settings
      \<Rightarrow> ('e, 'n) app_container option \<Rightarrow> logging_state
      \<Rightarrow> (failure + ('e, 'n) application) \<times> logging_state \<times> string" where
  "create_app ext num console s container lg =
     (case configure_logging (st_log_level s) (st_log_json s) lg of
        Inl x \<Rightarrow> (Inl (Unhandled x), lg, [])
      | Inr lg1 \<Rightarrow> (case (case container of None \<Rightarrow> create ext s None None | Some c \<Rightarrow> Inr c) of
          Inl x \<Rightarrow> (Inl x, lg1, [])
        | Inr c \<Rightarrow> (Inr \<lparr> ap_container = c, ap_settings = s, ap_owns_container = (container = None) \<rparr>, lg1,
            log_output num console lg1 (started_call s))))"

text \<open>
  \<open>Database.dispose\<close>: the engines whose pools are closed, in order. The two engines of a database
  made by \<open>make_database\<close> are different objects, whatever their options, so both are closed.
\<close>

definition dispose :: "database \<Rightarrow> engine_spec list" where
  "dispose db = [da_engine db, da_readonly db]"

definition shutdown_call :: log_call where
  "shutdown_call = \<lparr> lc_logger = ''text_to_sql.api.app'', lc_bound = ''-'', lc_level = LV_INFO,
     lc_event = ''application_shutdown'', lc_redact = True, lc_exc = None, lc_fields = [] \<rparr>"

text \<open>The shutdown handler: the engines closed, and what is written to the log.\<close>

definition shutdown ::
    "(rat \<Rightarrow> string) \<Rightarrow> (string \<Rightarrow> log_record \<Rightarrow> string) \<Rightarrow> logging_state \<Rightarrow> ('e, 'n) application
      \<Rightarrow> engine_spec list \<times> string" where
  "shutdown num console lg app =
     (if ap_owns_container app then dispose (cn_database (ap_container app)) else [],
      log_output num console lg shutdown_call)"

text \<open>What \<open>run\<close> hands to uvicorn: the application to import, the host and the port.\<close>

definition run_server :: "settings \<Rightarrow> string \<times> string \<times> int" where
  "run_server s = (''text_to_sql.main:app'', st_api_host s, st_api_port s)"

section \<open>Start-up of validated settings\<close>

lemma valid_level:
  assumes "make_settings raw schemas = Inr s"
  obtains n where "map_of level_numbers (upper (st_log_level s)) = Some n"
proof -
  have "upper (st_log_level raw) \<in> {''DEBUG'', ''INFO'', ''WARNING'', ''ERROR'', ''CRITICAL''}"
    and s: "st_log_level s = upper (st_log_level raw)"
    using make_settings_valid(1) [OF assms] assms
    by (auto simp: field_errors_def validate_log_level_def make_settings_def split: if_splits)
  moreover have "list_all (\<lambda>l. map_of level_numbers (upper l) \<noteq> None) [''DEBUG'', ''INFO'', ''WARNING'', ''ERROR'', ''CRITICAL'']"
    by code_simp
  ultimately show ?thesis using that by (auto simp: s)
qed

lemma valid_port: "make_settings raw schemas = Inr s \<Longrightarrow> 1 \<le> st_api_port s \<and> st_api_port s \<le> 65535"
  using make_settings_valid(1) [of raw schemas s]
  by (auto simp: field_errors_def between_def make_settings_def split: if_splits)

text \<open>
  With validated settings start-up configures logging with one handler on standard output,
  fails exactly when building the deployment fails, and serves on a valid port; when it
  succeeds, exactly one line is written if the level lets information through, else nothing.
\<close>

lemma validated_settings_start:
  assumes "make_settings raw schemas = Inr s" and "st_log_json s" and "\<forall>q. CHR 0x0A \<notin> set (num q)"
  shows "\<exists>r lg1 out. create_app ext num console s None lg = (r, lg1, out)
    \<and> lo_handlers lg1 = [\<lparr> hd_stream = ''stdout'', hd_formatter = JsonFormatter \<rparr>]
    \<and> (case create ext s None None of
         Inl x \<Rightarrow> r = Inl x \<and> out = []
       | Inr c \<Rightarrow> r = Inr \<lparr> ap_container = c, ap_settings = s, ap_owns_container = True \<rparr>
           \<and> count_list out (CHR 0x0A) = (if enabled_for lg1 LV_INFO then 1 else 0))
    \<and> 1 \<le> snd (snd (run_server s)) \<and> snd (snd (run_server s)) \<le> 65535"
proof -
  obtain n where "map_of level_numbers (upper (st_log_level s)) = Some n" by (rule valid_level [OF assms(1)])
  then obtain lg1 where lg1: "configure_logging (st_log_level s) True lg = Inr lg1"
    by (simp add: configure_logging_def)
  have h: "lo_handlers lg1 = [\<lparr> hd_stream = ''stdout'', hd_formatter = JsonFormatter \<rparr>]"
    using configured_handlers [OF lg1] by simp
  have "count_list (log_output num console lg1 (started_call s)) (CHR 0x0A) = (if enabled_for lg1 LV_INFO then 1 else 0)"
    using call_newlines [OF assms(3) h, of console "started_call s"] by (simp add: started_call_def)
  then show ?thesis
    using lg1 h valid_port [OF assms(1)] assms(2)
    by (cases "create ext s None None") (auto simp: create_app_def run_server_def)
qed

text \<open>
  An application closes exactly the engines it opened: the two of the database its settings
  describe when it built its container, none when it was given one.
\<close>

lemma shutdown_closes_own_engines:
  assumes "create_app ext num console s container lg = (Inr app, lg1, out)"
  shows "case container of
     None \<Rightarrow> \<exists>db. make_database ext s = Inr db
       \<and> fst (shutdown num console lg1 app) = [da_engine db, da_readonly db]
   | Some c \<Rightarrow> fst (shutdown num console lg1 app) = []"
  using assms
  by (auto simp: create_app_def shutdown_def dispose_def create_def and_then_Inr split: sum.splits option.splits)

end
