(* ===== verification/Service.thy ===== *)
theory Service
  imports HttpProperties DeploymentProperties
begin

text \<open>
  The service as a whole: the routes of \<open>api/routes.py\<close> and \<open>api/health.py\<close> as one datatype of
  requests, dispatched to their endpoints through the middleware, and a sequence of requests
  served one after the other by a deployment from its start. The container that every handler
  reaches is the same for all requests, so the cache, the metrics and the database carry over.
\<close>

section \<open>Requests and their endpoints\<close>

datatype route =
    PostQuery http_identity "field_error list + query_request"
  | PostQueryPreview http_identity "field_error list + query_request"
  | PostValidate http_identity "field_error list + validate_sql_request"
  | GetSchema http_identity
  | PostSchemaRefresh http_identity
  | GetLive
  | GetReady
  | GetMetrics

record http_request =
  hq_header :: "string option"
  hq_route :: route

fun endpoint_of ::
    "(rat \<Rightarrow> string) \<Rightarrow> (rat \<Rightarrow> string) \<Rightarrow> ('e, 'n) app_container \<Rightarrow> route
      \<Rightarrow> (nat \<times> api_body, 'z orchestrator_world_scheme) call" where
  "endpoint_of bound num c (PostQuery i body) = post_query (cn_orchestrator c) i body"
| "endpoint_of bound num c (PostQueryPreview i body) = post_query_preview (cn_orchestrator c) i body"
| "endpoint_of bound num c (PostValidate i body) = post_validate (cn_orchestrator c) i body"
| "endpoint_of bound num c (GetSchema i) = get_schema_endpoint (cn_orchestrator c) i"
| "endpoint_of bound num c (PostSchemaRefresh i) = post_schema_refresh (cn_orchestrator c) i"
| "endpoint_of bound num c GetLive = live"
| "endpoint_of bound num c GetReady = ready (cn_orchestrator c)"
| "endpoint_of bound num c GetMetrics = metrics_endpoint bound num (st_metrics_enabled (cn_settings c))"

definition handle ::
    "(rat \<Rightarrow> string) \<Rightarrow> (rat \<Rightarrow> string) \<Rightarrow> ('e, 'n) app_container \<Rightarrow> http_request
      \<Rightarrow> 'z orchestrator_world_scheme \<Rightarrow> reply \<times> 'z orchestrator_world_scheme" where
  "handle bound num c rq = serve (cn_orchestrator c) (hq_header rq) (endpoint_of bound num c (hq_route rq))"

fun handle_all ::
    "(rat \<Rightarrow> string) \<Rightarrow> (rat \<Rightarrow> string) \<Rightarrow> ('e, 'n) app_container \<Rightarrow> http_request list
      \<Rightarrow> 'z orchestrator_world_scheme \<Rightarrow> reply list \<times> 'z orchestrator_world_scheme" where
  "handle_all bound num c [] w = ([], w)"
| "handle_all bound num c (rq # rqs) w =
     (let (r, w1) = handle bound num c rq w; (rs, w2) = handle_all bound num c rqs w1 in (r # rs, w2))"

section \<open>What a request may send\<close>

text \<open>
  The statements a request is allowed to cause: those authorized for the identity in its headers
  and the request in its body, with execution only for \<open>/query\<close>, and the probe for \<open>/health/ready\<close>.
\<close>

fun route_may_send ::
    "('e, 'n) orchestrator \<Rightarrow> ('e \<Rightarrow> 'n \<Rightarrow> tenant_predicate set) \<Rightarrow> route \<Rightarrow> string \<Rightarrow> bool" where
  "route_may_send oc conds (PostQuery i body) s \<longleftrightarrow> (\<exists>auth request. identity_of i = Inr auth \<and> body = Inr request
     \<and> may_send oc conds (request_dialect oc (qr_dialect request)) auth (effective_max_rows oc request) True s)"
| "route_may_send oc conds (PostQueryPreview i body) s \<longleftrightarrow> (\<exists>auth request. identity_of i = Inr auth \<and> body = Inr request
     \<and> may_send oc conds (request_dialect oc (qr_dialect request)) auth (effective_max_rows oc request) False s)"
| "route_may_send oc conds (PostValidate i body) s \<longleftrightarrow> (\<exists>auth request. identity_of i = Inr auth \<and> body = Inr request
     \<and> may_send oc conds (request_dialect oc (vr_dialect request)) auth (oc_max_rows oc) False s)"
| "route_may_send oc conds GetReady s \<longleftrightarrow> s = ''SELECT 1''"
| "route_may_send oc conds (GetSchema i) s \<longleftrightarrow> False"
| "route_may_send oc conds (PostSchemaRefresh i) s \<longleftrightarrow> False"
| "route_may_send oc conds GetLive s \<longleftrightarrow> False"
| "route_may_send oc conds GetMetrics s \<longleftrightarrow> False"

lemma keeps_identify:
  "(\<And>auth. identity_of i = Inr auth \<Longrightarrow> keeps P (k auth)) \<Longrightarrow> keeps P (seq (identify i) k)"
  by (cases "identity_of i") (simp_all add: seq_identify)

lemma keeps_parsed:
  "(\<And>request. body = Inr request \<Longrightarrow> keeps P (k request)) \<Longrightarrow> keeps P (seq (parsed body) k)"
  by (cases body) simp_all

lemma query_route_sent:
  assumes "documented_sqlglot (oc_sqlglot oc) conds" and "oc_max_rows oc < 10 ^ 12"
  shows "keeps (sent_only (oc_catalog oc) (\<lambda>s. \<exists>auth request. identity_of i = Inr auth \<and> body = Inr request
     \<and> may_send oc conds (request_dialect oc (qr_dialect request)) auth (effective_max_rows oc request) exec s) L)
     (query_endpoint oc exec i body)"
  unfolding query_endpoint_def
proof (intro keeps_identify keeps_parsed keeps_seq keeps_give, goal_cases)
  case (1 auth request)
  have "effective_max_rows oc request < 10 ^ 12"
    using effective_max_rows_le [of oc request] assms(2) by linarith
  from process_sent [OF assms(1) this, of exec exec auth L] 1 show ?case by simp
qed

lemma validate_route_sent:
  assumes "documented_sqlglot (oc_sqlglot oc) conds" and "oc_max_rows oc < 10 ^ 12"
  shows "keeps (sent_only (oc_catalog oc) (route_may_send oc conds (PostValidate i body)) L) (post_validate oc i body)"
  unfolding post_validate_def
proof (intro keeps_identify keeps_parsed keeps_seq keeps_give, goal_cases)
  case (1 auth request)
  then have "route_may_send oc conds (PostValidate i body)
      = may_send oc conds (request_dialect oc (vr_dialect request)) auth (oc_max_rows oc) False"
    by (intro ext) simp
  then show ?case by (simp only: validate_sql_sent [OF assms])
qed

lemma keeps_refresh: "keeps (sent_only cat S L) (refresh cat)"
  unfolding keeps_iff
proof (intro allI impI)
  fix w assume w: "sent_only cat S L w"
  have "cache_ok cat (snd (refresh cat w))" by (rule refreshing.keeps) (use w in \<open>simp add: sent_only_def\<close>)
  then show "sent_only cat S L (snd (refresh cat w))"
    using w by (simp add: sent_only_def refresh_def get_schema_log)
qed

lemma keeps_check: "(\<And>a. keeps P (k a)) \<Longrightarrow> keeps P (seq (check r) k)"
  by (cases r) (simp_all add: check_def)

lemma keeps_succeeded: "keeps P m \<Longrightarrow> keeps P (succeeded m)"
  by (simp add: keeps_iff succeeded_def split: prod.splits sum.splits) (metis snd_conv)

lemma keeps_probe: "S ''SELECT 1'' \<Longrightarrow> keeps (sent_only cat S L) (check_connection oc)"
  by (auto simp: keeps_iff check_connection_def sent_only_def cache_ok_def send_def split: option.splits)

lemma route_may_send_fun:
  "route_may_send oc conds (PostQuery i body) = (\<lambda>s. \<exists>auth request. identity_of i = Inr auth \<and> body = Inr request
     \<and> may_send oc conds (request_dialect oc (qr_dialect request)) auth (effective_max_rows oc request) True s)"
  "route_may_send oc conds (PostQueryPreview i body) = (\<lambda>s. \<exists>auth request. identity_of i = Inr auth \<and> body = Inr request
     \<and> may_send oc conds (request_dialect oc (qr_dialect request)) auth (effective_max_rows oc request) False s)"
  by (intro ext, simp)+

lemma endpoint_sent:
  assumes "documented_sqlglot (oc_sqlglot (cn_orchestrator c)) conds" and "oc_max_rows (cn_orchestrator c) < 10 ^ 12"
  shows "keeps (sent_only (oc_catalog (cn_orchestrator c)) (route_may_send (cn_orchestrator c) conds r) L)
     (endpoint_of bound num c r)"
proof (cases r)
  case (PostQuery i body)
  then show ?thesis using query_route_sent [OF assms, of i body True L]
    by (simp only: endpoint_of.simps route_may_send_fun post_query_def)
next
  case (PostQueryPreview i body)
  then show ?thesis using query_route_sent [OF assms, of i body False L]
    by (simp only: endpoint_of.simps route_may_send_fun post_query_preview_def)
next
  case (PostValidate i body)
  then show ?thesis by (simp only: endpoint_of.simps validate_route_sent [OF assms])
next
  case (GetSchema i)
  then show ?thesis
    by (auto simp: get_schema_endpoint_def intro!: keeps_identify keeps_seq keeps_get_schema)
next
  case (PostSchemaRefresh i)
  then show ?thesis
    by (auto simp: post_schema_refresh_def intro!: keeps_identify keeps_check keeps_seq keeps_refresh)
next
  case GetReady
  then show ?thesis
    by (auto simp: ready_def intro!: keeps_seq keeps_probe keeps_succeeded keeps_get_schema)
next
  case GetMetrics
  then show ?thesis by (simp add: metrics_endpoint_def keeps_iff)
qed (simp add: live_def)

section \<open>A run of the service\<close>

lemma handle_sent:
  assumes "documented_sqlglot (oc_sqlglot (cn_orchestrator c)) conds" and "oc_max_rows (cn_orchestrator c) < 10 ^ 12"
    and "cache_ok (oc_catalog (cn_orchestrator c)) w"
  shows "sent_only (oc_catalog (cn_orchestrator c)) (route_may_send (cn_orchestrator c) conds (hq_route rq)) (w_log w)
     (snd (handle bound num c rq w))"
proof -
  let ?oc = "cn_orchestrator c" and ?b = "bound_world (cn_orchestrator c) (hq_header rq) w"
  have "sent_only (oc_catalog ?oc) (route_may_send ?oc conds (hq_route rq)) (w_log w) ?b"
    using assms(3) by (simp only: sent_only_def bound_world_cache_ok) simp
  then show ?thesis
    unfolding handle_def serve_world by (rule endpoint_sent [OF assms(1,2), unfolded keeps_iff, rule_format])
qed

lemma handle_all_log:
  assumes "documented_sqlglot (oc_sqlglot (cn_orchestrator c)) conds" and "oc_max_rows (cn_orchestrator c) < 10 ^ 12"
  shows "cache_ok (oc_catalog (cn_orchestrator c)) w \<Longrightarrow>
     \<exists>sss. w_log (snd (handle_all bound num c rqs w)) = w_log w @ concat sss
       \<and> list_all2 (\<lambda>rq. list_all (route_may_send (cn_orchestrator c) conds (hq_route rq))) rqs sss"
proof (induction rqs arbitrary: w)
  case (Cons rq rqs)
  let ?w1 = "snd (handle bound num c rq w)"
  from handle_sent [OF assms Cons.prems, of rq bound num]
  obtain ss where ss: "cache_ok (oc_catalog (cn_orchestrator c)) ?w1" "w_log ?w1 = w_log w @ ss"
      "list_all (route_may_send (cn_orchestrator c) conds (hq_route rq)) ss"
    by (auto simp: sent_only_def)
  from Cons.IH [OF ss(1)] obtain sss where "w_log (snd (handle_all bound num c rqs ?w1)) = w_log ?w1 @ concat sss"
      "list_all2 (\<lambda>rq. list_all (route_may_send (cn_orchestrator c) conds (hq_route rq))) rqs sss"
    by blast
  with ss show ?case
    by (intro exI [of _ "ss # sss"]) (simp add: Let_def case_prod_beta)
qed simp

lemma handle_all_replies: "length (fst (handle_all bound num c rqs w)) = length rqs"
  by (induction rqs arbitrary: w) (simp_all add: Let_def split: prod.splits, metis fst_conv)


text \<open>A client without a tenant, then a readiness check: only the probe reaches the database.\<close>

definition ex_requests :: "http_request list" where
  "ex_requests =
     [\<lparr> hq_header = None, hq_route = PostQuery \<lparr> hi_user_id = Some ''u'', hi_tenant_id = None, hi_roles = None \<rparr> (Inr ex_request) \<rparr>,
      \<lparr> hq_header = Some ''abc'', hq_route = GetReady \<rparr>]"


end
