(* ===== verification/Scripts.thy ===== *)
theory Scripts
  imports Administration
begin

text \<open>
  What the scripts of \<open>scripts/\<close> that run the engine share: formatting of what they print, the
  settings they build from keyword arguments and the environment, and the freshly seeded engine
  each of them queries. Databases are named by their URL. In printed captions a dash or an arrow
  is its three bytes in UTF-8.
\<close>

section \<open>Formatting\<close>

definition arrow :: string where
  "arrow = [CHR 0xE2, CHR 0x86, CHR 0x92]"

text \<open>\<open>f"{s:<n}"\<close> and \<open>f"{s:>n}"\<close>.\<close>

definition pad_right :: "nat \<Rightarrow> string \<Rightarrow> string" where
  "pad_right n s = s @ replicate (n - length s) (CHR '' '')"

definition pad_left :: "nat \<Rightarrow> string \<Rightarrow> string" where
  "pad_left n s = replicate (n - length s) (CHR '' '') @ s"

text \<open>\<open>round(x, k)\<close>, ties to even, and \<open>f"{x:.kf}"\<close>.\<close>

definition rounded :: "nat \<Rightarrow> rat \<Rightarrow> rat" where
  "rounded k x = of_int (round_half_even (x * 10 ^ k)) / 10 ^ k"

definition fixed :: "nat \<Rightarrow> rat \<Rightarrow> string" where
  "fixed k x = (let ds = pad_zeros (Suc k) (round_half_even (\<bar>x\<bar> * 10 ^ k)) in
     (if x < 0 then ''-'' else [])
     @ (if k = 0 then ds else take (length ds - k) ds @ ''.'' @ drop (length ds - k) ds))"

text \<open>\<open>repr\<close> of a string and of a tuple of strings.\<close>

definition repr_char :: "char \<Rightarrow> char \<Rightarrow> string" where
  "repr_char q c = (let n = code_point c in
     if c = q \<or> n = 92 then [CHR 0x5C, c]
     else if n = 9 then [CHR 0x5C, CHR ''t''] else if n = 10 then [CHR 0x5C, CHR ''n'']
     else if n = 13 then [CHR 0x5C, CHR ''r'']
     else if n < 32 \<or> 127 \<le> n \<and> n \<le> 160 \<or> n = 173 then [CHR 0x5C, CHR ''x''] @ hex_digits 2 n
     else [c])"

definition py_repr :: "string \<Rightarrow> string" where
  "py_repr s = (let q = (if CHR 0x27 \<in> set s \<and> CHR 0x22 \<notin> set s then CHR 0x22 else CHR 0x27) in
     [q] @ concat (map (repr_char q) s) @ [q])"

definition repr_tuple :: "string list \<Rightarrow> string" where
  "repr_tuple xs = ''('' @ join '', '' (map py_repr xs) @ (if length xs = 1 then '',)'' else '')'')"

definition status_text :: "response_status \<Rightarrow> string" where
  "status_text s = (case s of RS_SUCCESS \<Rightarrow> ''success'' | RS_CLARIFICATION_REQUIRED \<Rightarrow> ''clarification_required''
     | RS_PREVIEW \<Rightarrow> ''preview'' | RS_REJECTED \<Rightarrow> ''rejected'' | RS_ERROR \<Rightarrow> ''error'')"

section \<open>Settings from keyword arguments\<close>

text \<open>
  A keyword argument of \<open>Settings\<close> overrides the field of exactly that name; with
  \<open>extra="ignore"\<close> any other name is dropped. These are the fields that hold text.
\<close>

definition with_keyword :: "string \<times> string \<Rightarrow> settings \<Rightarrow> settings" where
  "with_keyword kw s = (case kw of (k, v) \<Rightarrow>
     if k = ''log_level'' then s\<lparr> st_log_level := v \<rparr>
     else if k = ''api_host'' then s\<lparr> st_api_host := v \<rparr>
     else if k = ''database_url'' then s\<lparr> st_database_url := v \<rparr>
     else if k = ''readonly_database_url'' then s\<lparr> st_readonly_database_url := Some v \<rparr>
     else if k = ''sql_dialect'' then s\<lparr> st_sql_dialect := v \<rparr>
     else if k = ''llm_provider'' then s\<lparr> st_llm_provider := v \<rparr>
     else if k = ''llm_model'' then s\<lparr> st_llm_model := v \<rparr>
     else if k = ''llm_base_url'' then s\<lparr> st_llm_base_url := v \<rparr>
     else if k = ''llm_api_key_env'' then s\<lparr> st_llm_api_key_env := v \<rparr>
     else if k = ''tenant_column'' then s\<lparr> st_tenant_column := v \<rparr>
     else s)"

text \<open>\<open>raw\<close> and \<open>schemas\<close> are what the environment gives for the fields.\<close>

definition settings_with :: "(string \<times> string) list \<Rightarrow> settings \<Rightarrow> schemas_value \<Rightarrow> failure + settings" where
  "settings_with kws raw schemas = (case make_settings (fold with_keyword kws raw) schemas of
     Inl _ \<Rightarrow> Inl (Unhandled (PyOther ''ValidationError'')) | Inr s \<Rightarrow> Inr s)"

definition environ_get :: "('e, 'n) externals \<Rightarrow> string \<Rightarrow> string \<Rightarrow> string" where
  "environ_get ext name z = (case xt_environ ext name of None \<Rightarrow> z | Some v \<Rightarrow> v)"

text \<open>The settings of the edge-case script and of the benchmark, on a database of their own.\<close>

definition live_settings ::
    "('e, 'n) externals \<Rightarrow> string \<Rightarrow> string \<Rightarrow> string \<Rightarrow> settings \<Rightarrow> schemas_value \<Rightarrow> failure + settings" where
  "live_settings ext url provider model raw schemas =
     (case float_of_string (environ_get ext ''T2SQL_LLM_TIMEOUT_SECONDS'' ''60'') of
        None \<Rightarrow> Inl (Unhandled (PyOther ''ValueError''))
      | Some timeout \<Rightarrow> settings_with
          [(''database_url'', url), (''llm_provider'', provider), (''llm_model'', model),
           (''llm_api_key_env'', environ_get ext ''T2SQL_LLM_API_KEY_ENV'' ''OPENAI_API_KEY''),
           (''sql_dialect'', ''sqlite''), (''log_level'', ''ERROR'')]
          (raw\<lparr> st_llm_timeout_seconds := timeout, st_log_json := False \<rparr>) schemas)"

section \<open>A freshly seeded engine\<close>

type_synonym databases = "string \<Rightarrow> database_state"

definition fixed_now :: datetime where
  "fixed_now = midnight 2026 7 24"

text \<open>
  \<open>make_database\<close>, \<open>create_schema(..., drop_first=True)\<close>, \<open>seed_database\<close> and
  \<open>AppContainer.create\<close> with the clock fixed.
\<close>

definition seeded_engine ::
    "('e, 'n) externals \<Rightarrow> settings \<Rightarrow> llm_provider option \<Rightarrow> (int \<Rightarrow> nat stream) \<Rightarrow> connection
      \<Rightarrow> databases \<Rightarrow> (failure + ('e, 'n) app_container) \<times> databases" where
  "seeded_engine ext s provider rng conn dbs = (case make_database ext s of
     Inl x \<Rightarrow> (Inl x, dbs)
   | Inr database \<Rightarrow> (let url = es_url (da_engine database) in
       case run_seed rng conn (create_schema True (dbs url)) of
         (Inl x, db) \<Rightarrow> (Inl x, dbs(url := db))
       | (Inr _, db) \<Rightarrow>
           (create (ext\<lparr> xt_clock := (\<lambda>_. fixed_now) \<rparr>) s provider (Some database), dbs(url := db))))"

text \<open>A request with a question only, or asked as a dry run.\<close>

definition question_request :: "string \<Rightarrow> bool \<Rightarrow> query_request" where
  "question_request question dry_run = \<lparr> qr_question = question, qr_data_source = None, qr_dialect = None,
     qr_tenant_id = None, qr_conversation = None, qr_glossary_overrides = [], qr_max_rows = None,
     qr_dry_run = dry_run, qr_sql_only = False, qr_explain = True, qr_correlation_id = None \<rparr>"

end
