(* ===== verification/Benchmark.thy ===== *)
theory Benchmark
  imports Scripts
begin

text \<open>
  The benchmark (\<open>scripts/benchmark.py\<close>): percentiles, the timed runs over the fixed questions,
  the statistics, the Markdown report and the script that compares a provider with the
  deterministic one. Times are exact rationals.
\<close>

section \<open>Percentiles and means\<close>

definition pct :: "rat list \<Rightarrow> rat \<Rightarrow> rat" where
  "pct values p = (if values = [] then 0
     else (let ordered = sort values; n = int (length ordered) - 1;
               k = max 0 (min n (round_half_even (p / 100 * of_int n)))
           in ordered ! nat k))"

definition mean :: "rat list \<Rightarrow> rat" where
  "mean xs = (if xs = [] then 0 else sum_list xs / of_nat (length xs))"

section \<open>The timed runs\<close>

definition bench_user :: auth_context where
  "bench_user = \<lparr> ac_user_id = ''bench'', ac_tenant_id = ''1'', ac_roles = [''analyst''] \<rparr>"

definition questions :: "string list" where
  "questions =
     [''How many customers do we have?'',
      ''Show revenue by region'',
      ''What is our total revenue?'',
      ''How many orders were placed last month?'',
      ''What were our top five products by revenue last quarter?'',
      ''Show all open support tickets'']"

record tally =
  ty_totals :: "rat list"
  ty_retrieval :: "rat list"
  ty_generation :: "rat list"
  ty_execution :: "rat list"
  ty_prompt_tokens :: "int list"
  ty_completion_tokens :: "int list"
  ty_repairs :: nat
  ty_failures :: nat
  ty_samples :: nat
  ty_failure_detail :: "string list"

definition no_tally :: tally where
  "no_tally = \<lparr> ty_totals = [], ty_retrieval = [], ty_generation = [], ty_execution = [], ty_prompt_tokens = [],
     ty_completion_tokens = [], ty_repairs = 0, ty_failures = 0, ty_samples = 0, ty_failure_detail = [] \<rparr>"

definition or_zero :: "int option \<Rightarrow> int" where
  "or_zero n = (case n of None \<Rightarrow> 0 | Some k \<Rightarrow> k)"

definition add_sample :: "rat \<Rightarrow> query_response \<Rightarrow> tally \<Rightarrow> tally" where
  "add_sample wall resp t =
     (let t1 = t\<lparr> ty_samples := ty_samples t + 1, ty_totals := ty_totals t @ [wall],
        ty_retrieval := ty_retrieval t @ [st_retrieval_ms (rs_timings resp)],
        ty_generation := ty_generation t @ [st_generation_ms (rs_timings resp)],
        ty_execution := ty_execution t @ [st_execution_ms (rs_timings resp)] \<rparr> in
      case rs_model resp of
        None \<Rightarrow> t1
      | Some m \<Rightarrow> t1\<lparr> ty_repairs := ty_repairs t + mm_repair_attempts m,
          ty_prompt_tokens := ty_prompt_tokens t @ [or_zero (mm_prompt_tokens m)],
          ty_completion_tokens := ty_completion_tokens t @ [or_zero (mm_completion_tokens m)] \<rparr>)"

definition add_failure :: "string \<Rightarrow> engine_error \<Rightarrow> tally \<Rightarrow> tally" where
  "add_failure question e t = t\<lparr> ty_failures := ty_failures t + 1,
     ty_failure_detail := ty_failure_detail t @ [py_repr (take 40 question) @ '' -> '' @ error_code (ee_class e)] \<rparr>"

definition ask_timed ::
    "('e, 'n) orchestrator \<Rightarrow> string \<Rightarrow> tally \<Rightarrow> (tally, 'z orchestrator_world_scheme) call" where
  "ask_timed oc question t = seq (tick oc) (\<lambda>t0 w.
     case process oc (question_request question False) bench_user True w of
       (Inl (Raised e), w1) \<Rightarrow> (Inr (add_failure question e t), w1)
     | (Inl (Unhandled x), w1) \<Rightarrow> (Inl (Unhandled x), w1)
     | (Inr resp, w1) \<Rightarrow> seq (tick oc) (\<lambda>t1. give (add_sample ((t1 - t0) * 1000) resp t)) w1)"

fun ask_all ::
    "('e, 'n) orchestrator \<Rightarrow> string list \<Rightarrow> tally \<Rightarrow> (tally, 'z orchestrator_world_scheme) call" where
  "ask_all oc [] t = give t"
| "ask_all oc (q # qs) t = seq (ask_timed oc q t) (ask_all oc qs)"

text \<open>The first request warms the caches; its engine errors are ignored.\<close>

definition warm_up :: "('e, 'n) orchestrator \<Rightarrow> (unit, 'z orchestrator_world_scheme) call" where
  "warm_up oc w = (case process oc (question_request (hd questions) False) bench_user True w of
     (Inl (Unhandled x), w1) \<Rightarrow> (Inl (Unhandled x), w1) | (_, w1) \<Rightarrow> (Inr (), w1))"

definition measure_runs ::
    "('e, 'n) orchestrator \<Rightarrow> int \<Rightarrow> (tally, 'z orchestrator_world_scheme) call" where
  "measure_runs oc trials = seq (warm_up oc) (\<lambda>_. ask_all oc (concat (replicate (nat trials) questions)) no_tally)"

section \<open>The result\<close>

record bench_result =
  br_provider :: string
  br_model :: string
  br_trials :: int
  br_samples :: nat
  br_failures :: nat
  br_repair_attempts :: nat
  br_failure_detail :: "string list"
  br_mean :: rat
  br_p50 :: rat
  br_p95 :: rat
  br_min :: rat
  br_max :: rat
  br_retrieval :: rat
  br_generation :: rat
  br_execution :: rat
  br_engine_overhead :: rat
  br_prompt :: rat
  br_completion :: rat

definition summarize :: "string \<Rightarrow> string \<Rightarrow> int \<Rightarrow> tally \<Rightarrow> bench_result" where
  "summarize provider model trials t =
     (let gen_mean = mean (ty_generation t); total_mean = mean (ty_totals t); overhead = total_mean - gen_mean in
      \<lparr> br_provider = provider, br_model = model, br_trials = trials, br_samples = ty_samples t,
        br_failures = ty_failures t, br_repair_attempts = ty_repairs t, br_failure_detail = ty_failure_detail t,
        br_mean = rounded 1 total_mean, br_p50 = rounded 1 (pct (ty_totals t) 50),
        br_p95 = rounded 1 (pct (ty_totals t) 95),
        br_min = (if ty_totals t = [] then 0 else rounded 1 (Min (set (ty_totals t)))),
        br_max = (if ty_totals t = [] then 0 else rounded 1 (Max (set (ty_totals t)))),
        br_retrieval = rounded 2 (mean (ty_retrieval t)), br_generation = rounded 1 gen_mean,
        br_execution = rounded 2 (mean (ty_execution t)), br_engine_overhead = rounded 2 overhead,
        br_prompt = rounded 1 (mean (map of_int (ty_prompt_tokens t))),
        br_completion = rounded 1 (mean (map of_int (ty_completion_tokens t))) \<rparr>)"

definition bench_database_url :: string where
  "bench_database_url = ''sqlite:///./data/bench.db''"

text \<open>The clocks and the logs of the process go on; the caches and the provider are new.\<close>

definition next_world :: "settings \<Rightarrow> orchestrator_world \<Rightarrow> orchestrator_world" where
  "next_world s w = w\<lparr> cw_cache := new_cache (st_schema_cache_ttl_seconds s), ow_requests := [] \<rparr>"

definition benchmark ::
    "('e, 'n) externals \<Rightarrow> settings \<Rightarrow> schemas_value \<Rightarrow> (int \<Rightarrow> nat stream) \<Rightarrow> connection \<Rightarrow> string \<Rightarrow> string \<Rightarrow> int
      \<Rightarrow> databases \<times> orchestrator_world \<Rightarrow> (failure + bench_result) \<times> databases \<times> orchestrator_world" where
  "benchmark ext raw schemas rng conn provider model trials dw = (case dw of (dbs, w) \<Rightarrow>
     (case live_settings ext bench_database_url provider model raw schemas of
        Inl x \<Rightarrow> (Inl x, dbs, w)
      | Inr s \<Rightarrow> (case seeded_engine ext s None rng conn dbs of
          (Inl x, dbs1) \<Rightarrow> (Inl x, dbs1, w)
        | (Inr c, dbs1) \<Rightarrow> (case measure_runs (cn_orchestrator c) trials (next_world s w) of
            (Inl x, w1) \<Rightarrow> (Inl x, dbs1, w1)
          | (Inr t, w1) \<Rightarrow> (Inr (summarize provider model trials t), dbs1, w1)))))"

section \<open>The report\<close>

definition table_row :: "bench_result \<Rightarrow> string" where
  "table_row r = ''| '' @ br_provider r @ '' | `'' @ br_model r @ ''` | '' @ show_nat (br_samples r) @ '' | ''
     @ fixed 0 (br_mean r) @ '' ms | '' @ fixed 0 (br_p50 r) @ '' ms | '' @ fixed 0 (br_p95 r) @ '' ms | ''
     @ fixed 0 (br_generation r) @ '' ms | **'' @ fixed 1 (br_engine_overhead r) @ '' ms** | ''
     @ fixed 0 (br_prompt r) @ '' | '' @ fixed 0 (br_completion r) @ '' |''"

definition breakdown :: "bench_result \<Rightarrow> string list" where
  "breakdown r =
     [''### '' @ br_provider r @ '' / `'' @ br_model r @ ''` stage breakdown (mean)'',
      [],
      ''- retrieval: '' @ fixed 2 (br_retrieval r) @ '' ms'',
      ''- generation (LLM): '' @ fixed 1 (br_generation r) @ '' ms'',
      ''- execution (SQL): '' @ fixed 2 (br_execution r) @ '' ms'',
      ''- validation + security + explain (remainder): ''
        @ fixed 2 (max 0 (br_engine_overhead r - br_retrieval r - br_execution r)) @ '' ms'',
      ''- failures: '' @ show_nat (br_failures r) @ '', repair attempts: '' @ show_nat (br_repair_attempts r),
      []]
     @ (if br_failure_detail r = [] then []
        else ''Failures observed (model non-determinism, not engine faults):''
          # map (\<lambda>f. ''  - '' @ f) (br_failure_detail r) @ [[]])"

definition stages :: string where
  "stages = ''(retrieval '' @ arrow @ '' generation '' @ arrow @ '' validate '' @ arrow @ '' policy '' @ arrow
     @ '' tenant rewrite '' @ arrow @ '' cost '' @ arrow @ '' execute '' @ arrow @ '' explain).''"

definition render_results :: "bench_result list \<Rightarrow> string" where
  "render_results results = join newline
     ([''# Performance Benchmark'',
       [],
       ''Question set: '' @ show_nat (length questions) @ '' analytical questions, full pipeline '' @ stages,
       [],
       ''| Provider | Model | Samples | Mean | p50 | p95 | Generation | Engine overhead | Prompt tok | Completion tok |'',
       ''| --- | --- | ---: | ---: | ---: | ---: | ---: | ---: | ---: | ---: |'']
      @ map table_row results
      @ [[],
         ''**Engine overhead** = total wall time minus the LLM call. It is the cost of ''
           @ ''retrieval, parsing, AST validation, policy, tenant rewriting, cost analysis, ''
           @ ''execution, and explanation '' @ em_dash @ '' i.e. everything this project actually controls.'',
         []]
      @ concat (map breakdown results))"

section \<open>The script\<close>

text \<open>The parsed arguments.\<close>

record bench_args =
  ba_provider :: string
  ba_model :: "string option"
  ba_trials :: int
  ba_compare_fake :: bool

definition default_args :: bench_args where
  "default_args = \<lparr> ba_provider = ''fake'', ba_model = None, ba_trials = 3, ba_compare_fake = False \<rparr>"

definition chosen_model :: "bench_args \<Rightarrow> string" where
  "chosen_model a = (case or_opt (ba_model a) None of
     Some m \<Rightarrow> m
   | None \<Rightarrow> if ba_provider a = ''fake'' then ''deterministic-fake'' else ''gemini-2.5-flash'')"

text \<open>The benchmarks to run, in order.\<close>

definition bench_plan :: "bench_args \<Rightarrow> (string \<times> string) list" where
  "bench_plan a = (if ba_compare_fake a \<and> ba_provider a \<noteq> ''fake'' then [(''fake'', ''deterministic-fake'')] else [])
     @ [(ba_provider a, chosen_model a)]"

fun run_plan ::
    "((string \<times> string) \<Rightarrow> 'w \<Rightarrow> (failure + bench_result) \<times> 'w) \<Rightarrow> (string \<times> string) list
      \<Rightarrow> (bench_result list, 'w) call" where
  "run_plan bench [] = give []"
| "run_plan bench (p # ps) = seq (bench p) (\<lambda>r. seq (run_plan bench ps) (\<lambda>rs. give (r # rs)))"

text \<open>The results written as JSON and the report written and printed.\<close>

definition bench_main ::
    "('e, 'n) externals \<Rightarrow> settings \<Rightarrow> schemas_value \<Rightarrow> (int \<Rightarrow> nat stream) \<Rightarrow> connection \<Rightarrow> bench_args
      \<Rightarrow> (bench_result list \<times> string, databases \<times> orchestrator_world) call" where
  "bench_main ext raw schemas rng conn a =
     seq (run_plan (\<lambda>(provider, model). benchmark ext raw schemas rng conn provider model (ba_trials a)) (bench_plan a))
       (\<lambda>results. give (results, render_results results))"

end
