(* ===== verification/EdgeProperties.thy ===== *)
theory EdgeProperties
  imports EdgeCases Answers DeploymentProperties OrchestratorErrors
begin

text \<open>
  The edge-case matrix proves what it says about the gate: a forced case that is to be rejected
  passes whatever the live model does, as soon as the gate accepts none of its candidates.
\<close>

section \<open>Forced candidates\<close>

definition scripts_for :: "string \<Rightarrow> string list" where
  "scripts_for question = (case map_of forced question of None \<Rightarrow> [] | Some sqls \<Rightarrow> sqls)"

definition forced_rejection :: "edge_case \<Rightarrow> bool" where
  "forced_rejection c \<longleftrightarrow> ca_forced c \<and> ca_expect c = ''rejected''"

lemma scripted_lookup:
  assumes "question \<in> fst ` set forced"
  shows "map_of (fp_scripts scripted) (normalize_question question) = Some (scripts_for question)"
proof -
  have "list_all (\<lambda>(k, v). map_of (fp_scripts scripted) (normalize_question k) = Some v \<and> scripts_for k = v) forced"
    by code_simp
  with assms show ?thesis by (auto simp: list_all_iff)
qed

lemma py_index_mem: "py_index xs i = Inr x \<Longrightarrow> x \<in> set xs"
  by (auto simp: py_index_def Let_def split: if_splits)

lemma scripted_sql:
  assumes "gr_question req \<in> fst ` set forced" and "fake_generate scripted req = Inr g"
  shows "gs_sql g \<in> set (scripts_for (gr_question req))"
  using assms(2) scripted_lookup [OF assms(1)]
  by (auto simp: fake_generate_def Let_def fake_response_def dest: py_index_mem split: sum.splits)

text \<open>Both providers of the script answer a forced question from its script.\<close>

lemma hybrid_sql:
  assumes q: "question \<in> fst ` set forced" and p: "proposes oc question g"
    and oc: "oc_provider oc = deterministic_provider scripted \<or> (\<exists>live. oc_provider oc = hybrid live)"
  shows "gs_sql g \<in> set (scripts_for question)"
proof -
  obtain seen req where r: "gr_question req = question" "lp_generate (oc_provider oc) seen req = Inr g"
    using p by (auto simp: proposes_def)
  with q have "is_forced req" by (simp add: is_forced_def)
  with r oc have "fake_generate scripted req = Inr g"
    by (auto simp: hybrid_def deterministic_provider_def simp del: fst_conv)
  with scripted_sql [of req g] q r(1) show ?thesis by simp
qed

text \<open>The names of the scripts contain none of the words the ambiguity rules look for.\<close>

definition rule_words :: "string list" where
  "rule_words = map fst undefined_terms @ [''sales''] @ rank_words @ commerce_words"

lemma no_rule_applies:
  assumes "list_all (\<lambda>w. \<not> contains (lower question) w) rule_words"
  shows "detect l question = None"
proof -
  have "list_all (\<lambda>w. w \<noteq> []) rule_words" by code_simp
  with assms have "\<not> has_word (lower question) w" if "w \<in> set rule_words" for w
    using that by (auto simp: list_all_iff has_word_iff contains_iff)
  then have words: "list_all (\<lambda>w. \<not> has_word (lower question) w) rule_words" by (simp add: list_all_iff)
  have "\<not> undefined_mention l (lower question)" "\<not> bare_sales (lower question)" "\<not> bare_ranking (lower question)"
    "\<not> commerce_of_users (lower question)"
    using words by (auto simp: rule_words_def list_all_iff undefined_mention_def bare_sales_def bare_ranking_def
        commerce_of_users_def has_any_word_def) force
  then show ?thesis by (simp add: detect_None expected_category_def)
qed

lemma forced_unambiguous:
  assumes "question \<in> fst ` set forced"
  shows "detect l question = None"
proof (rule no_rule_applies)
  have "list_all (\<lambda>q. list_all (\<lambda>w. \<not> contains (lower q) w) rule_words) (map fst forced)" by code_simp
  with assms show "list_all (\<lambda>w. \<not> contains (lower question) w) rule_words" by (auto simp: list_all_iff)
qed

lemma forced_questions:
  assumes "c \<in> set edge_cases" and "forced_rejection c"
  shows "ca_question c \<in> fst ` set forced"
proof -
  have "list_all (\<lambda>c. \<not> ca_forced c) prose_cases" by code_simp
  with assms have c: "c \<in> set gate_cases" by (auto simp: edge_cases_def forced_rejection_def list_all_iff)
  have "list_all (\<lambda>c. ca_question c \<in> set (map fst forced)) gate_cases" by code_simp
  with c show ?thesis by (simp add: list_all_iff)
qed

section \<open>Running the matrix\<close>

text \<open>A request keeps the schema cache well formed, whatever it sends.\<close>

lemma keeps_cache_ok:
  assumes "\<And>L. keeps (sent_only cat (\<lambda>_. True) L) m"
  shows "keeps (cache_ok cat) m"
  unfolding keeps_iff
proof (intro allI impI)
  fix w :: "'a catalog_world_scheme" assume "cache_ok cat w"
  then have "sent_only cat (\<lambda>_. True) (w_log w) w" by (rule sent_only_start)
  with assms [of "w_log w"] have "sent_only cat (\<lambda>_. True) (w_log w) (snd (m w))" by (simp add: keeps_iff)
  then show "cache_ok cat (snd (m w))" by (simp add: sent_only_def)
qed

lemma gate_keeps_cache: "keeps (cache_ok cat) (secure_candidate oc src d schema auth m)"
  (is "keeps ?P ?c")
  using refl [of ?c]
proof (cases rule: secure_candidate_cases)
  case (rewritten e applied)
  have "keeps ?P (secure_rewritten oc d schema applied f)" for f
    by (rule keeps_cache_ok) (auto intro: secure_rewritten_sent)
  then show ?thesis unfolding rewritten(1) .
qed simp_all

lemma process_keeps_cache: "keeps (cache_ok (oc_catalog oc)) (process oc request auth exec)"
proof -
  let ?P = "cache_ok (oc_catalog oc)"
  note sent = keeps_cache_ok and gate = gate_keeps_cache
  have call: "keeps ?P (call_provider oc req)" for req by (rule sent) (rule keeps_call_provider)
  have attempt: "keeps ?P (repair_attempt oc auth schema base a st)" for schema base a st
    unfolding repair_attempt_def Let_def
    by (intro keeps_rules stable_cache_ok call gate) (auto intro!: keeps_rules stable_cache_ok)
  have generate: "keeps ?P (generate_with_repair oc auth schema base)" for schema base
    unfolding generate_with_repair_def
    by (intro keeps_seq keeps_attempt_loop attempt) (simp split: option.splits)
  have run: "keeps ?P (execute_response oc request pg g st sql)" for pg g st sql
    by (rule sent, rule execute_response_sent) (simp add: list_all_iff)
  have finish: "keeps ?P (finish oc request exec pg g st)" for pg g st
    unfolding finish_def by (auto intro!: keeps_rules stable_cache_ok run split: option.splits)
  have schema: "keeps ?P (get_schema (oc_catalog oc) False)" by (rule sent) (rule keeps_get_schema)
  have "keeps ?P (answer oc request auth exec cid start)" for cid start
    unfolding answer_def Let_def
    by (intro keeps_rules stable_cache_ok schema generate) (auto intro: finish split: prod.splits)
  moreover have "keeps ?P (clarify oc c cid start)" for c cid start
    unfolding clarify_def by (intro keeps_rules stable_cache_ok)
  ultimately show ?thesis
    unfolding process_def by (intro keeps_rules stable_cache_ok) (auto split: option.splits)
qed

lemma run_case_keeps_cache: "keeps (cache_ok (oc_catalog oc)) (run_case oc c)"
proof -
  have judge: "keeps (cache_ok (oc_catalog oc)) (\<lambda>w. case process oc request auth True w of
      (Inl (Raised e), w1) \<Rightarrow> (Inr (a e), w1) | (Inl (Unhandled x), w1) \<Rightarrow> (Inl (Unhandled x), w1)
    | (Inr resp, w1) \<Rightarrow> (case v resp of Inl x \<Rightarrow> (Inl (Unhandled x), w1) | Inr (ok, remark) \<Rightarrow> (Inr (b resp ok remark), w1)))"
    for request auth and a :: "engine_error \<Rightarrow> 'val" and v and b :: "query_response \<Rightarrow> verdict \<Rightarrow> string \<Rightarrow> 'val"
    using process_keeps_cache [of oc request auth True]
    by (auto simp: keeps_iff split: prod.splits sum.splits failure.splits; metis snd_conv)
  show ?thesis
    unfolding run_case_def
    by (intro keeps_rules stable_cache_ok judge) (auto intro!: keeps_rules stable_cache_ok split: prod.splits verdict.splits)
qed

definition hostile_rejected :: "('e, 'n) orchestrator \<Rightarrow> edge_case \<Rightarrow> bool" where
  "hostile_rejected oc c \<longleftrightarrow> (\<forall>schema sql f. sql \<in> set (scripts_for (ca_question c)) \<longrightarrow>
     enriched_of (oc_catalog oc) schema \<longrightarrow> \<not> gate_accepts oc sql SQLITE schema (ca_auth c) (oc_max_rows oc) f)"

lemma run_case_rejected:
  assumes oc: "oc_default_dialect oc = SQLITE"
      "oc_provider oc = deterministic_provider scripted \<or> (\<exists>live. oc_provider oc = hybrid live)"
    and c: "c \<in> set edge_cases" "forced_rejection c" "hostile_rejected oc c"
    and w: "cache_ok (oc_catalog oc) w" and r: "run_case oc c w = (Inr o1, w')"
  shows "co_ok o1 \<and> co_actual o1 = ''rejected''"
proof -
  let ?q = "question_request (ca_question c) (ca_dry_run c)"
  obtain t0 w0 where t0: "tick oc w = (Inr t0, w0)" by (simp add: tick_def ask_def perf_counter_def)
  have w0: "cache_ok (oc_catalog oc) w0"
    using keeps_tick [OF stable_cache_ok, of "oc_catalog oc" oc] w t0 by (auto simp: keeps_iff dest: spec [of _ w])
  have not_answered: "process oc ?q (ca_auth c) True w0 \<noteq> (Inr resp, w1)" for resp w1
  proof
    assume "process oc ?q (ca_auth c) True w0 = (Inr resp, w1)"
    from process_answers [OF _ w0 this] oc(1)
    have "answers_from oc (ca_auth c) (oc_max_rows oc) (ca_question c) resp"
      by (simp add: question_request_def request_dialect_def effective_max_rows_def)
    with forced_unambiguous [OF forced_questions [OF c(1,2)]] c(3)
      hybrid_sql [OF forced_questions [OF c(1,2)] _ oc(2)]
    show False by (auto simp: answers_from_def accepted_rendering_def accepted_sql_def hostile_rejected_def)
  qed
  then show ?thesis
    using r t0 c(2)
    by (auto simp: run_case_def seq_def forced_rejection_def tick_def ask_def perf_counter_def give_def
        split: prod.splits sum.splits failure.splits)
qed

lemma run_cases_rejected:
  assumes oc: "oc_default_dialect oc = SQLITE"
      "oc_provider oc = deterministic_provider scripted \<or> (\<exists>live. oc_provider oc = hybrid live)"
    and cs: "set cs \<subseteq> set edge_cases" "\<forall>c\<in>set cs. forced_rejection c \<longrightarrow> hostile_rejected oc c"
    and "cache_ok (oc_catalog oc) w" and "run_cases oc cs w = (Inr os, w')"
  shows "list_all2 (\<lambda>c o1. forced_rejection c \<longrightarrow> co_ok o1 \<and> co_actual o1 = ''rejected'') cs os"
  using assms(3-)
proof (induction cs arbitrary: w os)
  case Nil
  then show ?case by (simp add: give_def)
next
  case (Cons c cs)
  obtain o1 w1 os1 where r: "run_case oc c w = (Inr o1, w1)" "run_cases oc cs w1 = (Inr os1, w')" "os = o1 # os1"
    using Cons.prems(4) by (auto simp: give_def elim!: seq_Inr)
  have "cache_ok (oc_catalog oc) w1"
    using run_case_keeps_cache [of oc c] Cons.prems(3) r(1) by (auto simp: keeps_iff dest: spec [of _ w])
  with Cons.IH [OF _ _ this r(2)] run_case_rejected [OF oc _ _ _ Cons.prems(3) r(1)] Cons.prems(1,2) r(3)
  show ?case by simp
qed

text \<open>An error of the engine is an outcome of its case; only other exceptions end the run.\<close>

lemma run_case_fails: "fails_only (\<lambda>f. \<exists>x. f = Unhandled x) (run_case oc c)"
  unfolding run_case_def
  by (intro fails_only_seq fails_rules, rule fails_onlyI)
    (auto intro!: fails_only_seq fails_rules fails_fail split: prod.splits sum.splits failure.splits verdict.splits)

lemma run_cases_fails: "fails_only (\<lambda>f. \<exists>x. f = Unhandled x) (run_cases oc cs)"
  by (induction cs) (auto intro!: fails_only_seq fails_rules run_case_fails)

lemma edge_orchestrator_fields:
  assumes "create ext s (edge_provider provider_name) db = Inr c" and "st_sql_dialect s = ''sqlite''"
  shows "oc_default_dialect (edge_orchestrator provider_name c) = SQLITE"
    and "oc_provider (edge_orchestrator provider_name c) = deterministic_provider scripted
      \<or> (\<exists>live. oc_provider (edge_orchestrator provider_name c) = hybrid live)"
  using assms
  by (auto simp: create_def and_then_Inr edge_orchestrator_def edge_provider_def wire_def Let_def dialect_of_value_def
      split: if_splits option.splits)

lemma live_settings_dialect:
  "live_settings ext url provider model raw schemas = Inr s \<Longrightarrow> st_sql_dialect s = ''sqlite''"
  by (auto simp: live_settings_def settings_with_def make_settings_def with_keyword_def split: option.splits sum.splits if_splits)

section \<open>Property\<close>

text \<open>
  C24: Whatever the live model answers, in a run over any cases of the matrix every forced case
  that is to be rejected passes as rejected, as soon as the gate accepts none of its scripted
  candidates for the schema at hand; only an exception that is no error of the engine ends the
  run before its last case.
\<close>

theorem forced_rejections_pass:
  assumes "live_settings ext edge_database_url provider_name model_name raw schemas = Inr s"
    and "create ext' s (edge_provider provider_name) db = Inr c" and "set cs \<subseteq> set edge_cases"
    and "list_all (\<lambda>x. forced_rejection x \<longrightarrow> hostile_rejected (edge_orchestrator provider_name c) x) cs"
  shows "case fst (run_cases (edge_orchestrator provider_name c) cs (start_world s)) of
      Inl f \<Rightarrow> \<exists>x. f = Unhandled x
    | Inr os \<Rightarrow> list_all2 (\<lambda>x o1. forced_rejection x \<longrightarrow> co_ok o1 \<and> co_actual o1 = ''rejected'') cs os"
proof -
  let ?oc = "edge_orchestrator provider_name c"
  note oc = edge_orchestrator_fields [OF assms(2) live_settings_dialect [OF assms(1)]]
  obtain r w' where r: "run_cases ?oc cs (start_world s) = (r, w')" by fastforce
  show ?thesis
  proof (cases r)
    case (Inl f)
    with r fails_onlyD [OF run_cases_fails, of ?oc cs "start_world s" f w'] show ?thesis by simp
  next
    case (Inr os)
    with r run_cases_rejected [OF oc assms(3) _ start_cache_ok, of s os w'] assms(4) show ?thesis
      by (simp add: list_all_iff)
  qed
qed

definition edge_externals :: "(ex_tree, nd) externals" where
  "edge_externals = ex_externals\<lparr> xt_environ := (\<lambda>_. None) \<rparr>"

definition example_settings :: settings where
  "example_settings = default_settings\<lparr> st_database_url := edge_database_url, st_log_level := ''ERROR'',
     st_llm_timeout_seconds := 60, st_log_json := False \<rparr>"

lemma example_settings_made:
  "live_settings edge_externals edge_database_url ''fake'' ''deterministic-fake'' default_settings (Csv []) = Inr example_settings"
  by code_simp

definition plain_cases :: "edge_case list" where
  "plain_cases = filter (\<lambda>x. ca_question x \<noteq> ''__secret__'') edge_cases"

lemma example_refuses:
  assumes "sql \<in> set (scripts_for q)" and "q \<noteq> ''__secret__''"
  shows "\<exists>err. parse_statements ex_sg sql SQLITE = Inl err"
proof -
  have list: "list_all (\<lambda>(q, sqls). q = ''__secret__'' \<or>
      list_all (\<lambda>sql. case parse_statements ex_sg sql SQLITE of Inl _ \<Rightarrow> True | _ \<Rightarrow> False) sqls) forced"
    by code_simp
    from assms(1) have "map_of forced q = Some (scripts_for q)"
    by (cases "map_of forced q") (simp_all add: scripts_for_def)
  then have "(q, scripts_for q) \<in> set forced" by (rule map_of_SomeD)
  from bspec [OF list [unfolded list_all_iff] this] assms(2)
  have "\<forall>sql\<in>set (scripts_for q). case parse_statements ex_sg sql SQLITE of Inl _ \<Rightarrow> True | _ \<Rightarrow> False" by simp
  from bspec [OF this assms(1)] show ?thesis by (cases "parse_statements ex_sg sql SQLITE") simp_all
qed

lemma forced_rejections_pass_witness:
  "\<exists>c. create edge_externals example_settings (edge_provider ''fake'') None = Inr c
    \<and> (case fst (run_cases (edge_orchestrator ''fake'' c) plain_cases (start_world example_settings)) of
      Inl f \<Rightarrow> \<exists>x. f = Unhandled x
    | Inr os \<Rightarrow> length os = 21 \<and> co_ok (os ! 11) \<and> co_actual (os ! 11) = ''rejected'')"
proof -
  have "st_sql_dialect example_settings = ''sqlite''" by (rule live_settings_dialect [OF example_settings_made])
  then obtain c where c: "create edge_externals example_settings (edge_provider ''fake'') None = Inr c"
    by (auto simp: create_def make_database_def build_engine_def edge_externals_def ex_externals_def Let_def
        edge_provider_def dialect_of_value_def)
  have sg: "oc_sqlglot (edge_orchestrator ''fake'' c) = ex_sg"
    using c by (auto simp: create_def and_then_Inr edge_orchestrator_def wire_def Let_def edge_externals_def ex_externals_def)
  have "hostile_rejected (edge_orchestrator ''fake'' c) x" if "ca_question x \<noteq> ''__secret__''" for x
    unfolding hostile_rejected_def
  proof (intro allI impI)
    fix schema sql f assume "sql \<in> set (scripts_for (ca_question x))"
    with example_refuses [OF this that] obtain err where "parse_statements ex_sg sql SQLITE = Inl err" by blast
    then show "\<not> gate_accepts (edge_orchestrator ''fake'' c) sql SQLITE schema (ca_auth x)
        (oc_max_rows (edge_orchestrator ''fake'' c)) f"
      by (simp add: gate_accepts_def sg)
  qed
  then have "list_all (\<lambda>x. forced_rejection x \<longrightarrow> hostile_rejected (edge_orchestrator ''fake'' c) x) plain_cases"
    by (auto simp: list_all_iff plain_cases_def)
  note run = forced_rejections_pass [OF example_settings_made c _ this, unfolded plain_cases_def, OF filter_is_subset,
      folded plain_cases_def]
  have "length plain_cases = 21 \<and> ca_forced (plain_cases ! 11) \<and> ca_expect (plain_cases ! 11) = ''rejected''" by code_simp
  then have "forced_rejection (plain_cases ! 11)" "length plain_cases = 21" by (simp_all add: forced_rejection_def)
  with run c show ?thesis
    by (auto intro!: exI [of _ c] split: sum.splits dest: list_all2_lengthD list_all2_nthD [where p = 11])
qed

end
