(* ===== verification/ScriptProperties.thy ===== *)
theory ScriptProperties
  imports Benchmark Examples EdgeProperties AdministrationProperties
begin

text \<open>
  The benchmark counts every question once and reports its latencies in order; the example
  script, unlike the edge-case matrix, empties the database the application is configured for.
\<close>

section \<open>Rounding and percentiles\<close>

lemma round_half_even_near: "\<lfloor>x\<rfloor> \<le> round_half_even x" "round_half_even x \<le> \<lfloor>x\<rfloor> + 1"
  by (simp_all add: round_half_even_def Let_def)

lemma round_half_even_mono:
  assumes "x \<le> y"
  shows "round_half_even x \<le> round_half_even y"
proof (cases "\<lfloor>x\<rfloor> = \<lfloor>y\<rfloor>")
  case True
  with assms show ?thesis by (auto simp: round_half_even_def Let_def)
next
  case False
  with floor_mono [OF assms] have "\<lfloor>x\<rfloor> + 1 \<le> \<lfloor>y\<rfloor>" by simp
  with round_half_even_near(2) [of x] round_half_even_near(1) [of y] show ?thesis by linarith
qed

lemma round_half_even_int [simp]: "round_half_even (of_int n) = n"
  by (simp add: round_half_even_def)

lemma rounded_mono: "x \<le> y \<Longrightarrow> rounded k x \<le> rounded k y"
  unfolding rounded_def
  by (intro divide_right_mono) (simp_all add: round_half_even_mono mult_right_mono)

lemma rounded_0 [simp]: "rounded k 0 = 0"
  using round_half_even_int [of 0] by (simp add: rounded_def)

definition pct_index :: "nat \<Rightarrow> rat \<Rightarrow> nat" where
  "pct_index n p = nat (max 0 (min (int n - 1) (round_half_even (p / 100 * of_int (int n - 1)))))"

lemma pct_nth: "values \<noteq> [] \<Longrightarrow> pct values p = sort values ! pct_index (length values) p"
  by (simp add: pct_def pct_index_def Let_def)

lemma pct_index_less: "0 < n \<Longrightarrow> pct_index n p < n"
  by (auto simp: pct_index_def)

lemma pct_index_mono: "p \<le> q \<Longrightarrow> 0 < n \<Longrightarrow> pct_index n p \<le> pct_index n q"
  unfolding pct_index_def
  by (intro nat_mono max.mono min.mono round_half_even_mono mult_right_mono) (simp_all add: divide_right_mono)

lemma pct_mem: "values \<noteq> [] \<Longrightarrow> pct values p \<in> set values"
  using nth_mem [of "pct_index (length values) p" "sort values"] pct_index_less [of "length values" p]
  by (simp add: pct_nth)

lemma pct_mono: "values \<noteq> [] \<Longrightarrow> p \<le> q \<Longrightarrow> pct values p \<le> pct values q"
  using pct_index_mono [of p q "length values"] pct_index_less [of "length values" q]
  by (simp add: pct_nth sorted_nth_mono)

lemma mean_bounds:
  assumes "xs \<noteq> []"
  shows "Min (set xs) \<le> mean xs" and "mean xs \<le> Max (set xs)"
proof -
  have "of_nat (length ys) * lo \<le> sum_list ys \<and> sum_list ys \<le> of_nat (length ys) * hi"
    if "\<forall>y\<in>set ys. lo \<le> y \<and> y \<le> hi" for ys and lo hi :: rat
    using that by (induction ys) (auto simp: algebra_simps)
  from this [of xs "Min (set xs)" "Max (set xs)"] assms
  have "of_nat (length xs) * Min (set xs) \<le> sum_list xs" "sum_list xs \<le> of_nat (length xs) * Max (set xs)"
    by simp_all
  with assms show "Min (set xs) \<le> mean xs" "mean xs \<le> Max (set xs)"
    by (simp_all add: mean_def pos_le_divide_eq pos_divide_le_eq mult.commute)
qed

section \<open>Properties of the benchmark\<close>

text \<open>
  Whatever the runs gave, the report's latencies are in order: the minimum is at most the
  median, which is at most the 95th percentile, which is at most the maximum, and the mean lies
  between minimum and maximum; a percentile of samples is one of them.
\<close>

lemma reported_latencies_ordered:
  "br_min (summarize provider model trials t) \<le> br_p50 (summarize provider model trials t)
   \<and> br_p50 (summarize provider model trials t) \<le> br_p95 (summarize provider model trials t)
   \<and> br_p95 (summarize provider model trials t) \<le> br_max (summarize provider model trials t)
   \<and> br_min (summarize provider model trials t) \<le> br_mean (summarize provider model trials t)
   \<and> br_mean (summarize provider model trials t) \<le> br_max (summarize provider model trials t)
   \<and> (ty_totals t = [] \<or> pct (ty_totals t) p \<in> set (ty_totals t))"
proof (cases "ty_totals t = []")
  case True
  then show ?thesis by (simp add: summarize_def Let_def pct_def mean_def)
next
  case False
  with pct_mem [OF False] show ?thesis
    by (simp add: summarize_def Let_def rounded_mono pct_mono mean_bounds)
qed

lemma ask_timed_counts:
  assumes "ask_timed oc q t w = (Inr t', w')"
  shows "ty_samples t' + ty_failures t' = Suc (ty_samples t + ty_failures t)"
    and "length (ty_totals t') + length (ty_failure_detail t') = Suc (length (ty_totals t) + length (ty_failure_detail t))"
    and "ty_samples t = length (ty_totals t) \<Longrightarrow> ty_samples t' = length (ty_totals t')"
  using assms
  by (auto simp: ask_timed_def add_failure_def add_sample_def Let_def give_def seq_def
      split: prod.splits sum.splits failure.splits option.splits)

lemma ask_all_counts:
  "ask_all oc qs t w = (Inr t', w') \<Longrightarrow> ty_samples t = length (ty_totals t) \<Longrightarrow>
   ty_samples t' + ty_failures t' = length qs + ty_samples t + ty_failures t
   \<and> ty_samples t' = length (ty_totals t')
   \<and> length (ty_totals t') + length (ty_failure_detail t') = length qs + length (ty_totals t) + length (ty_failure_detail t)"
proof (induction qs arbitrary: t w)
  case Nil
  then show ?case by (simp add: give_def)
next
  case (Cons q qs)
  then obtain t1 w1 where "ask_timed oc q t w = (Inr t1, w1)" "ask_all oc qs t1 w1 = (Inr t', w')"
    by (auto elim!: seq_Inr)
  with Cons.IH [of t1 w1] ask_timed_counts [of oc q t w t1 w1] Cons.prems(2) show ?case by simp
qed

section \<open>The databases the scripts change\<close>

lemma live_settings_url:
  "live_settings ext url provider model raw schemas = Inr s \<Longrightarrow> st_database_url s = url"
  by (auto simp: live_settings_def settings_with_def make_settings_def with_keyword_def split: option.splits sum.splits if_splits)

lemma seeded_engine_seeds:
  assumes "make_database ext s = Inr d"
  shows "snd (seeded_engine ext s provider rng conn dbs) =
    dbs(st_database_url s := snd (run_seed rng conn (create_schema True (dbs (st_database_url s)))))"
proof -
  have "es_url (da_engine d) = st_database_url s"
    using assms by (auto simp: make_database_def and_then_Inr build_engine_def Let_def split: option.splits)
  then show ?thesis
    using assms by (auto simp: seeded_engine_def Let_def split: prod.splits sum.splits)
qed

lemma seeded_engine_databases: "\<exists>db. snd (seeded_engine ext s provider rng conn dbs) = dbs(st_database_url s := db)"
proof (cases "make_database ext s")
  case (Inl x)
  then show ?thesis by (auto simp: seeded_engine_def intro!: exI [of _ "dbs (st_database_url s)"])
next
  case (Inr d)
  then show ?thesis using seeded_engine_seeds by blast
qed

text \<open>
  A benchmark that returns has asked each of the six questions once per trial: samples and
  failures add up to that number and every failure has its line of detail; returning or not, it
  changed no database but its own.
\<close>

lemma benchmark_counts_every_question:
  "(case fst (benchmark ext raw schemas rng conn provider model trials (dbs, w)) of
      Inl _ \<Rightarrow> True
    | Inr r \<Rightarrow> br_samples r + br_failures r = 6 * nat trials \<and> length (br_failure_detail r) = br_failures r)
   \<and> (\<exists>db. fst (snd (benchmark ext raw schemas rng conn provider model trials (dbs, w))) = dbs(bench_database_url := db))"
proof (cases "live_settings ext bench_database_url provider model raw schemas")
  case (Inl x)
  then show ?thesis by (auto simp: benchmark_def intro!: exI [of _ "dbs bench_database_url"])
next
  case (Inr s)
  obtain e dbs' where e: "seeded_engine ext s None rng conn dbs = (e, dbs')" by fastforce
  then have db: "\<exists>db. dbs' = dbs(bench_database_url := db)"
    using seeded_engine_databases [of ext s None rng conn dbs] live_settings_url [OF Inr] by simp
  show ?thesis
  proof (cases e)
    case (Inl x)
    with Inr e db show ?thesis by (simp add: benchmark_def)
  next
    case c: (Inr c)
    obtain m w1 where m: "measure_runs (cn_orchestrator c) trials (next_world s w) = (m, w1)" by fastforce
    show ?thesis
    proof (cases m)
      case (Inl x)
      with Inr e c m db show ?thesis by (simp add: benchmark_def)
    next
      case t: (Inr t)
      with m obtain w2 where
        "ask_all (cn_orchestrator c) (concat (replicate (nat trials) questions)) no_tally w2 = (Inr t, w1)"
        by (auto simp: measure_runs_def elim!: seq_Inr)
      from ask_all_counts [OF this] have "ty_samples t + ty_failures t = 6 * nat trials"
        "ty_samples t = length (ty_totals t)" "length (ty_totals t) + length (ty_failure_detail t) = 6 * nat trials"
        by (simp_all add: no_tally_def length_concat sum_list_replicate questions_def)
      with Inr e c m t db show ?thesis by (simp add: benchmark_def summarize_def Let_def)
    qed
  qed
qed

section \<open>Property of the examples\<close>

lemma example_keywords_ignored: "settings_with example_keywords raw schemas = settings_with [] raw schemas"
  by (simp add: settings_with_def example_keywords_def with_keyword_def)



end
