(* ===== verification/Screenshot.thy ===== *)
theory Screenshot
  imports PyRegex Errors
begin

text \<open>
  \<open>scripts/render_screenshot.py\<close>: how a captured line is cut into coloured segments, and what is
  drawn where, the window frame included. How wide a text is in a font is an argument; the drawing
  itself is left out.
\<close>

section \<open>Colours\<close>

type_synonym colour = "nat \<times> nat \<times> nat"

definition border_colour :: colour where
  "border_colour = (48, 54, 61)"

definition fg_colour :: colour where
  "fg_colour = (201, 209, 217)"

definition dim_colour :: colour where
  "dim_colour = (110, 118, 129)"

definition green_colour :: colour where
  "green_colour = (63, 185, 80)"

definition red_colour :: colour where
  "red_colour = (248, 81, 73)"

definition yellow_colour :: colour where
  "yellow_colour = (210, 153, 34)"

definition cyan_colour :: colour where
  "cyan_colour = (57, 197, 207)"

definition purple_colour :: colour where
  "purple_colour = (188, 140, 255)"

section \<open>Positions of a text\<close>

text \<open>\<open>s.index(p)\<close> and \<open>s.rindex(p)\<close>; \<open>ValueError\<close> when there is none.\<close>

fun first_at :: "string \<Rightarrow> string \<Rightarrow> nat option" where
  "first_at p [] = (if p = [] then Some 0 else None)"
| "first_at p (c # cs) = (if startswith (c # cs) p then Some 0 else map_option Suc (first_at p cs))"

fun last_at :: "string \<Rightarrow> string \<Rightarrow> nat option" where
  "last_at p [] = (if p = [] then Some 0 else None)"
| "last_at p (c # cs) = (case last_at p cs of
     Some i \<Rightarrow> Some (Suc i)
   | None \<Rightarrow> if startswith (c # cs) p then Some 0 else None)"

definition str_index :: "string \<Rightarrow> string \<Rightarrow> py_exception + nat" where
  "str_index s p = (case first_at p s of None \<Rightarrow> Inl PyValueError | Some i \<Rightarrow> Inr i)"

definition str_rindex :: "string \<Rightarrow> string \<Rightarrow> py_exception + nat" where
  "str_rindex s p = (case last_at p s of None \<Rightarrow> Inl PyValueError | Some i \<Rightarrow> Inr i)"

definition endswith :: "string \<Rightarrow> string \<Rightarrow> bool" where
  "endswith s p \<longleftrightarrow> length p \<le> length s \<and> drop (length s - length p) s = p"

section \<open>Segments\<close>

type_synonym segment = "string \<times> colour"

definition pat_column_header :: re where
  "pat_column_header = seqs [Star space, lit ''#'', plus space, lit ''EDGE CASE'']"

definition pat_ratio :: re where
  "pat_ratio = seqs [Group 1 (plus digit), lit ''/'', Group 2 (plus digit)]"

text \<open>The part of \<open>^(\s*[\w_ ]+:)(.*)$\<close> up to the colon; on a line the rest always matches.\<close>

definition pat_metric :: re where
  "pat_metric = seqs [Star space, plus (Chars (\<lambda>c. is_word c \<or> c = CHR '' '')), lit '':'']"

definition is_rule :: "string \<Rightarrow> bool" where
  "is_rule line \<longleftrightarrow> strip line \<noteq> [] \<and> set (strip line) \<subseteq> set ''=-''"

definition is_banner :: "string \<Rightarrow> bool" where
  "is_banner line \<longleftrightarrow> contains line ''Text-to-SQL Engine'' \<or> contains (upper line) ''PERFORMANCE BENCHMARK''"

definition is_column_header :: "string \<Rightarrow> bool" where
  "is_column_header line \<longleftrightarrow> match_at pat_column_header None line \<noteq> None
     \<or> startswith (lstrip_by is_space line) ''| Provider''"

definition is_summary :: "string \<Rightarrow> bool" where
  "is_summary line \<longleftrightarrow> contains line ''edge cases passed'' \<or> contains line ''cases passed''"

definition has_token :: "string \<Rightarrow> string \<Rightarrow> bool" where
  "has_token line token \<longleftrightarrow> contains line ('' '' @ token @ '' '') \<or> endswith (rstrip line) token"

text \<open>The three segments around the text at a position.\<close>

definition around :: "string \<Rightarrow> nat \<Rightarrow> string \<Rightarrow> colour \<Rightarrow> colour \<Rightarrow> segment list" where
  "around line i token colour after =
     [(take i line, fg_colour), (token, colour), (drop (i + length token) line, after)]"

definition summary_segments :: "string \<Rightarrow> py_exception + segment list" where
  "summary_segments line = (case search pat_ratio line of
     Some m \<Rightarrow>
       if group m 1 = group m 2
       then and_then (str_index line (m_text m)) (\<lambda>i.
         Inr (around line i (m_text m) green_colour fg_colour))
       else Inr [(line, yellow_colour)]
   | None \<Rightarrow> Inr [(line, yellow_colour)])"

definition plain_segments :: "string \<Rightarrow> segment list" where
  "plain_segments line = (case match_at pat_metric None line of
     Some (t, _, rest) \<Rightarrow>
       if \<not> startswith line ''|'' then [(t, dim_colour), (rest, fg_colour)]
       else if startswith line ''$'' then [(''$'', green_colour), (drop 1 line, purple_colour)]
       else [(line, fg_colour)]
   | None \<Rightarrow> if startswith line ''$'' then [(''$'', green_colour), (drop 1 line, purple_colour)]
             else [(line, fg_colour)])"

definition segments :: "string \<Rightarrow> py_exception + segment list" where
  "segments line =
     (if is_rule line then Inr [(line, border_colour)]
      else if is_banner line then Inr [(line, cyan_colour)]
      else if is_column_header line then Inr [(line, dim_colour)]
      else if is_summary line then summary_segments line
      else if has_token line ''PASS''
      then and_then (str_rindex line ''PASS'') (\<lambda>i. Inr (around line i ''PASS'' green_colour dim_colour))
      else if has_token line ''FAIL''
      then and_then (str_rindex line ''FAIL'') (\<lambda>i. Inr (around line i ''FAIL'' red_colour red_colour))
      else Inr (plain_segments line))"

section \<open>The image\<close>

record draw_op =
  dr_x :: rat
  dr_y :: nat
  dr_text :: string
  dr_colour :: colour
  dr_bold :: bool

definition pad :: nat where
  "pad = 22"

definition chrome_h :: nat where
  "chrome_h = 38"

definition captured_lines :: "string \<Rightarrow> string list" where
  "captured_lines text_in = split_char (CHR 0x0A) (rstrip_by (\<lambda>c. c = CHR 0x0A) text_in)"

definition bold_colour :: "colour \<Rightarrow> bool" where
  "bold_colour c \<longleftrightarrow> c \<in> {green_colour, red_colour, cyan_colour}"

text \<open>\<open>width_of bold s\<close> is the length of the text in that font.\<close>

fun draw_segments :: "(bool \<Rightarrow> string \<Rightarrow> rat) \<Rightarrow> nat \<Rightarrow> rat \<Rightarrow> segment list \<Rightarrow> draw_op list" where
  "draw_segments width_of y x [] = []"
| "draw_segments width_of y x ((s, c) # segs) =
     (if s = [] then draw_segments width_of y x segs
      else \<lparr> dr_x = x, dr_y = y, dr_text = s, dr_colour = c, dr_bold = bold_colour c \<rparr>
             # draw_segments width_of y (x + width_of (bold_colour c) s) segs)"

definition line_height :: "nat \<Rightarrow> nat" where
  "line_height font_size = font_size + 7"

fun draw_lines ::
    "(bool \<Rightarrow> string \<Rightarrow> rat) \<Rightarrow> nat \<Rightarrow> nat \<Rightarrow> string list \<Rightarrow> py_exception + draw_op list list" where
  "draw_lines width_of font_size y [] = Inr []"
| "draw_lines width_of font_size y (line # rest) =
     and_then (segments line) (\<lambda>segs.
       and_then (draw_lines width_of font_size (y + line_height font_size) rest) (\<lambda>ops.
         Inr (draw_segments width_of y (of_nat pad) segs # ops)))"

text \<open>The shapes of the window frame, by their corners, and where its title is written.\<close>

datatype shape =
    Rectangle int int int int colour
  | Segment int int int int colour
  | Ellipse int int int int colour

definition window_frame :: "int \<Rightarrow> shape list" where
  "window_frame width =
     [Rectangle 0 0 width (int chrome_h) (22, 27, 34),
      Segment 0 (int chrome_h) width (int chrome_h) border_colour]
     @ map (\<lambda>(i, c). let cx = 18 + i * 18; cy = int chrome_h div 2 in Ellipse (cx - 6) (cy - 6) (cx + 6) (cy + 6) c)
         [(0, (255, 95, 86)), (1, (255, 189, 46)), (2, (39, 201, 63))]"

definition title_place :: "(string \<Rightarrow> rat) \<Rightarrow> nat \<Rightarrow> int \<Rightarrow> string \<Rightarrow> rat \<times> rat" where
  "title_place title_width font_size width title =
     ((of_int width - title_width title) / 2, of_nat chrome_h / 2 - of_nat font_size / 2)"

record image =
  im_width :: int
  im_height :: nat
  im_frame :: "shape list"
  im_title_at :: "rat \<times> rat"
  im_lines :: "draw_op list list"

text \<open>
  \<open>title_width\<close> is the length of a text in the font of the title, which is one point smaller.
\<close>

definition render ::
    "(bool \<Rightarrow> string \<Rightarrow> rat) \<Rightarrow> (string \<Rightarrow> rat) \<Rightarrow> nat \<Rightarrow> string \<Rightarrow> string \<Rightarrow> py_exception + image" where
  "render width_of title_width font_size title text_in =
     (let ls = captured_lines text_in;
          max_cols = fold max (map length ls) 0;
          width = max (\<lfloor>width_of False ''M'' * of_nat max_cols\<rfloor> + int (pad * 2)) 760
      in and_then (draw_lines width_of font_size (chrome_h + pad) ls) (\<lambda>ops.
        Inr \<lparr> im_width = width, im_height = chrome_h + pad * 2 + line_height font_size * length ls,
              im_frame = window_frame width, im_title_at = title_place title_width font_size width title,
              im_lines = ops \<rparr>))"

section \<open>Cut and join\<close>

lemma first_at_Some: "first_at p s = Some i \<Longrightarrow> s = take i s @ p @ drop (i + length p) s"
proof (induction p s arbitrary: i rule: first_at.induct)
  case (2 p c cs)
  then show ?case by (auto simp: startswith_iff split: if_splits)
qed (simp split: if_splits)

lemma last_at_Some: "last_at p s = Some i \<Longrightarrow> s = take i s @ p @ drop (i + length p) s"
proof (induction p s arbitrary: i rule: last_at.induct)
  case (2 p c cs)
  show ?case
  proof (cases "last_at p cs")
    case None
    with 2 show ?thesis by (auto simp: startswith_iff split: if_splits)
  next
    case (Some j)
    with 2(2) have i: "i = Suc j" by simp
    from 2(1) [OF Some] show ?thesis unfolding i by simp
  qed
qed (simp split: if_splits)

lemma first_at_contains: "contains s p \<Longrightarrow> \<exists>i. first_at p s = Some i"
  by (induction p s rule: first_at.induct) auto

lemma last_at_contains: "contains s p \<Longrightarrow> \<exists>i. last_at p s = Some i"
  by (induction p s rule: last_at.induct) (auto split: option.split)

lemma contains_middle: "contains s (a @ p @ b) \<Longrightarrow> contains s p"
  unfolding contains_iff by (metis append.assoc)

lemma rstrip_by_prefix: "\<exists>ws. s = rstrip_by q s @ ws"
  unfolding rstrip_by_def by (metis rev_append rev_rev_ident takeWhile_dropWhile_id)

lemma has_token_contains: "has_token line p \<Longrightarrow> contains line p"
proof -
  assume "has_token line p"
  then consider "contains line ('' '' @ p @ '' '')" | "endswith (rstrip line) p"
    unfolding has_token_def by blast
  then show ?thesis
  proof cases
    case 1
    then show ?thesis by (rule contains_middle)
  next
    case 2
    then have "rstrip line = take (length (rstrip line) - length p) (rstrip line) @ p"
      unfolding endswith_def by (metis append_take_drop_id)
    moreover obtain ws where "line = rstrip line @ ws" using rstrip_by_prefix unfolding rstrip_def by blast
    ultimately show ?thesis unfolding contains_iff by (metis append.assoc)
  qed
qed

lemma around_text: "s = take i s @ p @ drop (i + length p) s \<Longrightarrow> concat (map fst (around s i p c d)) = s"
  by (simp add: around_def)

lemma search_text_contains: "search r s = Some m \<Longrightarrow> contains s (m_text m)"
  unfolding contains_iff using search_append by blast

lemma summary_verbatim: "\<exists>segs. summary_segments line = Inr segs \<and> concat (map fst segs) = line"
proof (cases "search pat_ratio line")
  case (Some m)
  obtain i where i: "first_at (m_text m) line = Some i"
    using first_at_contains [OF search_text_contains [OF Some]] by blast
  then show ?thesis
    using Some around_text [OF first_at_Some [OF i]] by (simp add: summary_segments_def str_index_def)
qed (simp add: summary_segments_def)

lemma plain_verbatim: "concat (map fst (plain_segments line)) = line"
proof -
  have "startswith line ''$'' \<Longrightarrow> CHR ''$'' # drop (Suc 0) line = line" by (auto simp: startswith_iff)
  then show ?thesis
    using match_at_append [of pat_metric None line]
    by (auto simp: plain_segments_def split: option.split)
qed

lemma segments_verbatim: "\<exists>segs. segments line = Inr segs \<and> concat (map fst segs) = line"
proof -
  have token: "\<exists>segs. and_then (str_rindex line p) (\<lambda>i. Inr (around line i p c d)) = Inr segs
      \<and> concat (map fst segs) = line" if t: "has_token line p" for p c d
  proof -
    obtain i where i: "last_at p line = Some i" using last_at_contains [OF has_token_contains [OF t]] by blast
    then show ?thesis using around_text [OF last_at_Some [OF i]] by (simp add: str_rindex_def)
  qed
  show ?thesis
    unfolding segments_def using token summary_verbatim plain_verbatim by simp
qed

lemma draw_segments_text: "concat (map dr_text (draw_segments width_of y x segs)) = concat (map fst segs)"
  by (induction width_of y x segs rule: draw_segments.induct) simp_all

lemma draw_lines_text:
  "\<exists>ops. draw_lines width_of font_size y ls = Inr ops \<and> map (\<lambda>op. concat (map dr_text op)) ops = ls"
proof (induction ls arbitrary: y)
  case (Cons line ls)
  obtain segs where "segments line = Inr segs" "concat (map fst segs) = line" using segments_verbatim by blast
  moreover obtain ops where "draw_lines width_of font_size (y + line_height font_size) ls = Inr ops"
    "map (\<lambda>op. concat (map dr_text op)) ops = ls" using Cons by blast
  ultimately show ?case by (simp add: draw_segments_text)
qed simp

section \<open>Property\<close>

text \<open>
  C37: Rendering never fails, and the texts drawn, line by line, are the captured output verbatim
  but for trailing newlines: only colour is added. Whatever its matches, no line loses, repeats
  or moves a character.
\<close>

theorem screenshot_verbatim:
  "\<exists>im. render width_of title_width font_size title text_in = Inr im
     \<and> join newline (map (\<lambda>ops. concat (map dr_text ops)) (im_lines im))
         = rstrip_by (\<lambda>c. c = CHR 0x0A) text_in
     \<and> 760 \<le> im_width im"
proof -
  obtain ops where "draw_lines width_of font_size (chrome_h + pad) (captured_lines text_in) = Inr ops"
    "map (\<lambda>op. concat (map dr_text op)) ops = captured_lines text_in" using draw_lines_text by blast
  then show ?thesis by (simp add: render_def Let_def captured_lines_def newline_def join_split_char)
qed

end
