(* ===== verification/MigrationEnv.thy ===== *)
theory MigrationEnv
  imports AdministrationProperties
begin

text \<open>
  The environment in which Alembic runs the migrations (\<open>migrations/env.py\<close>). It hands the
  database URL of the settings to Alembic's configuration, which is Python's \<open>ConfigParser\<close>, and
  then migrates offline, writing a script, or online on an engine built from the URL read back.
  Alembic is the record \<open>alembic\<close>: whether it runs offline, and the URL the section gives back;
  logging from the ini file is left out.
\<close>

section \<open>The environment\<close>

definition is_sqlite :: "settings \<Rightarrow> bool" where
  "is_sqlite s = startswith (st_database_url s) ''sqlite''"

text \<open>
  \<open>set_main_option\<close> stores its value with \<open>ConfigParser.set\<close>, which refuses a percent sign that is
  part of neither \<open>%%\<close> nor \<open>%(name)s\<close>.
\<close>

definition placeholder :: re where
  "placeholder = seqs [lit ''%('', Group 1 (plus (none_of '')'')), lit '')s'']"

definition accepts_value :: "string \<Rightarrow> bool" where
  "accepts_value v \<longleftrightarrow> CHR ''%'' \<notin> set (re_sub placeholder (\<lambda>_ _. []) (replace_all ''%%'' [] v))"

record alembic =
  al_offline :: bool
  al_section_url :: "string \<Rightarrow> string"

text \<open>What \<open>context.configure\<close> is called with; the connection is the URL of its engine.\<close>

record context_options =
  cx_url :: "string option"
  cx_connection :: "string option"
  cx_target_metadata :: "table_def list"
  cx_literal_binds :: bool
  cx_paramstyle :: "string option"
  cx_render_as_batch :: bool
  cx_compare_type :: bool

definition run_migrations_offline :: "settings \<Rightarrow> context_options" where
  "run_migrations_offline s = \<lparr> cx_url = Some (st_database_url s), cx_connection = None,
     cx_target_metadata = all_tables, cx_literal_binds = True, cx_paramstyle = Some ''named'',
     cx_render_as_batch = is_sqlite s, cx_compare_type = True \<rparr>"

definition run_migrations_online :: "string \<Rightarrow> settings \<Rightarrow> context_options" where
  "run_migrations_online url s = \<lparr> cx_url = None, cx_connection = Some url,
     cx_target_metadata = all_tables, cx_literal_binds = False, cx_paramstyle = None,
     cx_render_as_batch = is_sqlite s, cx_compare_type = True \<rparr>"

text \<open>
  The module: the options it configures or what it raises, and the database of the connection
  after the migrations \<open>run\<close> of the command. Offline nothing but a script is written.
\<close>

definition migration_environment ::
    "alembic \<Rightarrow> settings \<Rightarrow> (database_state \<Rightarrow> database_state) \<Rightarrow> database_state
      \<Rightarrow> (failure + context_options) \<times> database_state" where
  "migration_environment al s run db =
     (if \<not> accepts_value (st_database_url s) then (Inl (Unhandled (PyOther ''ValueError'')), db)
      else if al_offline al then (Inr (run_migrations_offline s), db)
      else (Inr (run_migrations_online (al_section_url al (st_database_url s)) s), run db))"

section \<open>Which URLs can be migrated\<close>

lemma set_replace_all: "set (replace_all p [] s) \<subseteq> set s"
proof (induction p "[] :: string" s rule: replace_all.induct)
  case (2 p c cs)
  have "set (drop (length p - 1) cs) \<subseteq> set cs" by (rule set_drop_subset)
  with 2 show ?case by auto
qed simp

lemma set_sub_from: "set (sub_from r (\<lambda>_ _. []) p xs) \<subseteq> set xs"
proof (induction xs arbitrary: p rule: length_induct)
  case (1 xs)
  have tail: "set (sub_from r (\<lambda>_ _. []) q ys) \<subseteq> set ys" if "length ys < length xs" for q ys
    using 1 that by blast
  have step: "set (case xs of [] \<Rightarrow> [] | z # zs \<Rightarrow> z # sub_from r (\<lambda>_ _. []) (Some z) zs) \<subseteq> set xs"
  proof (cases xs)
    case (Cons z zs)
    with tail [of zs "Some z"] show ?thesis by auto
  qed simp
  show ?case
  proof (cases "match_at r p xs")
    case None
    with step show ?thesis by (subst sub_from.simps) simp
  next
    case (Some m)
    obtain t c ys where m: "m = (t, c, ys)" by (cases m)
    with Some match_at_append have "set ys \<subseteq> set xs" by fastforce
    moreover have "sub_from r (\<lambda>_ _. []) p xs = (if length ys < length xs then sub_from r (\<lambda>_ _. []) (Some (last t)) ys
        else (case xs of [] \<Rightarrow> [] | z # zs \<Rightarrow> z # sub_from r (\<lambda>_ _. []) (Some z) zs))"
      using Some m by (subst sub_from.simps) simp
    ultimately show ?thesis using step tail [of ys "Some (last t)"] by (cases "length ys < length xs") simp_all
  qed
qed

lemma replace_all_absent: "p \<noteq> [] \<Longrightarrow> \<not> contains s p \<Longrightarrow> replace_all p r s = s"
  by (induction s) auto

lemma sub_absent:
  assumes "\<And>p ys. \<not> startswith ys w \<Longrightarrow> match_at r p ys = None"
  shows "\<not> contains xs w \<Longrightarrow> w \<noteq> [] \<Longrightarrow> sub_from r f p xs = xs"
proof (induction xs arbitrary: p)
  case Nil
  then show ?case using assms [of "[]" p] by (subst sub_from.simps) (simp add: startswith_def)
next
  case (Cons x xs)
  then show ?case using assms [of "x # xs" p] by (subst sub_from.simps) simp
qed

lemma placeholder_absent: "\<not> startswith ys ''%('' \<Longrightarrow> match_at placeholder p ys = None"
  by (simp add: match_at_def placeholder_def rmatch_lit del: lit.simps)

text \<open>
  A URL without a percent sign is migrated: online on the very URL of the settings, offline
  without touching the database. A URL in which a percent sign stands for itself, as in every
  percent-encoded password, is refused before anything is configured, though a deployment
  accepts it.
\<close>

lemma migrations_need_plain_url:
  assumes "\<And>v. CHR ''%'' \<notin> set v \<Longrightarrow> al_section_url al v = v"
  shows "(CHR ''%'' \<notin> set (st_database_url s) \<longrightarrow> migration_environment al s run db =
            (if al_offline al then (Inr (run_migrations_offline s), db)
             else (Inr (run_migrations_online (st_database_url s) s), run db)))
     \<and> (CHR ''%'' \<in> set (st_database_url s) \<and> \<not> contains (st_database_url s) ''%%''
          \<and> \<not> contains (st_database_url s) ''%('' \<longrightarrow>
          migration_environment al s run db = (Inl (Unhandled (PyOther ''ValueError'')), db))"
proof (intro conjI impI)
  let ?u = "st_database_url s"
  assume "CHR ''%'' \<notin> set ?u"
  moreover from this have "accepts_value ?u"
    using set_replace_all [of "''%%''" ?u] set_sub_from [of placeholder None "replace_all ''%%'' [] ?u"]
    by (auto simp: accepts_value_def re_sub_def)
  ultimately show "migration_environment al s run db =
      (if al_offline al then (Inr (run_migrations_offline s), db)
       else (Inr (run_migrations_online ?u s), run db))"
    by (simp add: migration_environment_def assms)
next
  let ?u = "st_database_url s"
  assume "CHR ''%'' \<in> set ?u \<and> \<not> contains ?u ''%%'' \<and> \<not> contains ?u ''%(''"
  then have "\<not> accepts_value ?u"
    by (simp add: accepts_value_def re_sub_def replace_all_absent sub_absent [OF placeholder_absent])
  then show "migration_environment al s run db = (Inl (Unhandled (PyOther ''ValueError'')), db)"
    by (simp add: migration_environment_def)
qed

lemma migrations_need_plain_url_witness:
  "migration_environment \<lparr> al_offline = False, al_section_url = (\<lambda>v. v) \<rparr>
       (default_settings\<lparr> st_database_url := ''postgresql://app:p%40ss@db/shop'' \<rparr>) upgrade db
     = (Inl (Unhandled (PyOther ''ValueError'')), db)"
  using migrations_need_plain_url [of "\<lparr> al_offline = False, al_section_url = (\<lambda>v. v) \<rparr>"
      "default_settings\<lparr> st_database_url := ''postgresql://app:p%40ss@db/shop'' \<rparr>" upgrade db]
  by (simp add: startswith_def)

end
